(* ===== verification/Prelude.thy ===== *)
theory Prelude
  imports Main "HOL-Library.Word" "HOL-Library.Multiset" "HOL-Library.Char_ord" "HOL-Library.List_Lexorder"
begin

text \<open>
  Shared vocabulary of the development: the collections of rules the component theories
  contribute to, the Rust standard-library operations the source uses on vectors and strings
  (\<open>contains\<close> before \<open>push\<close>, \<open>split\<close>, \<open>trim\<close>, \<open>strip_suffix\<close>), saturating arithmetic, and
  time as a number of nanoseconds.
\<close>

named_theorems tx_simps "one-step equations of the transaction combinators"
named_theorems wp_intros "introduction rules of the weakest-precondition calculus"

type_synonym u8 = "8 word"
type_synonym u16 = "16 word"
type_synonym u32 = "32 word"
type_synonym u64 = "64 word"
type_synonym i32 = "32 word"
type_synonym i64 = "64 word"
type_synonym bytes = "8 word list"

text \<open>Instants and durations are counted in nanoseconds.\<close>

type_synonym instant = nat
type_synonym duration = nat

definition millis :: "nat \<Rightarrow> duration" where
  "millis n = n * 1000000"

definition secs :: "nat \<Rightarrow> duration" where
  "secs n = n * 1000000000"

text \<open>Unsigned saturating addition at a given maximum, as \<open>saturating_add\<close> of \<open>u32\<close> and \<open>u64\<close>.\<close>

definition sat_add :: "nat \<Rightarrow> nat \<Rightarrow> nat \<Rightarrow> nat" where
  "sat_add mx a b = min mx (a + b)"

definition u32_max :: nat where "u32_max = 4294967295"
definition u64_max :: nat where "u64_max = 18446744073709551615"

lemma sat_add_le: "sat_add mx a b \<le> mx"
  by (simp add: sat_add_def)

lemma sat_add_mono: "a \<le> mx \<Longrightarrow> a \<le> sat_add mx a b"
  by (simp add: sat_add_def)

section \<open>Vectors\<close>

text \<open>\<open>if !v.contains(&x) { v.push(x) }\<close>\<close>

definition push_unique :: "'a list \<Rightarrow> 'a \<Rightarrow> 'a list" where
  "push_unique v x = (if x \<in> set v then v else v @ [x])"

definition dedup_push :: "'a list \<Rightarrow> 'a list \<Rightarrow> 'a list" where
  "dedup_push v xs = foldl push_unique v xs"

lemma dedup_push_simps [simp]:
  "dedup_push v [] = v"
  "dedup_push v (x # xs) = dedup_push (push_unique v x) xs"
  by (simp_all add: dedup_push_def)

lemma set_push_unique [simp]: "set (push_unique v x) = insert x (set v)"
  by (auto simp: push_unique_def)

lemma distinct_push_unique [simp]: "distinct (push_unique v x) = distinct v"
  by (auto simp: push_unique_def)

lemma set_dedup_push [simp]: "set (dedup_push v xs) = set v \<union> set xs"
  by (induction xs arbitrary: v) auto

lemma distinct_dedup_push [simp]: "distinct (dedup_push v xs) = distinct v"
  by (induction xs arbitrary: v) auto

lemma dedup_push_distinct:
  "distinct xs \<Longrightarrow> set v \<inter> set xs = {} \<Longrightarrow> dedup_push v xs = v @ xs"
  by (induction xs arbitrary: v) (auto simp: push_unique_def)

text \<open>\<open>position\<close>: the index of the first element that satisfies a predicate.\<close>

fun position :: "('a \<Rightarrow> bool) \<Rightarrow> 'a list \<Rightarrow> nat option" where
  "position p [] = None"
| "position p (x # xs) = (if p x then Some 0 else map_option Suc (position p xs))"

lemma position_Some:
  "position p xs = Some i \<Longrightarrow> i < length xs \<and> p (xs ! i) \<and> (\<forall>j<i. \<not> p (xs ! j))"
  by (induction xs arbitrary: i) (auto split: if_splits simp: less_Suc_eq_0_disj)

lemma position_None: "position p xs = None \<longleftrightarrow> (\<forall>x\<in>set xs. \<not> p x)"
  by (induction xs) auto

text \<open>\<open>Vec::swap_remove\<close> at a valid index: the last element takes the place of the removed one.\<close>

definition swap_remove :: "'a list \<Rightarrow> nat \<Rightarrow> 'a list" where
  "swap_remove xs i = (if i = length xs - 1 then butlast xs else butlast (xs[i := last xs]))"

lemma mset_swap_remove:
  assumes "i < length xs"
  shows "mset xs = add_mset (xs ! i) (mset (swap_remove xs i))"
proof (cases "i = length xs - 1")
  case True
  with assms have "xs \<noteq> []" by auto
  with True have "xs ! i = last xs" by (simp add: last_conv_nth)
  with \<open>xs \<noteq> []\<close> True show ?thesis
    by (simp add: swap_remove_def)
       (metis append_butlast_last_id union_code mset.simps(1,2) mset_append add_mset_add_single)
next
  case False
  let ?b = "butlast xs"
  have ne: "xs \<noteq> []" using assms by auto
  have lt: "i < length ?b" using assms False by simp
  have sw: "swap_remove xs i = ?b[i := last xs]"
    using False by (simp add: swap_remove_def butlast_list_update)
  have "mset (?b[i := last xs]) = add_mset (last xs) (mset ?b - {# ?b ! i #})"
    using lt by (simp add: mset_update)
  then have "add_mset (?b ! i) (mset (?b[i := last xs])) = add_mset (last xs) (mset ?b)"
    using lt by (simp add: add_mset_commute)
  moreover have "mset xs = add_mset (last xs) (mset ?b)"
    using ne by (metis append_butlast_last_id mset.simps(1,2) mset_append union_mset_add_mset_right add_0_right)
  ultimately show ?thesis
    using sw lt assms by (simp add: nth_butlast)
qed

section \<open>Strings\<close>

text \<open>
  Rust strings are UTF-8; a \<open>string\<close> here is the list of their bytes. \<open>split_on\<close> is
  \<open>str::split\<close> with a character pattern: it always yields at least one piece.
\<close>

fun split_on :: "'a \<Rightarrow> 'a list \<Rightarrow> 'a list list" where
  "split_on c [] = [[]]"
| "split_on c (x # xs) =
     (if x = c then [] # split_on c xs
      else (case split_on c xs of [] \<Rightarrow> [[x]] | y # ys \<Rightarrow> (x # y) # ys))"

fun join_with :: "'a list \<Rightarrow> 'a list list \<Rightarrow> 'a list" where
  "join_with sep [] = []"
| "join_with sep [x] = x"
| "join_with sep (x # y # ys) = x @ sep @ join_with sep (y # ys)"

lemma split_on_nonempty [simp]: "split_on c xs \<noteq> []"
  by (induction xs) (auto split: list.splits)

lemma join_split_on [simp]: "join_with [c] (split_on c xs) = xs"
proof (induction xs)
  case Nil
  then show ?case by simp
next
  case (Cons x xs)
  obtain y ys where s: "split_on c xs = y # ys"
    by (cases "split_on c xs") auto
  with Cons show ?case by (cases ys) auto
qed

lemma split_on_pieces: "p \<in> set (split_on c xs) \<Longrightarrow> c \<notin> set p"
  by (induction xs arbitrary: p) (auto split: list.splits if_splits)

lemma set_split_on: "p \<in> set (split_on c xs) \<Longrightarrow> set p \<subseteq> set xs"
  by (induction xs arbitrary: p) (auto split: list.splits if_splits, blast+)

lemma split_on_notin: "c \<notin> set xs \<Longrightarrow> split_on c xs = [xs]"
  by (induction xs) auto

text \<open>The bytes of \<open>join\<close> add up: \<open>\<Sum> (len + 1) - 1\<close>.\<close>

lemma length_split_on: "sum_list (map (\<lambda>p. length p + 1) (split_on c xs)) = length xs + 1"
proof (induction xs)
  case Nil
  then show ?case by simp
next
  case (Cons x xs)
  obtain y ys where s: "split_on c xs = y # ys"
    by (cases "split_on c xs") auto
  with Cons show ?case by auto
qed

definition is_lower :: "char \<Rightarrow> bool" where
  "is_lower c \<longleftrightarrow> CHR ''a'' \<le> c \<and> c \<le> CHR ''z''"

definition is_upper :: "char \<Rightarrow> bool" where
  "is_upper c \<longleftrightarrow> CHR ''A'' \<le> c \<and> c \<le> CHR ''Z''"

definition is_digit :: "char \<Rightarrow> bool" where
  "is_digit c \<longleftrightarrow> CHR ''0'' \<le> c \<and> c \<le> CHR ''9''"

definition is_alnum :: "char \<Rightarrow> bool" where
  "is_alnum c \<longleftrightarrow> is_lower c \<or> is_upper c \<or> is_digit c"

text \<open>\<open>strip_prefix\<close> and \<open>strip_suffix\<close>: \<open>None\<close> when the text does not start or end so.\<close>

fun strip_prefix :: "string \<Rightarrow> string \<Rightarrow> string option" where
  "strip_prefix [] s = Some s"
| "strip_prefix (p # ps) [] = None"
| "strip_prefix (p # ps) (c # cs) = (if p = c then strip_prefix ps cs else None)"

definition strip_suffix :: "string \<Rightarrow> string \<Rightarrow> string option" where
  "strip_suffix p s = map_option rev (strip_prefix (rev p) (rev s))"

lemma strip_prefix_Some: "strip_prefix p s = Some t \<longleftrightarrow> s = p @ t"
  by (induction p s rule: strip_prefix.induct) auto

lemma strip_prefix_append [simp]: "strip_prefix p (p @ t) = Some t"
  by (simp add: strip_prefix_Some)

lemma strip_suffix_Some: "strip_suffix p s = Some t \<longleftrightarrow> s = t @ p"
proof -
  have "strip_suffix p s = Some t \<longleftrightarrow> (\<exists>z. strip_prefix (rev p) (rev s) = Some z \<and> rev z = t)"
    by (simp add: strip_suffix_def)
  also have "\<dots> \<longleftrightarrow> rev s = rev p @ rev t"
    by (auto simp: strip_prefix_Some)
  also have "\<dots> \<longleftrightarrow> s = t @ p"
    by (metis rev_append rev_rev_ident)
  finally show ?thesis .
qed

lemma length_strip_prefix: "strip_prefix p s = Some t \<Longrightarrow> length s = length p + length t"
  by (simp add: strip_prefix_Some)

text \<open>
  \<open>str::trim\<close> removes characters of the Unicode property \<open>White_Space\<close> at both ends; the list
  gives their UTF-8 encodings.
\<close>

definition byte_str :: "nat list \<Rightarrow> string" where
  "byte_str = map char_of"

definition white_space :: "string list" where
  "white_space = map byte_str
     ([[9], [10], [11], [12], [13], [32], [194, 133], [194, 160], [225, 154, 128]]
      @ map (\<lambda>n. [226, 128, 128 + n]) [0..<11]
      @ [[226, 128, 168], [226, 128, 169], [226, 128, 175], [226, 129, 159], [227, 128, 128]])"

fun strip_any :: "string list \<Rightarrow> string \<Rightarrow> string option" where
  "strip_any [] s = None"
| "strip_any (w # ws) s = (case strip_prefix w s of Some t \<Rightarrow> Some t | None \<Rightarrow> strip_any ws s)"

lemma strip_any_shorter: "strip_any ws s = Some t \<Longrightarrow> \<forall>w\<in>set ws. w \<noteq> [] \<Longrightarrow> length t < length s"
  by (induction ws) (auto split: option.splits dest: length_strip_prefix)

text \<open>Strips prefixes of the set for as long as one matches; an empty pattern is never one.\<close>

function strip_all :: "string list \<Rightarrow> string \<Rightarrow> string" where
  "strip_all ws s =
     (case strip_any (filter (\<lambda>w. w \<noteq> []) ws) s of None \<Rightarrow> s | Some t \<Rightarrow> strip_all ws t)"
  by pat_completeness auto

termination
  by (relation "measure (\<lambda>(ws, s). length s)") (auto dest: strip_any_shorter)

declare strip_all.simps [simp del]

definition trim :: "string \<Rightarrow> string" where
  "trim s = rev (strip_all (map rev white_space) (rev (strip_all white_space s)))"

text \<open>Text without white-space bytes at its ends is left alone.\<close>

lemma strip_any_None:
  "(\<forall>w\<in>set ws. w \<noteq> [] \<and> (s = [] \<or> hd w \<noteq> hd s)) \<Longrightarrow> strip_any ws s = None"
proof (induction ws)
  case Nil
  then show ?case by simp
next
  case (Cons w ws)
  obtain a v where w: "w = a # v" using Cons.prems by (cases w) auto
  have "strip_prefix w s = None" using Cons.prems w by (cases s) auto
  with Cons show ?case by simp
qed

lemma strip_all_id:
  "(\<forall>w\<in>set ws. w \<noteq> [] \<longrightarrow> s = [] \<or> hd w \<noteq> hd s) \<Longrightarrow> strip_all ws s = s"
  by (subst strip_all.simps) (simp add: strip_any_None)

definition printable :: "char \<Rightarrow> bool" where
  "printable c \<longleftrightarrow> CHR ''!'' \<le> c \<and> c \<le> CHR ''~''"

lemma white_space_heads: "w \<in> set white_space \<Longrightarrow> w \<noteq> [] \<and> \<not> printable (hd w)"
  by (auto simp: white_space_def byte_str_def printable_def less_eq_char_def)

lemma white_space_lasts: "w \<in> set white_space \<Longrightarrow> \<not> printable (last w)"
  by (auto simp: white_space_def byte_str_def printable_def less_eq_char_def)

lemma trim_printable:
  assumes "\<forall>c\<in>set s. printable c"
  shows "trim s = s"
proof -
  have a: "strip_all white_space s = s"
    by (rule strip_all_id) (use assms white_space_heads list.set_sel(1) in metis)
  have "strip_all (map rev white_space) (rev s) = rev s"
  proof (rule strip_all_id, intro ballI impI)
    fix w assume "w \<in> set (map rev white_space)" "w \<noteq> []"
    then obtain v where v: "w = rev v" "v \<in> set white_space" "v \<noteq> []" by auto
    then have "\<not> printable (hd w)" using white_space_lasts by (simp add: hd_rev)
    moreover have "s \<noteq> [] \<Longrightarrow> printable (hd (rev s))"
      using assms by (simp add: hd_rev)
    ultimately show "rev s = [] \<or> hd w \<noteq> hd (rev s)" by auto
  qed
  with a show ?thesis by (simp add: trim_def)
qed

text \<open>Unsigned integers in decimal, as \<open>Display\<close> writes them.\<close>

fun decimal :: "nat \<Rightarrow> string" where
  "decimal n = (if n < 10 then [char_of (48 + n)] else decimal (n div 10) @ [char_of (48 + n mod 10)])"

declare decimal.simps [simp del]

lemma decimal_digits: "list_all is_digit (decimal n)"
proof (induction n rule: decimal.induct)
  case (1 n)
  have "is_digit (char_of (48 + d))" if "d < 10" for d :: nat
  proof -
    from that have "d = 0 \<or> d = 1 \<or> d = 2 \<or> d = 3 \<or> d = 4 \<or> d = 5 \<or> d = 6 \<or> d = 7 \<or> d = 8 \<or> d = 9"
      by presburger
    then show ?thesis by (elim disjE) (simp_all add: is_digit_def less_eq_char_def)
  qed
  with 1 show ?case by (subst decimal.simps) simp
qed

lemma decimal_nonempty: "decimal n \<noteq> []"
  by (subst decimal.simps) simp

end
