(* ===== verification/Identifiers.thy ===== *)
theory Identifiers
  imports Prelude
begin

text \<open>
  The names the program gives to things: resource identifiers (\<open>ownership.rs\<close>), lease
  identifiers (UUIDs, read as 128-bit words), IP addresses and the fault-injection points of
  \<open>fault.rs\<close>. Resource identifiers are ordered as Rust orders \<open>str\<close>, byte by byte.
\<close>

datatype resource_id = ResourceId (rid_str: string)

instantiation resource_id :: linorder
begin

definition less_eq_resource_id :: "resource_id \<Rightarrow> resource_id \<Rightarrow> bool" where
  "less_eq_resource_id a b \<longleftrightarrow> rid_str a \<le> rid_str b"

definition less_resource_id :: "resource_id \<Rightarrow> resource_id \<Rightarrow> bool" where
  "less_resource_id a b \<longleftrightarrow> rid_str a < rid_str b"

instance
  by standard (auto simp: less_eq_resource_id_def less_resource_id_def resource_id.expand)

end

type_synonym uuid = "128 word"
type_synonym lease_id = uuid

text \<open>\<open>std::net::IpAddr\<close>: four octets, or the sixteen octets of an IPv6 address.\<close>

datatype ip_addr = V4 u8 u8 u8 u8 | V6 bytes

definition wf_ip :: "ip_addr \<Rightarrow> bool" where
  "wf_ip a = (case a of V4 _ _ _ _ \<Rightarrow> True | V6 bs \<Rightarrow> length bs = 16)"

definition is_unspecified :: "ip_addr \<Rightarrow> bool" where
  "is_unspecified a = (case a of V4 p q r s \<Rightarrow> p = 0 \<and> q = 0 \<and> r = 0 \<and> s = 0
                       | V6 bs \<Rightarrow> list_all (\<lambda>b. b = 0) bs)"

definition is_ipv4 :: "ip_addr \<Rightarrow> bool" where
  "is_ipv4 a = (case a of V4 _ _ _ _ \<Rightarrow> True | V6 _ \<Rightarrow> False)"

text \<open>
  \<open>std::path::Path\<close> in normal form: whether it starts at the root, and its components. \<open>parent\<close>
  is \<open>None\<close> for the root and for the empty path; \<open>file_name\<close> needs a last component other than
  the parent-directory one.
\<close>

datatype path = Path bool "string list"

definition path_join :: "path \<Rightarrow> string \<Rightarrow> path" where
  "path_join p c = (case p of Path a cs \<Rightarrow> Path a (cs @ [c]))"

definition path_parent :: "path \<Rightarrow> path option" where
  "path_parent p = (case p of Path a cs \<Rightarrow> if cs = [] then None else Some (Path a (butlast cs)))"

definition path_is_empty :: "path \<Rightarrow> bool" where
  "path_is_empty p = (case p of Path a cs \<Rightarrow> \<not> a \<and> cs = [])"

definition path_file_name :: "path \<Rightarrow> string option" where
  "path_file_name p = (case p of Path a cs \<Rightarrow>
     if cs = [] \<or> last cs = ''..'' then None else Some (last cs))"

definition path_depth :: "path \<Rightarrow> nat" where
  "path_depth p = (case p of Path a cs \<Rightarrow> length cs)"

lemma path_parent_depth: "path_parent p = Some q \<Longrightarrow> path_depth q < path_depth p"
  by (cases p) (auto simp: path_parent_def path_depth_def split: if_splits)

text \<open>\<open>Path::extension\<close> of a file name: what follows the last dot, when something precedes it.\<close>

definition extension :: "string \<Rightarrow> string option" where
  "extension name =
     (let ps = split_on (CHR ''.'') name
      in if length ps < 2 \<or> join_with ''.'' (butlast ps) = [] then None else Some (last ps))"

datatype tx_point =
    AfterValidate | AfterResolve | AfterLock | AfterRecovery | AfterCapture
  | AfterNoopDecision | AfterPrepared | AfterApply | AfterReadback | AfterVerify | AfterApplied
  | AfterUpdateResolve | AfterUpdateCapture | AfterUpdateNoopCheck | AfterUpdatePrepared
  | AfterUpdateApply | AfterUpdateReadback | AfterUpdateVerify | AfterUpdateApplied
  | AfterRestoreReadback | AfterRestoreRestore | AfterRestoreJournal
  | AfterRecoveryReadback | AfterRecoveryRestore | AfterRecoveryJournal

text \<open>The actions of \<open>FaultAction\<close>, and what an injector holds for a point (\<open>FaultSpec\<close>).\<close>

datatype fault_action = FaultContinue | FaultCrash | FaultFail string
datatype fault_spec = SpecCrash | SpecFail string

type_synonym fault_injector = "tx_point \<Rightarrow> fault_spec option"

definition injector_new :: fault_injector where
  "injector_new = (\<lambda>_. None)"

definition crash_at :: "fault_injector \<Rightarrow> tx_point \<Rightarrow> fault_injector" where
  "crash_at i p = i(p \<mapsto> SpecCrash)"

definition fail_at :: "fault_injector \<Rightarrow> tx_point \<Rightarrow> string \<Rightarrow> fault_injector" where
  "fail_at i p msg = i(p \<mapsto> SpecFail msg)"

definition disarm :: "fault_injector \<Rightarrow> tx_point \<Rightarrow> fault_injector" where
  "disarm i p = i(p := None)"

definition on_point :: "fault_injector \<Rightarrow> tx_point \<Rightarrow> fault_action" where
  "on_point i p = (case i p of Some SpecCrash \<Rightarrow> FaultCrash
                   | Some (SpecFail m) \<Rightarrow> FaultFail m | None \<Rightarrow> FaultContinue)"

end
