(* ===== verification/Capability.thy ===== *)
theory Capability
  imports Identifiers
begin

text \<open>
  \<open>capability.rs\<close>: which backend is active and what it can guarantee. The record starts with
  every capability disabled; each builder method sets one field.
\<close>

datatype backend_kind =
    SystemdResolved | NetworkManager | Resolvconf | ResolvConfFile
  | WindowsIpHelper | MacosSystemConfiguration | Fake

definition is_real :: "backend_kind \<Rightarrow> bool" where
  "is_real k \<longleftrightarrow> k \<noteq> Fake"

definition kind_name :: "backend_kind \<Rightarrow> string" where
  "kind_name k = (case k of
       SystemdResolved \<Rightarrow> ''systemd-resolved''
     | NetworkManager \<Rightarrow> ''network-manager''
     | Resolvconf \<Rightarrow> ''resolvconf''
     | ResolvConfFile \<Rightarrow> ''resolv-conf-file''
     | WindowsIpHelper \<Rightarrow> ''windows-ip-helper''
     | MacosSystemConfiguration \<Rightarrow> ''macos-system-configuration''
     | Fake \<Rightarrow> ''fake'')"

datatype resource_binding = StableTarget | NativeGuarded | PreflightOnly
datatype mutation_guard = CompareAndMutate | Unconditional
datatype ownership_identity = Durable | BestEffort

record capabilities =
  cap_backend :: backend_kind
  cap_read :: bool
  global_dns :: bool
  per_interface_dns :: bool
  search_domains_cap :: bool
  split_dns :: bool
  default_route_cap :: bool
  cap_watch :: bool
  cache_flush :: bool
  cap_guard :: mutation_guard
  cap_identity :: ownership_identity
  cap_binding :: resource_binding

definition capabilities_new :: "backend_kind \<Rightarrow> capabilities" where
  "capabilities_new k = \<lparr> cap_backend = k, cap_read = False, global_dns = False,
     per_interface_dns = False, search_domains_cap = False, split_dns = False,
     default_route_cap = False, cap_watch = False, cache_flush = False,
     cap_guard = Unconditional, cap_identity = BestEffort, cap_binding = StableTarget \<rparr>"

definition with_read :: "bool \<Rightarrow> capabilities \<Rightarrow> capabilities" where
  "with_read b c = c\<lparr>cap_read := b\<rparr>"

definition with_global_dns :: "bool \<Rightarrow> capabilities \<Rightarrow> capabilities" where
  "with_global_dns b c = c\<lparr>global_dns := b\<rparr>"

definition with_per_interface_dns :: "bool \<Rightarrow> capabilities \<Rightarrow> capabilities" where
  "with_per_interface_dns b c = c\<lparr>per_interface_dns := b\<rparr>"

definition with_search_domains :: "bool \<Rightarrow> capabilities \<Rightarrow> capabilities" where
  "with_search_domains b c = c\<lparr>search_domains_cap := b\<rparr>"

definition with_split_dns :: "bool \<Rightarrow> capabilities \<Rightarrow> capabilities" where
  "with_split_dns b c = c\<lparr>split_dns := b\<rparr>"

definition with_default_route :: "bool \<Rightarrow> capabilities \<Rightarrow> capabilities" where
  "with_default_route b c = c\<lparr>default_route_cap := b\<rparr>"

definition with_watch :: "bool \<Rightarrow> capabilities \<Rightarrow> capabilities" where
  "with_watch b c = c\<lparr>cap_watch := b\<rparr>"

definition with_cache_flush :: "bool \<Rightarrow> capabilities \<Rightarrow> capabilities" where
  "with_cache_flush b c = c\<lparr>cache_flush := b\<rparr>"

definition with_mutation_guard :: "mutation_guard \<Rightarrow> capabilities \<Rightarrow> capabilities" where
  "with_mutation_guard g c = c\<lparr>cap_guard := g\<rparr>"

definition with_ownership_identity :: "ownership_identity \<Rightarrow> capabilities \<Rightarrow> capabilities" where
  "with_ownership_identity i c = c\<lparr>cap_identity := i\<rparr>"

definition with_resource_binding :: "resource_binding \<Rightarrow> capabilities \<Rightarrow> capabilities" where
  "with_resource_binding b c = c\<lparr>cap_binding := b\<rparr>"

end
