(* ===== verification/Errors.thy ===== *)
theory Errors
  imports Capability
begin

text \<open>
  \<open>error.rs\<close>: the typed errors. Every variant of \<open>Error\<close> is a constructor; a message is the
  fixed text of the source's format string, the values it interpolates being left out, since no
  operation reads a message back. The native file-system failures of the \<open>private_fs\<close> package
  are classified the way the code matches on them.
\<close>

datatype io_kind = NotFound | PermissionDenied | AlreadyExists | OtherKind

datatype pfs_error =
    PfsIo io_kind string
  | PfsAtomicCommit bool pfs_error
  | PfsRemoval bool pfs_error
  | PfsOther string

datatype conflict_reason =
    AlreadyLeasedInProcess
  | StaleJournalUnresolved string
  | LeaseNotActive
  | ResourceOccupied string

datatype error =
    JournalPublication bool pfs_error
  | JournalRemoval bool pfs_error
  | TransactionFailed error "error list"
  | UnsafeFilesystem string
  | IndeterminateMutation backend_kind string
  | LeaseEnding
  | ResourceGone backend_kind resource_id string
  | ResourcePlatform backend_kind resource_id string
  | ResourceIdentity backend_kind resource_id string
  | UnsupportedPlatform string
  | Unsupported backend_kind string
  | RequiresPrivilege string
  | BackendUnavailable string
  | Timeout resource_id string
  | Conflict resource_id conflict_reason
  | ExternalModification resource_id string
  | InvalidConfig string
  | UpdateRequiresRebind "resource_id list" "resource_id list"
  | VerificationFailed resource_id string
  | UnsupportedJournalVersion path u32 u32
  | JournalCorrupt string
  | Io io_kind string
  | PlatformError backend_kind string

type_synonym 'a result = "error + 'a"

text \<open>\<open>Result\<close> values: \<open>Ok\<close> is \<open>Inr\<close>, \<open>Err\<close> is \<open>Inl\<close>; \<open>?\<close> is \<open>bind_r\<close>.\<close>

definition ok_r :: "'a \<Rightarrow> 'a result" where
  "ok_r x = Inr x"

definition err_r :: "error \<Rightarrow> 'a result" where
  "err_r e = Inl e"

definition bind_r :: "'a result \<Rightarrow> ('a \<Rightarrow> 'b result) \<Rightarrow> 'b result" where
  "bind_r r f = (case r of Inl e \<Rightarrow> Inl e | Inr x \<Rightarrow> f x)"

definition is_ok :: "'a result \<Rightarrow> bool" where
  "is_ok r = (case r of Inl _ \<Rightarrow> False | Inr _ \<Rightarrow> True)"

text \<open>An early return \<open>if b { return Err(e) }\<close>.\<close>

definition guard_r :: "bool \<Rightarrow> error \<Rightarrow> unit result" where
  "guard_r b e = (if b then Inl e else Inr ())"

text \<open>Runs a fallible step over a list, stopping at the first error.\<close>

fun fold_r :: "('a \<Rightarrow> 's \<Rightarrow> 's result) \<Rightarrow> 'a list \<Rightarrow> 's \<Rightarrow> 's result" where
  "fold_r f [] s = Inr s"
| "fold_r f (x # xs) s = bind_r (f x s) (fold_r f xs)"

lemma bind_r_simps [simp]:
  "bind_r (Inl e) f = Inl e"
  "bind_r (Inr x) f = f x"
  by (simp_all add: bind_r_def)

lemma bind_r_Inr: "bind_r r f = Inr y \<longleftrightarrow> (\<exists>x. r = Inr x \<and> f x = Inr y)"
  by (cases r) auto

lemma guard_r_simps [simp]:
  "guard_r True e = Inl e"
  "guard_r False e = Inr ()"
  "guard_r b e = Inr u \<longleftrightarrow> \<not> b"
  "guard_r b e = Inl e' \<longleftrightarrow> b \<and> e' = e"
  by (auto simp: guard_r_def)

lemma is_ok_simps [simp]: "is_ok (Inl e) = False" "is_ok (Inr x) = True"
  by (simp_all add: is_ok_def)

definition is_external_modification :: "error \<Rightarrow> bool" where
  "is_external_modification e = (case e of ExternalModification _ _ \<Rightarrow> True | _ \<Rightarrow> False)"

text \<open>\<open>private_error\<close> of \<open>fsutil.rs\<close>.\<close>

definition private_error :: "pfs_error \<Rightarrow> error" where
  "private_error e = (case e of PfsIo k m \<Rightarrow> Io k m | _ \<Rightarrow> UnsafeFilesystem ''private_fs'')"

definition is_journal_publication :: "error \<Rightarrow> bool" where
  "is_journal_publication e = (case e of JournalPublication _ _ \<Rightarrow> True | _ \<Rightarrow> False)"

definition is_journal_corrupt :: "error \<Rightarrow> bool" where
  "is_journal_corrupt e = (case e of JournalCorrupt _ \<Rightarrow> True | _ \<Rightarrow> False)"

text \<open>\<open>validate_resource_id\<close> and \<open>ResourceId::new\<close> of \<open>ownership.rs\<close>.\<close>

definition resource_id_char :: "char \<Rightarrow> bool" where
  "resource_id_char c \<longleftrightarrow>
     is_lower c \<or> is_digit c \<or> c = CHR '':'' \<or> c = CHR ''-'' \<or> c = CHR ''_'' \<or> c = CHR ''.''"

definition validate_resource_id :: "string \<Rightarrow> unit result" where
  "validate_resource_id value =
     (if value = [] then Inl (InvalidConfig ''resource id must not be empty'')
      else if list_ex (\<lambda>c. \<not> resource_id_char c) value
        then Inl (InvalidConfig ''resource id contains invalid character'')
      else if list_ex (\<lambda>p. p = []) (split_on (CHR '':'') value)
        then Inl (InvalidConfig ''resource id contains an empty segment'')
      else Inr ())"

definition resource_id_new :: "string \<Rightarrow> resource_id result" where
  "resource_id_new value = bind_r (validate_resource_id value) (\<lambda>_. Inr (ResourceId value))"

definition wf_rid :: "resource_id \<Rightarrow> bool" where
  "wf_rid r \<longleftrightarrow> is_ok (validate_resource_id (rid_str r))"

text \<open>\<open>ResourceId::slug\<close>: at most 128 bytes, with \<open>:\<close> replaced by \<open>+\<close>.\<close>

definition slug :: "resource_id \<Rightarrow> string" where
  "slug r = map (\<lambda>c. if c = CHR '':'' then CHR ''+'' else c) (take 128 (rid_str r))"

lemma length_slug: "length (slug r) \<le> 128"
  by (simp add: slug_def)

lemma resource_id_new_iff: "resource_id_new v = Inr r \<longleftrightarrow> r = ResourceId v \<and> wf_rid r"
  by (auto simp: resource_id_new_def wf_rid_def bind_r_Inr is_ok_def split: sum.splits)

end
