(* ===== verification/Normalize.thy ===== *)
theory Normalize
  imports Errors
begin

text \<open>
  \<open>normalize.rs\<close>: canonical DNS suffixes and the canonical configuration handed to backends.
  UTS #46 processing is the \<open>idna\<close> package's \<open>domain_to_ascii_cow\<close>: it is the parameter
  \<open>to_ascii\<close>, whose result is \<open>None\<close> where the package reports an error.
\<close>

type_synonym idna = "string \<Rightarrow> string option"

datatype dns_suffix = DnsSuffix (suffix_str: string)

definition suffix_root :: dns_suffix where
  "suffix_root = DnsSuffix []"

definition is_root :: "dns_suffix \<Rightarrow> bool" where
  "is_root d \<longleftrightarrow> suffix_str d = []"

text \<open>\<open>Display\<close> and \<open>Serialize\<close>: the root is written as a dot.\<close>

definition suffix_display :: "dns_suffix \<Rightarrow> string" where
  "suffix_display d = (if suffix_str d = [] then ''.'' else suffix_str d)"

definition suffix_serialize :: "dns_suffix \<Rightarrow> string" where
  "suffix_serialize d = (if is_root d then ''.'' else suffix_str d)"

definition dns_byte :: "char \<Rightarrow> bool" where
  "dns_byte c \<longleftrightarrow> is_lower c \<or> is_digit c \<or> c = CHR ''-''"

text \<open>The checks of one label, in the order of the source.\<close>

definition check_label :: "string \<Rightarrow> unit result" where
  "check_label l =
     (if l = [] \<or> length l > 63
        then Inl (InvalidConfig ''domain contains a label with invalid length'')
      else if list_ex (\<lambda>c. \<not> dns_byte c) l
        then Inl (InvalidConfig ''domain contains a character that is not allowed in DNS names'')
      else if hd l = CHR ''-'' \<or> l ! (length l - 1) = CHR ''-''
        then Inl (InvalidConfig ''domain contains a label with a leading or trailing hyphen'')
      else if length l \<ge> 4 \<and> l ! 2 = CHR ''-'' \<and> l ! 3 = CHR ''-'' \<and> take 4 l \<noteq> ''xn--''
        then Inl (InvalidConfig ''domain contains a label with reserved hyphen placement'')
      else Inr ())"

text \<open>The loop body: one label checked, its bytes and its dot added to the total.\<close>

definition label_step :: "string \<Rightarrow> nat \<Rightarrow> nat result" where
  "label_step label tot = bind_r (check_label label) (\<lambda>_. Inr (tot + (length label + 1)))"

definition normalize_domain :: "idna \<Rightarrow> string \<Rightarrow> string result" where
  "normalize_domain to_ascii input =
     (let trimmed = trim input;
          core = (case strip_suffix ''.'' trimmed of Some s \<Rightarrow> s | None \<Rightarrow> trimmed)
      in if core = [] then Inr []
         else case to_ascii core of
             None \<Rightarrow> Inl (InvalidConfig ''invalid DNS domain'')
           | Some ascii \<Rightarrow>
               bind_r (fold_r label_step
                         (split_on (CHR ''.'') ascii) 0)
                 (\<lambda>total. if total - 1 > 253
                          then Inl (InvalidConfig ''domain exceeds the maximum DNS name length'')
                          else Inr ascii))"

definition suffix_parse :: "idna \<Rightarrow> string \<Rightarrow> dns_suffix result" where
  "suffix_parse to_ascii input = bind_r (normalize_domain to_ascii input) (\<lambda>s. Inr (DnsSuffix s))"

record normalized_config =
  nc_nameservers :: "ip_addr list"
  nc_search :: "dns_suffix list"
  nc_routing :: "dns_suffix list"
  nc_default_route :: "bool option"

definition normalized_default :: normalized_config where
  "normalized_default = \<lparr> nc_nameservers = [], nc_search = [], nc_routing = [], nc_default_route = None \<rparr>"

section \<open>Canonical names\<close>

definition canonical_label :: "string \<Rightarrow> bool" where
  "canonical_label l \<longleftrightarrow> l \<noteq> [] \<and> length l \<le> 63 \<and> list_all dns_byte l \<and>
     hd l \<noteq> CHR ''-'' \<and> last l \<noteq> CHR ''-''"

definition canonical_domain :: "string \<Rightarrow> bool" where
  "canonical_domain s \<longleftrightarrow> s = [] \<or>
     (list_all canonical_label (split_on (CHR ''.'') s) \<and> length s \<le> 253)"

definition wf_suffix :: "dns_suffix \<Rightarrow> bool" where
  "wf_suffix d \<longleftrightarrow> canonical_domain (suffix_str d)"

lemma check_label_ok: "check_label l = Inr u \<Longrightarrow> canonical_label l"
  by (auto simp: check_label_def canonical_label_def last_conv_nth list_all_iff list_ex_iff
      split: if_splits)

lemma fold_labels:
  "fold_r label_step ls n = Inr m \<Longrightarrow>
   list_all canonical_label ls \<and> m = n + sum_list (map (\<lambda>l. length l + 1) ls)"
proof (induction ls arbitrary: n)
  case Nil
  then show ?case by simp
next
  case (Cons l ls)
  have "bind_r (label_step l n) (fold_r label_step ls) = Inr m" using Cons.prems by simp
  then obtain k where k: "label_step l n = Inr k" "fold_r label_step ls k = Inr m"
    unfolding bind_r_Inr by blast
  then have "check_label l = Inr ()" "fold_r label_step ls (n + (length l + 1)) = Inr m"
    by (auto simp: label_step_def bind_r_Inr)
  with Cons.IH[of "n + (length l + 1)"] check_label_ok[of l] show ?case by simp
qed

lemma fold_labels_total:
  "fold_r label_step
     (split_on c s) 0 = Inr m \<Longrightarrow> m = length s + 1"
  by (drule fold_labels) (simp only: length_split_on add_0)

lemma normalize_cases:
  assumes "normalize_domain to_ascii input = Inr s"
  obtains "s = []"
  | core where "to_ascii core = Some s" "list_all canonical_label (split_on (CHR ''.'') s)"
      "length s \<le> 253"
      "fold_r label_step
         (split_on (CHR ''.'') s) 0 = Inr (length s + 1)"
proof -
  let ?core = "case strip_suffix ''.'' (trim input) of Some s \<Rightarrow> s | None \<Rightarrow> trim input"
  show thesis
  proof (cases "?core = []")
    case True
    with assms that(1) show thesis by (simp add: normalize_domain_def Let_def)
  next
    case False
    with assms obtain total where a: "to_ascii ?core = Some s"
      and f: "fold_r label_step
                (split_on (CHR ''.'') s) 0 = Inr total"
      and le: "\<not> total - 1 > 253"
      by (auto simp: normalize_domain_def Let_def bind_r_Inr split: option.splits if_splits)
    have "total = length s + 1" using f by (rule fold_labels_total)
    with a f le fold_labels[OF f] show thesis by (intro that(2)) auto
  qed
qed

lemma dns_byte_printable: "dns_byte c \<Longrightarrow> printable c"
  unfolding dns_byte_def is_lower_def is_digit_def printable_def less_eq_char_def
  by (elim disjE conjE) (auto intro: order_trans)

lemma canonical_printable:
  assumes "list_all canonical_label (split_on (CHR ''.'') s)"
  shows "\<forall>c\<in>set s. printable c"
proof
  fix c assume "c \<in> set s"
  then have "c \<in> set (join_with ''.'' (split_on (CHR ''.'') s))" by simp
  moreover have "set (join_with ''.'' ps) \<subseteq> (\<Union>p\<in>set ps. set p) \<union> {CHR ''.''}" for ps
    by (induction "''.''" ps rule: join_with.induct) auto
  ultimately have "c = CHR ''.'' \<or> (\<exists>p\<in>set (split_on (CHR ''.'') s). c \<in> set p)" by blast
  then show "printable c"
  proof
    assume "c = CHR ''.''"
    then show ?thesis by (simp add: printable_def less_eq_char_def)
  next
    assume "\<exists>p\<in>set (split_on (CHR ''.'') s). c \<in> set p"
    with assms have "dns_byte c" by (auto simp: list_all_iff canonical_label_def)
    then show ?thesis by (rule dns_byte_printable)
  qed
qed

lemma split_on_append_sep: "split_on c (s @ [c]) = split_on c s @ [[]]"
proof (induction s)
  case Nil
  then show ?case by simp
next
  case (Cons x xs)
  obtain y ys where "split_on c xs = y # ys" by (cases "split_on c xs") auto
  with Cons show ?case by auto
qed

lemma canonical_no_final_dot:
  assumes "list_all canonical_label (split_on (CHR ''.'') s)"
  shows "strip_suffix ''.'' s = None"
proof (rule ccontr)
  assume "strip_suffix ''.'' s \<noteq> None"
  then obtain t where "s = t @ ''.''" by (auto simp: strip_suffix_Some)
  with assms show False by (simp add: split_on_append_sep canonical_label_def)
qed

text \<open>A canonical name is a fixed point, when the package leaves its own output alone.\<close>

lemma normalize_fixpoint:
  assumes "normalize_domain to_ascii input = Inr s"
    and idem: "\<And>x y. to_ascii x = Some y \<Longrightarrow> to_ascii y = Some y"
  shows "normalize_domain to_ascii s = Inr s"
  using assms(1)
proof (cases rule: normalize_cases)
  case 1
  have "trim [] = []" by (rule trim_printable) simp
  with 1 show ?thesis by (simp add: normalize_domain_def strip_suffix_def)
next
  case (2 core)
  then have ne: "s \<noteq> []" by (auto simp: canonical_label_def)
  have tr: "trim s = s" by (rule trim_printable) (rule canonical_printable[OF 2(2)])
  show ?thesis
    using 2 ne idem[OF 2(1)]
    by (simp add: normalize_domain_def tr canonical_no_final_dot del: fold_r.simps)
qed

text \<open>
  C23. Parsing yields canonical names only: the root, or dot-separated labels of 1 to 63
  lower-case letters, digits and inner hyphens, 253 bytes at most in total.
\<close>

theorem suffix_parse_canonical:
  assumes "suffix_parse to_ascii input = Inr d"
  shows "suffix_str d = [] \<or>
     (list_all canonical_label (split_on (CHR ''.'') (suffix_str d)) \<and> length (suffix_str d) \<le> 253)"
proof -
  obtain s where s: "normalize_domain to_ascii input = Inr s" "d = DnsSuffix s"
    using assms by (auto simp: suffix_parse_def bind_r_Inr)
  from s(1) show ?thesis
    by (cases rule: normalize_cases) (auto simp: s(2))
qed

theorem suffix_parse_canonical_witness:
  "suffix_str (DnsSuffix ''corp.example'') = [] \<or>
     (list_all canonical_label (split_on (CHR ''.'') (suffix_str (DnsSuffix ''corp.example''))) \<and>
      length (suffix_str (DnsSuffix ''corp.example'')) \<le> 253)"
proof (rule suffix_parse_canonical)
  show "suffix_parse Some '' corp.example.'' = Inr (DnsSuffix ''corp.example'')" by code_simp
qed

lemma suffix_parse_wf: "suffix_parse to_ascii input = Inr d \<Longrightarrow> wf_suffix d"
proof -
  assume a: "suffix_parse to_ascii input = Inr d"
  obtain s where s: "normalize_domain to_ascii input = Inr s" "d = DnsSuffix s"
    using a by (auto simp: suffix_parse_def bind_r_Inr)
  from s(1) show ?thesis
    by (cases rule: normalize_cases) (auto simp: s(2) wf_suffix_def canonical_domain_def)
qed

text \<open>
  Round trip through the journal: what \<open>Serialize\<close> writes for a parsed suffix (a dot for the
  root), \<open>Deserialize\<close> parses back to the same suffix, provided the \<open>idna\<close> package leaves names it
  has produced unchanged.
\<close>

theorem suffix_roundtrip:
  assumes "suffix_parse to_ascii input = Inr d"
    and "\<And>x y. to_ascii x = Some y \<Longrightarrow> to_ascii y = Some y"
  shows "suffix_parse to_ascii (suffix_serialize d) = Inr d"
proof -
  obtain s where s: "normalize_domain to_ascii input = Inr s" "d = DnsSuffix s"
    using assms(1) by (auto simp: suffix_parse_def bind_r_Inr)
  show ?thesis
  proof (cases "s = []")
    case True
    have "trim ''.'' = ''.''" by (rule trim_printable) (simp add: printable_def less_eq_char_def)
    with True s(2) show ?thesis
      by (simp add: suffix_parse_def suffix_serialize_def is_root_def normalize_domain_def
          strip_suffix_def)
  next
    case False
    with s normalize_fixpoint[OF s(1) assms(2)] show ?thesis
      by (simp add: suffix_parse_def suffix_serialize_def is_root_def)
  qed
qed

theorem suffix_roundtrip_witness:
  "suffix_parse Some (suffix_serialize (DnsSuffix ''corp.example'')) = Inr (DnsSuffix ''corp.example'')"
proof (rule suffix_roundtrip)
  show "suffix_parse Some '' corp.example.'' = Inr (DnsSuffix ''corp.example'')" by code_simp
qed simp

end
