(* ===== verification/Config.thy ===== *)
theory Config
  imports Normalize
begin

text \<open>
  \<open>config.rs\<close>: the public configuration value, its builder, and the capability check that turns
  a configuration into the normalized form of the engine.
\<close>

datatype interface_selector = SelDefault | SelIndex u32 | SelName string
datatype dns_scope = Global | Interface interface_selector

record dns_config =
  dc_scope :: dns_scope
  dc_nameservers :: "ip_addr list"
  dc_search :: "dns_suffix list"
  dc_routing :: "dns_suffix list"
  dc_default_route :: "bool option"

record config_builder =
  cb_scope :: dns_scope
  cb_nameservers :: "ip_addr list"
  cb_search :: "string list"
  cb_routing :: "string list"
  cb_default_route :: "bool option"

definition from_parts ::
  "dns_scope \<Rightarrow> ip_addr list \<Rightarrow> dns_suffix list \<Rightarrow> dns_suffix list \<Rightarrow> bool option \<Rightarrow> dns_config" where
  "from_parts scope nss search routing droute =
     \<lparr> dc_scope = scope, dc_nameservers = nss, dc_search = search, dc_routing = routing,
       dc_default_route = droute \<rparr>"

definition builder_new :: "dns_scope \<Rightarrow> config_builder" where
  "builder_new scope = \<lparr> cb_scope = scope, cb_nameservers = [], cb_search = [], cb_routing = [],
     cb_default_route = None \<rparr>"

definition nameserver :: "ip_addr \<Rightarrow> config_builder \<Rightarrow> config_builder" where
  "nameserver ip b = b\<lparr>cb_nameservers := cb_nameservers b @ [ip]\<rparr>"

definition nameservers :: "ip_addr list \<Rightarrow> config_builder \<Rightarrow> config_builder" where
  "nameservers ips b = b\<lparr>cb_nameservers := cb_nameservers b @ ips\<rparr>"

definition search_domain :: "string \<Rightarrow> config_builder \<Rightarrow> config_builder" where
  "search_domain d b = b\<lparr>cb_search := cb_search b @ [d]\<rparr>"

definition search_domains :: "string list \<Rightarrow> config_builder \<Rightarrow> config_builder" where
  "search_domains ds b = b\<lparr>cb_search := cb_search b @ ds\<rparr>"

definition routing_domain :: "string \<Rightarrow> config_builder \<Rightarrow> config_builder" where
  "routing_domain d b = b\<lparr>cb_routing := cb_routing b @ [d]\<rparr>"

definition routing_domains :: "string list \<Rightarrow> config_builder \<Rightarrow> config_builder" where
  "routing_domains ds b = b\<lparr>cb_routing := cb_routing b @ ds\<rparr>"

definition default_route :: "bool \<Rightarrow> config_builder \<Rightarrow> config_builder" where
  "default_route v b = b\<lparr>cb_default_route := Some v\<rparr>"

text \<open>The three loops of \<open>build\<close>, then the checks of a global scope.\<close>

definition push_nameserver :: "ip_addr \<Rightarrow> ip_addr list \<Rightarrow> ip_addr list result" where
  "push_nameserver ip acc =
     (if is_unspecified ip then Inl (InvalidConfig ''nameserver address is unspecified'')
      else Inr (push_unique acc ip))"

definition push_suffix :: "idna \<Rightarrow> string \<Rightarrow> dns_suffix list \<Rightarrow> dns_suffix list result" where
  "push_suffix to_ascii domain acc =
     bind_r (suffix_parse to_ascii domain) (\<lambda>suffix. Inr (push_unique acc suffix))"

definition build :: "idna \<Rightarrow> config_builder \<Rightarrow> dns_config result" where
  "build to_ascii b =
     bind_r (fold_r push_nameserver (cb_nameservers b) []) (\<lambda>nss.
     bind_r (fold_r (push_suffix to_ascii) (cb_search b) []) (\<lambda>search.
     bind_r (fold_r (push_suffix to_ascii) (cb_routing b) []) (\<lambda>routing.
     bind_r (case cb_scope b of
           Global \<Rightarrow>
             if routing \<noteq> [] then
               Inl (InvalidConfig ''routing domains are only valid with an interface scope'')
             else if cb_default_route b \<noteq> None then
               Inl (InvalidConfig ''default_route is only valid with an interface scope'')
             else Inr ()
         | Interface _ \<Rightarrow> Inr ()) (\<lambda>_.
     Inr (from_parts (cb_scope b) nss search routing (cb_default_route b))))))"

definition validate_against :: "dns_config \<Rightarrow> capabilities \<Rightarrow> normalized_config result" where
  "validate_against config caps =
     bind_r (case dc_scope config of
         Global \<Rightarrow>
           if \<not> global_dns caps
           then Inl (Unsupported (cap_backend caps) ''this backend cannot configure global DNS'')
           else Inr ()
       | Interface _ \<Rightarrow>
           if \<not> per_interface_dns caps
           then Inl (Unsupported (cap_backend caps) ''this backend cannot configure per-interface DNS'')
           else if dc_routing config \<noteq> [] \<and> \<not> split_dns caps
           then Inl (Unsupported (cap_backend caps) ''this backend cannot configure split DNS routing domains'')
           else Inr ()) (\<lambda>_.
     if dc_search config \<noteq> [] \<and> \<not> search_domains_cap caps
     then Inl (Unsupported (cap_backend caps) ''this backend cannot configure search domains'')
     else if dc_default_route config \<noteq> None \<and> \<not> default_route_cap caps
     then Inl (Unsupported (cap_backend caps) ''this backend cannot represent explicit default-route semantics'')
     else Inr \<lparr> nc_nameservers = dc_nameservers config, nc_search = dc_search config,
                nc_routing = dc_routing config, nc_default_route = dc_default_route config \<rparr>)"

section \<open>What a built configuration satisfies\<close>

definition wf_config :: "dns_config \<Rightarrow> bool" where
  "wf_config c \<longleftrightarrow>
     distinct (dc_nameservers c) \<and> list_all (\<lambda>ip. \<not> is_unspecified ip) (dc_nameservers c) \<and>
     distinct (dc_search c) \<and> list_all wf_suffix (dc_search c) \<and>
     distinct (dc_routing c) \<and> list_all wf_suffix (dc_routing c) \<and>
     (dc_scope c = Global \<longrightarrow> dc_routing c = [] \<and> dc_default_route c = None)"

lemma push_nameserver_Inr:
  "push_nameserver ip acc = Inr out \<longleftrightarrow> \<not> is_unspecified ip \<and> out = push_unique acc ip"
  by (auto simp: push_nameserver_def)

lemma fold_nameservers:
  "fold_r push_nameserver ips acc = Inr out \<longleftrightarrow>
   list_all (\<lambda>ip. \<not> is_unspecified ip) ips \<and> out = dedup_push acc ips"
  by (induction ips arbitrary: acc) (auto simp: bind_r_Inr push_nameserver_Inr)

lemma push_suffix_Inr:
  "push_suffix to_ascii d acc = Inr out \<longleftrightarrow>
   (\<exists>x. suffix_parse to_ascii d = Inr x \<and> out = push_unique acc x)"
  by (auto simp: push_suffix_def bind_r_Inr)

lemma fold_suffixes:
  assumes "fold_r (push_suffix to_ascii) ds acc = Inr out" "distinct acc" "list_all wf_suffix acc"
  shows "distinct out \<and> list_all wf_suffix out"
  using assms
proof (induction ds arbitrary: acc)
  case Nil
  then show ?case by simp
next
  case (Cons d ds)
  then obtain x where x: "suffix_parse to_ascii d = Inr x"
      "fold_r (push_suffix to_ascii) ds (push_unique acc x) = Inr out"
    by (auto simp: bind_r_Inr push_suffix_Inr)
  have "distinct (push_unique acc x)" "list_all wf_suffix (push_unique acc x)"
    using Cons.prems(2,3) suffix_parse_wf[OF x(1)] by (auto simp: list_all_iff)
  with Cons.IH x(2) show ?case by blast
qed

lemma build_Inr:
  assumes "build to_ascii b = Inr c"
  obtains search routing where
    "list_all (\<lambda>ip. \<not> is_unspecified ip) (cb_nameservers b)"
    "fold_r (push_suffix to_ascii) (cb_search b) [] = Inr search"
    "fold_r (push_suffix to_ascii) (cb_routing b) [] = Inr routing"
    "c = from_parts (cb_scope b) (dedup_push [] (cb_nameservers b)) search routing (cb_default_route b)"
    "cb_scope b = Global \<longrightarrow> routing = [] \<and> cb_default_route b = None"
  using assms
  by (cases "cb_scope b") (auto simp: build_def bind_r_Inr fold_nameservers split: if_splits)

text \<open>
  C21. A configuration that \<open>build\<close> returns is well formed whatever was put into the builder: no
  unspecified nameserver, no duplicate nameserver or domain, canonical domains only, and neither
  routing domains nor a default-route flag on a global scope; and its nameservers are those of the
  builder in order of first occurrence.
\<close>

theorem build_wf:
  assumes "build to_ascii b = Inr c"
  shows "wf_config c \<and> dc_scope c = cb_scope b \<and> dc_default_route c = cb_default_route b
    \<and> dc_nameservers c = dedup_push [] (cb_nameservers b)
    \<and> set (dc_nameservers c) = set (cb_nameservers b)"
proof -
  from assms obtain search routing where
    a: "list_all (\<lambda>ip. \<not> is_unspecified ip) (cb_nameservers b)"
    and s: "fold_r (push_suffix to_ascii) (cb_search b) [] = Inr search"
    and r: "fold_r (push_suffix to_ascii) (cb_routing b) [] = Inr routing"
    and c: "c = from_parts (cb_scope b) (dedup_push [] (cb_nameservers b)) search routing (cb_default_route b)"
    and g: "cb_scope b = Global \<longrightarrow> routing = [] \<and> cb_default_route b = None"
    by (rule build_Inr)
  from fold_suffixes[OF s] fold_suffixes[OF r] a g show ?thesis
    by (simp add: c from_parts_def wf_config_def list_all_iff)
qed

theorem build_wf_witness:
  "let b = nameservers [V4 1 1 1 1, V4 8 8 8 8, V4 1 1 1 1] (search_domain ''example.com.'' (builder_new Global));
       c = from_parts Global [V4 1 1 1 1, V4 8 8 8 8] [DnsSuffix ''example.com''] [] None
   in build Some b = Inr c \<and> wf_config c \<and> set (dc_nameservers c) = set (cb_nameservers b)"
proof -
  let ?b = "nameservers [V4 1 1 1 1, V4 8 8 8 8, V4 1 1 1 1] (search_domain ''example.com.'' (builder_new Global))"
  let ?c = "from_parts Global [V4 1 1 1 1, V4 8 8 8 8] [DnsSuffix ''example.com''] [] None"
  have b: "build Some ?b = Inr ?c" by code_simp
  show ?thesis unfolding Let_def using b build_wf[OF b] by blast
qed


end
