(* ===== verification/Snapshots.thy ===== *)
theory Snapshots
  imports Config
begin

text \<open>
  The values the engine passes around without looking inside: native snapshots and identities
  (\<open>platform/mod.rs\<close>) with the payload of each backend of a Linux build with the \<open>test-util\<close>
  feature, and what a mutation reports. An open file handle kept in an identity is a number.
\<close>

section \<open>Payloads\<close>

datatype fake_state =
    FakeEmpty
  | FakeConfigured "ip_addr list" "dns_suffix list" "dns_suffix list" "bool option"

record fake_snapshot =
  fs_state :: fake_state
  fs_generation :: u64

record fake_identity =
  fi_incarnation :: u64

record resolved_snapshot =
  rs_dns :: "(i32 \<times> bytes) list"
  rs_domains :: "(string \<times> bool) list"
  rs_default_route :: bool

record resolved_identity =
  ri_boot_id :: uuid
  ri_netns :: string
  ri_ifindex :: u32
  ri_ifname :: string
  ri_iflink :: "u32 option"
  ri_address :: "string option"
  ri_uevent :: "string option"

record nm_dns_fields =
  ipv4_dns :: "u32 list"
  ipv4_dns_search :: "string list"
  ipv4_ignore_auto_dns :: bool
  ipv6_dns :: "bytes list"
  ipv6_dns_search :: "string list"
  ipv6_ignore_auto_dns :: bool

record nm_snapshot =
  nm_fields :: nm_dns_fields
  nm_version :: u64

record nm_identity =
  nmi_ifname :: string
  nmi_device_path :: string
  nmi_active_path :: string
  nmi_connection_uuid :: uuid
  nmi_service_owner :: string

record resolvconf_attributes =
  rc_metric :: "string option"
  rc_private :: bool
  rc_nosearch :: bool
  rc_deprecated :: bool

record resolvconf_snapshot =
  rc_content :: "bytes option"
  rc_attributes :: resolvconf_attributes
  rc_live :: "bytes option"

record file_owner =
  fo_uid :: u32
  fo_gid :: u32

record file_time =
  ft_seconds :: i64
  ft_nanoseconds :: u32

record file_metadata =
  fm_mode :: u32
  fm_owner :: "file_owner option"
  fm_flags :: "u64 option"
  fm_links :: "u64 option"
  fm_modified :: "file_time option"

record direct_snapshot =
  ds_content :: "bytes option"
  ds_metadata :: "file_metadata option"

datatype snapshot_data =
    SnapFake fake_snapshot
  | SnapResolved resolved_snapshot
  | SnapNetworkManager nm_snapshot
  | SnapResolvconf resolvconf_snapshot
  | SnapResolvConfFile direct_snapshot

datatype identity_data =
    Untracked
  | IdFake fake_identity
  | IdResolved resolved_identity
  | IdNetworkManager nm_identity

section \<open>Snapshots and identities\<close>

record platform_snapshot =
  ps_backend :: backend_kind
  ps_resource :: resource_id
  ps_data :: snapshot_data

record resource_identity =
  id_backend :: backend_kind
  id_resource :: resource_id
  id_data :: identity_data
  id_live_handle :: "nat option"

definition identity_new :: "backend_kind \<Rightarrow> resource_id \<Rightarrow> identity_data \<Rightarrow> resource_identity" where
  "identity_new k r d = \<lparr> id_backend = k, id_resource = r, id_data = d, id_live_handle = None \<rparr>"

definition snapshot_new :: "backend_kind \<Rightarrow> resource_id \<Rightarrow> snapshot_data \<Rightarrow> platform_snapshot" where
  "snapshot_new k r d = \<lparr> ps_backend = k, ps_resource = r, ps_data = d \<rparr>"

datatype resource_status = Same | Gone | Replaced | Ambiguous

record bound_observation =
  bo_identity :: resource_identity
  bo_snapshot :: platform_snapshot

section \<open>Mutations\<close>

datatype ownership_proof = OwnershipProof (proof_snapshot: platform_snapshot)

record verified_mutation =
  vm_proof :: "ownership_proof option"
  vm_observed :: platform_snapshot

text \<open>\<open>VerifiedMutation::persist\<close>: the issued identity, or what was observed.\<close>

definition persist :: "verified_mutation \<Rightarrow> platform_snapshot" where
  "persist m = (case vm_proof m of Some p \<Rightarrow> proof_snapshot p | None \<Rightarrow> vm_observed m)"

datatype mutation_attempt =
    Performed "platform_snapshot option"
  | Rejected error
  | Indeterminate error "platform_snapshot option"

definition from_apply_result :: "unit result \<Rightarrow> mutation_attempt" where
  "from_apply_result r = (case r of
       Inr _ \<Rightarrow> Performed None
     | Inl e \<Rightarrow> if is_external_modification e then Rejected e else Indeterminate e None)"

end
