(* ===== verification/Effects.thy ===== *)
theory Effects
  imports Errors
begin

text \<open>
  The effect monad of the development. A computation takes a state and returns an outcome and a
  state: \<open>Ok\<close>, \<open>Err\<close> (the \<open>Result\<close> of the source) or \<open>Crash\<close> (an unwinding panic, in particular
  the \<open>CrashSignal\<close> by which the fault injector simulates process death). No handler of \<open>Err\<close>
  sees a \<open>Crash\<close>, and what the state held when the crash happened is what is left of it.

  The second half is a weakest-precondition calculus: \<open>wp m Q s\<close> says that \<open>m\<close>, run in \<open>s\<close>, ends
  with an outcome and a state that satisfy \<open>Q\<close>. Every computation here ends, so \<open>wp\<close> is total
  correctness.
\<close>

datatype 'a outcome = Ok 'a | Err error | Crash

type_synonym ('s, 'a) tx = "'s \<Rightarrow> 'a outcome \<times> 's"

definition return_tx :: "'a \<Rightarrow> ('s, 'a) tx" where
  "return_tx x s = (Ok x, s)"

definition throw :: "error \<Rightarrow> ('s, 'a) tx" where
  "throw e s = (Err e, s)"

definition crash :: "('s, 'a) tx" where
  "crash s = (Crash, s)"

text \<open>\<open>m?\<close> followed by the rest.\<close>

definition bind_tx :: "('s, 'a) tx \<Rightarrow> ('a \<Rightarrow> ('s, 'b) tx) \<Rightarrow> ('s, 'b) tx" where
  "bind_tx m f s = (case m s of (Ok x, t) \<Rightarrow> f x t | (Err e, t) \<Rightarrow> (Err e, t) | (Crash, t) \<Rightarrow> (Crash, t))"

definition seq_tx :: "('s, 'a) tx \<Rightarrow> ('s, 'b) tx \<Rightarrow> ('s, 'b) tx" where
  "seq_tx m n = bind_tx m (\<lambda>_. n)"

text \<open>\<open>match m { Ok(x) => f x, Err(e) => g e }\<close>.\<close>

definition match_tx :: "('s, 'a) tx \<Rightarrow> ('a \<Rightarrow> ('s, 'b) tx) \<Rightarrow> (error \<Rightarrow> ('s, 'b) tx) \<Rightarrow> ('s, 'b) tx" where
  "match_tx m f g s = (case m s of (Ok x, t) \<Rightarrow> f x t | (Err e, t) \<Rightarrow> g e t | (Crash, t) \<Rightarrow> (Crash, t))"

text \<open>Runs \<open>m\<close> and hands its \<open>Result\<close> on as a value.\<close>

definition try_tx :: "('s, 'a) tx \<Rightarrow> ('s, 'a result) tx" where
  "try_tx m = match_tx m (\<lambda>x. return_tx (Inr x)) (\<lambda>e. return_tx (Inl e))"

definition lift_result :: "'a result \<Rightarrow> ('s, 'a) tx" where
  "lift_result r = (case r of Inl e \<Rightarrow> throw e | Inr x \<Rightarrow> return_tx x)"

definition get_tx :: "('s, 's) tx" where
  "get_tx s = (Ok s, s)"

definition put_tx :: "'s \<Rightarrow> ('s, unit) tx" where
  "put_tx t s = (Ok (), t)"

definition modify_tx :: "('s \<Rightarrow> 's) \<Rightarrow> ('s, unit) tx" where
  "modify_tx f s = (Ok (), f s)"

definition gets_tx :: "('s \<Rightarrow> 'a) \<Rightarrow> ('s, 'a) tx" where
  "gets_tx f s = (Ok (f s), s)"

text \<open>Runs a computation on one part of a larger state.\<close>

definition focus_tx :: "('s \<Rightarrow> 't) \<Rightarrow> ('t \<Rightarrow> 's \<Rightarrow> 's) \<Rightarrow> ('t, 'a) tx \<Rightarrow> ('s, 'a) tx" where
  "focus_tx rd wr m s = (case m (rd s) of (r, t) \<Rightarrow> (r, wr t s))"

text \<open>
  A \<open>&mut\<close> parameter is the first component of a paired state. \<open>run_mut\<close> calls a function with
  such a parameter: whatever the call returns, the caller sees the value left in it.
\<close>

definition inner_tx :: "('s, 'a) tx \<Rightarrow> ('m \<times> 's, 'a) tx" where
  "inner_tx m ms = (case ms of (v, s) \<Rightarrow> (case m s of (r, t) \<Rightarrow> (r, (v, t))))"

definition get_mut :: "('m \<times> 's, 'm) tx" where
  "get_mut ms = (Ok (fst ms), ms)"

definition put_mut :: "'m \<Rightarrow> ('m \<times> 's, unit) tx" where
  "put_mut v ms = (Ok (), (v, snd ms))"

definition modify_mut :: "('m \<Rightarrow> 'm) \<Rightarrow> ('m \<times> 's, unit) tx" where
  "modify_mut f ms = (Ok (), (f (fst ms), snd ms))"

definition run_mut :: "'m \<Rightarrow> ('m \<times> 's, 'a) tx \<Rightarrow> ('s, 'a result \<times> 'm) tx" where
  "run_mut v m s = (case m (v, s) of
       (Ok x, (v', t)) \<Rightarrow> (Ok (Inr x, v'), t)
     | (Err e, (v', t)) \<Rightarrow> (Ok (Inl e, v'), t)
     | (Crash, (v', t)) \<Rightarrow> (Crash, t))"

text \<open>A \<open>for\<close> loop whose body may return early with an error.\<close>

fun for_tx :: "'a list \<Rightarrow> ('a \<Rightarrow> ('s, unit) tx) \<Rightarrow> ('s, unit) tx" where
  "for_tx [] f = return_tx ()"
| "for_tx (x # xs) f = seq_tx (f x) (for_tx xs f)"

text \<open>A \<open>for\<close> loop that folds an accumulator.\<close>

fun fold_tx :: "('a \<Rightarrow> 'b \<Rightarrow> ('s, 'b) tx) \<Rightarrow> 'a list \<Rightarrow> 'b \<Rightarrow> ('s, 'b) tx" where
  "fold_tx f [] b = return_tx b"
| "fold_tx f (x # xs) b = bind_tx (f x b) (fold_tx f xs)"

text \<open>Runs every step, collecting the errors of those that fail.\<close>

fun collect_tx :: "('s, unit) tx list \<Rightarrow> ('s, error list) tx" where
  "collect_tx [] = return_tx []"
| "collect_tx (m # ms) =
     match_tx m (\<lambda>_. collect_tx ms)
       (\<lambda>e. bind_tx (collect_tx ms) (\<lambda>es. return_tx (e # es)))"

text \<open>Operations of the operating system: one that cannot fail, and one that yields an \<open>io::Result\<close>.\<close>

type_synonym io_error = "io_kind \<times> string"

definition io_call :: "('w \<Rightarrow> (io_error + 'a) \<times> 'w) \<Rightarrow> ('w, 'a) tx" where
  "io_call m w = (case m w of (Inl (k, e), w') \<Rightarrow> (Err (Io k e), w') | (Inr x, w') \<Rightarrow> (Ok x, w'))"

definition sys_call :: "('w \<Rightarrow> 'a \<times> 'w) \<Rightarrow> ('w, 'a) tx" where
  "sys_call m w = (case m w of (x, w') \<Rightarrow> (Ok x, w'))"

section \<open>Equations\<close>

lemma tx_run [tx_simps]:
  "return_tx x s = (Ok x, s)"
  "throw e s = (Err e, s)"
  "crash s = (Crash, s)"
  "get_tx s = (Ok s, s)"
  "put_tx t s = (Ok (), t)"
  "modify_tx f s = (Ok (), f s)"
  "gets_tx g s = (Ok (g s), s)"
  by (simp_all add: return_tx_def throw_def crash_def get_tx_def put_tx_def modify_tx_def gets_tx_def)

lemma bind_return [simp]:
  "bind_tx (return_tx x) f = f x"
  "bind_tx (throw e) f = throw e"
  "bind_tx crash f = crash"
  "match_tx (return_tx x) f g = f x"
  "match_tx (throw e) f g = g e"
  "match_tx crash f g = crash"
  "lift_result (Inr x) = return_tx x"
  "lift_result (Inl e) = throw e"
  by (simp_all add: fun_eq_iff bind_tx_def match_tx_def return_tx_def throw_def crash_def
      lift_result_def)

lemma bind_assoc: "bind_tx (bind_tx m f) g = bind_tx m (\<lambda>x. bind_tx (f x) g)"
  by (simp add: fun_eq_iff bind_tx_def split: prod.splits outcome.splits)

section \<open>Weakest preconditions\<close>

definition wp :: "('s, 'a) tx \<Rightarrow> ('a outcome \<Rightarrow> 's \<Rightarrow> bool) \<Rightarrow> 's \<Rightarrow> bool" where
  "wp m Q s = (case m s of (r, t) \<Rightarrow> Q r t)"

lemma wp_iff: "wp m Q s \<longleftrightarrow> Q (fst (m s)) (snd (m s))"
  by (simp add: wp_def split: prod.splits)

lemma wp_run: "wp m Q s \<Longrightarrow> m s = (r, t) \<Longrightarrow> Q r t"
  by (simp add: wp_def)

lemma wp_eq: "m s = (r, t) \<Longrightarrow> wp m Q s = Q r t"
  by (simp add: wp_def)

lemma wpI: "(\<And>r t. m s = (r, t) \<Longrightarrow> Q r t) \<Longrightarrow> wp m Q s"
  by (simp add: wp_def split: prod.splits)

lemma wp_mono: "wp m P s \<Longrightarrow> (\<And>r t. P r t \<Longrightarrow> Q r t) \<Longrightarrow> wp m Q s"
  by (simp add: wp_def split: prod.splits)

lemma wp_conj: "wp m P s \<Longrightarrow> wp m Q s \<Longrightarrow> wp m (\<lambda>r t. P r t \<and> Q r t) s"
  by (simp add: wp_def split: prod.splits)

lemma wp_basic [simp]:
  "wp (return_tx x) Q s = Q (Ok x) s"
  "wp (throw e) Q s = Q (Err e) s"
  "wp crash Q s = Q Crash s"
  "wp get_tx Q' s = Q' (Ok s) s"
  "wp (put_tx t) Q'' s = Q'' (Ok ()) t"
  "wp (modify_tx f) Q'' s = Q'' (Ok ()) (f s)"
  "wp (gets_tx g) Q s = Q (Ok (g s)) s"
  by (simp_all add: wp_def return_tx_def throw_def crash_def get_tx_def put_tx_def modify_tx_def
      gets_tx_def)

text \<open>What holds of the value of a computation that returned \<open>Ok\<close>.\<close>

definition when_ok :: "'a outcome \<Rightarrow> ('a \<Rightarrow> bool) \<Rightarrow> bool" where
  "when_ok r P = (case r of Ok x \<Rightarrow> P x | _ \<Rightarrow> True)"

lemma when_ok_simps [simp]:
  "when_ok (Ok x) P = P x"
  "when_ok (Err e) P"
  "when_ok Crash P"
  by (simp_all add: when_ok_def)

definition succeeded :: "'a outcome \<Rightarrow> bool" where
  "succeeded r = (case r of Ok _ \<Rightarrow> True | _ \<Rightarrow> False)"

lemma succeeded_simps [simp]: "succeeded (Ok x)" "\<not> succeeded (Err e)" "\<not> succeeded Crash"
  by (simp_all add: succeeded_def)

definition no_err :: "'a outcome \<Rightarrow> bool" where
  "no_err r = (case r of Err _ \<Rightarrow> False | _ \<Rightarrow> True)"

lemma no_err_simps [simp]: "no_err (Ok x)" "\<not> no_err (Err e)" "no_err Crash"
  by (simp_all add: no_err_def)

text \<open>What a continuation owes after the three outcomes of the computation before it.\<close>

definition on_ok :: "('a \<Rightarrow> 's \<Rightarrow> bool) \<Rightarrow> ('b outcome \<Rightarrow> 's \<Rightarrow> bool) \<Rightarrow> 'a outcome \<Rightarrow> 's \<Rightarrow> bool" where
  "on_ok P Q r s = (case r of Ok x \<Rightarrow> P x s | Err e \<Rightarrow> Q (Err e) s | Crash \<Rightarrow> Q Crash s)"

definition on_both ::
  "('a \<Rightarrow> 's \<Rightarrow> bool) \<Rightarrow> (error \<Rightarrow> 's \<Rightarrow> bool) \<Rightarrow> ('b outcome \<Rightarrow> 's \<Rightarrow> bool) \<Rightarrow> 'a outcome \<Rightarrow> 's \<Rightarrow> bool"
  where
  "on_both P E Q r s = (case r of Ok x \<Rightarrow> P x s | Err e \<Rightarrow> E e s | Crash \<Rightarrow> Q Crash s)"

lemma on_simps [simp]:
  "on_ok P Q (Ok x) s = P x s"
  "on_ok P Q (Err e) s = Q (Err e) s"
  "on_ok P Q Crash s = Q Crash s"
  "on_both P E Q (Ok x) s = P x s"
  "on_both P E Q (Err e) s = E e s"
  "on_both P E Q Crash s = Q Crash s"
  by (simp_all add: on_ok_def on_both_def)

lemma wp_bind: "wp (bind_tx m f) Q s = wp m (on_ok (\<lambda>x. wp (f x) Q) Q) s"
  by (simp add: wp_def bind_tx_def on_ok_def split: prod.splits outcome.splits)

lemma wp_seq: "wp (seq_tx m n) Q s = wp m (on_ok (\<lambda>_. wp n Q) Q) s"
  by (simp add: seq_tx_def wp_bind)

lemma wp_match: "wp (match_tx m f g) Q s = wp m (on_both (\<lambda>x. wp (f x) Q) (\<lambda>e. wp (g e) Q) Q) s"
  by (simp add: wp_def match_tx_def on_both_def split: prod.splits outcome.splits)

lemma wp_try: "wp (try_tx m) Q s = wp m (on_both (\<lambda>x. Q (Ok (Inr x))) (\<lambda>e. Q (Ok (Inl e))) Q) s"
  by (simp add: wp_def try_tx_def match_tx_def on_both_def return_tx_def
      split: prod.splits outcome.splits)

lemma wp_lift_result:
  "wp (lift_result r) Q s = (case r of Inl e \<Rightarrow> Q (Err e) s | Inr x \<Rightarrow> Q (Ok x) s)"
  by (simp add: lift_result_def split: sum.splits)

lemma wp_focus: "wp (focus_tx rd wr m) Q s = wp m (\<lambda>r t. Q r (wr t s)) (rd s)"
  by (simp add: wp_def focus_tx_def split: prod.splits)

lemma wp_inner: "wp (inner_tx m) Q (v, s) = wp m (\<lambda>r t. Q r (v, t)) s"
  by (simp add: wp_def inner_tx_def split: prod.splits)

lemma wp_mut [simp]:
  "wp get_mut Q (v, s) = Q (Ok v) (v, s)"
  "wp (put_mut v') Q' (v, s) = Q' (Ok ()) (v', s)"
  "wp (modify_mut f) Q' (v, s) = Q' (Ok ()) (f v, s)"
  by (simp_all add: wp_def get_mut_def put_mut_def modify_mut_def)

text \<open>What the caller of \<open>run_mut\<close> owes to the callee's outcome.\<close>

definition on_mut :: "(('a result \<times> 'm) outcome \<Rightarrow> 's \<Rightarrow> bool) \<Rightarrow> 'a outcome \<Rightarrow> 'm \<times> 's \<Rightarrow> bool" where
  "on_mut Q r ms = (case r of Ok x \<Rightarrow> Q (Ok (Inr x, fst ms)) (snd ms)
     | Err e \<Rightarrow> Q (Ok (Inl e, fst ms)) (snd ms) | Crash \<Rightarrow> Q Crash (snd ms))"

lemma on_mut_simps [simp]:
  "on_mut Q (Ok x) (v, s) = Q (Ok (Inr x, v)) s"
  "on_mut Q (Err e) (v, s) = Q (Ok (Inl e, v)) s"
  "on_mut Q Crash (v, s) = Q Crash s"
  by (simp_all add: on_mut_def)

lemma wp_run_mut: "wp (run_mut v m) Q s = wp m (on_mut Q) (v, s)"
  by (simp add: wp_def run_mut_def on_mut_def split: prod.splits outcome.splits)

lemmas wp_simps = wp_inner wp_run_mut wp_bind wp_seq wp_match wp_try wp_lift_result wp_focus

text \<open>Sequencing through a specification of the first computation.\<close>

lemma wp_bindI:
  "wp m P s \<Longrightarrow> (\<And>x t. P (Ok x) t \<Longrightarrow> wp (f x) Q t) \<Longrightarrow>
   (\<And>e t. P (Err e) t \<Longrightarrow> Q (Err e) t) \<Longrightarrow> (\<And>t. P Crash t \<Longrightarrow> Q Crash t) \<Longrightarrow>
   wp (bind_tx m f) Q s"
  unfolding wp_bind by (erule wp_mono) (auto simp: on_ok_def split: outcome.splits)

lemma wp_seqI:
  "wp m P s \<Longrightarrow> (\<And>x t. P (Ok x) t \<Longrightarrow> wp n Q t) \<Longrightarrow>
   (\<And>e t. P (Err e) t \<Longrightarrow> Q (Err e) t) \<Longrightarrow> (\<And>t. P Crash t \<Longrightarrow> Q Crash t) \<Longrightarrow>
   wp (seq_tx m n) Q s"
  unfolding seq_tx_def by (rule wp_bindI)

lemma wp_matchI:
  "wp m P s \<Longrightarrow> (\<And>x t. P (Ok x) t \<Longrightarrow> wp (f x) Q t) \<Longrightarrow>
   (\<And>e t. P (Err e) t \<Longrightarrow> wp (g e) Q t) \<Longrightarrow> (\<And>t. P Crash t \<Longrightarrow> Q Crash t) \<Longrightarrow>
   wp (match_tx m f g) Q s"
  unfolding wp_match by (erule wp_mono) (auto simp: on_both_def split: outcome.splits)

lemma wp_tryI:
  "wp m P s \<Longrightarrow> (\<And>x t. P (Ok x) t \<Longrightarrow> Q (Ok (Inr x)) t) \<Longrightarrow>
   (\<And>e t. P (Err e) t \<Longrightarrow> Q (Ok (Inl e)) t) \<Longrightarrow> (\<And>t. P Crash t \<Longrightarrow> Q Crash t) \<Longrightarrow>
   wp (try_tx m) Q s"
  unfolding wp_try by (erule wp_mono) (auto simp: on_both_def split: outcome.splits)

text \<open>The same, for the steps that leave a \<open>&mut\<close> parameter alone and those that set it.\<close>

lemma wp_bind_innerI:
  "wp m P s \<Longrightarrow> (\<And>x t. P (Ok x) t \<Longrightarrow> wp (f x) Q (v, t)) \<Longrightarrow>
   (\<And>e t. P (Err e) t \<Longrightarrow> Q (Err e) (v, t)) \<Longrightarrow> (\<And>t. P Crash t \<Longrightarrow> Q Crash (v, t)) \<Longrightarrow>
   wp (bind_tx (inner_tx m) f) Q (v, s)"
  unfolding wp_bind wp_inner by (erule wp_mono) (auto simp: on_ok_def split: outcome.splits)

lemma wp_seq_innerI:
  "wp m P s \<Longrightarrow> (\<And>x t. P (Ok x) t \<Longrightarrow> wp n Q (v, t)) \<Longrightarrow>
   (\<And>e t. P (Err e) t \<Longrightarrow> Q (Err e) (v, t)) \<Longrightarrow> (\<And>t. P Crash t \<Longrightarrow> Q Crash (v, t)) \<Longrightarrow>
   wp (seq_tx (inner_tx m) n) Q (v, s)"
  unfolding seq_tx_def by (rule wp_bind_innerI)

lemma wp_match_innerI:
  "wp m P s \<Longrightarrow> (\<And>x t. P (Ok x) t \<Longrightarrow> wp (f x) Q (v, t)) \<Longrightarrow>
   (\<And>e t. P (Err e) t \<Longrightarrow> wp (g e) Q (v, t)) \<Longrightarrow> (\<And>t. P Crash t \<Longrightarrow> Q Crash (v, t)) \<Longrightarrow>
   wp (match_tx (inner_tx m) f g) Q (v, s)"
  unfolding wp_match wp_inner by (erule wp_mono) (auto simp: on_both_def split: outcome.splits)

lemma wp_bind_mut [simp]:
  "wp (bind_tx get_mut f) Q (v, s) = wp (f v) Q (v, s)"
  "wp (seq_tx (put_mut v') n) Q (v, s) = wp n Q (v', s)"
  "wp (seq_tx (modify_mut g) n) Q (v, s) = wp n Q (g v, s)"
  "wp (seq_tx (return_tx x) n') Q' s' = wp n' Q' s'"
  "wp (seq_tx (throw e) n') Q' s' = Q' (Err e) s'"
  by (simp_all add: wp_bind wp_seq)

lemma wp_bind_run_mutI:
  "wp m P (v, s) \<Longrightarrow> (\<And>x v' t. P (Ok x) (v', t) \<Longrightarrow> wp (f (Inr x, v')) Q t) \<Longrightarrow>
   (\<And>e v' t. P (Err e) (v', t) \<Longrightarrow> wp (f (Inl e, v')) Q t) \<Longrightarrow>
   (\<And>v' t. P Crash (v', t) \<Longrightarrow> Q Crash t) \<Longrightarrow>
   wp (bind_tx (run_mut v m) f) Q s"
  unfolding wp_bind wp_run_mut by (erule wp_mono) (auto simp: on_mut_def on_ok_def split: outcome.splits)

text \<open>One step whose error is collected; and a whole list of them under an indexed invariant.\<close>

lemma wp_collect1I:
  "wp m P s \<Longrightarrow> (\<And>x t. P (Ok x) t \<Longrightarrow> Q (Ok []) t) \<Longrightarrow> (\<And>e t. P (Err e) t \<Longrightarrow> Q (Ok [e]) t) \<Longrightarrow>
   (\<And>t. P Crash t \<Longrightarrow> Q Crash t) \<Longrightarrow> wp (collect_tx [m]) Q s"
  unfolding collect_tx.simps by (erule wp_matchI) simp_all

lemma wp_collect_map:
  assumes "P xs s"
    and "\<And>x xs t. P (x # xs) t \<Longrightarrow> wp (f x) (\<lambda>_ u. P xs u) t"
  shows "wp (collect_tx (map f xs)) (\<lambda>res t. no_err res \<and> (res \<noteq> Crash \<longrightarrow> P [] t) \<and> (\<exists>ys. P ys t)) s"
  using assms(1)
proof (induction xs arbitrary: s)
  case Nil
  then show ?case by auto
next
  case (Cons x xs)
  have "wp (f x) (\<lambda>_ u. P xs u) s" by (rule assms(2)) (rule Cons.prems)
  then show ?case
    unfolding list.map collect_tx.simps
  proof (rule wp_matchI, goal_cases)
    case (1 y t)
    then show ?case by (rule Cons.IH)
  next
    case (2 e t)
    then have "wp (collect_tx (map f xs)) (\<lambda>res t. no_err res \<and> (res \<noteq> Crash \<longrightarrow> P [] t) \<and> (\<exists>ys. P ys t)) t"
      by (rule Cons.IH)
    then show ?case by (rule wp_bindI) auto
  qed auto
qed

section \<open>Invariants\<close>

text \<open>
  \<open>keeps I m\<close>: whatever its outcome, \<open>m\<close> leads from states that satisfy \<open>I\<close> to such states. The
  rules follow the combinators, so that an invariant of a whole operation is proved from what its
  primitive steps keep.
\<close>

definition keeps :: "('s \<Rightarrow> bool) \<Rightarrow> ('s, 'a) tx \<Rightarrow> bool" where
  "keeps I m \<longleftrightarrow> (\<forall>s. I s \<longrightarrow> wp m (\<lambda>_. I) s)"

lemma keepsI: "(\<And>s. I s \<Longrightarrow> wp m (\<lambda>_. I) s) \<Longrightarrow> keeps I m"
  by (simp add: keeps_def)

lemma keepsD: "keeps I m \<Longrightarrow> I s \<Longrightarrow> wp m (\<lambda>_. I) s"
  by (simp add: keeps_def)

lemma keeps_basic [wp_intros]:
  "keeps I (return_tx x)" "keeps I (throw e)" "keeps I crash" "keeps I get_tx" "keeps I (gets_tx g)"
  by (simp_all add: keeps_def)

lemma keeps_bind [wp_intros]:
  "keeps I m \<Longrightarrow> (\<And>x. keeps I (f x)) \<Longrightarrow> keeps I (bind_tx m f)"
  unfolding keeps_def wp_bind by (auto elim!: wp_mono simp: on_ok_def split: outcome.splits)

lemma keeps_seq [wp_intros]: "keeps I m \<Longrightarrow> keeps I n \<Longrightarrow> keeps I (seq_tx m n)"
  unfolding seq_tx_def by (rule keeps_bind)

lemma keeps_match [wp_intros]:
  "keeps I m \<Longrightarrow> (\<And>x. keeps I (f x)) \<Longrightarrow> (\<And>e. keeps I (g e)) \<Longrightarrow> keeps I (match_tx m f g)"
  unfolding keeps_def wp_match by (auto elim!: wp_mono simp: on_both_def split: outcome.splits)

lemma keeps_try [wp_intros]: "keeps I m \<Longrightarrow> keeps I (try_tx m)"
  unfolding try_tx_def by (intro wp_intros)

lemma keeps_lift [wp_intros]: "keeps I (lift_result r)"
  unfolding lift_result_def by (cases r) (simp_all add: keeps_def)

lemma keeps_inner [wp_intros]: "keeps I m \<Longrightarrow> keeps (\<lambda>vs. I (snd vs)) (inner_tx m)"
  by (auto simp: keeps_def wp_inner)

lemma keeps_mut [wp_intros]:
  "keeps (\<lambda>vs. I (snd vs)) get_mut" "keeps (\<lambda>vs. I (snd vs)) (put_mut v)"
  "keeps (\<lambda>vs. I (snd vs)) (modify_mut f)"
  by (auto simp: keeps_def)

lemma keeps_run_mut [wp_intros]:
  assumes "keeps (\<lambda>vs. I (snd vs)) m"
  shows "keeps I (run_mut v m)"
proof (rule keepsI)
  fix s assume "I s"
  then have "wp m (\<lambda>_ vs. I (snd vs)) (v, s)" using keepsD[OF assms] by simp
  then show "wp (run_mut v m) (\<lambda>_. I) s"
    unfolding wp_run_mut by (rule wp_mono) (auto simp: on_mut_def split: outcome.splits)
qed

lemma keeps_inner_fst: "keeps (\<lambda>vs. P (fst vs)) (inner_tx m)"
  by (auto simp: keeps_def wp_inner intro: wpI)

lemma keeps_if [wp_intros]: "(b \<Longrightarrow> keeps I m) \<Longrightarrow> (\<not> b \<Longrightarrow> keeps I n) \<Longrightarrow> keeps I (if b then m else n)"
  by simp

lemma keeps_option [wp_intros]:
  "keeps I m \<Longrightarrow> (\<And>x. v = Some x \<Longrightarrow> keeps I (f x)) \<Longrightarrow>
   keeps I (case v of None \<Rightarrow> m | Some x \<Rightarrow> f x)"
  by (cases v) auto

lemma keeps_sum [wp_intros]:
  "(\<And>x. v = Inl x \<Longrightarrow> keeps I (f x)) \<Longrightarrow> (\<And>x. v = Inr x \<Longrightarrow> keeps I (g x)) \<Longrightarrow>
   keeps I (case v of Inl x \<Rightarrow> f x | Inr x \<Rightarrow> g x)"
  by (cases v) auto

lemma keeps_prod [wp_intros]: "(\<And>x y. v = (x, y) \<Longrightarrow> keeps I (f x y)) \<Longrightarrow> keeps I (case v of (x, y) \<Rightarrow> f x y)"
  by (cases v) auto

lemma keeps_list [wp_intros]:
  "keeps I m \<Longrightarrow> (\<And>x xs. v = x # xs \<Longrightarrow> keeps I (f x xs)) \<Longrightarrow>
   keeps I (case v of [] \<Rightarrow> m | x # xs \<Rightarrow> f x xs)"
  by (cases v) auto

lemma keeps_for: "(\<And>x. x \<in> set xs \<Longrightarrow> keeps I (f x)) \<Longrightarrow> keeps I (for_tx xs f)"
  by (induction xs) (auto intro!: wp_intros)

lemma keeps_fold: "(\<And>x b. x \<in> set xs \<Longrightarrow> keeps I (f x b)) \<Longrightarrow> keeps I (fold_tx f xs b)"
  by (induction xs arbitrary: b) (auto intro!: wp_intros)

lemma keeps_collect: "(\<And>m. m \<in> set ms \<Longrightarrow> keeps I m) \<Longrightarrow> keeps I (collect_tx ms)"
  by (induction ms) (auto intro!: wp_intros)

text \<open>An invariant of the larger state, kept by a computation on a part of it.\<close>

lemma keeps_focus:
  "(\<And>s. I s \<Longrightarrow> wp m (\<lambda>_ t. I (wr t s)) (rd s)) \<Longrightarrow> keeps I (focus_tx rd wr m)"
  by (simp add: keeps_def wp_focus)

end
