(* ===== verification/Backend.thy ===== *)
theory Backend
  imports Snapshots Effects
begin

text \<open>
  The \<open>Backend\<close> trait of \<open>platform/mod.rs\<close>. A backend is a record of operations over the state
  \<open>'w\<close> of the operating system it drives. The methods with a default body that other methods can be
  computed from (\<open>owns_current\<close>, \<open>mutation_guard\<close>, \<open>ownership_identity\<close>, the default \<open>observe\<close>,
  \<open>apply_bound\<close> and \<open>restore_bound\<close>) are functions of the required ones; a backend that overrides
  one of the last three puts its own function into the field.
\<close>

text \<open>\<open>InterfaceInfo\<close> of \<open>interface.rs\<close>.\<close>

record interface_info =
  if_index :: u32
  if_name :: string
  if_friendly_name :: "string option"
  if_guid :: "string option"
  if_is_up :: bool

text \<open>
  A native watch is named by a number: the handle \<open>start_watch\<close> returned. The callback it was given
  is the receiver of the events the backend delivers under that number.
\<close>

type_synonym watch_id = nat

record 'w backend_prims =
  bk_kind :: backend_kind
  bk_caps :: capabilities
  bk_resolve :: "dns_scope \<Rightarrow> normalized_config \<Rightarrow> ('w, resource_id list) tx"
  bk_identify :: "resource_id \<Rightarrow> ('w, resource_identity) tx"
  bk_status :: "resource_identity \<Rightarrow> ('w, resource_status) tx"
  bk_capture :: "resource_id \<Rightarrow> ('w, platform_snapshot) tx"
  bk_readback :: "resource_id \<Rightarrow> ('w, platform_snapshot) tx"
  bk_apply :: "resource_id \<Rightarrow> normalized_config \<Rightarrow> ('w, unit) tx"
  bk_restore :: "resource_id \<Rightarrow> platform_snapshot \<Rightarrow> ('w, unit) tx"
  bk_apply_guarded ::
    "resource_id \<Rightarrow> platform_snapshot \<Rightarrow> normalized_config \<Rightarrow> ('w, mutation_attempt) tx"
  bk_restore_guarded ::
    "resource_id \<Rightarrow> platform_snapshot \<Rightarrow> platform_snapshot \<Rightarrow> ('w, mutation_attempt) tx"
  bk_proves_current :: "platform_snapshot \<Rightarrow> platform_snapshot \<Rightarrow> bool"
  bk_equivalent :: "platform_snapshot \<Rightarrow> platform_snapshot \<Rightarrow> bool"
  bk_matches_desired :: "platform_snapshot \<Rightarrow> normalized_config \<Rightarrow> bool"
  bk_validate_plan :: "dns_scope \<Rightarrow> normalized_config \<Rightarrow> unit result"
  bk_public_state :: "platform_snapshot \<Rightarrow> dns_scope \<Rightarrow> dns_config result"
  bk_interfaces :: "('w, interface_info list) tx"
  bk_start_watch :: "('w, watch_id) tx"
  bk_stop_watch :: "watch_id \<Rightarrow> ('w, unit) tx"
  bk_watch_active :: "watch_id \<Rightarrow> 'w \<Rightarrow> bool"
  bk_flush_cache :: "('w, unit) tx"

record 'w backend = "'w backend_prims" +
  bk_observe :: "resource_id \<Rightarrow> ('w, bound_observation) tx"
  bk_apply_bound ::
    "resource_identity \<Rightarrow> platform_snapshot \<Rightarrow> normalized_config \<Rightarrow> ('w, mutation_attempt) tx"
  bk_restore_bound ::
    "resource_identity \<Rightarrow> platform_snapshot \<Rightarrow> platform_snapshot \<Rightarrow> ('w, mutation_attempt) tx"

definition mutation_guard_of :: "('w, 'x) backend_prims_scheme \<Rightarrow> mutation_guard" where
  "mutation_guard_of B = cap_guard (bk_caps B)"

definition ownership_identity_of :: "('w, 'x) backend_prims_scheme \<Rightarrow> ownership_identity" where
  "ownership_identity_of B = cap_identity (bk_caps B)"

definition owns_current ::
  "('w, 'x) backend_prims_scheme \<Rightarrow> platform_snapshot \<Rightarrow> platform_snapshot \<Rightarrow> bool" where
  "owns_current B claimed current = (case ownership_identity_of B of
       Durable \<Rightarrow> bk_proves_current B claimed current
     | BestEffort \<Rightarrow> bk_equivalent B claimed current)"

section \<open>Default methods\<close>

definition identify_default :: "backend_kind \<Rightarrow> resource_id \<Rightarrow> ('w, resource_identity) tx" where
  "identify_default k r = return_tx (identity_new k r Untracked)"

definition status_default :: "backend_kind \<Rightarrow> resource_identity \<Rightarrow> ('w, resource_status) tx" where
  "status_default k i =
     (if id_backend i \<noteq> k \<or> rid_str (id_resource i) = []
      then throw (JournalCorrupt ''resource identity backend/resource mismatch'')
      else return_tx Same)"

definition apply_default :: "backend_kind \<Rightarrow> resource_id \<Rightarrow> normalized_config \<Rightarrow> ('w, unit) tx" where
  "apply_default k r plan = throw (Unsupported k ''mutation requires a bound resource identity'')"

definition restore_default :: "backend_kind \<Rightarrow> resource_id \<Rightarrow> platform_snapshot \<Rightarrow> ('w, unit) tx" where
  "restore_default k r target = throw (Unsupported k ''restoration requires a bound resource identity'')"

definition guarded_default :: "backend_kind \<Rightarrow> ('w, mutation_attempt) tx" where
  "guarded_default k =
     return_tx (Rejected (Unsupported k ''this backend has no compare-and-mutate primitive''))"

definition proves_current_default :: "platform_snapshot \<Rightarrow> platform_snapshot \<Rightarrow> bool" where
  "proves_current_default pf current = False"

definition validate_plan_default :: "dns_scope \<Rightarrow> normalized_config \<Rightarrow> unit result" where
  "validate_plan_default scope plan = Inr ()"

definition start_watch_default :: "backend_kind \<Rightarrow> ('w, watch_id) tx" where
  "start_watch_default k = throw (Unsupported k ''this backend does not support change notifications'')"

definition flush_cache_default :: "backend_kind \<Rightarrow> ('w, unit) tx" where
  "flush_cache_default k = throw (Unsupported k ''this backend does not support cache flushing'')"

definition observe_default ::
  "('w, 'x) backend_prims_scheme \<Rightarrow> resource_id \<Rightarrow> ('w, bound_observation) tx" where
  "observe_default B r =
     bind_tx (bk_identify B r) (\<lambda>identity.
     bind_tx (bk_capture B r) (\<lambda>snapshot.
     bind_tx (bk_status B identity) (\<lambda>status.
       if status \<noteq> Same
       then throw (ResourceIdentity (bk_kind B) r
              ''resource incarnation changed while it was being observed'')
       else return_tx \<lparr> bo_identity = identity, bo_snapshot = snapshot \<rparr>)))"

text \<open>
  \<open>apply_bound\<close> and \<open>restore_bound\<close>: the incarnation is checked first; a compare-and-mutate backend
  then gets the guarded call, any other one is read, compared and checked again before it is
  written.
\<close>

definition apply_bound_default ::
  "('w, 'x) backend_prims_scheme \<Rightarrow> resource_identity \<Rightarrow> platform_snapshot \<Rightarrow> normalized_config \<Rightarrow>
   ('w, mutation_attempt) tx" where
  "apply_bound_default B identity expected plan =
     match_tx (bk_status B identity)
       (\<lambda>status. if status = Same then
          (case mutation_guard_of B of
             CompareAndMutate \<Rightarrow> bk_apply_guarded B (id_resource identity) expected plan
           | Unconditional \<Rightarrow>
               match_tx (bk_readback B (id_resource identity))
                 (\<lambda>current. if bk_equivalent B expected current then
                    match_tx (bk_status B identity)
                      (\<lambda>status. if status = Same then
                         bind_tx (try_tx (bk_apply B (id_resource identity) plan))
                           (\<lambda>r. return_tx (from_apply_result r))
                       else return_tx (Rejected (ResourceIdentity (bk_kind B) (id_resource identity)
                              ''resource incarnation changed before mutation'')))
                      (\<lambda>e. return_tx (Rejected e))
                  else return_tx (Rejected (ExternalModification (id_resource identity)
                         ''the current state changed since it was captured'')))
                 (\<lambda>e. return_tx (Rejected e)))
        else return_tx (Rejected (ResourceIdentity (bk_kind B) (id_resource identity)
               ''refusing mutation'')))
       (\<lambda>e. return_tx (Rejected e))"

definition restore_bound_default ::
  "('w, 'x) backend_prims_scheme \<Rightarrow> resource_identity \<Rightarrow> platform_snapshot \<Rightarrow> platform_snapshot \<Rightarrow>
   ('w, mutation_attempt) tx" where
  "restore_bound_default B identity expected target =
     match_tx (bk_status B identity)
       (\<lambda>status. if status = Same then
          (case mutation_guard_of B of
             CompareAndMutate \<Rightarrow> bk_restore_guarded B (id_resource identity) expected target
           | Unconditional \<Rightarrow>
               match_tx (bk_readback B (id_resource identity))
                 (\<lambda>current. if owns_current B expected current then
                    match_tx (bk_status B identity)
                      (\<lambda>status. if status = Same then
                         match_tx (bk_restore B (id_resource identity) target)
                           (\<lambda>_. return_tx (Performed None))
                           (\<lambda>e. return_tx (Indeterminate e None))
                       else return_tx (Rejected (ResourceIdentity (bk_kind B) (id_resource identity)
                              ''resource incarnation changed before restore'')))
                      (\<lambda>e. return_tx (Rejected e))
                  else return_tx (Rejected (ExternalModification (id_resource identity)
                         ''the current state changed since ownership was verified'')))
                 (\<lambda>e. return_tx (Rejected e)))
        else return_tx (Rejected (ResourceIdentity (bk_kind B) (id_resource identity)
               ''refusing restore'')))
       (\<lambda>e. return_tx (Rejected e))"

text \<open>A backend that overrides none of the bound operations.\<close>

definition with_default_bounds :: "'w backend_prims \<Rightarrow> 'w backend" where
  "with_default_bounds P =
     \<lparr> bk_kind = bk_kind P,
       bk_caps = bk_caps P,
       bk_resolve = bk_resolve P,
       bk_identify = bk_identify P,
       bk_status = bk_status P,
       bk_capture = bk_capture P,
       bk_readback = bk_readback P,
       bk_apply = bk_apply P,
       bk_restore = bk_restore P,
       bk_apply_guarded = bk_apply_guarded P,
       bk_restore_guarded = bk_restore_guarded P,
       bk_proves_current = bk_proves_current P,
       bk_equivalent = bk_equivalent P,
       bk_matches_desired = bk_matches_desired P,
       bk_validate_plan = bk_validate_plan P,
       bk_public_state = bk_public_state P,
       bk_interfaces = bk_interfaces P,
       bk_start_watch = bk_start_watch P,
       bk_stop_watch = bk_stop_watch P,
       bk_watch_active = bk_watch_active P,
       bk_flush_cache = bk_flush_cache P,
       bk_observe = observe_default P, bk_apply_bound = apply_bound_default P,
       bk_restore_bound = restore_bound_default P \<rparr>"

lemma with_default_bounds_sel [simp]:
  "bk_kind (with_default_bounds P) = bk_kind P"
  "bk_caps (with_default_bounds P) = bk_caps P"
  "bk_resolve (with_default_bounds P) = bk_resolve P"
  "bk_identify (with_default_bounds P) = bk_identify P"
  "bk_status (with_default_bounds P) = bk_status P"
  "bk_capture (with_default_bounds P) = bk_capture P"
  "bk_readback (with_default_bounds P) = bk_readback P"
  "bk_equivalent (with_default_bounds P) = bk_equivalent P"
  "bk_proves_current (with_default_bounds P) = bk_proves_current P"
  "bk_matches_desired (with_default_bounds P) = bk_matches_desired P"
  "bk_validate_plan (with_default_bounds P) = bk_validate_plan P"
  "bk_public_state (with_default_bounds P) = bk_public_state P"
  "bk_interfaces (with_default_bounds P) = bk_interfaces P"
  "bk_start_watch (with_default_bounds P) = bk_start_watch P"
  "bk_stop_watch (with_default_bounds P) = bk_stop_watch P"
  "bk_watch_active (with_default_bounds P) = bk_watch_active P"
  "bk_flush_cache (with_default_bounds P) = bk_flush_cache P"
  "bk_caps (with_default_bounds P\<lparr>bk_observe := ob\<rparr>) = bk_caps P"
  "bk_observe (with_default_bounds P) = observe_default P"
  "bk_apply_bound (with_default_bounds P) = apply_bound_default P"
  "bk_restore_bound (with_default_bounds P) = restore_bound_default P"
  "owns_current (with_default_bounds P) = owns_current P"
  "ownership_identity_of (with_default_bounds P) = ownership_identity_of P"
  by (simp_all add: with_default_bounds_def owns_current_def ownership_identity_of_def fun_eq_iff
      split: ownership_identity.splits)

end
