(* ===== verification/Journal.thy ===== *)
theory Journal
  imports Backend
begin

text \<open>
  \<open>journal.rs\<close> and \<open>fsutil.rs\<close>: the durable journal. A record is encoded into the schema-4
  document, the document into bytes, the bytes into one file per lease and resource.

  Third-party code enters as parameters. \<open>libs\<close> holds the functions of the \<open>idna\<close>, \<open>uuid\<close> and
  \<open>serde_json\<close> packages the code calls; \<open>pfs\<close> holds the operations of the \<open>private_fs\<close> package
  on directories it has opened, over an abstract file-system state \<open>'d\<close>. A handle is a number.
\<close>

section \<open>Records\<close>

datatype phase = Prepared | Applied

record journal_record =
  jr_owner :: string
  jr_lease :: lease_id
  jr_resource :: resource_id
  jr_backend :: backend_kind
  jr_identity :: resource_identity
  jr_phase :: phase
  jr_before :: platform_snapshot
  jr_desired :: normalized_config
  jr_applied :: "platform_snapshot option"

definition SCHEMA_VERSION :: u32 where "SCHEMA_VERSION = 4"
definition MAX_RECORD_BYTES :: nat where "MAX_RECORD_BYTES = 16 * 1024 * 1024"

text \<open>\<open>serde_json::Value\<close>, numbers restricted to the integers the code writes.\<close>

datatype json =
    JNull | JBool bool | JNumber int | JString string | JArray "json list"
  | JObject "(string \<times> json) list"

definition json_is_null :: "json \<Rightarrow> bool" where
  "json_is_null v = (case v of JNull \<Rightarrow> True | _ \<Rightarrow> False)"

record snapshot_v4 =
  sv_backend :: backend_kind
  sv_resource :: resource_id
  sv_data :: json

record record_v4 =
  rv_schema_version :: u32
  rv_owner :: string
  rv_lease :: lease_id
  rv_resource :: resource_id
  rv_backend :: backend_kind
  rv_identity :: snapshot_v4
  rv_phase :: phase
  rv_before :: snapshot_v4
  rv_desired :: normalized_config
  rv_applied :: "snapshot_v4 option"

record libs =
  lib_idna :: idna
  lib_uuid_simple :: "uuid \<Rightarrow> string"
  lib_uuid_v5_url :: "string \<Rightarrow> uuid"
  to_fake :: "fake_snapshot \<Rightarrow> json option"
  to_resolved :: "resolved_snapshot \<Rightarrow> json option"
  to_nm :: "nm_snapshot \<Rightarrow> json option"
  to_resolvconf :: "resolvconf_snapshot \<Rightarrow> json option"
  to_direct :: "direct_snapshot \<Rightarrow> json option"
  to_fake_id :: "fake_identity \<Rightarrow> json option"
  to_resolved_id :: "resolved_identity \<Rightarrow> json option"
  to_nm_id :: "nm_identity \<Rightarrow> json option"
  from_fake :: "json \<Rightarrow> fake_snapshot option"
  from_resolved :: "json \<Rightarrow> resolved_snapshot option"
  from_nm :: "json \<Rightarrow> nm_snapshot option"
  from_resolvconf :: "json \<Rightarrow> resolvconf_snapshot option"
  from_direct :: "json \<Rightarrow> direct_snapshot option"
  from_fake_id :: "json \<Rightarrow> fake_identity option"
  from_resolved_id :: "json \<Rightarrow> resolved_identity option"
  from_nm_id :: "json \<Rightarrow> nm_identity option"
  record_to_vec :: "record_v4 \<Rightarrow> bytes option"
  envelope_from_slice :: "bytes \<Rightarrow> u32 option"
  record_from_slice :: "bytes \<Rightarrow> record_v4 option"

text \<open>\<open>ResourceId::stable_hash\<close> and \<open>record_file_name\<close>.\<close>

definition stable_hash :: "libs \<Rightarrow> resource_id \<Rightarrow> string" where
  "stable_hash L r = lib_uuid_simple L (lib_uuid_v5_url L (rid_str r))"

definition record_file_name :: "libs \<Rightarrow> lease_id \<Rightarrow> resource_id \<Rightarrow> string" where
  "record_file_name L lease r =
     lib_uuid_simple L lease @ ''-'' @ slug r @ ''-'' @ stable_hash L r @ ''.json''"

section \<open>Encoding and decoding\<close>

definition encode_snapshot :: "libs \<Rightarrow> snapshot_data \<Rightarrow> json option" where
  "encode_snapshot L d = (case d of
       SnapFake v \<Rightarrow> to_fake L v
     | SnapResolved v \<Rightarrow> to_resolved L v
     | SnapNetworkManager v \<Rightarrow> to_nm L v
     | SnapResolvconf v \<Rightarrow> to_resolvconf L v
     | SnapResolvConfFile v \<Rightarrow> to_direct L v)"

definition decode_snapshot :: "libs \<Rightarrow> backend_kind \<Rightarrow> json \<Rightarrow> snapshot_data option" where
  "decode_snapshot L k v = (case k of
       Fake \<Rightarrow> map_option SnapFake (from_fake L v)
     | SystemdResolved \<Rightarrow> map_option SnapResolved (from_resolved L v)
     | NetworkManager \<Rightarrow> map_option SnapNetworkManager (from_nm L v)
     | Resolvconf \<Rightarrow> map_option SnapResolvconf (from_resolvconf L v)
     | ResolvConfFile \<Rightarrow> map_option SnapResolvConfFile (from_direct L v)
     | WindowsIpHelper \<Rightarrow> None
     | MacosSystemConfiguration \<Rightarrow> None)"

definition encode_identity :: "libs \<Rightarrow> identity_data \<Rightarrow> json option" where
  "encode_identity L d = (case d of
       Untracked \<Rightarrow> Some JNull
     | IdFake v \<Rightarrow> to_fake_id L v
     | IdResolved v \<Rightarrow> to_resolved_id L v
     | IdNetworkManager v \<Rightarrow> to_nm_id L v)"

definition decode_identity :: "libs \<Rightarrow> backend_kind \<Rightarrow> json \<Rightarrow> identity_data option" where
  "decode_identity L k v = (case k of
       Fake \<Rightarrow> map_option IdFake (from_fake_id L v)
     | SystemdResolved \<Rightarrow> map_option IdResolved (from_resolved_id L v)
     | NetworkManager \<Rightarrow> map_option IdNetworkManager (from_nm_id L v)
     | Resolvconf \<Rightarrow> if json_is_null v then Some Untracked else None
     | ResolvConfFile \<Rightarrow> if json_is_null v then Some Untracked else None
     | WindowsIpHelper \<Rightarrow> if json_is_null v then Some Untracked else None
     | MacosSystemConfiguration \<Rightarrow> if json_is_null v then Some Untracked else None)"

definition encode_platform_snapshot :: "libs \<Rightarrow> platform_snapshot \<Rightarrow> snapshot_v4 option" where
  "encode_platform_snapshot L s = map_option (\<lambda>v.
     \<lparr> sv_backend = ps_backend s, sv_resource = ps_resource s, sv_data = v \<rparr>)
     (encode_snapshot L (ps_data s))"

definition decode_platform_snapshot :: "libs \<Rightarrow> snapshot_v4 \<Rightarrow> platform_snapshot option" where
  "decode_platform_snapshot L s = map_option (\<lambda>d.
     \<lparr> ps_backend = sv_backend s, ps_resource = sv_resource s, ps_data = d \<rparr>)
     (decode_snapshot L (sv_backend s) (sv_data s))"

definition encode_record :: "libs \<Rightarrow> journal_record \<Rightarrow> record_v4 option" where
  "encode_record L r =
     Option.bind (encode_identity L (id_data (jr_identity r))) (\<lambda>i.
     Option.bind (encode_platform_snapshot L (jr_before r)) (\<lambda>b.
     Option.bind (case jr_applied r of None \<Rightarrow> Some None
                  | Some a \<Rightarrow> map_option Some (encode_platform_snapshot L a)) (\<lambda>a.
     Some \<lparr> rv_schema_version = SCHEMA_VERSION, rv_owner = jr_owner r, rv_lease = jr_lease r,
            rv_resource = jr_resource r, rv_backend = jr_backend r,
            rv_identity = \<lparr> sv_backend = id_backend (jr_identity r),
                            sv_resource = id_resource (jr_identity r), sv_data = i \<rparr>,
            rv_phase = jr_phase r, rv_before = b, rv_desired = jr_desired r, rv_applied = a \<rparr>)))"

definition decode_v4 :: "libs \<Rightarrow> record_v4 \<Rightarrow> journal_record option" where
  "decode_v4 L v =
     Option.bind (decode_identity L (sv_backend (rv_identity v)) (sv_data (rv_identity v))) (\<lambda>i.
     Option.bind (decode_platform_snapshot L (rv_before v)) (\<lambda>b.
     Option.bind (case rv_applied v of None \<Rightarrow> Some None
                  | Some a \<Rightarrow> map_option Some (decode_platform_snapshot L a)) (\<lambda>a.
     Some \<lparr> jr_owner = rv_owner v, jr_lease = rv_lease v, jr_resource = rv_resource v,
            jr_backend = rv_backend v,
            jr_identity = identity_new (sv_backend (rv_identity v)) (sv_resource (rv_identity v)) i,
            jr_phase = rv_phase v, jr_before = b, jr_desired = rv_desired v, jr_applied = a \<rparr>)))"

section \<open>Validation\<close>

text \<open>\<open>validate_owner\<close> of \<open>manager.rs\<close>.\<close>

definition owner_char :: "char \<Rightarrow> bool" where
  "owner_char c \<longleftrightarrow> is_alnum c \<or> c = CHR ''.'' \<or> c = CHR ''-'' \<or> c = CHR ''_''"

definition validate_owner :: "string \<Rightarrow> unit result" where
  "validate_owner owner =
     (if owner = [] \<or> length owner > 255
        then Inl (InvalidConfig ''owner identifier must be 1-255 characters'')
      else if list_ex (\<lambda>c. \<not> owner_char c) owner
        then Inl (InvalidConfig ''owner identifier contains invalid character'')
      else Inr ())"

text \<open>\<open>DirectSnapshot::validate\<close> and \<open>ResolvedSnapshot::validate\<close>.\<close>

definition direct_validate :: "direct_snapshot \<Rightarrow> unit result" where
  "direct_validate d =
     (let valid = (case (ds_content d, ds_metadata d) of
          (None, None) \<Rightarrow> True
        | (Some _, Some m) \<Rightarrow> (case fm_modified m of None \<Rightarrow> True
             | Some t \<Rightarrow> unat (ft_nanoseconds t) < 1000000000)
        | _ \<Rightarrow> False)
      in if valid then Inr ()
         else Inl (JournalCorrupt ''resolver file snapshot has inconsistent content or metadata''))"

definition resolved_validate :: "idna \<Rightarrow> resolved_snapshot \<Rightarrow> unit result" where
  "resolved_validate to_ascii d =
     (if list_ex (\<lambda>(family, address).
            \<not> ((family = 2 \<and> length address = 4) \<or> (family = 10 \<and> length address = 16))) (rs_dns d)
         \<or> list_ex (\<lambda>(domain, _). \<not> is_ok (suffix_parse to_ascii domain)) (rs_domains d)
      then Inl (JournalCorrupt ''resolved snapshot contains invalid DNS addresses or domains'')
      else Inr ())"

definition validate_snapshot :: "libs \<Rightarrow> platform_snapshot \<Rightarrow> unit result" where
  "validate_snapshot L s = (case ps_data s of
       SnapResolvConfFile d \<Rightarrow>
         bind_r (direct_validate d) (\<lambda>_.
           if strip_suffix '':resolv-conf'' (rid_str (ps_resource s)) \<noteq> Some ''linux''
              \<or> (case ds_metadata d of None \<Rightarrow> False
                 | Some m \<Rightarrow> fm_owner m = None \<or> fm_links m \<noteq> Some 1)
           then Inl (JournalCorrupt ''resolver file snapshot has an invalid native resource or ownership metadata'')
           else Inr ())
     | SnapResolved d \<Rightarrow> resolved_validate (lib_idna L) d
     | _ \<Rightarrow> Inr ())"

definition validate_record :: "libs \<Rightarrow> journal_record \<Rightarrow> unit result" where
  "validate_record L r =
     (if list_ex is_unspecified (nc_nameservers (jr_desired r))
      then Inl (JournalCorrupt ''desired configuration contains an unspecified nameserver'')
      else case validate_owner (jr_owner r) of
        Inl e \<Rightarrow> Inl (JournalCorrupt ''invalid owner identifier'')
      | Inr _ \<Rightarrow>
        if jr_phase r = Applied \<and> jr_applied r = None
        then Inl (JournalCorrupt ''Applied record has no applied snapshot'')
        else if jr_backend r \<noteq> ps_backend (jr_before r)
          \<or> jr_backend r \<noteq> id_backend (jr_identity r)
          \<or> jr_resource r \<noteq> ps_resource (jr_before r)
          \<or> jr_resource r \<noteq> id_resource (jr_identity r)
          \<or> (case jr_applied r of None \<Rightarrow> False
             | Some s \<Rightarrow> ps_backend s \<noteq> jr_backend r \<or> ps_resource s \<noteq> jr_resource r)
        then Inl (JournalCorrupt ''record, identity, and snapshots name different resources or backends'')
        else fold_r (\<lambda>s _. validate_snapshot L s)
               (jr_before r # (case jr_applied r of None \<Rightarrow> [] | Some s \<Rightarrow> [s])) ())"

definition decode_record :: "libs \<Rightarrow> path \<Rightarrow> bytes \<Rightarrow> journal_record result" where
  "decode_record L p bs =
     (if length bs > MAX_RECORD_BYTES
      then Inl (JournalCorrupt ''journal record exceeds the 16 MiB storage budget'')
      else case envelope_from_slice L bs of
        None \<Rightarrow> Inl (JournalCorrupt ''unreadable envelope'')
      | Some version \<Rightarrow>
        if version \<noteq> SCHEMA_VERSION
        then Inl (UnsupportedJournalVersion p version SCHEMA_VERSION)
        else case record_from_slice L bs of
          None \<Rightarrow> Inl (JournalCorrupt ''unreadable record'')
        | Some durable \<Rightarrow>
          (case decode_v4 L durable of
             None \<Rightarrow> Inl (JournalCorrupt ''unreadable payload'')
           | Some r \<Rightarrow> (case validate_record L r of
               Inl e \<Rightarrow> Inl (JournalCorrupt ''invalid record'')
             | Inr _ \<Rightarrow> Inr r)))"

section \<open>Private directories\<close>

type_synonym handle = nat

text \<open>Opening a file yields what reading it to the end would give.\<close>

type_synonym reader = "io_error + bytes"

type_synonym ('d, 'a) pfs_op = "'d \<Rightarrow> (pfs_error + 'a) \<times> 'd"

record 'd pfs =
  pf_ensure :: "path \<Rightarrow> ('d, handle) pfs_op"
  pf_ensure_dir :: "handle \<Rightarrow> string \<Rightarrow> ('d, handle) pfs_op"
  pf_write_atomic :: "handle \<Rightarrow> string \<Rightarrow> bytes \<Rightarrow> ('d, unit) pfs_op"
  pf_remove_file :: "handle \<Rightarrow> string \<Rightarrow> ('d, unit) pfs_op"
  pf_sync_all :: "handle \<Rightarrow> ('d, unit) pfs_op"
  pf_entries :: "handle \<Rightarrow> ('d, string list) pfs_op"
  pf_open_file :: "handle \<Rightarrow> string \<Rightarrow> ('d, reader) pfs_op"

text \<open>A call whose native error the caller turns into an \<open>Error\<close>.\<close>

definition pfs_call :: "('d, 'a) pfs_op \<Rightarrow> (pfs_error \<Rightarrow> error) \<Rightarrow> ('d, 'a) tx" where
  "pfs_call m conv d = (case m d of (Inl e, d') \<Rightarrow> (Err (conv e), d') | (Inr x, d') \<Rightarrow> (Ok x, d'))"

text \<open>\<open>ensure_private_dir\<close>: missing parents are created first, each with its own checks.\<close>

function ensure_private_dir :: "'d pfs \<Rightarrow> path \<Rightarrow> ('d, handle) tx" where
  "ensure_private_dir F p d =
     (case pf_ensure F p d of
        (Inr h, d') \<Rightarrow> (Ok h, d')
      | (Inl (PfsIo NotFound m), d') \<Rightarrow>
          (case path_parent p of
             None \<Rightarrow> (Err (InvalidConfig ''state directory has no parent''), d')
           | Some q \<Rightarrow>
               if path_is_empty q then (Err (InvalidConfig ''state directory has no parent''), d')
               else (case ensure_private_dir F q d' of
                   (Ok parent, d2) \<Rightarrow>
                     (case path_file_name p of
                        None \<Rightarrow> (Err (InvalidConfig ''invalid state directory''), d2)
                      | Some name \<Rightarrow> pfs_call (pf_ensure_dir F parent name) private_error d2)
                 | (Err e, d2) \<Rightarrow> (Err e, d2)
                 | (Crash, d2) \<Rightarrow> (Crash, d2)))
      | (Inl e, d') \<Rightarrow> (Err (private_error e), d'))"
  by pat_completeness auto

termination
  by (relation "measure (\<lambda>(F, p, d). path_depth p)") (auto dest: path_parent_depth)

section \<open>The store\<close>

record 'd journal_store =
  js_dir :: path
  js_handle :: "handle option"
  js_fs :: 'd
  js_fail_writes :: bool
  js_fail_writes_skip :: u32
  js_fail_removes :: bool
  js_fail_after_io :: bool

definition journal_new :: "path \<Rightarrow> 'd \<Rightarrow> 'd journal_store" where
  "journal_new p d = \<lparr> js_dir = p, js_handle = None, js_fs = d, js_fail_writes = False,
     js_fail_writes_skip = 0, js_fail_removes = False, js_fail_after_io = False \<rparr>"

definition set_fail_writes :: "bool \<Rightarrow> 'd journal_store \<Rightarrow> 'd journal_store" where
  "set_fail_writes fail s = (let s' = s\<lparr>js_fail_writes := fail\<rparr>
     in if fail then s' else s'\<lparr>js_fail_writes_skip := 0\<rparr>)"

definition set_fail_writes_after :: "u32 \<Rightarrow> 'd journal_store \<Rightarrow> 'd journal_store" where
  "set_fail_writes_after skip s = s\<lparr>js_fail_writes_skip := skip, js_fail_writes := True\<rparr>"

definition set_fail_removes :: "bool \<Rightarrow> 'd journal_store \<Rightarrow> 'd journal_store" where
  "set_fail_removes fail s = s\<lparr>js_fail_removes := fail\<rparr>"

definition set_fail_after_io :: "bool \<Rightarrow> 'd journal_store \<Rightarrow> 'd journal_store" where
  "set_fail_after_io fail s = s\<lparr>js_fail_after_io := fail\<rparr>"

definition on_fs :: "('d, 'a) tx \<Rightarrow> ('d journal_store, 'a) tx" where
  "on_fs = focus_tx js_fs (\<lambda>d s. s\<lparr>js_fs := d\<rparr>)"

text \<open>The directory is opened at the first use and kept.\<close>

definition directory :: "'d pfs \<Rightarrow> ('d journal_store, handle) tx" where
  "directory F = bind_tx get_tx (\<lambda>s. case js_handle s of
       Some handle \<Rightarrow> return_tx handle
     | None \<Rightarrow>
         bind_tx (on_fs (ensure_private_dir F (js_dir s))) (\<lambda>handle.
         seq_tx (modify_tx (\<lambda>s. s\<lparr>js_handle := Some handle\<rparr>)) (return_tx handle)))"

definition publication_error :: "pfs_error \<Rightarrow> error" where
  "publication_error e = (case e of PfsAtomicCommit may src \<Rightarrow> JournalPublication may src
                          | _ \<Rightarrow> private_error e)"

text \<open>The bytes \<open>write\<close> hands to the directory, or why there are none.\<close>

definition journal_bytes :: "libs \<Rightarrow> journal_record \<Rightarrow> bytes result" where
  "journal_bytes L r = (case encode_record L r of
       None \<Rightarrow> Inl (PlatformError (jr_backend r) ''journal record conversion failed'')
     | Some v \<Rightarrow> (case record_to_vec L v of
           None \<Rightarrow> Inl (PlatformError (jr_backend r) ''journal record serialization failed'')
         | Some bs \<Rightarrow> if length bs > MAX_RECORD_BYTES
             then Inl (JournalCorrupt ''journal record exceeds the 16 MiB storage budget'')
             else Inr bs))"

definition injected_write_failure :: "journal_record \<Rightarrow> ('d journal_store, unit) tx" where
  "injected_write_failure r = bind_tx get_tx (\<lambda>s.
     if js_fail_writes s then
       if js_fail_writes_skip s > 0
       then modify_tx (\<lambda>s. s\<lparr>js_fail_writes_skip := js_fail_writes_skip s - 1\<rparr>)
       else throw (PlatformError (jr_backend r) ''injected journal write failure'')
     else return_tx ())"

definition journal_write :: "libs \<Rightarrow> 'd pfs \<Rightarrow> journal_record \<Rightarrow> ('d journal_store, unit) tx" where
  "journal_write L F r =
     seq_tx (injected_write_failure r) (
     bind_tx (lift_result (journal_bytes L r)) (\<lambda>bs.
     bind_tx (directory F) (\<lambda>h.
     seq_tx (on_fs (pfs_call (pf_write_atomic F h (record_file_name L (jr_lease r) (jr_resource r)) bs)
               publication_error)) (
     bind_tx (gets_tx js_fail_after_io) (\<lambda>fail.
       if fail then throw (JournalPublication True (PfsIo OtherKind ''injected post-publication failure''))
       else return_tx ())))))"

definition remove_file :: "'d pfs \<Rightarrow> handle \<Rightarrow> string \<Rightarrow> ('d, unit) tx" where
  "remove_file F h name d = (case pf_remove_file F h name d of
       (Inr u, d') \<Rightarrow> (Ok (), d')
     | (Inl (PfsIo NotFound m), d') \<Rightarrow> pfs_call (pf_sync_all F h) (JournalRemoval True) d'
     | (Inl (PfsRemoval may src), d') \<Rightarrow> (Err (JournalRemoval may src), d')
     | (Inl e, d') \<Rightarrow> (Err (private_error e), d'))"

definition journal_remove ::
  "libs \<Rightarrow> 'd pfs \<Rightarrow> lease_id \<Rightarrow> resource_id \<Rightarrow> ('d journal_store, unit) tx" where
  "journal_remove L F lease r =
     bind_tx (gets_tx js_fail_removes) (\<lambda>fail.
     if fail then throw (PlatformError Fake ''injected journal removal failure'')
     else
       bind_tx (directory F) (\<lambda>h.
       seq_tx (on_fs (remove_file F h (record_file_name L lease r))) (
       bind_tx (gets_tx js_fail_after_io) (\<lambda>fail.
         if fail then throw (JournalRemoval True (PfsIo OtherKind ''injected post-cleanup failure''))
         else return_tx ()))))"

text \<open>One step of \<open>records\<close>: the file \<open>name\<close>, read after the records in \<open>out\<close>.\<close>

definition read_record ::
  "libs \<Rightarrow> 'd pfs \<Rightarrow> path \<Rightarrow> handle \<Rightarrow> string \<Rightarrow> journal_record list \<Rightarrow> ('d journal_store, journal_record list) tx"
  where
  "read_record L F dir h name out =
     (if extension name \<noteq> Some ''json'' then return_tx out
      else bind_tx (on_fs (pfs_call (pf_open_file F h name) private_error)) (\<lambda>reader.
        case reader of
          Inl (k, m) \<Rightarrow> throw (Io k m)
        | Inr content \<Rightarrow>
            (let bs = take (MAX_RECORD_BYTES + 1) content
             in if length bs > MAX_RECORD_BYTES
                then throw (JournalCorrupt ''journal record exceeds the 16 MiB storage budget'')
                else bind_tx (lift_result (decode_record L (path_join dir name) bs)) (\<lambda>r.
                  if name \<noteq> record_file_name L (jr_lease r) (jr_resource r)
                  then throw (JournalCorrupt ''filename does not match the lease and resource'')
                  else if list_ex (\<lambda>other. jr_resource other = jr_resource r) out
                  then throw (JournalCorrupt ''multiple records claim one resource'')
                  else return_tx (out @ [r])))))"

definition records :: "libs \<Rightarrow> 'd pfs \<Rightarrow> ('d journal_store, journal_record list) tx" where
  "records L F =
     bind_tx (directory F) (\<lambda>h.
     bind_tx (on_fs (pfs_call (pf_entries F h) private_error)) (\<lambda>names.
     bind_tx (gets_tx js_dir) (\<lambda>dir.
       fold_tx (read_record L F dir h) names [])))"

definition records_for :: "libs \<Rightarrow> 'd pfs \<Rightarrow> resource_id \<Rightarrow> ('d journal_store, journal_record list) tx" where
  "records_for L F r = bind_tx (records L F) (\<lambda>rs. return_tx (filter (\<lambda>x. jr_resource x = r) rs))"

section \<open>What the package promises, and what the store then promises\<close>

text \<open>
  The documented behaviour of a \<open>private_fs\<close> directory: a write or removal that returns \<open>Ok\<close> has
  happened, one that fails has happened completely or not at all, no operation touches another
  file, and only writes and removals change files. \<open>files h d\<close> is what the directory open as \<open>h\<close>
  holds.
\<close>

definition pfs_ok :: "'d pfs \<Rightarrow> (handle \<Rightarrow> 'd \<Rightarrow> string \<Rightarrow> bytes option) \<Rightarrow> bool" where
  "pfs_ok F files \<longleftrightarrow>
     (\<forall>h n bs d. case pf_write_atomic F h n bs d of
          (Inr _, d') \<Rightarrow> files h d' = (files h d)(n \<mapsto> bs)
        | (Inl _, d') \<Rightarrow> files h d' = files h d \<or> files h d' = (files h d)(n \<mapsto> bs)) \<and>
     (\<forall>h n d. case pf_remove_file F h n d of
          (Inr _, d') \<Rightarrow> files h d' = (files h d)(n := None)
        | (Inl (PfsIo NotFound _), d') \<Rightarrow> files h d' = (files h d)(n := None)
        | (Inl _, d') \<Rightarrow> files h d' = files h d \<or> files h d' = (files h d)(n := None)) \<and>
     (\<forall>h d. files h (snd (pf_sync_all F h d)) = files h d) \<and>
     (\<forall>h d. case pf_entries F h d of
          (Inr ns, d') \<Rightarrow> distinct ns \<and> set ns = dom (files h d) \<and> files h d' = files h d
        | (Inl _, d') \<Rightarrow> files h d' = files h d) \<and>
     (\<forall>h n d. case pf_open_file F h n d of
          (Inr (Inr bs), d') \<Rightarrow> files h d n = Some bs \<and> files h d' = files h d
        | (_, d') \<Rightarrow> files h d' = files h d)"

text \<open>The files of the store's directory, once it is open.\<close>

definition store_files ::
  "(handle \<Rightarrow> 'd \<Rightarrow> string \<Rightarrow> bytes option) \<Rightarrow> 'd journal_store \<Rightarrow> string \<Rightarrow> bytes option" where
  "store_files files s = (case js_handle s of None \<Rightarrow> Map.empty | Some h \<Rightarrow> files h (js_fs s))"

definition is_open :: "'d journal_store \<Rightarrow> bool" where
  "is_open s \<longleftrightarrow> js_handle s \<noteq> None"

lemma directory_open: "js_handle s = Some h \<Longrightarrow> directory F s = (Ok h, s)"
  by (simp add: directory_def bind_tx_def tx_run)

lemma wp_on_fs: "wp (on_fs m) Q s = wp m (\<lambda>r d. Q r (s\<lparr>js_fs := d\<rparr>)) (js_fs s)"
  by (simp add: on_fs_def wp_focus)

lemma wp_pfs_call: "wp (pfs_call m conv) Q d =
  (case m d of (Inl e, d') \<Rightarrow> Q (Err (conv e)) d' | (Inr x, d') \<Rightarrow> Q (Ok x) d')"
  by (simp add: wp_def pfs_call_def split: prod.splits sum.splits)

lemma wp_directory: "js_handle s = Some h \<Longrightarrow> wp (directory F) Q s = Q (Ok h) s"
  by (simp add: wp_def directory_open)

lemma store_files_open: "js_handle s = Some h \<Longrightarrow> store_files files s = files h (js_fs s)"
  by (simp add: store_files_def)

lemma journal_write_spec:
  assumes ok: "pfs_ok F files" and op: "is_open s"
  shows "wp (journal_write L F r) (\<lambda>res s'. res \<noteq> Crash \<and> is_open s' \<and>
     (store_files files s' = store_files files s \<and> res \<noteq> Ok () \<or>
      (\<exists>bs. journal_bytes L r = Inr bs \<and>
         store_files files s' = (store_files files s)(record_file_name L (jr_lease r) (jr_resource r) \<mapsto> bs)))) s"
proof -
  obtain h where h: "js_handle s = Some h" using op by (auto simp: is_open_def)
  have w: "case pf_write_atomic F h n bs d of
          (Inr _, d') \<Rightarrow> files h d' = (files h d)(n \<mapsto> bs)
        | (Inl _, d') \<Rightarrow> files h d' = files h d \<or> files h d' = (files h d)(n \<mapsto> bs)" for n bs d
    using ok by (simp add: pfs_ok_def)
  show ?thesis
  proof (cases "journal_bytes L r")
    case (Inl e)
    with h show ?thesis
      by (simp add: journal_write_def wp_simps injected_write_failure_def is_open_def store_files_def)
  next
    case (Inr bs)
    let ?n = "record_file_name L (jr_lease r) (jr_resource r)"
    obtain res d where wr: "pf_write_atomic F h ?n bs (js_fs s) = (res, d)" by fastforce
    with w[where n = ?n and bs = bs and d = "js_fs s"] have d: "files h d = (files h (js_fs s))(?n \<mapsto> bs) \<or>
        files h d = files h (js_fs s) \<and> (\<exists>e. res = Inl e)"
      by (cases res) auto
    have wr': "pf_write_atomic F h ?n bs (js_fs (s\<lparr>js_fail_writes_skip := k\<rparr>)) = (res, d)" for k
      using wr by simp
    show ?thesis
      using h Inr wr d
      by (cases res) (auto simp: journal_write_def wp_simps wp_directory wp_on_fs wp_pfs_call
          injected_write_failure_def is_open_def store_files_def)
  qed
qed

lemma journal_remove_spec:
  assumes ok: "pfs_ok F files" and op: "is_open s"
  shows "wp (journal_remove L F lease r) (\<lambda>res s'. res \<noteq> Crash \<and> is_open s' \<and>
     (store_files files s' = store_files files s \<and> res \<noteq> Ok () \<or>
      store_files files s' = (store_files files s)(record_file_name L lease r := None))) s"
proof -
  obtain h where h: "js_handle s = Some h" using op by (auto simp: is_open_def)
  let ?n = "record_file_name L lease r"
  have sync: "files h (snd (pf_sync_all F h d)) = files h d" for d
    using ok by (simp add: pfs_ok_def)
  have "wp (remove_file F h ?n) (\<lambda>res d'. res \<noteq> Crash \<and>
      (files h d' = files h (js_fs s) \<and> res \<noteq> Ok () \<or>
       files h d' = (files h (js_fs s))(?n := None))) (js_fs s)"
  proof -
    obtain res d where rm: "pf_remove_file F h ?n (js_fs s) = (res, d)" by fastforce
    have spec: "case pf_remove_file F h ?n (js_fs s) of
          (Inr _, d') \<Rightarrow> files h d' = (files h (js_fs s))(?n := None)
        | (Inl (PfsIo NotFound _), d') \<Rightarrow> files h d' = (files h (js_fs s))(?n := None)
        | (Inl _, d') \<Rightarrow> files h d' = files h (js_fs s) \<or> files h d' = (files h (js_fs s))(?n := None)"
      using ok by (simp add: pfs_ok_def)
    obtain sres sd where sy: "pf_sync_all F h d = (sres, sd)" by fastforce
    with sync[of d] have "files h sd = files h d" by simp
    with rm spec sy show ?thesis
      by (auto simp: wp_def remove_file_def pfs_call_def
          split: sum.splits pfs_error.splits io_kind.splits)
  qed
  note rem = this
  obtain a b where ab: "remove_file F h ?n (js_fs s) = (a, b)" by fastforce
  have w: "wp (remove_file F h ?n) Q (js_fs s) = Q a b" for Q
    by (simp add: wp_def ab)
  from wp_run[OF rem ab] show ?thesis
    using h
    by (cases a) (auto simp: journal_remove_def wp_simps wp_directory wp_on_fs w
        is_open_def store_files_def)
qed

text \<open>A scan of the directory changes nothing in it.\<close>

lemma directory_files:
  assumes "is_open s"
  shows "wp (directory F) (\<lambda>res t. t = s \<and> (\<exists>h. res = Ok h \<and> js_handle s = Some h)) s"
  using assms by (auto simp: is_open_def wp_directory)

lemma read_record_spec:
  assumes ok: "pfs_ok F files" and h: "js_handle s = Some h"
  shows "wp (read_record L F dir h name out) (\<lambda>res t. res \<noteq> Crash \<and> js_handle t = Some h \<and>
     store_files files t = store_files files s \<and>
     (\<forall>out'. res = Ok out' \<longrightarrow> out' = out \<and> extension name \<noteq> Some ''json'' \<or>
        (\<exists>bs r. extension name = Some ''json'' \<and> out' = out @ [r] \<and> files h (js_fs s) name = Some bs \<and>
           decode_record L (path_join dir name) bs = Inr r \<and>
           name = record_file_name L (jr_lease r) (jr_resource r) \<and>
           jr_resource r \<notin> jr_resource ` set out))) s"
proof (cases "extension name = Some ''json''")
  case False
  with h show ?thesis by (simp add: read_record_def)
next
  case True
  obtain res d where o: "pf_open_file F h name (js_fs s) = (res, d)" by fastforce
  have spec: "case pf_open_file F h name (js_fs s) of
      (Inr (Inr bs), d') \<Rightarrow> files h (js_fs s) name = Some bs \<and> files h d' = files h (js_fs s)
    | (_, d') \<Rightarrow> files h d' = files h (js_fs s)"
    using ok by (simp add: pfs_ok_def)
  show ?thesis
  proof (cases "\<exists>bs. res = Inr (Inr bs)")
    case False
    with True o spec h show ?thesis
      by (cases res) (auto simp: read_record_def wp_simps wp_on_fs wp_pfs_call store_files_def
          split: sum.splits)
  next
    case b: True
    then obtain bs where bs: "res = Inr (Inr bs)" by blast
    with o spec have f: "files h (js_fs s) name = Some bs" "files h d = files h (js_fs s)" by auto
    have tk: "length bs \<le> MAX_RECORD_BYTES \<Longrightarrow> take (Suc MAX_RECORD_BYTES) bs = bs" by simp
    show ?thesis
    proof (cases "length bs > MAX_RECORD_BYTES")
      case True
      with \<open>extension name = Some ''json''\<close> o bs f h show ?thesis
        by (simp add: read_record_def wp_simps wp_on_fs wp_pfs_call store_files_def)
    next
      case False
      then have "take (Suc MAX_RECORD_BYTES) bs = bs" by simp
      with False \<open>extension name = Some ''json''\<close> o bs f h show ?thesis
        by (auto simp: read_record_def wp_simps wp_on_fs wp_pfs_call store_files_def list_ex_iff
            split: sum.splits)
    qed
  qed
qed

text \<open>
  What a scan has read after the files \<open>names\<close>: for every one with the journal's extension exactly
  one record, which that file's content decodes to and whose lease and resource name the file.
\<close>

definition scanned ::
  "libs \<Rightarrow> path \<Rightarrow> (string \<Rightarrow> bytes option) \<Rightarrow> string list \<Rightarrow> journal_record list \<Rightarrow> bool" where
  "scanned L dir fs names rs \<longleftrightarrow>
     distinct (map jr_resource rs) \<and>
     map (\<lambda>r. record_file_name L (jr_lease r) (jr_resource r)) rs =
       filter (\<lambda>n. extension n = Some ''json'') names \<and>
     (\<forall>r\<in>set rs. \<exists>bs. fs (record_file_name L (jr_lease r) (jr_resource r)) = Some bs \<and>
        decode_record L (path_join dir (record_file_name L (jr_lease r) (jr_resource r))) bs = Inr r)"

lemma fold_read_record:
  assumes ok: "pfs_ok F files" and h: "js_handle s = Some h"
    and "scanned L dir (store_files files s) seen out"
  shows "wp (fold_tx (read_record L F dir h) names out) (\<lambda>res t. res \<noteq> Crash \<and>
     js_handle t = Some h \<and> store_files files t = store_files files s \<and>
     (\<forall>rs. res = Ok rs \<longrightarrow> scanned L dir (store_files files s) (seen @ names) rs)) s"
  using h assms(3)
proof (induction names arbitrary: s seen out)
  case Nil
  then show ?case by simp
next
  case (Cons n names)
  note spec = read_record_spec[OF ok Cons.prems(1), of L dir n out]
  have sf: "files h (js_fs s) = store_files files s" using Cons.prems(1) by (simp add: store_files_def)
  show ?case
    unfolding fold_tx.simps
  proof (rule wp_bindI[OF spec], goal_cases)
    case (1 out' t)
    then have t: "js_handle t = Some h" "store_files files t = store_files files s" by auto
    have "scanned L dir (store_files files t) (seen @ [n]) out'"
      using 1 Cons.prems(2) by (auto simp: scanned_def sf t(2))
    from Cons.IH[OF t(1) this] show ?case
      by (rule wp_mono) (auto simp: t(2))
  qed auto
qed

lemma records_spec:
  assumes ok: "pfs_ok F files" and op: "is_open s"
  shows "wp (records L F) (\<lambda>res t. res \<noteq> Crash \<and> is_open t \<and>
     store_files files t = store_files files s \<and>
     (\<forall>rs. res = Ok rs \<longrightarrow> (\<exists>names. distinct names \<and> set names = dom (store_files files s) \<and>
        scanned L (js_dir s) (store_files files s) names rs))) s"
proof -
  obtain h where h: "js_handle s = Some h" using op by (auto simp: is_open_def)
  obtain res d where e: "pf_entries F h (js_fs s) = (res, d)" by fastforce
  have "case pf_entries F h (js_fs s) of
          (Inr ns, d') \<Rightarrow> distinct ns \<and> set ns = dom (files h (js_fs s)) \<and> files h d' = files h (js_fs s)
        | (Inl _, d') \<Rightarrow> files h d' = files h (js_fs s)"
    using ok by (simp add: pfs_ok_def)
  with e have d: "files h d = files h (js_fs s)"
    and ns: "\<And>ns. res = Inr ns \<Longrightarrow> distinct ns \<and> set ns = dom (files h (js_fs s))"
    by (auto split: sum.splits)
  show ?thesis
  proof (cases res)
    case (Inl err)
    with h e d show ?thesis
      by (simp add: records_def wp_simps wp_directory wp_on_fs wp_pfs_call is_open_def store_files_def)
  next
    case (Inr names)
    let ?t = "s\<lparr>js_fs := d\<rparr>"
    have t: "js_handle ?t = Some h" "store_files files ?t = store_files files s"
      using h d by (simp_all add: store_files_def)
    have "scanned L (js_dir s) (store_files files ?t) [] []" by (simp add: scanned_def)
    from fold_read_record[OF ok t(1) this, of names]
    have "wp (fold_tx (read_record L F (js_dir s) h) names []) (\<lambda>res u. res \<noteq> Crash \<and>
       js_handle u = Some h \<and> store_files files u = store_files files s \<and>
       (\<forall>rs. res = Ok rs \<longrightarrow> scanned L (js_dir s) (store_files files s) names rs)) ?t"
      by (simp add: t(2))
    then have "wp (fold_tx (read_record L F (js_dir s) h) names []) (\<lambda>res t. res \<noteq> Crash \<and> is_open t \<and>
       store_files files t = store_files files s \<and>
       (\<forall>rs. res = Ok rs \<longrightarrow> (\<exists>names. distinct names \<and> set names = dom (store_files files s) \<and>
          scanned L (js_dir s) (store_files files s) names rs))) ?t"
      by (rule wp_mono) (use ns[OF Inr] h in \<open>auto simp: is_open_def store_files_def\<close>)
    with h e Inr show ?thesis
      by (simp add: records_def wp_simps wp_directory wp_on_fs wp_pfs_call)
  qed
qed

text \<open>
  C20. Scanning the journal is all or nothing and fails closed. When \<open>records\<close> returns, it has
  returned one record for every \<open>.json\<close> file of the directory, each decoded from that very file,
  named by its own lease and resource and passing every check of \<open>validate_record\<close>, and no two
  claim one resource; so one unreadable, foreign-version, misnamed or contradictory file makes the
  whole scan an error. The directory is never changed.
\<close>

theorem records_complete:
  assumes "pfs_ok F files" and "is_open s" and "records L F s = (res, t)"
  shows "store_files files t = store_files files s \<and>
     (case res of
        Ok rs \<Rightarrow>
          distinct (map jr_resource rs) \<and>
          (\<lambda>r. record_file_name L (jr_lease r) (jr_resource r)) ` set rs =
            {n \<in> dom (store_files files s). extension n = Some ''json''} \<and>
          list_all (\<lambda>r. validate_record L r = Inr () \<and>
            (case store_files files s (record_file_name L (jr_lease r) (jr_resource r)) of
               None \<Rightarrow> False
             | Some bs \<Rightarrow> decode_record L (path_join (js_dir s)
                   (record_file_name L (jr_lease r) (jr_resource r))) bs = Inr r)) rs
      | Err _ \<Rightarrow> True | Crash \<Rightarrow> False)"
proof -
  note spec = wp_run[OF records_spec[OF assms(1,2), of L] assms(3)]
  show ?thesis
  proof (cases res)
    case (Ok rs)
    with spec obtain names where n: "set names = dom (store_files files s)"
      and sc: "scanned L (js_dir s) (store_files files s) names rs" by auto
    have img: "(\<lambda>r. record_file_name L (jr_lease r) (jr_resource r)) ` set rs
        = {n \<in> dom (store_files files s). extension n = Some ''json''}"
      using sc n by (auto simp: scanned_def simp flip: set_map)
    have valid: "validate_record L r = Inr ()" if "decode_record L p bs = Inr r" for p bs r
      using that by (auto simp: decode_record_def split: if_splits option.splits sum.splits)
    show ?thesis
      using Ok spec sc img by (auto simp: scanned_def list_all_iff intro: valid split: option.splits)
  qed (use spec in auto)
qed

section \<open>Round trip\<close>

text \<open>
  What the \<open>serde_json\<close> package and the derived codecs promise: decoding an encoded payload gives
  the payload back, the envelope of a serialized document shows its version, and the document
  parses back when the names in it pass the validation that \<open>Deserialize\<close> of \<open>ResourceId\<close> and
  \<open>DnsSuffix\<close> performs.
\<close>

definition names_ok :: "libs \<Rightarrow> record_v4 \<Rightarrow> bool" where
  "names_ok L v \<longleftrightarrow>
     list_all wf_rid ([rv_resource v, sv_resource (rv_identity v), sv_resource (rv_before v)]
        @ (case rv_applied v of None \<Rightarrow> [] | Some a \<Rightarrow> [sv_resource a])) \<and>
     list_all (\<lambda>d. suffix_parse (lib_idna L) (suffix_serialize d) = Inr d)
        (nc_search (rv_desired v) @ nc_routing (rv_desired v)) \<and>
     list_all wf_ip (nc_nameservers (rv_desired v))"

definition serde_ok :: "libs \<Rightarrow> bool" where
  "serde_ok L \<longleftrightarrow>
     (\<forall>v j. to_fake L v = Some j \<longrightarrow> from_fake L j = Some v) \<and>
     (\<forall>v j. to_resolved L v = Some j \<longrightarrow> from_resolved L j = Some v) \<and>
     (\<forall>v j. to_nm L v = Some j \<longrightarrow> from_nm L j = Some v) \<and>
     (\<forall>v j. to_resolvconf L v = Some j \<longrightarrow> from_resolvconf L j = Some v) \<and>
     (\<forall>v j. to_direct L v = Some j \<longrightarrow> from_direct L j = Some v) \<and>
     (\<forall>v j. to_fake_id L v = Some j \<longrightarrow> from_fake_id L j = Some v) \<and>
     (\<forall>v j. to_resolved_id L v = Some j \<longrightarrow> from_resolved_id L j = Some v) \<and>
     (\<forall>v j. to_nm_id L v = Some j \<longrightarrow> from_nm_id L j = Some v) \<and>
     (\<forall>v bs. record_to_vec L v = Some bs \<longrightarrow>
        envelope_from_slice L bs = Some (rv_schema_version v) \<and>
        (names_ok L v \<longrightarrow> record_from_slice L bs = Some v))"

text \<open>A payload of the backend that a snapshot or identity names.\<close>

definition snapshot_kind :: "snapshot_data \<Rightarrow> backend_kind" where
  "snapshot_kind d = (case d of SnapFake _ \<Rightarrow> Fake | SnapResolved _ \<Rightarrow> SystemdResolved
     | SnapNetworkManager _ \<Rightarrow> NetworkManager | SnapResolvconf _ \<Rightarrow> Resolvconf
     | SnapResolvConfFile _ \<Rightarrow> ResolvConfFile)"

definition wf_snapshot :: "platform_snapshot \<Rightarrow> bool" where
  "wf_snapshot s \<longleftrightarrow> ps_backend s = snapshot_kind (ps_data s)"

definition wf_identity :: "resource_identity \<Rightarrow> bool" where
  "wf_identity i \<longleftrightarrow> (case id_data i of
       Untracked \<Rightarrow> id_backend i \<in> {Resolvconf, ResolvConfFile, WindowsIpHelper, MacosSystemConfiguration}
     | IdFake _ \<Rightarrow> id_backend i = Fake
     | IdResolved _ \<Rightarrow> id_backend i = SystemdResolved
     | IdNetworkManager _ \<Rightarrow> id_backend i = NetworkManager)"

definition wf_record :: "libs \<Rightarrow> journal_record \<Rightarrow> bool" where
  "wf_record L r \<longleftrightarrow> wf_identity (jr_identity r) \<and> wf_snapshot (jr_before r) \<and>
     (case jr_applied r of None \<Rightarrow> True | Some a \<Rightarrow> wf_snapshot a) \<and>
     wf_rid (jr_resource r) \<and>
     list_all (\<lambda>d. suffix_parse (lib_idna L) (suffix_serialize d) = Inr d)
        (nc_search (jr_desired r) @ nc_routing (jr_desired r)) \<and>
     list_all wf_ip (nc_nameservers (jr_desired r))"

text \<open>An open handle is volatile: it is not part of what is published.\<close>

definition durable_part :: "journal_record \<Rightarrow> journal_record" where
  "durable_part r = r\<lparr>jr_identity := (jr_identity r)\<lparr>id_live_handle := None\<rparr>\<rparr>"

lemma decode_encode_snapshot:
  assumes "serde_ok L" "wf_snapshot s" "encode_platform_snapshot L s = Some v"
  shows "decode_platform_snapshot L v = Some s \<and> sv_resource v = ps_resource s \<and> sv_backend v = ps_backend s"
proof (cases "ps_data s")
qed (use assms in \<open>auto simp: serde_ok_def encode_platform_snapshot_def encode_snapshot_def
       decode_platform_snapshot_def decode_snapshot_def wf_snapshot_def snapshot_kind_def\<close>)

lemma decode_encode_identity:
  assumes "serde_ok L" "wf_identity i" "encode_identity L (id_data i) = Some v"
  shows "decode_identity L (id_backend i) v = Some (id_data i)"
proof (cases "id_data i")
qed (use assms in \<open>auto simp: serde_ok_def encode_identity_def decode_identity_def wf_identity_def
       json_is_null_def\<close>)

lemma decode_encode_applied:
  assumes "serde_ok L" "case a of None \<Rightarrow> True | Some s \<Rightarrow> wf_snapshot s"
    and "(case a of None \<Rightarrow> Some None | Some s \<Rightarrow> map_option Some (encode_platform_snapshot L s)) = Some v"
  shows "(case v of None \<Rightarrow> Some None | Some s \<Rightarrow> map_option Some (decode_platform_snapshot L s)) = Some a"
    and "map_option sv_resource v = map_option ps_resource a"
  using assms by (auto split: option.splits dest: decode_encode_snapshot)

lemma decode_encode_record:
  assumes ok: "serde_ok L" and wf: "wf_record L r" and enc: "encode_record L r = Some v"
  shows "decode_v4 L v = Some (durable_part r)"
    and "rv_schema_version v = SCHEMA_VERSION"
    and "rv_resource v = jr_resource r" and "rv_desired v = jr_desired r"
    and "sv_resource (rv_identity v) = id_resource (jr_identity r)"
    and "sv_resource (rv_before v) = ps_resource (jr_before r)"
    and "map_option sv_resource (rv_applied v) = map_option ps_resource (jr_applied r)"
proof -
  from enc obtain i b a where
    i: "encode_identity L (id_data (jr_identity r)) = Some i"
    and b: "encode_platform_snapshot L (jr_before r) = Some b"
    and a: "(case jr_applied r of None \<Rightarrow> Some None
              | Some s \<Rightarrow> map_option Some (encode_platform_snapshot L s)) = Some a"
    and v: "v = \<lparr> rv_schema_version = SCHEMA_VERSION, rv_owner = jr_owner r, rv_lease = jr_lease r,
            rv_resource = jr_resource r, rv_backend = jr_backend r,
            rv_identity = \<lparr> sv_backend = id_backend (jr_identity r),
                            sv_resource = id_resource (jr_identity r), sv_data = i \<rparr>,
            rv_phase = jr_phase r, rv_before = b, rv_desired = jr_desired r, rv_applied = a \<rparr>"
    unfolding encode_record_def bind_eq_Some_conv by blast
  have wfs: "wf_identity (jr_identity r)" "wf_snapshot (jr_before r)"
    "case jr_applied r of None \<Rightarrow> True | Some s \<Rightarrow> wf_snapshot s"
    using wf by (simp_all add: wf_record_def)
  note ds = decode_encode_identity[OF ok wfs(1) i] decode_encode_snapshot[OF ok wfs(2) b]
    decode_encode_applied[OF ok wfs(3) a]
  show "decode_v4 L v = Some (durable_part r)"
    using ds by (simp add: decode_v4_def v durable_part_def identity_new_def)
  show "rv_schema_version v = SCHEMA_VERSION" "rv_resource v = jr_resource r"
    "rv_desired v = jr_desired r" "sv_resource (rv_identity v) = id_resource (jr_identity r)"
    "sv_resource (rv_before v) = ps_resource (jr_before r)"
    "map_option sv_resource (rv_applied v) = map_option ps_resource (jr_applied r)"
    using ds by (simp_all add: v)
qed

text \<open>
  C19. What \<open>write\<close> publishes is what a later process reads back. If the record has bytes to be
  written (they fit the storage budget) and passes the checks of \<open>validate_record\<close>, then those
  bytes decode to the same record: owner, lease, resource, identity, phase, the captured state, the
  desired configuration and the evidence; only an open handle in the identity is not kept.
\<close>

theorem journal_roundtrip:
  assumes ok: "serde_ok L" and wf: "wf_record L r"
    and bs: "journal_bytes L r = Inr bs" and valid: "validate_record L (durable_part r) = Inr ()"
  shows "decode_record L p bs = Inr (durable_part r)"
proof -
  from bs obtain v where enc: "encode_record L r = Some v" and vec: "record_to_vec L v = Some bs"
    and len: "length bs \<le> MAX_RECORD_BYTES"
    by (auto simp: journal_bytes_def split: option.splits if_splits)
  note dec = decode_encode_record[OF ok wf enc]
  have env: "envelope_from_slice L bs = Some SCHEMA_VERSION"
    using ok vec dec(2) unfolding serde_ok_def by metis
  have same: "ps_resource (jr_before r) = jr_resource r" "id_resource (jr_identity r) = jr_resource r"
    "\<And>a. jr_applied r = Some a \<Longrightarrow> ps_resource a = jr_resource r"
    using valid by (auto simp: validate_record_def durable_part_def split: if_splits sum.splits option.splits)
  have "names_ok L v"
    using wf dec(3-7) same by (auto simp: names_ok_def wf_record_def split: option.splits)
  then have "record_from_slice L bs = Some v"
    using ok vec unfolding serde_ok_def by metis
  with env dec(1) valid len show ?thesis
    by (simp add: decode_record_def)
qed

end
