(* ===== verification/Watch.thy ===== *)
theory Watch
  imports Journal
begin

text \<open>
  The part of \<open>watch.rs\<close> the transaction engine uses: events, and the registry by which events of
  our own mutations are told from external ones. An entry is good for half a second.
\<close>

datatype dns_event = ResourceChanged resource_id | ResourceRemoved resource_id

definition event_resource :: "dns_event \<Rightarrow> resource_id" where
  "event_resource e = (case e of ResourceChanged r \<Rightarrow> r | ResourceRemoved r \<Rightarrow> r)"

type_synonym suppressions = "resource_id \<Rightarrow> (instant \<times> platform_snapshot) option"

definition suppression_window :: duration where
  "suppression_window = millis 500"

definition prune :: "instant \<Rightarrow> suppressions \<Rightarrow> suppressions" where
  "prune now m = (\<lambda>r. case m r of None \<Rightarrow> None
     | Some (at, s) \<Rightarrow> if now - at < suppression_window then Some (at, s) else None)"

text \<open>\<open>record\<close> reads the clock twice: to prune, then for the new entry.\<close>

definition suppression_record ::
  "instant \<Rightarrow> instant \<Rightarrow> platform_snapshot \<Rightarrow> suppressions \<Rightarrow> suppressions" where
  "suppression_record now now' snapshot m =
     (prune now m)(ps_resource snapshot \<mapsto> (now', snapshot))"

definition suppression_snapshot ::
  "instant \<Rightarrow> resource_id \<Rightarrow> suppressions \<Rightarrow> platform_snapshot option \<times> suppressions" where
  "suppression_snapshot now r m = (map_option snd (prune now m r), prune now m)"

end
