(* ===== verification/Engine.thy ===== *)
theory Engine
  imports Watch
begin

text \<open>
  The transaction engine of \<open>manager.rs\<close>: how a set of locked resources is moved to a new
  configuration, rolled back, updated, restored and recovered, with every step journaled.

  \<open>env\<close> is what a manager is built from and never changes: its owner tag and policy, the backend,
  the packages it uses, the clock and the source of fresh identifiers. \<open>world\<close> is what its
  operations change: the operating system behind the backend, the journal, the installed fault
  injector and the suppression registry.
\<close>

datatype conflict_policy = Cooperative | Enforce

record ('w, 'd) env =
  e_owner :: string
  e_policy :: conflict_policy
  e_backend :: "'w backend"
  e_pfs :: "'d pfs"
  e_libs :: libs
  e_now :: "('w, instant) tx"
  e_new_v4 :: "('w, uuid) tx"

record ('w, 'd) world =
  w_os :: 'w
  w_journal :: "'d journal_store"
  w_hook :: "fault_injector option"
  w_suppressions :: suppressions

definition os :: "('w, 'a) tx \<Rightarrow> (('w, 'd) world, 'a) tx" where
  "os = focus_tx w_os (\<lambda>x s. s\<lparr>w_os := x\<rparr>)"

definition jn :: "('d journal_store, 'a) tx \<Rightarrow> (('w, 'd) world, 'a) tx" where
  "jn = focus_tx w_journal (\<lambda>x s. s\<lparr>w_journal := x\<rparr>)"

definition jwrite :: "('w, 'd) env \<Rightarrow> journal_record \<Rightarrow> (('w, 'd) world, unit) tx" where
  "jwrite E r = jn (journal_write (e_libs E) (e_pfs E) r)"

definition jremove :: "('w, 'd) env \<Rightarrow> lease_id \<Rightarrow> resource_id \<Rightarrow> (('w, 'd) world, unit) tx" where
  "jremove E lease r = jn (journal_remove (e_libs E) (e_pfs E) lease r)"

definition kind_of :: "('w, 'd) env \<Rightarrow> backend_kind" where
  "kind_of E = bk_kind (e_backend E)"

text \<open>\<open>SuppressionRegistry::record\<close> of the manager.\<close>

definition suppress :: "('w, 'd) env \<Rightarrow> platform_snapshot \<Rightarrow> (('w, 'd) world, unit) tx" where
  "suppress E snapshot =
     bind_tx (os (e_now E)) (\<lambda>now.
     bind_tx (os (e_now E)) (\<lambda>now'.
       modify_tx (\<lambda>s. s\<lparr>w_suppressions := suppression_record now now' snapshot (w_suppressions s)\<rparr>)))"

section \<open>Types\<close>

record mutate_points =
  mp_apply :: tx_point
  mp_readback :: tx_point
  mp_verify :: tx_point
  mp_suppress_events :: bool

definition INITIAL_POINTS :: mutate_points where
  "INITIAL_POINTS = \<lparr> mp_apply = AfterApply, mp_readback = AfterReadback, mp_verify = AfterVerify,
     mp_suppress_events = True \<rparr>"

definition RECONCILE_POINTS :: mutate_points where
  "RECONCILE_POINTS = INITIAL_POINTS\<lparr>mp_suppress_events := False\<rparr>"

definition UPDATE_POINTS :: mutate_points where
  "UPDATE_POINTS = \<lparr> mp_apply = AfterUpdateApply, mp_readback = AfterUpdateReadback,
     mp_verify = AfterUpdateVerify, mp_suppress_events = True \<rparr>"

record pending_rollback =
  pr_evidence :: "platform_snapshot option"
  pr_target :: platform_snapshot

datatype mutation_residue =
    ResUnchanged
  | ResRestored "platform_snapshot option"
  | ResPending pending_rollback

record mutation_failure =
  mf_error :: error
  mf_residue :: mutation_residue

text \<open>\<open>LiveState\<close> and \<open>LiveRecord\<close> of \<open>lease.rs\<close>.\<close>

datatype live_state =
    Committed
  | Unmutated
  | LivePrepared
  | Verified verified_mutation
  | Compensating pending_rollback journal_record
  | Repair live_state

record live_record =
  lr_record :: journal_record
  lr_state :: live_state

definition live_applied :: "live_record \<Rightarrow> platform_snapshot option" where
  "live_applied l = (case lr_state l of Committed \<Rightarrow> jr_applied (lr_record l) | _ \<Rightarrow> None)"

record prepared_lease =
  pl_lease :: lease_id
  pl_records :: "live_record list"
  pl_was_noop :: bool

definition transaction_error :: "error \<Rightarrow> error list \<Rightarrow> error" where
  "transaction_error primary cleanup =
     (if cleanup = [] then primary else TransactionFailed primary cleanup)"

section \<open>Mutation, verification and rollback\<close>

definition fire :: "('w, 'd) env \<Rightarrow> tx_point \<Rightarrow> (('w, 'd) world, unit) tx" where
  "fire E point = bind_tx (gets_tx w_hook) (\<lambda>hook. case hook of
       None \<Rightarrow> return_tx ()
     | Some injector \<Rightarrow> (case on_point injector point of
           FaultContinue \<Rightarrow> return_tx ()
         | FaultCrash \<Rightarrow> crash
         | FaultFail message \<Rightarrow>
             throw (PlatformError (kind_of E) (''injected transaction failure: '' @ message))))"

definition fire_opt :: "('w, 'd) env \<Rightarrow> tx_point option \<Rightarrow> (('w, 'd) world, unit) tx" where
  "fire_opt E p = (case p of None \<Rightarrow> return_tx () | Some point \<Rightarrow> fire E point)"

text \<open>
  \<open>compensate\<close>: brings the resource back to the target of \<open>pending\<close>, which is the \<open>&mut\<close>
  parameter and keeps the evidence a restoration issued.
\<close>

definition confirm_compensation ::
  "('w, 'd) env \<Rightarrow> resource_identity \<Rightarrow>
   (pending_rollback \<times> ('w, 'd) world, platform_snapshot option) tx" where
  "confirm_compensation E identity =
     (let B = e_backend E; r = id_resource identity in
     bind_tx (inner_tx (os (bk_readback B r))) (\<lambda>now.
     bind_tx (inner_tx (os (bk_status B identity))) (\<lambda>status.
     bind_tx get_mut (\<lambda>pending.
     if status \<noteq> Same \<or> \<not> bk_equivalent B now (pr_target pending)
     then throw (VerificationFailed r ''compensation failed read-back verification'')
     else seq_tx (inner_tx (suppress E now)) (
       return_tx (case pr_evidence pending of
           Some pf \<Rightarrow> if owns_current B pf now then Some pf else None
         | None \<Rightarrow> if ownership_identity_of B = BestEffort then Some now else None))))))"

definition compensate ::
  "('w, 'd) env \<Rightarrow> resource_identity \<Rightarrow> tx_point option \<Rightarrow>
   (pending_rollback \<times> ('w, 'd) world, platform_snapshot option) tx" where
  "compensate E identity after_restore =
     (let B = e_backend E; r = id_resource identity in
     bind_tx (inner_tx (os (bk_status B identity))) (\<lambda>status.
     if status \<noteq> Same
     then throw (ResourceIdentity (kind_of E) r ''cannot prove the compensation target incarnation'')
     else
     bind_tx (inner_tx (os (bk_readback B r))) (\<lambda>current.
     bind_tx get_mut (\<lambda>pending.
     if bk_equivalent B current (pr_target pending) then
       return_tx (case pr_evidence pending of
           Some pf \<Rightarrow> if owns_current B pf current then Some pf
                      else if owns_current B (pr_target pending) current
                      then Some (pr_target pending) else None
         | None \<Rightarrow> if owns_current B (pr_target pending) current
                   then Some (pr_target pending) else None)
     else case pr_evidence pending of
       None \<Rightarrow> throw (IndeterminateMutation (kind_of E)
                 ''compensation has no backend-issued ownership evidence'')
     | Some pf \<Rightarrow>
       if \<not> owns_current B pf current
       then throw (ExternalModification r ''pending compensation evidence no longer names current state'')
       else
       bind_tx (inner_tx (os (bk_restore_bound B identity pf (pr_target pending)))) (\<lambda>attempt.
       seq_tx (case attempt of
           Performed produced \<Rightarrow> modify_mut (\<lambda>p. p\<lparr>pr_evidence := produced\<rparr>)
         | Indeterminate e produced \<Rightarrow> (case produced of
               Some q \<Rightarrow> seq_tx (modify_mut (\<lambda>p. p\<lparr>pr_evidence := Some q\<rparr>)) (throw e)
             | None \<Rightarrow> throw e)
         | Rejected e \<Rightarrow> throw e) (
       seq_tx (inner_tx (fire_opt E after_restore)) (
       confirm_compensation E identity)))))))"

definition rollback_proven ::
  "('w, 'd) env \<Rightarrow> resource_identity \<Rightarrow> platform_snapshot option \<Rightarrow> platform_snapshot \<Rightarrow>
   (('w, 'd) world, mutation_residue) tx" where
  "rollback_proven E identity evidence target =
     bind_tx (run_mut \<lparr> pr_evidence = evidence, pr_target = target \<rparr> (compensate E identity None))
       (\<lambda>(res, pending). case res of
           Inr restored \<Rightarrow> return_tx (ResRestored restored)
         | Inl _ \<Rightarrow> return_tx (ResPending pending))"

text \<open>The closure \<open>fail\<close> of \<open>mutate_and_verify\<close>: roll back, then report.\<close>

definition fail_mutation ::
  "('w, 'd) env \<Rightarrow> resource_identity \<Rightarrow> platform_snapshot \<Rightarrow> platform_snapshot option \<Rightarrow> error \<Rightarrow>
   (('w, 'd) world, mutation_failure + verified_mutation) tx" where
  "fail_mutation E identity expected produced e =
     bind_tx (rollback_proven E identity produced expected)
       (\<lambda>residue. return_tx (Inl \<lparr> mf_error = e, mf_residue = residue \<rparr>))"

text \<open>After a performed mutation: checks, read-back, comparison, checks again, ownership.\<close>

definition conclude_mutation ::
  "('w, 'd) env \<Rightarrow> resource_identity \<Rightarrow> mutate_points \<Rightarrow> platform_snapshot option \<Rightarrow>
   platform_snapshot \<Rightarrow> (error \<Rightarrow> (('w, 'd) world, mutation_failure + verified_mutation) tx) \<Rightarrow>
   (('w, 'd) world, mutation_failure + verified_mutation) tx" where
  "conclude_mutation E identity points produced actual fail =
     (let B = e_backend E; r = id_resource identity in
      case ownership_identity_of B of
        Durable \<Rightarrow> (case produced of
            None \<Rightarrow> fail (VerificationFailed r ''the mutation issued no ownership proof'')
          | Some pf \<Rightarrow>
              if \<not> bk_proves_current B pf actual
              then fail (ExternalModification r
                     ''the state read back does not carry the identity of our mutation'')
              else seq_tx (if mp_suppress_events points then suppress E pf else return_tx ())
                     (return_tx (Inr \<lparr> vm_proof = Some (OwnershipProof pf), vm_observed = actual \<rparr>)))
      | BestEffort \<Rightarrow>
          seq_tx (if mp_suppress_events points then suppress E actual else return_tx ())
            (return_tx (Inr \<lparr> vm_proof = map_option OwnershipProof produced, vm_observed = actual \<rparr>)))"

definition check_incarnation ::
  "('w, 'd) env \<Rightarrow> resource_identity \<Rightarrow> string \<Rightarrow>
   (error \<Rightarrow> (('w, 'd) world, 'a) tx) \<Rightarrow> (('w, 'd) world, 'a) tx \<Rightarrow> (('w, 'd) world, 'a) tx" where
  "check_incarnation E identity msg fail k =
     match_tx (os (bk_status (e_backend E) identity))
       (\<lambda>status. if status = Same then k
          else fail (ResourceIdentity (kind_of E) (id_resource identity) msg))
       fail"

definition verify_mutation ::
  "('w, 'd) env \<Rightarrow> resource_identity \<Rightarrow> platform_snapshot \<Rightarrow> normalized_config \<Rightarrow> mutate_points \<Rightarrow>
   platform_snapshot option \<Rightarrow> (('w, 'd) world, mutation_failure + verified_mutation) tx" where
  "verify_mutation E identity expected plan points produced =
     (let B = e_backend E; r = id_resource identity;
          fail = fail_mutation E identity expected produced in
     match_tx (fire E (mp_apply points)) (\<lambda>_.
     check_incarnation E identity ''resource incarnation changed during mutation'' fail (
     match_tx (os (bk_readback B r)) (\<lambda>actual.
     match_tx (fire E (mp_readback points)) (\<lambda>_.
       if \<not> bk_matches_desired B actual plan
       then fail (VerificationFailed r
              ''the state read back from the system does not match the desired configuration'')
       else
       check_incarnation E identity ''resource incarnation changed during verification'' fail (
       match_tx (fire E (mp_verify points)) (\<lambda>_.
         conclude_mutation E identity points produced actual fail)
       fail)) fail) fail)) fail)"

definition mutate_and_verify ::
  "('w, 'd) env \<Rightarrow> resource_identity \<Rightarrow> platform_snapshot \<Rightarrow> normalized_config \<Rightarrow> mutate_points \<Rightarrow>
   (('w, 'd) world, mutation_failure + verified_mutation) tx" where
  "mutate_and_verify E identity expected plan points =
     bind_tx (os (bk_apply_bound (e_backend E) identity expected plan)) (\<lambda>attempt.
     case attempt of
       Rejected e \<Rightarrow> return_tx (Inl \<lparr> mf_error = e, mf_residue = ResUnchanged \<rparr>)
     | Indeterminate e produced \<Rightarrow> fail_mutation E identity expected produced e
     | Performed produced \<Rightarrow> verify_mutation E identity expected plan points produced)"

section \<open>Live records\<close>

text \<open>
  These functions take the live record as \<open>&mut\<close> parameter. \<open>persist_live\<close> publishes a verified
  state or intent; a failed publication leaves a repair to be done first.
\<close>

definition persist_live ::
  "('w, 'd) env \<Rightarrow> journal_record \<Rightarrow> (live_record \<times> ('w, 'd) world, unit) tx" where
  "persist_live E candidate =
     (let nxt = (if jr_phase candidate = Applied then Committed else Unmutated) in
      match_tx (inner_tx (jwrite E candidate))
        (\<lambda>_. put_mut \<lparr> lr_record = candidate, lr_state = nxt \<rparr>)
        (\<lambda>e. seq_tx (put_mut \<lparr> lr_record = candidate, lr_state = Repair nxt \<rparr>) (throw e)))"

definition prepare_live ::
  "('w, 'd) env \<Rightarrow> journal_record \<Rightarrow> (live_record \<times> ('w, 'd) world, unit) tx" where
  "prepare_live E candidate =
     bind_tx get_mut (\<lambda>live.
     match_tx (inner_tx (jwrite E candidate))
       (\<lambda>_. put_mut \<lparr> lr_record = candidate, lr_state = Unmutated \<rparr>)
       (\<lambda>e. seq_tx
          (match_tx (inner_tx (jwrite E (lr_record live))) return_tx
             (\<lambda>_. put_mut (live\<lparr>lr_state := Repair (lr_state live)\<rparr>)))
          (throw e)))"

definition retain_compensation ::
  "('w, 'd) env \<Rightarrow> pending_rollback \<Rightarrow> journal_record \<Rightarrow> (live_record \<times> ('w, 'd) world, unit) tx" where
  "retain_compensation E pending resume =
     bind_tx get_mut (\<lambda>live.
     (let rec = (lr_record live)\<lparr>jr_phase := Prepared, jr_applied := pr_evidence pending,
                                jr_desired := jr_desired resume\<rparr>;
          state = Compensating pending resume
      in seq_tx (put_mut \<lparr> lr_record = rec, lr_state = state \<rparr>)
        (match_tx (inner_tx (jwrite E rec)) return_tx
          (\<lambda>e. seq_tx (put_mut \<lparr> lr_record = rec, lr_state = Repair state \<rparr>) (throw e)))))"

text \<open>The first step of \<open>resolve_live\<close>: an outstanding repair publishes the record.\<close>

definition repair_live :: "('w, 'd) env \<Rightarrow> (live_record \<times> ('w, 'd) world, unit) tx" where
  "repair_live E = bind_tx get_mut (\<lambda>live. case lr_state live of
       Repair nxt \<Rightarrow> seq_tx (inner_tx (jwrite E (lr_record live))) (put_mut (live\<lparr>lr_state := nxt\<rparr>))
     | _ \<Rightarrow> return_tx ())"

definition resolve_verified ::
  "('w, 'd) env \<Rightarrow> verified_mutation \<Rightarrow> platform_snapshot option \<Rightarrow>
   (live_record \<times> ('w, 'd) world, unit) tx" where
  "resolve_verified E mutation given =
     bind_tx get_mut (\<lambda>live.
     (let B = e_backend E; rec = lr_record live in
     bind_tx (case given of Some c \<Rightarrow> return_tx c
              | None \<Rightarrow> inner_tx (os (bk_readback B (jr_resource rec)))) (\<lambda>current.
     bind_tx (inner_tx (os (bk_status B (jr_identity rec)))) (\<lambda>status.
     if status \<noteq> Same \<or> \<not> owns_current B (persist mutation) current
     then throw (ExternalModification (jr_resource rec)
            ''verified mutation no longer names current native state'')
     else
      (let candidate = rec\<lparr>jr_phase := Applied, jr_applied := Some (persist mutation)\<rparr>
       in seq_tx (inner_tx (jwrite E candidate))
            (put_mut \<lparr> lr_record = candidate, lr_state = Committed \<rparr>))))))"

definition resolve_compensating ::
  "('w, 'd) env \<Rightarrow> pending_rollback \<Rightarrow> journal_record \<Rightarrow> (live_record \<times> ('w, 'd) world, unit) tx" where
  "resolve_compensating E pending resume =
     bind_tx get_mut (\<lambda>live.
     bind_tx (inner_tx (run_mut pending (compensate E (jr_identity (lr_record live)) None)))
       (\<lambda>(res, pending). case res of
          Inr identity \<Rightarrow>
            (let resume = (if jr_phase resume = Applied
                 then (let r = resume\<lparr>jr_applied := identity\<rparr>
                       in if jr_applied r = None then r\<lparr>jr_phase := Prepared\<rparr> else r)
                 else resume)
             in persist_live E resume)
        | Inl e \<Rightarrow> seq_tx (try_tx (retain_compensation E pending resume)) (throw e)))"

text \<open>The match of \<open>resolve_live\<close> on the state once no repair is outstanding.\<close>

definition resolve_state ::
  "('w, 'd) env \<Rightarrow> platform_snapshot option \<Rightarrow> live_record \<Rightarrow> (live_record \<times> ('w, 'd) world, unit) tx" where
  "resolve_state E given live = (case lr_state live of
       Committed \<Rightarrow> return_tx ()
     | Unmutated \<Rightarrow> return_tx ()
     | LivePrepared \<Rightarrow> throw (ExternalModification (jr_resource (lr_record live))
          ''prepared intent has no verified applied mutation'')
     | Verified mutation \<Rightarrow> resolve_verified E mutation given
     | Compensating pending resume \<Rightarrow> resolve_compensating E pending resume
     | Repair _ \<Rightarrow> crash)"

definition resolve_live ::
  "('w, 'd) env \<Rightarrow> platform_snapshot option \<Rightarrow> (live_record \<times> ('w, 'd) world, unit) tx" where
  "resolve_live E given = seq_tx (repair_live E) (bind_tx get_mut (resolve_state E given))"

definition commit_verified ::
  "('w, 'd) env \<Rightarrow> verified_mutation \<Rightarrow> (live_record \<times> ('w, 'd) world, unit) tx" where
  "commit_verified E mutation =
     bind_tx get_mut (\<lambda>live.
     seq_tx (put_mut (live\<lparr>lr_state := Verified mutation\<rparr>)) (resolve_live E None))"

section \<open>Apply\<close>

text \<open>\<open>persist_unmutated\<close>: a failed write removes what the loop has written, itself included.\<close>

fun persist_loop ::
  "('w, 'd) env \<Rightarrow> journal_record list \<Rightarrow> journal_record list \<Rightarrow> (('w, 'd) world, unit) tx" where
  "persist_loop E written [] = return_tx ()"
| "persist_loop E written (r # rs) =
     match_tx (jwrite E r) (\<lambda>_. persist_loop E (written @ [r]) rs)
       (\<lambda>primary.
          bind_tx (collect_tx (map (\<lambda>r. jremove E (jr_lease r) (jr_resource r)) (written @ [r])))
            (\<lambda>cleanup. throw (transaction_error primary cleanup)))"

definition persist_unmutated :: "('w, 'd) env \<Rightarrow> journal_record list \<Rightarrow> (('w, 'd) world, unit) tx" where
  "persist_unmutated E rs = persist_loop E [] rs"

text \<open>Undoing one of the mutations before the failed one; the result is the errors it adds.\<close>

definition undo_mutation ::
  "('w, 'd) env \<Rightarrow> journal_record \<Rightarrow> verified_mutation \<Rightarrow> (('w, 'd) world, error list) tx" where
  "undo_mutation E r m =
     bind_tx (rollback_proven E (jr_identity r) (Some (persist m)) (jr_before r)) (\<lambda>residue.
     case residue of
       ResRestored _ \<Rightarrow> collect_tx [jremove E (jr_lease r) (jr_resource r)]
     | ResPending pending \<Rightarrow>
         bind_tx (collect_tx [jwrite E (r\<lparr>jr_applied := pr_evidence pending\<rparr>)])
           (\<lambda>es. return_tx (es @ [IndeterminateMutation (kind_of E) ''apply rollback could not restore'']))
     | ResUnchanged \<Rightarrow> crash)"

fun undo_mutations ::
  "('w, 'd) env \<Rightarrow> (journal_record \<times> verified_mutation) list \<Rightarrow> (('w, 'd) world, error list) tx" where
  "undo_mutations E [] = return_tx []"
| "undo_mutations E ((r, m) # rest) =
     bind_tx (undo_mutation E r m) (\<lambda>es.
     bind_tx (undo_mutations E rest) (\<lambda>es'. return_tx (es @ es')))"

definition settle_failed ::
  "('w, 'd) env \<Rightarrow> journal_record \<Rightarrow> mutation_residue \<Rightarrow> (('w, 'd) world, error list) tx" where
  "settle_failed E failed residue =
     (let B = e_backend E;
          clear = match_tx (os (bk_readback B (jr_resource failed)))
            (\<lambda>now. if bk_equivalent B now (jr_before failed)
                   then collect_tx [jremove E (jr_lease failed) (jr_resource failed)]
                   else return_tx [])
            (\<lambda>_. return_tx [])
      in case residue of
        ResPending pending \<Rightarrow> collect_tx [jwrite E (failed\<lparr>jr_applied := pr_evidence pending\<rparr>)]
      | ResRestored _ \<Rightarrow> clear
      | ResUnchanged \<Rightarrow> clear)"

definition abort_apply ::
  "('w, 'd) env \<Rightarrow> (journal_record \<times> verified_mutation) list \<Rightarrow> journal_record \<Rightarrow>
   mutation_failure \<Rightarrow> journal_record list \<Rightarrow> (('w, 'd) world, 'a) tx" where
  "abort_apply E mutated failed failure untouched =
     bind_tx (undo_mutations E mutated) (\<lambda>c1.
     bind_tx (settle_failed E failed (mf_residue failure)) (\<lambda>c2.
     bind_tx (collect_tx (map (\<lambda>r. jremove E (jr_lease r) (jr_resource r)) untouched)) (\<lambda>c3.
       throw (transaction_error (mf_error failure) (c1 @ c2 @ c3)))))"

fun mutate_loop ::
  "('w, 'd) env \<Rightarrow> normalized_config \<Rightarrow> (journal_record \<times> verified_mutation) list \<Rightarrow>
   journal_record list \<Rightarrow> (('w, 'd) world, (journal_record \<times> verified_mutation) list) tx" where
  "mutate_loop E plan mutated [] = return_tx mutated"
| "mutate_loop E plan mutated (r # rest) =
     bind_tx (mutate_and_verify E (jr_identity r) (jr_before r) plan INITIAL_POINTS) (\<lambda>res.
     case res of
       Inr m \<Rightarrow> mutate_loop E plan (mutated @ [(r, m)]) rest
     | Inl failure \<Rightarrow> abort_apply E mutated r failure rest)"

text \<open>The final \<open>Applied\<close> records; a failure is only remembered.\<close>

fun commit_loop ::
  "('w, 'd) env \<Rightarrow> (journal_record \<times> verified_mutation) list \<Rightarrow>
   (('w, 'd) world, live_record list \<times> bool) tx" where
  "commit_loop E [] = return_tx ([], True)"
| "commit_loop E ((r, m) # rest) =
     bind_tx (run_mut \<lparr> lr_record = r, lr_state = LivePrepared \<rparr> (commit_verified E m)) (\<lambda>(res, live).
     bind_tx (commit_loop E rest) (\<lambda>(lives, all_written).
       return_tx (live # lives, is_ok res \<and> all_written)))"

definition new_record ::
  "('w, 'd) env \<Rightarrow> lease_id \<Rightarrow> bool \<Rightarrow> normalized_config \<Rightarrow>
   resource_id \<times> platform_snapshot \<times> resource_identity \<Rightarrow> journal_record" where
  "new_record E lease noop plan = (\<lambda>(r, prior, identity).
     \<lparr> jr_owner = e_owner E, jr_lease = lease, jr_resource = r, jr_backend = kind_of E,
       jr_identity = identity, jr_phase = (if noop then Applied else Prepared), jr_before = prior,
       jr_desired = plan, jr_applied = (if noop then Some prior else None) \<rparr>)"

definition transact_with_locks ::
  "('w, 'd) env \<Rightarrow> resource_id list \<Rightarrow> normalized_config \<Rightarrow> platform_snapshot list \<Rightarrow>
   resource_identity list \<Rightarrow> (('w, 'd) world, prepared_lease) tx" where
  "transact_with_locks E resources plan befores identities =
     bind_tx (os (e_new_v4 E)) (\<lambda>lease.
     (let noop = list_all (\<lambda>prior. bk_matches_desired (e_backend E) prior plan) befores;
          recs = map (new_record E lease noop plan) (zip resources (zip befores identities))
      in seq_tx (persist_unmutated E recs) (
      if noop then
        seq_tx (fire E AfterApplied) (return_tx \<lparr> pl_lease = lease,
          pl_records = map (\<lambda>r. \<lparr> lr_record = r, lr_state = Committed \<rparr>) recs, pl_was_noop = True \<rparr>)
      else
        seq_tx (fire E AfterPrepared) (
        bind_tx (mutate_loop E plan [] recs) (\<lambda>mutated.
        bind_tx (commit_loop E mutated) (\<lambda>(live, all_written).
        seq_tx (if all_written then fire E AfterApplied else return_tx ())
          (return_tx \<lparr> pl_lease = lease, pl_records = live, pl_was_noop = False \<rparr>)))))))"

section \<open>Restore\<close>

text \<open>Ending the ownership of one record: its journal file goes, then the checkpoint fires.\<close>

definition finish_restore :: "('w, 'd) env \<Rightarrow> journal_record \<Rightarrow> (live_record \<times> ('w, 'd) world, unit) tx" where
  "finish_restore E rec = inner_tx (seq_tx (jremove E (jr_lease rec) (jr_resource rec)) (fire E AfterRestoreJournal))"

text \<open>The overlay is ours and in effect: compensate towards the captured state.\<close>

definition restore_owned ::
  "('w, 'd) env \<Rightarrow> platform_snapshot \<Rightarrow> (live_record \<times> ('w, 'd) world, unit) tx" where
  "restore_owned E current =
     bind_tx get_mut (\<lambda>live.
     (let B = e_backend E; rec = lr_record live; r = jr_resource rec in
      case live_applied live of
        None \<Rightarrow> throw (ExternalModification r
          ''the lease record carries no verified applied state; refusing to overwrite indeterminate state'')
      | Some applied \<Rightarrow>
        if \<not> owns_current B applied current
        then throw (ExternalModification r
          ''the current state is neither the state applied by this lease nor the original state'')
        else
         (let pending = \<lparr> pr_evidence = Some applied, pr_target = jr_before rec \<rparr>;
              resume = rec\<lparr>jr_phase := Prepared, jr_applied := None\<rparr>
          in
          seq_tx (put_mut (live\<lparr>lr_state := Compensating pending resume\<rparr>)) (
          bind_tx (inner_tx (run_mut pending (compensate E (jr_identity rec) (Some AfterRestoreRestore))))
            (\<lambda>(res, pending). case res of
               Inl e \<Rightarrow> seq_tx (try_tx (retain_compensation E pending resume)) (throw e)
             | Inr _ \<Rightarrow>
               seq_tx (put_mut (live\<lparr>lr_state := Compensating pending resume\<rparr>)) (
               finish_restore E rec))))))"

definition restore_live_state :: "('w, 'd) env \<Rightarrow> (live_record \<times> ('w, 'd) world, unit) tx" where
  "restore_live_state E =
     bind_tx get_mut (\<lambda>live.
     (let B = e_backend E; rec = lr_record live; r = jr_resource rec;
          forget = inner_tx (jremove E (jr_lease rec) r) in
     bind_tx (inner_tx (os (bk_status B (jr_identity rec)))) (\<lambda>status.
     case status of
       Gone \<Rightarrow> forget
     | Replaced \<Rightarrow> forget
     | Ambiguous \<Rightarrow> throw (ResourceIdentity (kind_of E) r
         ''the backend cannot prove that the current target is the leased native resource incarnation'')
     | Same \<Rightarrow>
       match_tx (inner_tx (os (bk_readback B r)))
         (\<lambda>current.
           seq_tx (inner_tx (fire E AfterRestoreReadback)) (
           if bk_equivalent B current (jr_before rec) then finish_restore E rec
           else if lr_state live \<noteq> Committed then
             seq_tx (resolve_live E (Some current)) (
             bind_tx get_mut (\<lambda>live.
             bind_tx (inner_tx (os (bk_readback B (jr_resource (lr_record live))))) (\<lambda>current.
             if bk_equivalent B current (jr_before (lr_record live)) then finish_restore E (lr_record live)
             else restore_owned E current)))
           else restore_owned E current))
         (\<lambda>e. case e of ResourceGone _ _ _ \<Rightarrow> forget | _ \<Rightarrow> throw e))))"

section \<open>Recovery\<close>

datatype recovery_outcome =
    RcForeignOwner resource_id string
  | RcRestored resource_id lease_id
  | RcJournalCleared resource_id lease_id
  | RcGone resource_id lease_id
  | RcReplaced resource_id lease_id
  | RcIdentityMismatch resource_id lease_id
  | RcFailed resource_id lease_id error
  | RcExternalConflict resource_id lease_id
  | RcBusy resource_id

text \<open>Recovery of a record whose evidence still names the current state.\<close>

definition recover_owned :: "('w, 'd) env \<Rightarrow> journal_record \<Rightarrow> (('w, 'd) world, recovery_outcome) tx" where
  "recover_owned E rec =
     (let r = jr_resource rec;
          pending = \<lparr> pr_evidence = jr_applied rec, pr_target = jr_before rec \<rparr> in
     bind_tx (run_mut pending (compensate E (jr_identity rec) (Some AfterRecoveryRestore)))
       (\<lambda>(res, pending). case res of
          Inl e \<Rightarrow>
            seq_tx (jwrite E (rec\<lparr>jr_phase := Prepared, jr_applied := pr_evidence pending\<rparr>)) (
            if is_external_modification e then return_tx (RcExternalConflict r (jr_lease rec))
            else throw e)
        | Inr _ \<Rightarrow>
            seq_tx (jremove E (jr_lease rec) r) (
            seq_tx (fire E AfterRecoveryJournal) (
            return_tx (RcRestored r (jr_lease rec))))))"

definition recover_record :: "('w, 'd) env \<Rightarrow> journal_record \<Rightarrow> (('w, 'd) world, recovery_outcome) tx" where
  "recover_record E rec =
     (let B = e_backend E; r = jr_resource rec; lease = jr_lease rec;
          forget = (\<lambda>out. seq_tx (jremove E lease r) (return_tx out)) in
     bind_tx (os (bk_status B (jr_identity rec))) (\<lambda>status.
     case status of
       Gone \<Rightarrow> forget (RcGone r lease)
     | Replaced \<Rightarrow> forget (RcReplaced r lease)
     | Ambiguous \<Rightarrow> return_tx (RcIdentityMismatch r lease)
     | Same \<Rightarrow>
       match_tx (os (bk_capture B r))
         (\<lambda>current.
           seq_tx (fire E AfterRecoveryReadback) (
           if bk_equivalent B current (jr_before rec) then
             seq_tx (jremove E lease r) (
             seq_tx (fire E AfterRecoveryJournal) (
             return_tx (RcJournalCleared r lease)))
           else if (case jr_applied rec of None \<Rightarrow> False
                    | Some applied \<Rightarrow> owns_current B applied current)
           then recover_owned E rec
           else return_tx (RcExternalConflict r lease)))
         (\<lambda>e. case e of ResourceGone _ _ _ \<Rightarrow> forget (RcGone r lease) | _ \<Rightarrow> throw e)))"

datatype recover_block = BlockJournal error | BlockConflict string

definition recover_for_resource ::
  "('w, 'd) env \<Rightarrow> journal_record \<Rightarrow> (('w, 'd) world, recover_block + unit) tx" where
  "recover_for_resource E rec =
     (if jr_owner rec \<noteq> e_owner E
      then return_tx (Inl (BlockConflict ''journal belongs to application owner''))
      else match_tx (recover_record E rec)
        (\<lambda>out. return_tx (case out of
            RcExternalConflict _ _ \<Rightarrow> Inl (BlockConflict
              ''the current state matches neither the journal's applied state nor its original state'')
          | RcIdentityMismatch _ _ \<Rightarrow> Inl (BlockConflict
              ''the recorded native resource incarnation cannot be recovered safely'')
          | _ \<Rightarrow> Inr ()))
        (\<lambda>e. return_tx (Inl (if is_journal_corrupt e then BlockJournal e
                           else BlockConflict ''recovery failed''))))"

section \<open>Update\<close>

text \<open>
  A live record is shared between the lease and the manager's registry (\<open>Arc<Mutex<LiveRecord>>\<close>):
  the heap maps the address of each to its contents. \<open>with_live\<close> is the body of a critical section.
\<close>

type_synonym addr = nat
type_synonym heap = "addr \<Rightarrow> live_record option"

definition with_live :: "addr \<Rightarrow> (live_record \<times> 's, 'a) tx \<Rightarrow> (heap \<times> 's, 'a) tx" where
  "with_live a m hs = (case hs of (h, s) \<Rightarrow> (case h a of
       None \<Rightarrow> (Crash, (h, s))
     | Some l \<Rightarrow> (case m (l, s) of (res, (l', t)) \<Rightarrow> (res, (h(a \<mapsto> l'), t)))))"

text \<open>One owned resource of an update: its address, its record and applied state before.\<close>

record update_item =
  ui_addr :: addr
  ui_old :: journal_record
  ui_applied :: platform_snapshot

fun update_items ::
  "('w, 'd) env \<Rightarrow> addr list \<Rightarrow> (heap \<times> ('w, 'd) world, update_item list) tx" where
  "update_items E [] = return_tx []"
| "update_items E (a # as) =
     bind_tx (with_live a (
       seq_tx (resolve_live E None) (
       bind_tx get_mut (\<lambda>live. case live_applied live of
         None \<Rightarrow> throw (ExternalModification (jr_resource (lr_record live))
           ''the lease record carries no verified applied state; refusing to overwrite indeterminate state'')
       | Some applied \<Rightarrow> return_tx \<lparr> ui_addr = a, ui_old = lr_record live, ui_applied = applied \<rparr>))))
       (\<lambda>item. bind_tx (update_items E as) (\<lambda>items. return_tx (item # items)))"

definition check_owned :: "('w, 'd) env \<Rightarrow> update_item \<Rightarrow> (heap \<times> ('w, 'd) world, unit) tx" where
  "check_owned E item =
     (let r = jr_resource (ui_old item) in
     bind_tx (inner_tx (os (bk_readback (e_backend E) r))) (\<lambda>current.
     seq_tx (inner_tx (fire E AfterUpdateCapture)) (
     if \<not> owns_current (e_backend E) (ui_applied item) current
     then throw (ExternalModification r
            ''the current state no longer matches the state applied by this lease'')
     else return_tx ())))"

definition restore_old :: "('w, 'd) env \<Rightarrow> update_item \<Rightarrow> (heap \<times> ('w, 'd) world, unit) tx" where
  "restore_old E item = with_live (ui_addr item) (persist_live E (ui_old item))"

definition prepare_update ::
  "('w, 'd) env \<Rightarrow> normalized_config \<Rightarrow> update_item list \<Rightarrow> update_item \<Rightarrow>
   (heap \<times> ('w, 'd) world, unit) tx" where
  "prepare_update E plan items item =
     match_tx (with_live (ui_addr item) (
         bind_tx get_mut (\<lambda>live.
         (let rec = (lr_record live)\<lparr>jr_desired := plan, jr_phase := Prepared\<rparr> in
          seq_tx (put_mut \<lparr> lr_record = rec, lr_state = Unmutated \<rparr>)
            (inner_tx (jwrite E rec))))))
       return_tx
       (\<lambda>e. bind_tx (collect_tx (map (restore_old E) items))
          (\<lambda>cleanup. throw (transaction_error e cleanup)))"

text \<open>What becomes of one resource when the update is undone.\<close>

definition settle_update ::
  "('w, 'd) env \<Rightarrow> update_item \<times> mutation_residue \<Rightarrow> (heap \<times> ('w, 'd) world, error list) tx" where
  "settle_update E = (\<lambda>(item, residue). case residue of
       ResPending pending \<Rightarrow>
         bind_tx (collect_tx [with_live (ui_addr item) (retain_compensation E pending (ui_old item))])
           (\<lambda>es. return_tx (es @ [IndeterminateMutation (kind_of E) ''update rollback could not restore'']))
     | ResRestored identity \<Rightarrow>
         (let c = (ui_old item)\<lparr>jr_applied := identity\<rparr>;
              c = (if identity = None then c\<lparr>jr_phase := Prepared\<rparr> else c)
          in collect_tx [with_live (ui_addr item) (persist_live E c)])
     | ResUnchanged \<Rightarrow> collect_tx [restore_old E item])"

fun settle_updates ::
  "('w, 'd) env \<Rightarrow> (update_item \<times> mutation_residue) list \<Rightarrow> (heap \<times> ('w, 'd) world, error list) tx" where
  "settle_updates E [] = return_tx []"
| "settle_updates E (x # xs) =
     bind_tx (settle_update E x) (\<lambda>es.
     bind_tx (settle_updates E xs) (\<lambda>es'. return_tx (es @ es')))"

fun rollback_items ::
  "('w, 'd) env \<Rightarrow> (update_item \<times> verified_mutation) list \<Rightarrow>
   (heap \<times> ('w, 'd) world, (update_item \<times> mutation_residue) list) tx" where
  "rollback_items E [] = return_tx []"
| "rollback_items E ((item, m) # rest) =
     bind_tx (inner_tx (rollback_proven E (jr_identity (ui_old item)) (Some (persist m)) (ui_applied item)))
       (\<lambda>residue. bind_tx (rollback_items E rest) (\<lambda>rs. return_tx ((item, residue) # rs)))"

definition abort_update ::
  "('w, 'd) env \<Rightarrow> (update_item \<times> verified_mutation) list \<Rightarrow> update_item \<Rightarrow> mutation_failure \<Rightarrow>
   update_item list \<Rightarrow> (heap \<times> ('w, 'd) world, 'a) tx" where
  "abort_update E mutated failed failure rest =
     bind_tx (rollback_items E mutated) (\<lambda>undone.
     seq_tx (try_tx (inner_tx (fire E AfterUpdateVerify))) (
     bind_tx (settle_updates E (undone @ [(failed, mf_residue failure)]
                @ map (\<lambda>i. (i, ResUnchanged)) rest)) (\<lambda>cleanup.
       throw (transaction_error (mf_error failure) cleanup))))"

fun update_loop ::
  "('w, 'd) env \<Rightarrow> normalized_config \<Rightarrow> (update_item \<times> verified_mutation) list \<Rightarrow> update_item list \<Rightarrow>
   (heap \<times> ('w, 'd) world, (update_item \<times> verified_mutation) list) tx" where
  "update_loop E plan mutated [] = return_tx mutated"
| "update_loop E plan mutated (item # rest) =
     seq_tx (with_live (ui_addr item)
         (bind_tx get_mut (\<lambda>live. put_mut (live\<lparr>lr_state := LivePrepared\<rparr>)))) (
     bind_tx (inner_tx (mutate_and_verify E (jr_identity (ui_old item)) (ui_applied item) plan UPDATE_POINTS))
       (\<lambda>res. case res of
          Inr m \<Rightarrow> update_loop E plan (mutated @ [(item, m)]) rest
        | Inl failure \<Rightarrow> abort_update E mutated item failure rest))"

text \<open>Every commit is attempted; the first error is what the update returns.\<close>

fun commit_updates ::
  "('w, 'd) env \<Rightarrow> (update_item \<times> verified_mutation) list \<Rightarrow> (heap \<times> ('w, 'd) world, error list) tx" where
  "commit_updates E [] = return_tx []"
| "commit_updates E ((item, m) # rest) =
     bind_tx (collect_tx [with_live (ui_addr item) (commit_verified E m)]) (\<lambda>es.
     bind_tx (commit_updates E rest) (\<lambda>es'. return_tx (es @ es')))"

definition transact_update ::
  "('w, 'd) env \<Rightarrow> addr list \<Rightarrow> normalized_config \<Rightarrow> (heap \<times> ('w, 'd) world, unit) tx" where
  "transact_update E live plan =
     seq_tx (inner_tx (fire E AfterUpdateResolve)) (
     bind_tx (update_items E live) (\<lambda>items.
     seq_tx (for_tx items (check_owned E)) (
     if list_all (\<lambda>i. bk_matches_desired (e_backend E) (ui_applied i) plan) items
     then inner_tx (fire E AfterUpdateNoopCheck)
     else
     seq_tx (for_tx items (prepare_update E plan items)) (
     seq_tx (inner_tx (fire E AfterUpdatePrepared)) (
     bind_tx (update_loop E plan [] items) (\<lambda>mutated.
     bind_tx (commit_updates E mutated) (\<lambda>errors. case errors of
         e # _ \<Rightarrow> throw e
       | [] \<Rightarrow> inner_tx (fire E AfterUpdateApplied))))))))"

end
