(* ===== verification/Contract.thy ===== *)
theory Contract
  imports Engine
begin

text \<open>
  The contract between the engine and a backend, and the crash safety of the engine over it.

  \<open>managed_backend\<close> is the interface: \<open>view w r\<close> is the native state of a resource, \<open>snap r n\<close> the
  snapshot a read of it yields, and \<open>calm w\<close> says that no other actor interferes. A backend reads
  without changing anything, changes no resource but the one it was told to, and a rejected
  attempt has changed nothing; any operation may fail. What it reads and which resource it changes is
  promised for the names under which it has resources at all: a backend may read its one file whatever
  name it is given, or take two spellings of an index for the same link.
\<close>

definition manages :: "('w \<Rightarrow> bool) \<Rightarrow> ('w \<Rightarrow> resource_id \<Rightarrow> 'n option) \<Rightarrow> resource_id \<Rightarrow> bool" where
  "manages calm view r \<longleftrightarrow> (\<exists>w. calm w \<and> view w r \<noteq> None)"

lemma managesI: "calm w \<Longrightarrow> view w r = Some n \<Longrightarrow> manages calm view r"
  by (auto simp: manages_def)

definition is_rejected :: "mutation_attempt \<Rightarrow> bool" where
  "is_rejected a = (case a of Rejected _ \<Rightarrow> True | _ \<Rightarrow> False)"

definition holds_state ::
  "('w, 'd) env \<Rightarrow> ('w \<Rightarrow> resource_id \<Rightarrow> 'n option) \<Rightarrow> (resource_id \<Rightarrow> 'n \<Rightarrow> platform_snapshot) \<Rightarrow>
   'w \<Rightarrow> resource_id \<Rightarrow> platform_snapshot \<Rightarrow> bool" where
  "holds_state E view snap w r target \<longleftrightarrow>
     (\<exists>n. view w r = Some n \<and> bk_equivalent (e_backend E) (snap r n) target)"

lemma holds_stateI:
  "view w r = Some n \<Longrightarrow> bk_equivalent (e_backend E) (snap r n) target \<Longrightarrow> holds_state E view snap w r target"
  by (auto simp: holds_state_def)

text \<open>What a residue reports about a resource whose rollback target is \<open>target\<close>.\<close>

definition residue_ok ::
  "('w, 'd) env \<Rightarrow> ('w \<Rightarrow> resource_id \<Rightarrow> 'n option) \<Rightarrow> (resource_id \<Rightarrow> 'n \<Rightarrow> platform_snapshot) \<Rightarrow>
   'w \<Rightarrow> 'w \<Rightarrow> resource_id \<Rightarrow> platform_snapshot \<Rightarrow> mutation_residue \<Rightarrow> bool" where
  "residue_ok E view snap w w' r target x = (case x of
       ResUnchanged \<Rightarrow> view w' = view w
     | ResRestored _ \<Rightarrow> holds_state E view snap w' r target
     | ResPending p \<Rightarrow> pr_target p = target)"

text \<open>A verified mutation: its observation is the current state and matches the plan.\<close>

definition verified_ok ::
  "('w, 'd) env \<Rightarrow> ('w \<Rightarrow> resource_id \<Rightarrow> 'n option) \<Rightarrow> (resource_id \<Rightarrow> 'n \<Rightarrow> platform_snapshot) \<Rightarrow>
   normalized_config \<Rightarrow> 'w \<Rightarrow> resource_id \<Rightarrow> verified_mutation \<Rightarrow> bool" where
  "verified_ok E view snap plan w r m \<longleftrightarrow>
     (\<exists>n. view w r = Some n \<and> vm_observed m = snap r n \<and>
        bk_matches_desired (e_backend E) (vm_observed m) plan \<and>
        (ownership_identity_of (e_backend E) = Durable \<or> vm_proof m = None \<longrightarrow>
           owns_current (e_backend E) (persist m) (vm_observed m)))"

text \<open>
  Only the native state of the resources in \<open>R\<close>, all of them the backend's, may have changed, and
  nothing on disk.
\<close>

definition os_only ::
  "('w \<Rightarrow> bool) \<Rightarrow> ('w \<Rightarrow> resource_id \<Rightarrow> 'n option) \<Rightarrow> resource_id set \<Rightarrow>
   ('w, 'd) world \<Rightarrow> ('w, 'd) world \<Rightarrow> bool" where
  "os_only calm view R s t \<longleftrightarrow> calm (w_os t) \<and> w_journal t = w_journal s \<and>
     (\<forall>r. r \<notin> R \<longrightarrow> view (w_os t) r = view (w_os s) r) \<and> (\<forall>r\<in>R. manages calm view r)"

lemma os_only_trans:
  "os_only calm view R s t \<Longrightarrow> os_only calm view R' t u \<Longrightarrow> R \<subseteq> Q \<Longrightarrow> R' \<subseteq> Q \<Longrightarrow> Q \<subseteq> R \<union> R' \<Longrightarrow>
   os_only calm view Q s u"
  unfolding os_only_def by (metis subsetD UnE)

lemma os_only_manages: "os_only calm view R s t \<Longrightarrow> r \<in> R \<Longrightarrow> manages calm view r"
  by (simp add: os_only_def)

lemma os_only_calm: "os_only calm view R s t \<Longrightarrow> calm (w_os t)"
  by (simp add: os_only_def)

lemma os_only_view: "os_only calm view {} s t \<Longrightarrow> view (w_os t) = view (w_os s)"
  by (auto simp: os_only_def)

text \<open>What \<open>mutate_and_verify\<close> has done when it returns: it never fails with a bare error.\<close>

definition mutate_post ::
  "('w, 'd) env \<Rightarrow> ('w \<Rightarrow> bool) \<Rightarrow> ('w \<Rightarrow> resource_id \<Rightarrow> 'n option) \<Rightarrow>
   (resource_id \<Rightarrow> 'n \<Rightarrow> platform_snapshot) \<Rightarrow> resource_id set \<Rightarrow> normalized_config \<Rightarrow>
   platform_snapshot \<Rightarrow> resource_identity \<Rightarrow> ('w, 'd) world \<Rightarrow> 'w \<Rightarrow>
   (mutation_failure + verified_mutation) outcome \<Rightarrow> ('w, 'd) world \<Rightarrow> bool" where
  "mutate_post E calm view snap R plan target i s w res u \<longleftrightarrow> os_only calm view R s u \<and> no_err res \<and>
     when_ok res (\<lambda>x. case x of
         Inr m \<Rightarrow> verified_ok E view snap plan (w_os u) (id_resource i) m
       | Inl f \<Rightarrow> residue_ok E view snap w (w_os u) (id_resource i) target (mf_residue f))"

locale managed_backend =
  fixes E :: "('w, 'd) env"
    and calm :: "'w \<Rightarrow> bool"
    and view :: "'w \<Rightarrow> resource_id \<Rightarrow> 'n option"
    and snap :: "resource_id \<Rightarrow> 'n \<Rightarrow> platform_snapshot"
  assumes status_calm: "calm w \<Longrightarrow>
      wp (bk_status (e_backend E) i) (\<lambda>_ w'. calm w' \<and> view w' = view w) w"
    and readback_calm: "calm w \<Longrightarrow>
      wp (bk_readback (e_backend E) r) (\<lambda>res w'. calm w' \<and> view w' = view w \<and>
        when_ok res (\<lambda>c. manages calm view r \<longrightarrow> (\<exists>n. view w r = Some n \<and> c = snap r n))) w"
    and capture_calm: "calm w \<Longrightarrow>
      wp (bk_capture (e_backend E) r) (\<lambda>res w'. calm w' \<and> view w' = view w \<and>
        when_ok res (\<lambda>c. manages calm view r \<longrightarrow> (\<exists>n. view w r = Some n \<and> c = snap r n))) w"
    and apply_calm: "calm w \<Longrightarrow> manages calm view (id_resource i) \<Longrightarrow>
      wp (bk_apply_bound (e_backend E) i expected plan) (\<lambda>res w'. no_err res \<and> calm w' \<and>
        (\<forall>r. r \<noteq> id_resource i \<longrightarrow> view w' r = view w r) \<and>
        when_ok res (\<lambda>a. is_rejected a \<longrightarrow> view w' = view w)) w"
    and restore_calm: "calm w \<Longrightarrow> manages calm view (id_resource i) \<Longrightarrow>
      wp (bk_restore_bound (e_backend E) i expected target) (\<lambda>res w'. no_err res \<and> calm w' \<and>
        (\<forall>r. r \<noteq> id_resource i \<longrightarrow> view w' r = view w r) \<and>
        when_ok res (\<lambda>a. is_rejected a \<longrightarrow> view w' = view w)) w"
    and clock_calm: "calm w \<Longrightarrow> wp (e_now E) (\<lambda>res w'. no_err res \<and> calm w' \<and> view w' = view w) w"
    and uuid_calm: "calm w \<Longrightarrow> wp (e_new_v4 E) (\<lambda>res w'. no_err res \<and> calm w' \<and> view w' = view w) w"
    and equivalent_refl: "view w r = Some n \<Longrightarrow> bk_equivalent (e_backend E) (snap r n) (snap r n)"


lemma wp_os: "wp (os m) Q s = wp m (\<lambda>r w. Q r (s\<lparr>w_os := w\<rparr>)) (w_os s)"
  by (simp add: os_def wp_focus)

lemma wp_jn: "wp (jn m) Q s = wp m (\<lambda>r j. Q r (s\<lparr>w_journal := j\<rparr>)) (w_journal s)"
  by (simp add: jn_def wp_focus)

text \<open>A checkpoint reads the injector and nothing else.\<close>

lemma wp_fire: "wp (fire E p) (\<lambda>_ t. t = s) s"
  by (auto simp: fire_def wp_simps split: option.splits fault_action.splits)

lemma wp_fire_opt: "wp (fire_opt E p) (\<lambda>_ t. t = s) s"
  by (cases p) (auto simp: fire_opt_def wp_fire)

context managed_backend begin

lemma status_only:
  "calm (w_os s) \<Longrightarrow> wp (os (bk_status (e_backend E) i)) (\<lambda>_ t. os_only calm view {} s t) s"
  unfolding wp_os by (rule wp_mono[OF status_calm]) (auto simp: os_only_def)

lemma readback_only:
  "calm (w_os s) \<Longrightarrow> manages calm view r \<Longrightarrow> wp (os (bk_readback (e_backend E) r)) (\<lambda>res t. os_only calm view {} s t \<and>
     when_ok res (\<lambda>c. (\<exists>n. view (w_os t) r = Some n \<and> c = snap r n))) s"
  unfolding wp_os by (rule wp_mono[OF readback_calm]) (auto simp: os_only_def)

lemma capture_only:
  "calm (w_os s) \<Longrightarrow> manages calm view r \<Longrightarrow> wp (os (bk_capture (e_backend E) r)) (\<lambda>res t. os_only calm view {} s t \<and>
     when_ok res (\<lambda>c. (\<exists>n. view (w_os t) r = Some n \<and> c = snap r n))) s"
  unfolding wp_os by (rule wp_mono[OF capture_calm]) (auto simp: os_only_def)

lemma apply_only:
  "calm (w_os s) \<Longrightarrow> manages calm view (id_resource i) \<Longrightarrow> wp (os (bk_apply_bound (e_backend E) i expected plan)) (\<lambda>res t. no_err res \<and>
     os_only calm view {id_resource i} s t \<and>
     when_ok res (\<lambda>a. is_rejected a \<longrightarrow> view (w_os t) = view (w_os s))) s"
  unfolding wp_os by (rule wp_mono[OF apply_calm]) (auto simp: os_only_def)

lemma restore_only:
  "calm (w_os s) \<Longrightarrow> manages calm view (id_resource i) \<Longrightarrow> wp (os (bk_restore_bound (e_backend E) i expected target)) (\<lambda>res t. no_err res \<and>
     os_only calm view {id_resource i} s t \<and>
     when_ok res (\<lambda>a. is_rejected a \<longrightarrow> view (w_os t) = view (w_os s))) s"
  unfolding wp_os by (rule wp_mono[OF restore_calm]) (auto simp: os_only_def)

lemma suppress_only:
  assumes "calm (w_os s)"
  shows "wp (suppress E x) (\<lambda>res t. no_err res \<and> os_only calm view {} s t) s"
proof -
  have now: "wp (os (e_now E)) (\<lambda>res t. no_err res \<and> os_only calm view {} s t) s" if "calm (w_os s)" for s :: "('w, 'd) world"
    unfolding wp_os by (rule wp_mono[OF clock_calm[OF that]]) (auto simp: os_only_def)
  show ?thesis
    unfolding suppress_def
  proof (rule wp_bindI[OF now[OF assms]], goal_cases)
    case (1 x t)
    show ?case
      by (rule wp_bindI[OF now[OF os_only_calm[OF conjunct2[OF 1]]]]) (use 1 in \<open>auto simp: os_only_def\<close>)
  qed auto
qed

lemma read_step:
  assumes "os_only calm view R s t" "r \<in> R"
  shows "wp (os (bk_readback (e_backend E) r)) (\<lambda>res u. os_only calm view R s u \<and>
     view (w_os u) = view (w_os t) \<and>
     when_ok res (\<lambda>c. (\<exists>n. view (w_os u) r = Some n \<and> c = snap r n))) t"
  by (rule wp_mono[OF readback_only[OF os_only_calm[OF assms(1)] os_only_manages[OF assms]]]) (use assms in \<open>auto simp: os_only_def\<close>)

lemma status_step:
  assumes "os_only calm view R s t"
  shows "wp (os (bk_status (e_backend E) i)) (\<lambda>_ u. os_only calm view R s u \<and>
     view (w_os u) = view (w_os t)) t"
  by (rule wp_mono[OF status_only[OF os_only_calm[OF assms]]]) (use assms in \<open>auto simp: os_only_def\<close>)

lemma suppress_step:
  assumes "os_only calm view R s t"
  shows "wp (suppress E x) (\<lambda>res u. no_err res \<and> os_only calm view R s u \<and> view (w_os u) = view (w_os t)) t"
  by (rule wp_mono[OF suppress_only[OF os_only_calm[OF assms]]]) (use assms in \<open>auto simp: os_only_def\<close>)

lemma fire_step: "os_only calm view R s t \<Longrightarrow> wp (fire E p) (\<lambda>_ u. u = t \<and> os_only calm view R s u) t"
  by (rule wp_mono[OF wp_fire]) simp

lemma restore_step:
  assumes "os_only calm view R s t" "id_resource i \<in> R"
  shows "wp (os (bk_restore_bound (e_backend E) i expected target)) (\<lambda>_ u. os_only calm view R s u) t"
  by (rule wp_mono[OF restore_only[OF os_only_calm[OF assms(1)] os_only_manages[OF assms]]])
     (use assms os_only_trans[of calm view R s t "{id_resource i}" _ R] in blast)

lemma apply_step:
  assumes "os_only calm view R s t" "id_resource i \<in> R"
  shows "wp (os (bk_apply_bound (e_backend E) i expected plan)) (\<lambda>res u. no_err res \<and> os_only calm view R s u \<and>
     when_ok res (\<lambda>a. is_rejected a \<longrightarrow> view (w_os u) = view (w_os t))) t"
  by (rule wp_mono[OF apply_only[OF os_only_calm[OF assms(1)] os_only_manages[OF assms]]])
     (use assms os_only_trans[of calm view R s t "{id_resource i}" _ R] in blast)

lemma confirm_spec:
  assumes "os_only calm view R s t" "id_resource i \<in> R"
  shows "wp (confirm_compensation E i) (\<lambda>res (p', u). os_only calm view R s u \<and> p' = p \<and>
     when_ok res (\<lambda>_. holds_state E view snap (w_os u) (id_resource i) (pr_target p))) (p, t)"
  unfolding confirm_compensation_def Let_def
proof (rule wp_bind_innerI[OF read_step[OF assms]], goal_cases)
  case (1 now u)
  then obtain n where u: "os_only calm view R s u"
    and n: "view (w_os u) (id_resource i) = Some n" "now = snap (id_resource i) n" by auto
  show ?case
  proof (rule wp_bind_innerI[OF status_step[OF u]], goal_cases)
    case (1 status v)
    then have v: "os_only calm view R s v" "view (w_os v) = view (w_os u)" by auto
    show ?case
      by (auto simp: v(1) holds_state_def n v(2) intro!: wp_seq_innerI[OF suppress_step[OF v(1)]])
  qed auto
qed auto

text \<open>
  Compensation touches the one resource and no file; when it returns \<open>Ok\<close>, the resource is at the
  target; it never changes which target that is.
\<close>

lemma compensate_spec:
  assumes "os_only calm view R s t" "id_resource i \<in> R"
  shows "wp (compensate E i after_restore) (\<lambda>res (p', u). os_only calm view R s u \<and>
     pr_target p' = pr_target p \<and>
     when_ok res (\<lambda>_. holds_state E view snap (w_os u) (id_resource i) (pr_target p))) (p, t)"
    (is "wp _ ?Q _")
  unfolding compensate_def Let_def
proof (rule wp_bind_innerI[OF status_step[OF assms(1)]], goal_cases)
  case (1 status u)
  then have u: "os_only calm view R s u" by simp
  have after: "wp (seq_tx (inner_tx (fire_opt E after_restore)) (confirm_compensation E i)) ?Q (q, v)"
    if v: "os_only calm view R s v" and q: "pr_target q = pr_target p" for q v
  proof (rule wp_seq_innerI[OF wp_fire_opt], goal_cases)
    case (1 x w)
    with v have "os_only calm view R s w" by simp
    from confirm_spec[OF this assms(2), of q] show ?case by (rule wp_mono) (use q in auto)
  qed (use v q in auto)
  have read: "wp (bind_tx (inner_tx (os (bk_readback (e_backend E) (id_resource i)))) f) ?Q (p, u)"
    if "\<And>n v. os_only calm view R s v \<Longrightarrow> view (w_os v) (id_resource i) = Some n \<Longrightarrow>
          wp (f (snap (id_resource i) n)) ?Q (p, v)" for f
  proof (rule wp_bind_innerI[OF read_step[OF u assms(2)]], goal_cases)
    case (1 c v)
    then obtain n where "os_only calm view R s v" "view (w_os v) (id_resource i) = Some n"
      "c = snap (id_resource i) n" by auto
    with that show ?case by blast
  qed auto
  show ?case
  proof (cases "status = Same")
    case False
    with u show ?thesis by simp
  next
    case True
    have "wp (bind_tx (inner_tx (os (bk_restore_bound (e_backend E) i pf (pr_target p)))) (\<lambda>attempt.
       seq_tx (case attempt of
           Performed produced \<Rightarrow> modify_mut (\<lambda>p. p\<lparr>pr_evidence := produced\<rparr>)
         | Indeterminate e produced \<Rightarrow> (case produced of
               Some q \<Rightarrow> seq_tx (modify_mut (\<lambda>p. p\<lparr>pr_evidence := Some q\<rparr>)) (throw e)
             | None \<Rightarrow> throw e)
         | Rejected e \<Rightarrow> throw e) (
       seq_tx (inner_tx (fire_opt E after_restore)) (confirm_compensation E i)))) ?Q (p, v)"
      if v: "os_only calm view R s v" for pf v
    proof (rule wp_bind_innerI[OF restore_step[OF v assms(2)]], goal_cases)
      case (1 attempt w)
      then show ?case
        by (cases attempt) (auto simp: wp_seq[of "seq_tx a b" for a b] wp_seq[of "case x of None \<Rightarrow> m | Some y \<Rightarrow> n y" for x m n]
            intro!: after split: option.splits)
    qed auto
    note restore = this
    with True show ?thesis
      by (auto intro!: read restore intro: holds_stateI split: option.splits)
  qed
qed auto

lemma rollback_spec:
  assumes "os_only calm view R s t" "id_resource i \<in> R"
  shows "wp (rollback_proven E i evidence target) (\<lambda>res u. os_only calm view R s u \<and> no_err res \<and>
     when_ok res (\<lambda>x. x \<noteq> ResUnchanged \<and> residue_ok E view snap w (w_os u) (id_resource i) target x)) t"
  unfolding rollback_proven_def
  by (rule wp_bind_run_mutI[OF compensate_spec[OF assms]]) (auto simp: residue_ok_def)

lemma fail_spec:
  assumes "os_only calm view R s t" "id_resource i \<in> R"
  shows "wp (fail_mutation E i target evidence e) (\<lambda>res u. os_only calm view R s u \<and> no_err res \<and>
     when_ok res (\<lambda>x. case x of Inr _ \<Rightarrow> False
       | Inl f \<Rightarrow> residue_ok E view snap w (w_os u) (id_resource i) target (mf_residue f))) t"
  unfolding fail_mutation_def
  by (rule wp_bindI[OF rollback_spec[OF assms]]) auto

lemma mutate_fail:
  assumes "os_only calm view R s t" "id_resource i \<in> R"
  shows "wp (fail_mutation E i target evidence e) (mutate_post E calm view snap R plan target i s w) t"
  by (rule wp_mono[OF fail_spec[OF assms, of target evidence e w]])
     (auto simp: mutate_post_def when_ok_def split: outcome.splits sum.splits)

lemma conclude_spec:
  assumes t: "os_only calm view R s t" and i: "id_resource i \<in> R"
    and n: "view (w_os t) (id_resource i) = Some n" "actual = snap (id_resource i) n"
    and m: "bk_matches_desired (e_backend E) actual plan"
  shows "wp (conclude_mutation E i points produced actual (fail_mutation E i target produced))
     (mutate_post E calm view snap R plan target i s w) t"
proof -
  have done_ok: "wp (seq_tx (if b then suppress E x else return_tx ()) (return_tx (Inr v)))
      (mutate_post E calm view snap R plan target i s w) t"
    if "vm_observed v = actual"
      and "ownership_identity_of (e_backend E) = Durable \<or> vm_proof v = None \<Longrightarrow>
           owns_current (e_backend E) (persist v) actual" for b x v
  proof (cases b)
    case True
    have "wp (seq_tx (suppress E x) (return_tx (Inr v)))
        (mutate_post E calm view snap R plan target i s w) t"
      by (rule wp_seqI[OF suppress_step[OF t, of x]])
         (use n m that in \<open>auto simp: mutate_post_def verified_ok_def\<close>)
    with True show ?thesis by simp
  next
    case False
    with t n m that show ?thesis by (auto simp: mutate_post_def verified_ok_def)
  qed
  have refl: "bk_equivalent (e_backend E) actual actual"
    unfolding n(2) by (rule equivalent_refl[OF n(1)])
  show ?thesis
  proof (cases "ownership_identity_of (e_backend E)")
    case Durable
    show ?thesis
    proof (cases produced)
      case None
      with Durable show ?thesis
        by (simp add: conclude_mutation_def mutate_fail[OF t i])
    next
      case (Some pf)
      have "wp (seq_tx (if mp_suppress_events points then suppress E pf else return_tx ())
          (return_tx (Inr \<lparr> vm_proof = Some (OwnershipProof pf), vm_observed = actual \<rparr>)))
          (mutate_post E calm view snap R plan target i s w) t"
        if "bk_proves_current (e_backend E) pf actual"
        by (rule done_ok) (use that Durable in \<open>auto simp: persist_def owns_current_def\<close>)
      with Durable Some mutate_fail[OF t i] show ?thesis
        by (simp add: conclude_mutation_def Let_def)
    qed
  next
    case BestEffort
    have "wp (seq_tx (if mp_suppress_events points then suppress E actual else return_tx ())
        (return_tx (Inr \<lparr> vm_proof = map_option OwnershipProof produced, vm_observed = actual \<rparr>)))
        (mutate_post E calm view snap R plan target i s w) t"
      by (rule done_ok) (use BestEffort refl in \<open>auto simp: persist_def owns_current_def\<close>)
    with BestEffort show ?thesis by (simp add: conclude_mutation_def Let_def)
  qed
qed

lemma incarnation_spec:
  assumes t: "os_only calm view R s t"
    and ok: "\<And>u. os_only calm view R s u \<Longrightarrow> view (w_os u) = view (w_os t) \<Longrightarrow> wp k Q u"
    and no: "\<And>e u. os_only calm view R s u \<Longrightarrow> wp (fail e) Q u"
    and cr: "\<And>u. os_only calm view R s u \<Longrightarrow> Q Crash u"
  shows "wp (check_incarnation E i msg fail k) Q t"
  unfolding check_incarnation_def
  by (rule wp_matchI[OF status_step[OF t]]) (auto intro: ok no cr)

lemma verify_spec:
  assumes t: "os_only calm view R s t" and i: "id_resource i \<in> R"
  shows "wp (verify_mutation E i target plan points produced)
     (mutate_post E calm view snap R plan target i s w) t"
proof -
  let ?Q = "mutate_post E calm view snap R plan target i s w"
  note no = mutate_fail[OF _ i, where target = target and evidence = produced and plan = plan and w = w]
  have cr: "?Q Crash u" if "os_only calm view R s u" for u
    using that by (simp add: mutate_post_def)
  have step: "wp (match_tx (fire E pt) (\<lambda>_. k) (fail_mutation E i target produced)) ?Q u"
    if "os_only calm view R s u" "wp k ?Q u" for pt k u
    by (rule wp_matchI[OF fire_step[OF that(1), of pt]]) (use that cr no in auto)
  have read: "wp (match_tx (os (bk_readback (e_backend E) (id_resource i))) k (fail_mutation E i target produced)) ?Q u"
    if "os_only calm view R s u"
      and "\<And>n v. os_only calm view R s v \<Longrightarrow> view (w_os v) (id_resource i) = Some n \<Longrightarrow>
            wp (k (snap (id_resource i) n)) ?Q v" for k u
  proof (rule wp_matchI[OF read_step[OF that(1) i]], goal_cases)
    case (1 c v)
    then obtain n where "os_only calm view R s v" "view (w_os v) (id_resource i) = Some n"
      "c = snap (id_resource i) n" by auto
    with that(2) show ?case by blast
  qed (use cr no in auto)
  show ?thesis
    unfolding verify_mutation_def Let_def
  proof (rule step[OF t], rule incarnation_spec[OF t _ no cr], goal_cases)
    case (1 u)
    show ?case
    proof (rule read[OF 1(1)], rule step, assumption, goal_cases)
      case (1 n v)
      show ?case
      proof (cases "bk_matches_desired (e_backend E) (snap (id_resource i) n) plan")
        case False
        with no[OF 1(1)] show ?thesis by simp
      next
        case True
        have "wp (check_incarnation E i ''resource incarnation changed during verification''
            (fail_mutation E i target produced)
            (match_tx (fire E (mp_verify points))
              (\<lambda>_. conclude_mutation E i points produced (snap (id_resource i) n) (fail_mutation E i target produced))
              (fail_mutation E i target produced))) ?Q v"
          by (rule incarnation_spec[OF 1(1) _ no cr], rule step)
             (use 1(2) True in \<open>auto intro: conclude_spec[OF _ i _ refl]\<close>)
        with True show ?thesis by simp
      qed
    qed
  qed
qed

lemma mutate_spec:
  assumes t: "os_only calm view R s t" and i: "id_resource i \<in> R"
  shows "wp (mutate_and_verify E i target plan points)
     (mutate_post E calm view snap R plan target i s (w_os t)) t"
  unfolding mutate_and_verify_def
proof (rule wp_bindI[OF apply_step[OF t i]], goal_cases)
  case (1 attempt u)
  then show ?case
    by (cases attempt) (auto simp: is_rejected_def residue_ok_def mutate_post_def[of _ _ _ _ _ _ _ _ _ _ "Ok (Inl f)" for f]
        intro!: verify_spec mutate_fail i)
qed (auto simp: mutate_post_def)

end

section \<open>Records on disk\<close>

text \<open>
  Two records make the same claim when they agree on everything recovery needs: who owns which
  incarnation of which resource under which lease, and the state to go back to.
\<close>

definition same_claim :: "journal_record \<Rightarrow> journal_record \<Rightarrow> bool" where
  "same_claim a b \<longleftrightarrow> jr_owner a = jr_owner b \<and> jr_lease a = jr_lease b \<and>
     jr_resource a = jr_resource b \<and> jr_backend a = jr_backend b \<and>
     jr_identity a = jr_identity b \<and> jr_before a = jr_before b"

definition file_of :: "('w, 'd) env \<Rightarrow> journal_record \<Rightarrow> string" where
  "file_of E r = record_file_name (e_libs E) (jr_lease r) (jr_resource r)"

text \<open>A record with the claim of \<open>r\<close> is published in its file.\<close>

definition recorded :: "('w, 'd) env \<Rightarrow> (string \<Rightarrow> bytes option) \<Rightarrow> journal_record \<Rightarrow> bool" where
  "recorded E fs r \<longleftrightarrow> (\<exists>r' bs. same_claim r r' \<and> journal_bytes (e_libs E) r' = Inr bs \<and>
     fs (file_of E r) = Some bs)"

lemma same_claim_simps [simp]:
  "same_claim r r"
  "same_claim r (r\<lparr>jr_applied := a\<rparr>)"
  "same_claim r (r\<lparr>jr_phase := p\<rparr>)"
  "same_claim r (r\<lparr>jr_desired := d\<rparr>)"
  "same_claim r (r\<lparr>jr_phase := p, jr_applied := a\<rparr>)"
  "same_claim r (r\<lparr>jr_desired := d, jr_phase := p\<rparr>)"
  "same_claim r (r\<lparr>jr_phase := p, jr_applied := a, jr_desired := d\<rparr>)"
  by (simp_all add: same_claim_def)

lemma same_claim_file: "same_claim a b \<Longrightarrow> file_of E b = file_of E a"
  by (simp add: same_claim_def file_of_def)

lemma same_claim_trans: "same_claim a b \<Longrightarrow> same_claim b c \<Longrightarrow> same_claim a c"
  by (simp add: same_claim_def)

lemma recorded_upd_same:
  "same_claim r r' \<Longrightarrow> journal_bytes (e_libs E) r' = Inr bs \<Longrightarrow> recorded E (fs(file_of E r \<mapsto> bs)) r"
  by (auto simp: recorded_def)

lemma recorded_upd_other: "n \<noteq> file_of E r \<Longrightarrow> recorded E (fs(n := x)) r = recorded E fs r"
  by (simp add: recorded_def)

locale transaction_env = managed_backend E calm view snap
  for E :: "('w, 'd) env" and calm view and snap :: "resource_id \<Rightarrow> 'n \<Rightarrow> platform_snapshot" +
  fixes files :: "handle \<Rightarrow> 'd \<Rightarrow> string \<Rightarrow> bytes option"
  assumes pfs: "pfs_ok (e_pfs E) files"
begin

lemma jwrite_spec:
  assumes "is_open (w_journal s)"
  shows "wp (jwrite E r) (\<lambda>res t. res \<noteq> Crash \<and> w_os t = w_os s \<and> is_open (w_journal t) \<and>
     (store_files files (w_journal t) = store_files files (w_journal s) \<and> res \<noteq> Ok () \<or>
      (\<exists>bs. journal_bytes (e_libs E) r = Inr bs \<and>
         store_files files (w_journal t) = (store_files files (w_journal s))(file_of E r \<mapsto> bs)))) s"
  unfolding jwrite_def wp_jn file_of_def
  by (rule wp_mono[OF journal_write_spec[OF pfs assms]]) auto

lemma jremove_spec:
  assumes "is_open (w_journal s)"
  shows "wp (jremove E (jr_lease r) (jr_resource r)) (\<lambda>res t. res \<noteq> Crash \<and> w_os t = w_os s \<and>
     is_open (w_journal t) \<and>
     (store_files files (w_journal t) = store_files files (w_journal s) \<and> res \<noteq> Ok () \<or>
      store_files files (w_journal t) = (store_files files (w_journal s))(file_of E r := None))) s"
  unfolding jremove_def wp_jn file_of_def
  by (rule wp_mono[OF journal_remove_spec[OF pfs assms]]) auto

end

section \<open>The state of a transaction\<close>

definition in_effect ::
  "('w, 'd) env \<Rightarrow> ('w \<Rightarrow> resource_id \<Rightarrow> 'n option) \<Rightarrow> (resource_id \<Rightarrow> 'n \<Rightarrow> platform_snapshot) \<Rightarrow>
   'w \<Rightarrow> normalized_config \<Rightarrow> resource_id \<Rightarrow> bool" where
  "in_effect E view snap w plan r \<longleftrightarrow>
     (\<exists>n. view w r = Some n \<and> bk_matches_desired (e_backend E) (snap r n) plan)"

text \<open>
  The state of a transaction over the records \<open>rs\<close>, begun in \<open>s\<close>: those in \<open>A\<close> are on disk, the
  resources of those in \<open>H\<close> are as captured, those of \<open>D\<close> are as desired; every resource of the
  transaction is as captured or has its record on disk; nothing else has been touched.
\<close>

definition tx_inv ::
  "('w, 'd) env \<Rightarrow> ('w \<Rightarrow> bool) \<Rightarrow> ('w \<Rightarrow> resource_id \<Rightarrow> 'n option) \<Rightarrow>
   (resource_id \<Rightarrow> 'n \<Rightarrow> platform_snapshot) \<Rightarrow> (handle \<Rightarrow> 'd \<Rightarrow> string \<Rightarrow> bytes option) \<Rightarrow>
   ('w, 'd) world \<Rightarrow> normalized_config \<Rightarrow> journal_record set \<Rightarrow>
   journal_record set \<Rightarrow> journal_record set \<Rightarrow> journal_record set \<Rightarrow> ('w, 'd) world \<Rightarrow> bool" where
  "tx_inv E calm view snap files s plan rs A H D t \<longleftrightarrow>
     calm (w_os t) \<and> is_open (w_journal t) \<and>
     (\<forall>r. r \<notin> jr_resource ` rs \<longrightarrow> view (w_os t) r = view (w_os s) r) \<and>
     (\<forall>n. n \<notin> file_of E ` rs \<longrightarrow>
        store_files files (w_journal t) n = store_files files (w_journal s) n) \<and>
     (\<forall>r\<in>A. recorded E (store_files files (w_journal t)) r) \<and>
     (\<forall>r\<in>H. holds_state E view snap (w_os t) (jr_resource r) (jr_before r)) \<and>
     (\<forall>r\<in>D. in_effect E view snap (w_os t) plan (jr_resource r)) \<and>
     (\<forall>r\<in>rs. holds_state E view snap (w_os t) (jr_resource r) (jr_before r) \<or>
        recorded E (store_files files (w_journal t)) r) \<and>
     (\<forall>r\<in>rs. manages calm view (jr_resource r))"

lemma tx_inv_manages:
  "tx_inv E calm view snap files s plan rs A H D t \<Longrightarrow> r \<in> rs \<Longrightarrow> manages calm view (jr_resource r)"
  by (simp add: tx_inv_def)

lemma tx_inv_mono:
  "tx_inv E calm view snap files s plan rs A H D t \<Longrightarrow> A' \<subseteq> A \<Longrightarrow> H' \<subseteq> H \<Longrightarrow> D' \<subseteq> D \<Longrightarrow>
   tx_inv E calm view snap files s plan rs A' H' D' t"
  unfolding tx_inv_def by (elim conjE, intro conjI) (assumption | blast)+

text \<open>What \<open>holds_state\<close> and \<open>in_effect\<close> say depends on the view of that resource only.\<close>

lemma holds_state_cong:
  "view w' r = view w r \<Longrightarrow> holds_state E view snap w' r b = holds_state E view snap w r b"
  by (simp add: holds_state_def)

lemma in_effect_cong: "view w' r = view w r \<Longrightarrow> in_effect E view snap w' plan r = in_effect E view snap w plan r"
  by (simp add: in_effect_def)

text \<open>Distinct resources have distinct files, and every identity names its resource.\<close>

definition tx_wf :: "('w, 'd) env \<Rightarrow> journal_record set \<Rightarrow> bool" where
  "tx_wf E rs \<longleftrightarrow> inj_on jr_resource rs \<and> inj_on (file_of E) rs \<and>
     (\<forall>r\<in>rs. id_resource (jr_identity r) = jr_resource r)"

lemma tx_wf_resource: "tx_wf E rs \<Longrightarrow> r \<in> rs \<Longrightarrow> q \<in> rs \<Longrightarrow> jr_resource q = jr_resource r \<longleftrightarrow> q = r"
  by (auto simp: tx_wf_def inj_on_def)

lemma tx_wf_file: "tx_wf E rs \<Longrightarrow> r \<in> rs \<Longrightarrow> q \<in> rs \<Longrightarrow> file_of E q = file_of E r \<longleftrightarrow> q = r"
  by (auto simp: tx_wf_def inj_on_def)

lemma tx_inv_os_step:
  assumes wf: "tx_wf E rs" and inv: "tx_inv E calm view snap files s plan rs A H D t"
    and os: "os_only calm view {jr_resource r} t u" and r: "r \<in> rs" "r \<in> A"
    and sub: "H \<subseteq> rs" "D \<subseteq> rs"
  shows "tx_inv E calm view snap files s plan rs A (H - {r}) (D - {r}) u"
proof -
  have v: "view (w_os u) (jr_resource q) = view (w_os t) (jr_resource q)" if "q \<in> rs" "q \<noteq> r" for q
    using os that tx_wf_resource[OF wf r(1)] by (auto simp: os_only_def)
  have out: "view (w_os u) q = view (w_os t) q" if "q \<notin> jr_resource ` rs" for q
    using os r(1) that by (auto simp: os_only_def)
  have j: "w_journal u = w_journal t" "calm (w_os u)" using os by (auto simp: os_only_def)
  have h: "holds_state E view snap (w_os u) (jr_resource q) b = holds_state E view snap (w_os t) (jr_resource q) b"
    "in_effect E view snap (w_os u) plan (jr_resource q) = in_effect E view snap (w_os t) plan (jr_resource q)"
    if "q \<in> rs" "q \<noteq> r" for q b
    using v[OF that] by (simp_all add: holds_state_def in_effect_def)
  show ?thesis
    unfolding tx_inv_def j(1)
  proof (intro conjI ballI allI impI, goal_cases)
    case (8 q)
    then show ?case using inv r h by (cases "q = r") (auto simp: tx_inv_def)
  qed (use inv j out h sub in \<open>auto simp: tx_inv_def subset_iff\<close>)
qed

lemma tx_inv_hold:
  "tx_inv E calm view snap files s plan rs A H D t \<Longrightarrow>
   holds_state E view snap (w_os t) (jr_resource r) (jr_before r) \<Longrightarrow>
   tx_inv E calm view snap files s plan rs A (insert r H) D t"
  by (simp add: tx_inv_def)

lemma tx_inv_effect:
  "tx_inv E calm view snap files s plan rs A H D t \<Longrightarrow> in_effect E view snap (w_os t) plan (jr_resource r) \<Longrightarrow>
   tx_inv E calm view snap files s plan rs A H (insert r D) t"
  by (simp add: tx_inv_def)

context transaction_env begin

lemma tx_inv_write:
  assumes wf: "tx_wf E rs" and inv: "tx_inv E calm view snap files s plan rs A H D t"
    and r: "r \<in> rs" "same_claim r r'" and A: "A \<subseteq> rs"
  shows "wp (jwrite E r') (\<lambda>res u. res \<noteq> Crash \<and> w_os u = w_os t \<and> tx_inv E calm view snap files s plan rs A H D u \<and>
     (res = Ok () \<longrightarrow> tx_inv E calm view snap files s plan rs (insert r A) H D u)) t"
proof -
  have op: "is_open (w_journal t)" using inv by (simp add: tx_inv_def)
  show ?thesis
  proof (rule wp_mono[OF jwrite_spec[OF op]], goal_cases)
    case (1 res u)
    let ?fs = "store_files files (w_journal t)" and ?fs' = "store_files files (w_journal u)"
    consider "?fs' = ?fs" "res \<noteq> Ok ()"
      | bs where "journal_bytes (e_libs E) r' = Inr bs" "?fs' = ?fs(file_of E r' \<mapsto> bs)"
      using 1 by blast
    then show ?case
    proof cases
      case 1
      with \<open>res \<noteq> Crash \<and> _\<close> inv show ?thesis by (simp add: tx_inv_def)
    next
      case (2 bs)
      have f: "file_of E r' = file_of E r" by (rule same_claim_file[OF r(2)])
      have rec: "recorded E ?fs' q \<longleftrightarrow> recorded E ?fs q \<or> q = r" if "q \<in> rs" for q
        using that recorded_upd_same[OF r(2) 2(1), of ?fs] tx_wf_file[OF wf r(1) that]
        by (auto simp: 2(2) f recorded_upd_other)
      have "tx_inv E calm view snap files s plan rs (insert r A) H D u"
        unfolding tx_inv_def
      proof (intro conjI ballI allI impI, goal_cases)
        case (4 n)
        with r(1) inv show ?case by (auto simp: 2(2) f tx_inv_def)
      qed (use 1 inv rec r A in \<open>auto simp: tx_inv_def subset_iff\<close>)
      with \<open>res \<noteq> Crash \<and> _\<close> show ?thesis by (auto elim: tx_inv_mono)
    qed
  qed
qed

lemma tx_inv_remove:
  assumes wf: "tx_wf E rs" and inv: "tx_inv E calm view snap files s plan rs A H D t"
    and r: "r \<in> rs" "r \<in> H" and A: "A \<subseteq> rs"
  shows "wp (jremove E (jr_lease r) (jr_resource r)) (\<lambda>res u. res \<noteq> Crash \<and> w_os u = w_os t \<and>
     tx_inv E calm view snap files s plan rs (A - {r}) H D u \<and>
     (res = Ok () \<longrightarrow> store_files files (w_journal u) (file_of E r) = None)) t"
proof -
  have op: "is_open (w_journal t)" using inv by (simp add: tx_inv_def)
  show ?thesis
  proof (rule wp_mono[OF jremove_spec[OF op]], goal_cases)
    case (1 res u)
    let ?fs = "store_files files (w_journal t)" and ?fs' = "store_files files (w_journal u)"
    have "?fs' = ?fs \<or> ?fs' = ?fs(file_of E r := None)" using 1 by blast
    then have rec: "recorded E ?fs' q" if "q \<in> rs" "q \<noteq> r" "recorded E ?fs q" for q
      using that tx_wf_file[OF wf r(1) that(1)] by (auto simp: recorded_upd_other)
    have fr: "?fs' n = ?fs n" if "n \<notin> file_of E ` rs" for n
      using that r(1) \<open>?fs' = ?fs \<or> _\<close> by auto
    have "tx_inv E calm view snap files s plan rs (A - {r}) H D u"
      unfolding tx_inv_def
    proof (intro conjI ballI allI impI, goal_cases)
      case (8 q)
      with inv r(2) rec 1 show ?case by (cases "q = r") (auto simp: tx_inv_def)
    qed (use 1 inv rec fr A in \<open>auto simp: tx_inv_def subset_iff\<close>)
    with 1 show ?case by auto
  qed
qed

lemma os_only_refl: "calm (w_os t) \<Longrightarrow> \<forall>r\<in>R. manages calm view r \<Longrightarrow> os_only calm view R t t"
  by (simp add: os_only_def)

lemma tx_inv_read:
  "tx_inv E calm view snap files s plan rs A H D t \<Longrightarrow> os_only calm view {} t u \<Longrightarrow>
   tx_inv E calm view snap files s plan rs A H D u"
  by (auto simp: tx_inv_def os_only_def holds_state_def in_effect_def)

lemma tx_inv_calm: "tx_inv E calm view snap files s plan rs A H D t \<Longrightarrow> calm (w_os t)"
  by (simp add: tx_inv_def)

text \<open>Finalizing a verified mutation writes one record of the same claim.\<close>

lemma resolve_verified_spec:
  assumes wf: "tx_wf E rs" and inv: "tx_inv E calm view snap files s plan rs A H D t"
    and r: "r \<in> rs" "same_claim r (lr_record l)" and A: "A \<subseteq> rs"
  shows "wp (resolve_verified E m given) (\<lambda>res (l', u). tx_inv E calm view snap files s plan rs A H D u \<and>
     same_claim r (lr_record l') \<and> (\<not> succeeded res \<longrightarrow> l' = l) \<and> when_ok res (\<lambda>_. lr_state l' = Committed \<and>
       lr_record l' = (lr_record l)\<lparr>jr_phase := Applied, jr_applied := Some (persist m)\<rparr>)) (l, t)"
proof -
  let ?Q = "\<lambda>res (l', u). tx_inv E calm view snap files s plan rs A H D u \<and>
     same_claim r (lr_record l') \<and> (\<not> succeeded res \<longrightarrow> l' = l) \<and> when_ok res (\<lambda>_. lr_state l' = Committed \<and>
       lr_record l' = (lr_record l)\<lparr>jr_phase := Applied, jr_applied := Some (persist m)\<rparr>)"
  let ?rec = "(lr_record l)\<lparr>jr_phase := Applied, jr_applied := Some (persist m)\<rparr>"
  have claim: "same_claim r ?rec" using r(2) by (simp add: same_claim_def)
  have mine: "manages calm view (jr_resource (lr_record l))"
    using tx_inv_manages[OF inv r(1)] r(2) by (simp add: same_claim_def)
  have publish: "wp (seq_tx (inner_tx (jwrite E ?rec)) (put_mut \<lparr> lr_record = ?rec, lr_state = Committed \<rparr>)) ?Q (l, u)"
    if "tx_inv E calm view snap files s plan rs A H D u" for u
    by (rule wp_seq_innerI[OF tx_inv_write[OF wf that r(1) claim A]]) (use claim r(2) in auto)
  have status: "wp (bind_tx (inner_tx (os (bk_status (e_backend E) (jr_identity (lr_record l))))) (\<lambda>status.
     if status \<noteq> Same \<or> \<not> owns_current (e_backend E) (persist m) current
     then throw (ExternalModification (jr_resource (lr_record l))
            ''verified mutation no longer names current native state'')
     else seq_tx (inner_tx (jwrite E ?rec)) (put_mut \<lparr> lr_record = ?rec, lr_state = Committed \<rparr>))) ?Q (l, u)"
    if "tx_inv E calm view snap files s plan rs A H D u" for u current
  proof (rule wp_bind_innerI[OF status_only[OF tx_inv_calm[OF that]]], goal_cases)
    case (1 status v)
    from tx_inv_read[OF that 1] r(2) publish[of v] show ?case by simp
  qed (use tx_inv_read[OF that] r(2) in auto)
  show ?thesis
  proof (cases given)
    case None
    have "wp (bind_tx (inner_tx (os (bk_readback (e_backend E) (jr_resource (lr_record l))))) (\<lambda>current.
       bind_tx (inner_tx (os (bk_status (e_backend E) (jr_identity (lr_record l))))) (\<lambda>status.
       if status \<noteq> Same \<or> \<not> owns_current (e_backend E) (persist m) current
       then throw (ExternalModification (jr_resource (lr_record l))
              ''verified mutation no longer names current native state'')
       else seq_tx (inner_tx (jwrite E ?rec)) (put_mut \<lparr> lr_record = ?rec, lr_state = Committed \<rparr>)))) ?Q (l, t)"
    proof (rule wp_bind_innerI[OF readback_only[OF tx_inv_calm[OF inv] mine]], goal_cases)
      case (1 c u)
      then show ?case by (intro status tx_inv_read[OF inv]) simp
    qed (use tx_inv_read[OF inv] r(2) in auto)
    with None show ?thesis unfolding resolve_verified_def Let_def by simp
  next
    case (Some c)
    with status[OF inv, of c] show ?thesis unfolding resolve_verified_def Let_def by simp
  qed
qed

end

end
