(* ===== verification/Apply_Safety.thy ===== *)
theory Apply_Safety
  imports Contract
begin

text \<open>
  The apply transaction over the contract: whichever step fails or crashes, every resource is as it
  was captured or has its record on disk, and when it returns, the plan is in effect.
\<close>

context transaction_env begin

lemma undo_spec:
  assumes wf: "tx_wf E rs" and inv: "tx_inv E calm view snap files s plan rs A H D t"
    and r: "r \<in> rs" "r \<in> A" and sub: "A \<subseteq> rs" "H \<subseteq> rs" "D \<subseteq> rs"
  shows "wp (undo_mutation E r m) (\<lambda>res u. no_err res \<and>
     tx_inv E calm view snap files s plan rs (A - {r}) (H - {r}) (D - {r}) u) t"
proof -
  have id: "id_resource (jr_identity r) = jr_resource r" using wf r(1) by (simp add: tx_wf_def)
  have "calm (w_os t)" using inv by (simp add: tx_inv_def)
  then have t: "os_only calm view {jr_resource r} t t"
    using tx_inv_manages[OF inv r(1)] by (intro os_only_refl) simp_all
  have i: "id_resource (jr_identity r) \<in> {jr_resource r}" by (simp add: id)
  note weaken = tx_inv_mono[where A' = "A - {r}" and H' = "H - {r}" and D' = "D - {r}"]
  show ?thesis
    unfolding undo_mutation_def
  proof (rule wp_bindI[OF rollback_spec[OF t i, where w = "w_os t"]], goal_cases)
    case (1 residue u)
    then have "os_only calm view {jr_resource r} t u" by simp
    from tx_inv_os_step[OF wf inv this r sub(2,3)]
    have u: "tx_inv E calm view snap files s plan rs A (H - {r}) (D - {r}) u" .
    show ?case
    proof (cases residue)
      case ResUnchanged
      with 1 show ?thesis by simp
    next
      case (ResRestored p)
      with 1 have "holds_state E view snap (w_os u) (jr_resource r) (jr_before r)"
        by (simp add: residue_ok_def id)
      from tx_inv_remove[OF wf tx_inv_hold[OF u this] r(1) _ sub(1)]
      have "wp (jremove E (jr_lease r) (jr_resource r)) (\<lambda>_ u.
          tx_inv E calm view snap files s plan rs (A - {r}) (H - {r}) (D - {r}) u) u"
        by (auto elim!: wp_mono tx_inv_mono)
      then have "wp (collect_tx [jremove E (jr_lease r) (jr_resource r)]) (\<lambda>res u. no_err res \<and>
          tx_inv E calm view snap files s plan rs (A - {r}) (H - {r}) (D - {r}) u) u"
        by (rule wp_collect1I) auto
      with ResRestored show ?thesis by simp
    next
      case (ResPending p)
      have "wp (jwrite E (r\<lparr>jr_applied := pr_evidence p\<rparr>)) (\<lambda>_ u.
          tx_inv E calm view snap files s plan rs (A - {r}) (H - {r}) (D - {r}) u) u"
        by (rule wp_mono[OF tx_inv_write[OF wf u r(1) _ sub(1)]]) (auto elim: tx_inv_mono)
      then have "wp (collect_tx [jwrite E (r\<lparr>jr_applied := pr_evidence p\<rparr>)]) (\<lambda>res u. no_err res \<and>
          tx_inv E calm view snap files s plan rs (A - {r}) (H - {r}) (D - {r}) u) u"
        by (rule wp_collect1I) auto
      then have "wp (bind_tx (collect_tx [jwrite E (r\<lparr>jr_applied := pr_evidence p\<rparr>)]) (\<lambda>es. return_tx (f es)))
          (\<lambda>res u. no_err res \<and>
          tx_inv E calm view snap files s plan rs (A - {r}) (H - {r}) (D - {r}) u) u" for f :: "error list \<Rightarrow> error list"
        by (rule wp_bindI) auto
      with ResPending show ?thesis by simp
    qed
  next
    case (3 u)
    then have "os_only calm view {jr_resource r} t u" by simp
    from tx_inv_os_step[OF wf inv this r sub(2,3)] show ?case by (auto elim: tx_inv_mono)
  qed auto
qed

text \<open>The part of the invariant that survives whatever happens.\<close>

abbreviation safe where
  "safe s plan rs H t \<equiv> tx_inv E calm view snap files s plan rs {} H {} t"

lemma undo_all_spec:
  assumes wf: "tx_wf E rs"
  shows "tx_inv E calm view snap files s plan rs A H D t \<Longrightarrow> distinct (map fst ms) \<Longrightarrow>
     fst ` set ms \<subseteq> A \<Longrightarrow> A \<subseteq> rs \<Longrightarrow> H \<subseteq> rs - fst ` set ms \<Longrightarrow> D \<subseteq> rs \<Longrightarrow>
     wp (undo_mutations E ms) (\<lambda>res u. no_err res \<and>
       (res \<noteq> Crash \<longrightarrow> tx_inv E calm view snap files s plan rs (A - fst ` set ms) H {} u) \<and>
       safe s plan rs H u) t"
proof (induction ms arbitrary: A D t)
  case Nil
  then show ?case by (auto elim: tx_inv_mono)
next
  case (Cons rm ms)
  obtain r m where rm: "rm = (r, m)" by (cases rm)
  have r: "r \<in> rs" "r \<in> A" and H: "H \<subseteq> rs" "H - {r} = H" and D: "D \<subseteq> rs"
    using Cons.prems by (auto simp: rm)
  show ?case
    unfolding rm undo_mutations.simps
  proof (rule wp_bindI[OF undo_spec[OF wf Cons.prems(1) r Cons.prems(4) H(1) D, where m = m]], goal_cases)
    case (1 es u)
    then have u: "tx_inv E calm view snap files s plan rs (A - {r}) H (D - {r}) u" by (simp add: H(2))
    have "wp (undo_mutations E ms) (\<lambda>res u. no_err res \<and>
       (res \<noteq> Crash \<longrightarrow> tx_inv E calm view snap files s plan rs (A - {r} - fst ` set ms) H {} u) \<and>
       safe s plan rs H u) u"
      by (rule Cons.IH[OF u]) (use Cons.prems in \<open>auto simp: rm\<close>)
    then show ?case
      by (rule wp_bindI) (auto simp: rm elim: tx_inv_mono)
  next
    case (3 u)
    then show ?case by (auto simp: H(2) elim: tx_inv_mono)
  qed auto
qed

lemma clear_spec:
  assumes wf: "tx_wf E rs" and inv: "tx_inv E calm view snap files s plan rs A H D t"
    and r: "r \<in> rs" and sub: "A \<subseteq> rs"
  shows "wp (match_tx (os (bk_readback (e_backend E) (jr_resource r)))
      (\<lambda>now. if bk_equivalent (e_backend E) now (jr_before r)
             then collect_tx [jremove E (jr_lease r) (jr_resource r)] else return_tx [])
      (\<lambda>_. return_tx []))
    (\<lambda>res u. no_err res \<and> tx_inv E calm view snap files s plan rs (A - {r}) H D u) t"
proof (rule wp_matchI[OF readback_only[OF tx_inv_calm[OF inv] tx_inv_manages[OF inv r]]], goal_cases)
  case (1 now u)
  then obtain n where o: "os_only calm view {} t u"
    and n: "view (w_os u) (jr_resource r) = Some n" "now = snap (jr_resource r) n" by auto
  note u = tx_inv_read[OF inv o]
  have "wp (collect_tx [jremove E (jr_lease r) (jr_resource r)])
      (\<lambda>res u. no_err res \<and> tx_inv E calm view snap files s plan rs (A - {r}) H D u) u"
    if "bk_equivalent (e_backend E) now (jr_before r)"
  proof -
    have "holds_state E view snap (w_os u) (jr_resource r) (jr_before r)"
      using n that by (auto simp: holds_state_def)
    from tx_inv_remove[OF wf tx_inv_hold[OF u this] r _ sub]
    have "wp (jremove E (jr_lease r) (jr_resource r))
        (\<lambda>_ u. tx_inv E calm view snap files s plan rs (A - {r}) H D u) u"
      by (auto elim!: wp_mono elim: tx_inv_mono)
    then show ?thesis by (rule wp_collect1I) auto
  qed
  with u show ?case by (auto elim: tx_inv_mono)
next
  case (2 e u)
  then show ?case by (auto intro: tx_inv_mono[OF tx_inv_read[OF inv]])
next
  case (3 u)
  then show ?case by (auto intro: tx_inv_mono[OF tx_inv_read[OF inv]])
qed

lemma settle_failed_spec:
  assumes wf: "tx_wf E rs" and inv: "tx_inv E calm view snap files s plan rs A H D t"
    and r: "r \<in> rs" and sub: "A \<subseteq> rs"
  shows "wp (settle_failed E r residue)
    (\<lambda>res u. no_err res \<and> tx_inv E calm view snap files s plan rs (A - {r}) H D u) t"
proof (cases residue)
  case (ResPending p)
  have "wp (jwrite E (r\<lparr>jr_applied := pr_evidence p\<rparr>))
      (\<lambda>_ u. tx_inv E calm view snap files s plan rs (A - {r}) H D u) t"
    by (rule wp_mono[OF tx_inv_write[OF wf inv r _ sub]]) (auto elim: tx_inv_mono)
  then have "wp (collect_tx [jwrite E (r\<lparr>jr_applied := pr_evidence p\<rparr>)])
      (\<lambda>res u. no_err res \<and> tx_inv E calm view snap files s plan rs (A - {r}) H D u) t"
    by (rule wp_collect1I) auto
  with ResPending show ?thesis by (simp add: settle_failed_def)
qed (use clear_spec[OF wf inv r sub] in \<open>simp_all add: settle_failed_def Let_def\<close>)

lemma remove_all_spec:
  assumes wf: "tx_wf E rs" and inv: "safe s plan rs H t" and sub: "set us \<subseteq> H" "H \<subseteq> rs"
  shows "wp (collect_tx (map (\<lambda>r. jremove E (jr_lease r) (jr_resource r)) us))
    (\<lambda>res u. no_err res \<and> safe s plan rs H u) t"
proof -
  have "wp (jremove E (jr_lease r) (jr_resource r)) (\<lambda>_ u. safe s plan rs H u \<and> set us \<subseteq> H) t"
    if "safe s plan rs H t \<and> set (r # us) \<subseteq> H" for r us t
  proof -
    have "r \<in> rs" "r \<in> H" using that sub(2) by auto
    from tx_inv_remove[OF wf conjunct1[OF that] this] that show ?thesis
      by (auto elim!: wp_mono)
  qed
  note step = this
  show ?thesis
    by (rule wp_mono[OF wp_collect_map[where P = "\<lambda>us t. safe s plan rs H t \<and> set us \<subseteq> H"]])
       (use inv sub step in auto)
qed

lemma abort_spec:
  assumes wf: "tx_wf E rs" and inv: "tx_inv E calm view snap files s plan rs A H D t"
    and ms: "distinct (map fst ms)" "fst ` set ms \<subseteq> A" "A \<subseteq> rs" "D \<subseteq> rs"
    and us: "set us \<subseteq> H" "H \<subseteq> rs - fst ` set ms" and r: "r \<in> rs"
  shows "wp (abort_apply E ms r failure us) (\<lambda>res u. safe s plan rs H u \<and> \<not> succeeded res) t"
  unfolding abort_apply_def
proof (rule wp_bindI[OF undo_all_spec[OF wf inv ms(1-3) us(2) ms(4)]], goal_cases)
  case (1 c1 t1)
  then have 1: "safe s plan rs H t1" by simp
  show ?case
  proof (rule wp_bindI[OF settle_failed_spec[OF wf 1 r]], goal_cases)
    case (2 c2 t2)
    then have 2: "safe s plan rs H t2" by (auto elim: tx_inv_mono)
    have "H \<subseteq> rs" using us(2) by blast
    from remove_all_spec[OF wf 2 us(1) this] show ?case
      by (rule wp_bindI) auto
  qed auto
qed auto

lemma mutate_loop_spec:
  assumes wf: "tx_wf E rs"
  shows "tx_inv E calm view snap files s plan rs rs (set todo) (fst ` set ms) t \<Longrightarrow>
     rs = fst ` set ms \<union> set todo \<Longrightarrow> distinct (map fst ms @ todo) \<Longrightarrow>
     wp (mutate_loop E plan ms todo) (\<lambda>res u. safe s plan rs {} u \<and>
       when_ok res (\<lambda>out. map fst out = map fst ms @ todo \<and>
         tx_inv E calm view snap files s plan rs rs {} rs u)) t"
proof (induction todo arbitrary: ms t)
  case Nil
  then show ?case by (auto elim: tx_inv_mono)
next
  case (Cons r todo)
  have r: "r \<in> rs" "r \<notin> fst ` set ms" "r \<notin> set todo" "set todo \<subseteq> rs" "fst ` set ms \<subseteq> rs"
    using Cons.prems by auto
  have id: "id_resource (jr_identity r) = jr_resource r" using wf r(1) by (simp add: tx_wf_def)
  have t: "os_only calm view {jr_resource r} t t"
    using tx_inv_manages[OF Cons.prems(1) r(1)] by (intro os_only_refl[OF tx_inv_calm[OF Cons.prems(1)]]) simp
  have i: "id_resource (jr_identity r) \<in> {jr_resource r}" by (simp add: id)
  have stepped: "tx_inv E calm view snap files s plan rs rs (set todo) (fst ` set ms) u"
    if "os_only calm view {jr_resource r} t u" for u
    by (rule tx_inv_mono[OF tx_inv_os_step[OF wf Cons.prems(1) that r(1)]]) (use r in auto)
  show ?case
    unfolding mutate_loop.simps
  proof (rule wp_bindI[OF mutate_spec[OF t i, where plan = plan]], goal_cases)
    case (1 x u)
    then have u: "tx_inv E calm view snap files s plan rs rs (set todo) (fst ` set ms) u"
      by (intro stepped) (simp add: mutate_post_def)
    show ?case
    proof (cases x)
      case (Inl f)
      have "wp (abort_apply E ms r f todo) (\<lambda>res u. safe s plan rs (set todo) u \<and> \<not> succeeded res) u"
        by (rule abort_spec[OF wf u]) (use Cons.prems r in auto)
      then show ?thesis
        unfolding Inl by (auto elim!: wp_mono intro: tx_inv_mono simp: when_ok_def succeeded_def split: outcome.splits)
    next
      case (Inr m)
      with 1 have "in_effect E view snap (w_os u) plan (jr_resource r)"
        by (auto simp: mutate_post_def verified_ok_def in_effect_def id)
      from tx_inv_effect[OF u this]
      have "tx_inv E calm view snap files s plan rs rs (set todo) (fst ` set (ms @ [(r, m)])) u" by simp
      from Cons.IH[OF this] Cons.prems(2,3) show ?thesis
        unfolding Inr by (simp add: insert_commute)
    qed
  next
    case (2 e u)
    then show ?case by (simp add: mutate_post_def)
  next
    case (3 u)
    then show ?case
      by (auto simp: mutate_post_def intro: tx_inv_mono[OF stepped])
  qed
qed

lemma commit_spec:
  assumes wf: "tx_wf E rs" and inv: "tx_inv E calm view snap files s plan rs A H D t"
    and r: "r \<in> rs" "same_claim r (lr_record l)" and A: "A \<subseteq> rs"
  shows "wp (commit_verified E m) (\<lambda>res (l', u). tx_inv E calm view snap files s plan rs A H D u \<and>
     same_claim r (lr_record l') \<and> when_ok res (\<lambda>_. lr_state l' = Committed)) (l, t)"
proof -
  have "wp (resolve_verified E m None) (\<lambda>res (l', u). tx_inv E calm view snap files s plan rs A H D u \<and>
     same_claim r (lr_record l') \<and> when_ok res (\<lambda>_. lr_state l' = Committed)) (l\<lparr>lr_state := Verified m\<rparr>, t)"
    by (rule wp_mono[OF resolve_verified_spec[OF wf inv r(1) _ A]])
       (use r(2) in \<open>auto simp: when_ok_def split: outcome.splits\<close>)
  then show ?thesis
    by (simp add: commit_verified_def resolve_live_def resolve_state_def repair_live_def wp_seq)
qed

lemma commit_loop_spec:
  assumes wf: "tx_wf E rs" and A: "A \<subseteq> rs"
  shows "tx_inv E calm view snap files s plan rs A H D t \<Longrightarrow> fst ` set ms \<subseteq> rs \<Longrightarrow>
     wp (commit_loop E ms) (\<lambda>res u. no_err res \<and> tx_inv E calm view snap files s plan rs A H D u \<and>
       when_ok res (\<lambda>(lives, all_written).
         list_all2 (\<lambda>m l. same_claim (fst m) (lr_record l) \<and> (all_written \<longrightarrow> lr_state l = Committed)) ms lives)) t"
proof (induction ms arbitrary: t)
  case Nil
  then show ?case by simp
next
  case (Cons x ms)
  obtain r m where x: "x = (r, m)" by (cases x)
  have r: "r \<in> rs" using Cons.prems(2) by (simp add: x)
  have rest: "wp (bind_tx (commit_loop E ms) (\<lambda>(lives, all_written).
        return_tx (live # lives, is_ok b \<and> all_written)))
      (\<lambda>res u. no_err res \<and> tx_inv E calm view snap files s plan rs A H D u \<and>
        when_ok res (\<lambda>(lives, all_written).
          list_all2 (\<lambda>m l. same_claim (fst m) (lr_record l) \<and> (all_written \<longrightarrow> lr_state l = Committed)) (x # ms) lives)) u"
    if "tx_inv E calm view snap files s plan rs A H D u" "same_claim r (lr_record live)"
      "is_ok b \<Longrightarrow> lr_state live = Committed" for u live and b :: "unit result"
    by (rule wp_bindI[OF Cons.IH[OF that(1)]])
       (use Cons.prems that(2,3) in \<open>auto simp: x elim!: list_all2_mono\<close>)
  show ?case
    unfolding x commit_loop.simps
  proof (rule wp_bind_run_mutI[OF commit_spec[OF wf Cons.prems(1) r _ A]], goal_cases)
    case (2 y v' u)
    then show ?case unfolding prod.case x[symmetric] by (intro rest) auto
  next
    case (3 e v' u)
    then show ?case unfolding prod.case x[symmetric] by (intro rest) auto
  qed auto
qed

lemma persist_loop_spec:
  assumes wf: "tx_wf E rs" and H: "H = rs"
  shows "tx_inv E calm view snap files s plan rs (set ws) H D t \<Longrightarrow> set ws \<union> set todo \<subseteq> rs \<Longrightarrow>
     wp (persist_loop E ws todo) (\<lambda>res u. safe s plan rs H u \<and>
       when_ok res (\<lambda>_. tx_inv E calm view snap files s plan rs (set ws \<union> set todo) H D u)) t"
proof (induction todo arbitrary: ws t)
  case Nil
  then show ?case by (auto elim: tx_inv_mono)
next
  case (Cons r todo)
  then have r: "r \<in> rs" "set ws \<subseteq> rs" "set todo \<subseteq> rs" by auto
  show ?case
    unfolding persist_loop.simps
  proof (rule wp_matchI[OF tx_inv_write[OF wf Cons.prems(1) r(1) same_claim_simps(1) r(2)]], goal_cases)
    case (1 x u)
    then have "tx_inv E calm view snap files s plan rs (set (ws @ [r])) H D u" by simp
    from Cons.IH[OF this] r show ?case by (auto elim!: wp_mono)
  next
    case (2 e u)
    then have "safe s plan rs H u" by (auto elim: tx_inv_mono)
    from remove_all_spec[OF wf this, of "ws @ [r]"] r H
    have "wp (collect_tx (map (\<lambda>r. jremove E (jr_lease r) (jr_resource r)) (ws @ [r])))
      (\<lambda>res u. no_err res \<and> safe s plan rs H u) u" by simp
    then show ?case by (rule wp_bindI) auto
  qed auto
qed

end

text \<open>
  The situation in which \<open>apply\<close> calls the transaction: distinct resources with distinct journal
  files, each with the identity and the snapshot just observed of it.
\<close>

definition captured ::
  "('w, 'd) env \<Rightarrow> ('w \<Rightarrow> resource_id \<Rightarrow> 'n option) \<Rightarrow> (resource_id \<Rightarrow> 'n \<Rightarrow> platform_snapshot) \<Rightarrow>
   'w \<Rightarrow> resource_id list \<Rightarrow> platform_snapshot list \<Rightarrow> resource_identity list \<Rightarrow> bool" where
  "captured E view snap w resources befores identities \<longleftrightarrow>
     distinct resources \<and>
     list_all2 (\<lambda>r b. \<exists>n. view w r = Some n \<and> b = snap r n) resources befores \<and>
     list_all2 (\<lambda>r i. id_resource i = r) resources identities \<and>
     (\<forall>lease. inj_on (record_file_name (e_libs E) lease) (set resources))"

definition new_records ::
  "('w, 'd) env \<Rightarrow> lease_id \<Rightarrow> normalized_config \<Rightarrow> resource_id list \<Rightarrow> platform_snapshot list \<Rightarrow>
   resource_identity list \<Rightarrow> journal_record list" where
  "new_records E lease plan resources befores identities =
     map (new_record E lease
            (list_all (\<lambda>prior. bk_matches_desired (e_backend E) prior plan) befores) plan)
       (zip resources (zip befores identities))"

lemma captured_records:
  fixes plan :: normalized_config
  assumes cap: "captured E view snap w resources befores identities"
  defines "recs \<equiv> \<lambda>lease. new_records E lease plan resources befores identities"
  shows "map jr_resource (recs lease) = resources"
    and "map jr_before (recs lease) = befores"
    and "tx_wf E (set (recs lease))"
    and "distinct (recs lease)"
    and "\<forall>r\<in>set (recs lease). \<exists>n. view w (jr_resource r) = Some n \<and> jr_before r = snap (jr_resource r) n"
    and "\<forall>r\<in>set (recs lease). jr_lease r = lease"
proof -
  have len: "length befores = length resources" "length identities = length resources"
    using cap by (auto simp: captured_def dest: list_all2_lengthD)
  show res: "map jr_resource (recs lease) = resources"
    using len by (auto simp: recs_def new_records_def new_record_def intro!: nth_equalityI)
  show "map jr_before (recs lease) = befores"
    using len by (auto simp: recs_def new_records_def new_record_def intro!: nth_equalityI)
  have dist: "distinct resources" using cap by (simp add: captured_def)
  show "distinct (recs lease)"
    using dist unfolding res[symmetric] by (simp add: distinct_map)
  show ls: "\<forall>r\<in>set (recs lease). jr_lease r = lease"
    by (auto simp: recs_def new_records_def new_record_def)
  have inj: "inj_on jr_resource (set (recs lease))"
    using dist unfolding res[symmetric] by (simp add: distinct_map)
  have "inj_on (file_of E) (set (recs lease))"
  proof (rule inj_onI)
    fix a b assume ab: "a \<in> set (recs lease)" "b \<in> set (recs lease)" "file_of E a = file_of E b"
    then have "jr_resource a \<in> set resources" "jr_resource b \<in> set resources"
      unfolding res[symmetric] by auto
    with ab ls cap have "jr_resource a = jr_resource b"
      by (auto simp: file_of_def captured_def inj_on_def)
    with inj ab show "a = b" by (auto simp: inj_on_def)
  qed
  moreover have "\<forall>r\<in>set (recs lease). id_resource (jr_identity r) = jr_resource r"
    using cap len by (auto simp: recs_def new_records_def new_record_def captured_def set_zip list_all2_conv_all_nth)
  ultimately show "tx_wf E (set (recs lease))" using inj by (simp add: tx_wf_def)
  show "\<forall>r\<in>set (recs lease). \<exists>n. view w (jr_resource r) = Some n \<and> jr_before r = snap (jr_resource r) n"
    using cap len by (auto simp: recs_def new_records_def new_record_def captured_def set_zip list_all2_conv_all_nth)
qed

lemma captured_manages:
  assumes "captured E view snap w resources befores identities" "calm w"
  shows "\<forall>r\<in>set (new_records E lease plan resources befores identities). manages calm view (jr_resource r)"
  using captured_records(5)[OF assms(1)] managesI[of calm w view, OF assms(2)] by metis

context transaction_env begin

lemma transact_spec:
  assumes cap: "captured E view snap (w_os s) resources befores identities"
    and "calm (w_os s)" and op: "is_open (w_journal s)"
  shows "wp (transact_with_locks E resources plan befores identities) (\<lambda>res u. \<exists>lease.
     (let recs = new_records E lease plan resources befores identities in
      safe s plan (set recs) {} u \<and>
      when_ok res (\<lambda>pl. pl_lease pl = lease \<and>
        list_all2 (\<lambda>r l. same_claim r (lr_record l)) recs (pl_records pl) \<and>
        tx_inv E calm view snap files s plan (set recs) (set recs) {} (set recs) u))) s"
    (is "wp _ (\<lambda>res u. \<exists>lease. ?Q lease res u) _")
  unfolding transact_with_locks_def
proof (rule wp_bindI[where P = "\<lambda>res u. no_err res \<and> os_only calm view {} s u"], goal_cases)
  case 1
  show ?case
    unfolding wp_os by (rule wp_mono[OF uuid_calm[OF assms(2)]]) (auto simp: os_only_def)
next
  case (2 lease t)
  let ?noop = "list_all (\<lambda>prior. bk_matches_desired (e_backend E) prior plan) befores"
  let ?recs = "new_records E lease plan resources befores identities"
  note cr = captured_records[OF cap, where plan = plan and lease = lease]
  have t: "calm (w_os t)" "view (w_os t) = view (w_os s)" "w_journal t = w_journal s"
    using 2 by (auto simp: os_only_def)
  have start: "tx_inv E calm view snap files s plan (set ?recs) (set []) (set ?recs)
      (if ?noop then set ?recs else {}) t"
  proof -
    have h: "\<forall>r\<in>set ?recs. holds_state E view snap (w_os t) (jr_resource r) (jr_before r)"
      using cr(5) equivalent_refl t(2) by (metis holds_stateI)
    have "\<forall>r\<in>set ?recs. jr_before r \<in> set befores" using cr(2) by (metis image_eqI list.set_map)
    then have "\<forall>r\<in>set ?recs. in_effect E view snap (w_os t) plan (jr_resource r)" if ?noop
      using that cr(5) t(2) by (metis in_effect_def list_all_iff)
    with h t op captured_manages[OF cap, of calm, OF assms(2)] show ?thesis by (auto simp: tx_inv_def)
  qed
  have recs: "map (new_record E lease ?noop plan) (zip resources (zip befores identities)) = ?recs"
    by (simp add: new_records_def)
  have "wp (seq_tx (persist_unmutated E ?recs) (
      if ?noop then
        seq_tx (fire E AfterApplied) (return_tx \<lparr> pl_lease = lease,
          pl_records = map (\<lambda>r. \<lparr> lr_record = r, lr_state = Committed \<rparr>) ?recs, pl_was_noop = True \<rparr>)
      else
        seq_tx (fire E AfterPrepared) (
        bind_tx (mutate_loop E plan [] ?recs) (\<lambda>mutated.
        bind_tx (commit_loop E mutated) (\<lambda>(live, all_written).
        seq_tx (if all_written then fire E AfterApplied else return_tx ())
          (return_tx \<lparr> pl_lease = lease, pl_records = live, pl_was_noop = False \<rparr>)))))) (?Q lease) t"
    unfolding persist_unmutated_def
  proof (rule wp_seqI[OF persist_loop_spec[OF cr(3) refl start]], goal_cases)
    case (2 x u)
    then have u: "tx_inv E calm view snap files s plan (set ?recs) (set ?recs) (set ?recs)
      (if ?noop then set ?recs else {}) u" by simp
    show ?case
    proof (cases ?noop)
      case True
      have "wp (seq_tx (fire E AfterApplied) (return_tx \<lparr> pl_lease = lease,
          pl_records = map (\<lambda>r. \<lparr> lr_record = r, lr_state = Committed \<rparr>) ?recs, pl_was_noop = True \<rparr>)) (?Q lease) u"
        by (rule wp_seqI[OF wp_fire]) (use u True in \<open>auto simp: list_all2_map2 list.rel_refl Let_def elim: tx_inv_mono\<close>)
      with True show ?thesis by simp
    next
      case False
      have safe_u: "safe s plan (set ?recs) {} u" using u by (auto elim: tx_inv_mono)
      have ready: "tx_inv E calm view snap files s plan (set ?recs) (set ?recs) (set ?recs) (fst ` set []) u"
        using u by (auto elim: tx_inv_mono)
      have finish: "wp (bind_tx (commit_loop E mutated) (\<lambda>(live, all_written).
        seq_tx (if all_written then fire E AfterApplied else return_tx ())
          (return_tx \<lparr> pl_lease = lease, pl_records = live, pl_was_noop = False \<rparr>))) (?Q lease) v"
        if m: "map fst mutated = ?recs"
          and v: "tx_inv E calm view snap files s plan (set ?recs) (set ?recs) {} (set ?recs) v" for mutated v
      proof (rule wp_bindI[OF commit_loop_spec[OF cr(3) subset_refl v]], goal_cases)
        case 1
        from m have "fst ` set mutated = set ?recs" by (metis list.set_map)
        then show ?case by simp
      next
        case (2 x w)
        obtain live b where x: "x = (live, b)" by (cases x)
        with 2 have w: "tx_inv E calm view snap files s plan (set ?recs) (set ?recs) {} (set ?recs) w"
          and l: "list_all2 (\<lambda>m l. same_claim (fst m) (lr_record l) \<and> (b \<longrightarrow> lr_state l = Committed)) mutated live"
          by auto
        have "list_all2 (\<lambda>r l. same_claim r (lr_record l)) ?recs live"
          unfolding m[symmetric] list_all2_map1 by (rule list_all2_mono[OF l]) auto
        then have q: "?Q lease (Ok \<lparr> pl_lease = lease, pl_records = live, pl_was_noop = False \<rparr>) w"
          using w by (auto simp: Let_def elim: tx_inv_mono)
        have sw: "?Q lease (Err e) w" "?Q lease Crash w" for e
          using w by (auto simp: Let_def elim: tx_inv_mono)
        show ?case
          unfolding x prod.case
          by (cases b) (use q sw in \<open>auto intro!: wp_seqI[OF wp_fire] simp: Let_def\<close>)
      next
        case (4 w)
        then show ?case by (auto simp: Let_def elim: tx_inv_mono)
      qed auto
      have "wp (seq_tx (fire E AfterPrepared) (
        bind_tx (mutate_loop E plan [] ?recs) (\<lambda>mutated.
        bind_tx (commit_loop E mutated) (\<lambda>(live, all_written).
        seq_tx (if all_written then fire E AfterApplied else return_tx ())
          (return_tx \<lparr> pl_lease = lease, pl_records = live, pl_was_noop = False \<rparr>))))) (?Q lease) u"
      proof (rule wp_seqI[OF wp_fire], goal_cases)
        case (1 x v)
        then have "v = u" by simp
        show ?case
          unfolding \<open>v = u\<close>
        proof (rule wp_bindI[OF mutate_loop_spec[OF cr(3) ready]], goal_cases)
          case (3 mutated v)
          then show ?case by (intro finish) auto
        qed (use cr(4) in \<open>auto simp: Let_def\<close>)
      qed (use safe_u in \<open>auto simp: Let_def\<close>)
      with False show ?thesis by simp
    qed
  qed (auto simp: Let_def elim: tx_inv_mono)
  then show ?case
    unfolding recs Let_def by (rule wp_mono) blast
next
  case (4 u)
  have "safe s plan (set (new_records E 0 plan resources befores identities)) {} u"
  proof -
    note cr = captured_records[OF cap, where plan = plan and lease = 0]
    have u: "calm (w_os u)" "view (w_os u) = view (w_os s)" "w_journal u = w_journal s"
      using 4 by (auto simp: os_only_def)
    then have "\<forall>r\<in>set (new_records E 0 plan resources befores identities).
        holds_state E view snap (w_os u) (jr_resource r) (jr_before r)"
      using cr(5) equivalent_refl by (metis holds_stateI)
    with u op captured_manages[OF cap, of calm, OF assms(2)] show ?thesis by (auto simp: tx_inv_def)
  qed
  then show ?case by (auto simp: Let_def)
qed auto

end

end
