(* ===== verification/Restore_Safety.thy ===== *)
theory Restore_Safety
  imports Apply_Safety
begin

text \<open>
  Restore, recovery and the resolution of unfinished live records over the contract: an operation
  that fails or crashes leaves the resource as captured or its record on disk, and one that returns
  has restored it and removed the record.
\<close>

text \<open>Every record a live record may still publish makes the claim of \<open>r\<close>.\<close>

fun state_ok :: "journal_record \<Rightarrow> live_state \<Rightarrow> bool" where
  "state_ok r (Compensating p resume) = same_claim r resume"
| "state_ok r (Repair st) = state_ok r st"
| "state_ok r _ = True"

definition live_ok :: "journal_record \<Rightarrow> live_record \<Rightarrow> bool" where
  "live_ok r l \<longleftrightarrow> same_claim r (lr_record l) \<and> state_ok r (lr_state l)"

definition gone_error :: "error \<Rightarrow> bool" where
  "gone_error e = (case e of ResourceGone _ _ _ \<Rightarrow> True | _ \<Rightarrow> False)"

text \<open>The invariant of an operation on the live record \<open>l\<close> of \<open>r\<close>: the claims of \<open>rs\<close> stay on disk.\<close>

definition live_inv ::
  "('w, 'd) env \<Rightarrow> ('w \<Rightarrow> bool) \<Rightarrow> ('w \<Rightarrow> resource_id \<Rightarrow> 'n option) \<Rightarrow>
   (resource_id \<Rightarrow> 'n \<Rightarrow> platform_snapshot) \<Rightarrow> (handle \<Rightarrow> 'd \<Rightarrow> string \<Rightarrow> bytes option) \<Rightarrow>
   ('w, 'd) world \<Rightarrow> normalized_config \<Rightarrow> journal_record set \<Rightarrow> journal_record \<Rightarrow>
   live_record \<times> ('w, 'd) world \<Rightarrow> bool" where
  "live_inv E calm view snap files s plan rs r = (\<lambda>(l, t). live_ok r l \<and>
     tx_inv E calm view snap files s plan rs rs {} {} t)"

text \<open>The invariant once the record may have gone: the resource is then as captured.\<close>

definition end_inv ::
  "('w, 'd) env \<Rightarrow> ('w \<Rightarrow> bool) \<Rightarrow> ('w \<Rightarrow> resource_id \<Rightarrow> 'n option) \<Rightarrow>
   (resource_id \<Rightarrow> 'n \<Rightarrow> platform_snapshot) \<Rightarrow> (handle \<Rightarrow> 'd \<Rightarrow> string \<Rightarrow> bytes option) \<Rightarrow>
   ('w, 'd) world \<Rightarrow> journal_record \<Rightarrow> ('w, 'd) world \<Rightarrow> bool" where
  "end_inv E calm view snap files s r t \<longleftrightarrow> tx_inv E calm view snap files s normalized_default {r} {} {} {} t"

text \<open>The resource is as captured and its file is gone.\<close>

definition cleared ::
  "('w, 'd) env \<Rightarrow> ('w \<Rightarrow> resource_id \<Rightarrow> 'n option) \<Rightarrow> (resource_id \<Rightarrow> 'n \<Rightarrow> platform_snapshot) \<Rightarrow>
   (handle \<Rightarrow> 'd \<Rightarrow> string \<Rightarrow> bytes option) \<Rightarrow> journal_record \<Rightarrow> ('w, 'd) world \<Rightarrow> bool" where
  "cleared E view snap files r t \<longleftrightarrow> holds_state E view snap (w_os t) (jr_resource r) (jr_before r) \<and>
     store_files files (w_journal t) (file_of E r) = None"

lemma live_inv_end: "live_inv E calm view snap files s normalized_default {r} r (l, t) \<Longrightarrow> end_inv E calm view snap files s r t"
  by (auto simp: live_inv_def end_inv_def elim: tx_inv_mono)

lemma tx_wf_single: "id_resource (jr_identity r) = jr_resource r \<Longrightarrow> tx_wf E {r}"
  by (simp add: tx_wf_def)

text \<open>What a recovery outcome reports about the record.\<close>

definition recovered_ok ::
  "('w, 'd) env \<Rightarrow> ('w \<Rightarrow> resource_id \<Rightarrow> 'n option) \<Rightarrow> (resource_id \<Rightarrow> 'n \<Rightarrow> platform_snapshot) \<Rightarrow>
   (handle \<Rightarrow> 'd \<Rightarrow> string \<Rightarrow> bytes option) \<Rightarrow> journal_record \<Rightarrow> ('w, 'd) world \<Rightarrow> recovery_outcome \<Rightarrow> bool" where
  "recovered_ok E view snap files r t out = (case out of
       RcRestored q l \<Rightarrow> q = jr_resource r \<and> l = jr_lease r \<and> cleared E view snap files r t
     | RcJournalCleared q l \<Rightarrow> q = jr_resource r \<and> l = jr_lease r \<and> cleared E view snap files r t
     | RcExternalConflict q l \<Rightarrow> q = jr_resource r \<and> l = jr_lease r \<and>
         recorded E (store_files files (w_journal t)) r
     | RcIdentityMismatch q l \<Rightarrow> q = jr_resource r \<and> l = jr_lease r \<and>
         recorded E (store_files files (w_journal t)) r
     | _ \<Rightarrow> False)"

text \<open>One live record among those of a lease.\<close>

locale live_set = transaction_env E calm view snap files
  for E :: "('w, 'd) env" and calm view and snap :: "resource_id \<Rightarrow> 'n \<Rightarrow> platform_snapshot" and files +
  fixes plan :: normalized_config and rs :: "journal_record set" and r0 :: journal_record
  assumes wf0: "tx_wf E rs" and r0_in: "r0 \<in> rs"
begin

abbreviation linv where "linv s \<equiv> live_inv E calm view snap files s plan rs r0"

lemma linv_manages: "linv s (l, t) \<Longrightarrow> manages calm view (jr_resource r0)"
  using r0_in by (auto simp: live_inv_def tx_inv_def)

lemma identity_of_r0: "id_resource (jr_identity r0) = jr_resource r0"
  using wf0 r0_in by (simp add: tx_wf_def)

lemma linv_write:
  assumes "linv s (l, t)" "same_claim r0 r"
  shows "wp (jwrite E r) (\<lambda>res u. res \<noteq> Crash \<and> w_os u = w_os t \<and> linv s (l, u)) t"
proof -
  have inv: "tx_inv E calm view snap files s plan rs rs {} {} t"
    using assms(1) by (simp add: live_inv_def)
  show ?thesis
    by (rule wp_mono[OF tx_inv_write[OF wf0 inv r0_in assms(2) subset_refl]])
       (use assms(1) in \<open>auto simp: live_inv_def\<close>)
qed

lemma linv_read: "linv s (l, t) \<Longrightarrow> os_only calm view {} t u \<Longrightarrow> linv s (l, u)"
  by (auto simp: live_inv_def intro: tx_inv_read)

lemma linv_os: "linv s (l, t) \<Longrightarrow> os_only calm view {jr_resource r0} t u \<Longrightarrow> linv s (l, u)"
  using tx_inv_os_step[OF wf0, where s = s and t = t and u = u and r = r0 and A = rs and H = "{}" and D = "{}"] r0_in
  by (auto simp: live_inv_def)

lemma linv_calm: "linv s (l, t) \<Longrightarrow> calm (w_os t)"
  by (auto simp: live_inv_def tx_inv_def)

lemma linv_live: "linv s (l, t) \<Longrightarrow> live_ok r0 l' \<Longrightarrow> linv s (l', t)"
  by (auto simp: live_inv_def)

lemma linv_ok: "linv s (l, t) \<Longrightarrow> live_ok r0 l"
  by (auto simp: live_inv_def)

lemma persist_live_inv:
  assumes "linv s (l, t)" "same_claim r0 c"
  shows "wp (persist_live E c) (\<lambda>_. linv s) (l, t)"
proof -
  have "live_ok r0 \<lparr> lr_record = c, lr_state = if jr_phase c = Applied then Committed else Unmutated \<rparr>"
    "live_ok r0 \<lparr> lr_record = c, lr_state = Repair (if jr_phase c = Applied then Committed else Unmutated) \<rparr>"
    using assms(2) by (auto simp: live_ok_def)
  then show ?thesis
    unfolding persist_live_def Let_def
    by (intro wp_match_innerI[OF linv_write[OF assms]]) (auto intro: linv_live)
qed

lemma retain_inv:
  assumes "linv s (l, t)" "same_claim r0 resume"
  shows "wp (retain_compensation E p resume) (\<lambda>_. linv s) (l, t)"
proof -
  let ?rec = "(lr_record l)\<lparr>jr_phase := Prepared, jr_applied := pr_evidence p, jr_desired := jr_desired resume\<rparr>"
  have c: "same_claim r0 ?rec" using linv_ok[OF assms(1)] by (simp add: live_ok_def same_claim_def)
  have ok: "live_ok r0 \<lparr> lr_record = ?rec, lr_state = Compensating p resume \<rparr>"
    "live_ok r0 \<lparr> lr_record = ?rec, lr_state = Repair (Compensating p resume) \<rparr>"
    using c assms(2) by (simp_all add: live_ok_def)
  note w = linv_write[OF linv_live[OF assms(1) ok(1)] c]
  show ?thesis
    unfolding retain_compensation_def Let_def
    by (simp, rule wp_match_innerI[OF w]) (auto intro: linv_live ok)
qed

lemma repair_inv:
  assumes "linv s (l, t)"
  shows "wp (repair_live E) (\<lambda>_. linv s) (l, t)"
proof (cases "lr_state l")
  case (Repair st)
  have c: "same_claim r0 (lr_record l)" and ok: "live_ok r0 (l\<lparr>lr_state := st\<rparr>)"
    using linv_ok[OF assms] Repair by (simp_all add: live_ok_def)
  have "wp (seq_tx (inner_tx (jwrite E (lr_record l))) (put_mut (l\<lparr>lr_state := st\<rparr>))) (\<lambda>_. linv s) (l, t)"
    by (rule wp_seq_innerI[OF linv_write[OF assms c]]) (auto intro: linv_live ok)
  with Repair show ?thesis by (simp add: repair_live_def)
qed (use assms in \<open>simp_all add: repair_live_def\<close>)

text \<open>Compensation of the record's resource, as a step of a live operation.\<close>

lemma compensate_inv:
  assumes "linv s (l, t)" "jr_identity rec = jr_identity r0"
  shows "wp (run_mut p (compensate E (jr_identity rec) pt)) (\<lambda>res u. linv s (l, u) \<and> no_err res \<and>
     when_ok res (\<lambda>(x, p'). pr_target p' = pr_target p \<and>
       (is_ok x \<longrightarrow> holds_state E view snap (w_os u) (jr_resource r0) (pr_target p)))) t"
proof -
  have t: "os_only calm view {jr_resource r0} t t" using linv_manages[OF assms(1)] by (intro os_only_refl[OF linv_calm[OF assms(1)]]) simp
  have i: "id_resource (jr_identity rec) \<in> {jr_resource r0}"
    by (simp add: assms(2) identity_of_r0)
  show ?thesis
    unfolding wp_run_mut
    by (rule wp_mono[OF compensate_spec[OF t i]])
       (auto simp: on_mut_def assms(2) identity_of_r0 intro: linv_os[OF assms(1)] split: outcome.splits)
qed

lemma resolve_compensating_inv:
  assumes "linv s (l, t)" "same_claim r0 resume"
  shows "wp (resolve_compensating E p resume) (\<lambda>_. linv s) (l, t)"
proof -
  have id: "jr_identity (lr_record l) = jr_identity r0"
    using linv_ok[OF assms(1)] by (simp add: live_ok_def same_claim_def)
  show ?thesis
    unfolding resolve_compensating_def Let_def wp_bind_mut
  proof (rule wp_bind_innerI[OF compensate_inv[OF assms(1) id]], goal_cases)
    case (1 x u)
    then have u: "linv s (l, u)" by simp
    have retain: "wp (seq_tx (try_tx (retain_compensation E q resume)) (throw e)) (\<lambda>_. linv s) (l, u)" for q e
      by (rule wp_seqI[OF wp_tryI[OF retain_inv[OF u assms(2)]]]) auto
    have persist: "wp (persist_live E c) (\<lambda>_. linv s) (l, u)" if "same_claim r0 c" for c
      by (rule persist_live_inv[OF u that])
    have "same_claim r0 c" if "c = resume \<or> c = resume\<lparr>jr_applied := a\<rparr> \<or>
        c = resume\<lparr>jr_applied := a, jr_phase := Prepared\<rparr>" for c a
      using that assms(2) by (auto simp: same_claim_def)
    then show ?case
      by (auto intro!: retain persist split: prod.splits sum.splits)
  qed auto
qed

lemma resolve_inv:
  assumes "linv s (l, t)"
  shows "wp (resolve_live E given) (\<lambda>_. linv s) (l, t)"
  unfolding resolve_live_def
proof (rule wp_seqI[OF repair_inv[OF assms]], goal_cases)
  case (1 x lt)
  obtain l' u where lt: "lt = (l', u)" by (cases lt)
  with 1 have u: "linv s (l', u)" by simp
  have ok: "live_ok r0 l'" by (rule linv_ok[OF u])
  have "wp (resolve_state E given l') (\<lambda>_. linv s) (l', u)"
  proof (cases "lr_state l'")
    case (Verified m)
    have "wp (resolve_verified E m given) (\<lambda>_. linv s) (l', u)"
      by (rule wp_mono[OF resolve_verified_spec[OF wf0, where s = s and A = rs and H = "{}" and D = "{}"]])
         (use u r0_in in \<open>auto simp: live_inv_def live_ok_def when_ok_def split: outcome.splits\<close>)
    with Verified show ?thesis by (simp add: resolve_state_def)
  next
    case (Compensating p resume)
    then have "same_claim r0 resume" using ok by (simp add: live_ok_def)
    from resolve_compensating_inv[OF u this, of p] Compensating show ?thesis
      by (simp add: resolve_state_def)
  qed (use u in \<open>simp_all add: resolve_state_def\<close>)
  then show ?case by (simp add: lt)
qed auto

end

text \<open>
  \<open>r0\<close> names a resource of the backend and an incarnation of it that is still there: the backend never
  reports it gone or replaced.
\<close>

locale live_env = transaction_env E calm view snap files
  for E :: "('w, 'd) env" and calm view and snap :: "resource_id \<Rightarrow> 'n \<Rightarrow> platform_snapshot" and files +
  fixes r0 :: journal_record
  assumes status_live: "calm w \<Longrightarrow> wp (bk_status (e_backend E) (jr_identity r0))
      (\<lambda>res _. when_ok res (\<lambda>st. st = Same \<or> st = Ambiguous)) w"
    and read_live: "calm w \<Longrightarrow> wp (bk_readback (e_backend E) (jr_resource r0))
      (\<lambda>res _. \<forall>e. res = Err e \<longrightarrow> \<not> gone_error e) w"
    and capture_live: "calm w \<Longrightarrow> wp (bk_capture (e_backend E) (jr_resource r0))
      (\<lambda>res _. \<forall>e. res = Err e \<longrightarrow> \<not> gone_error e) w"
    and identity_resource: "id_resource (jr_identity r0) = jr_resource r0"
    and managed_resource: "calm w \<Longrightarrow> manages calm view (jr_resource r0)"

sublocale live_env \<subseteq> live_set E calm view snap files normalized_default "{r0}" r0
  by unfold_locales (simp_all add: tx_wf_single identity_resource)

context live_env begin

abbreviation einv where "einv s \<equiv> end_inv E calm view snap files s r0"

abbreviation restore_post where
  "restore_post s \<equiv> \<lambda>res (l', u). einv s u \<and> live_ok r0 l' \<and>
     when_ok res (\<lambda>_. cleared E view snap files r0 u)"

lemma remove_spec:
  assumes "linv s (l, t)" "same_claim r0 r"
    and "holds_state E view snap (w_os t) (jr_resource r0) (jr_before r0)"
  shows "wp (jremove E (jr_lease r) (jr_resource r)) (\<lambda>res u. einv s u \<and>
     when_ok res (\<lambda>_. cleared E view snap files r0 u)) t"
proof -
  have key: "jr_lease r = jr_lease r0" "jr_resource r = jr_resource r0"
    using assms(2) by (simp_all add: same_claim_def)
  have "tx_inv E calm view snap files s normalized_default {r0} {r0} {} {} t"
    using assms(1) by (simp add: live_inv_def)
  from tx_inv_hold[OF this assms(3)]
  have inv: "tx_inv E calm view snap files s normalized_default {r0} {r0} {r0} {} t" by simp
  show ?thesis
    unfolding key
    by (rule wp_mono[OF tx_inv_remove[OF wf0 inv]])
       (auto simp: end_inv_def cleared_def tx_inv_def when_ok_def split: outcome.splits)
qed

lemma finish_spec:
  assumes "linv s (l, t)" "same_claim r0 r"
    and "holds_state E view snap (w_os t) (jr_resource r0) (jr_before r0)"
  shows "wp (finish_restore E r) (restore_post s) (l, t)"
  unfolding finish_restore_def wp_inner
proof (rule wp_seqI[OF remove_spec[OF assms]], goal_cases)
  case (1 x u)
  then show ?case
    by (intro wp_mono[OF wp_fire]) (use linv_ok[OF assms(1)] in \<open>auto simp: when_ok_def split: outcome.splits\<close>)
qed (use linv_ok[OF assms(1)] in auto)

lemma post_of_inv: "linv s (l, t) \<Longrightarrow> \<not> succeeded res \<Longrightarrow> restore_post s res (l, t)"
  by (auto simp: live_inv_end linv_ok when_ok_def succeeded_def split: outcome.splits)

lemma post_crash: "linv s (l, t) \<Longrightarrow> restore_post s Crash (l, t)"
  by (rule post_of_inv) simp_all

lemma post_err: "linv s (l, t) \<Longrightarrow> restore_post s (Err e) (l, t)"
  by (rule post_of_inv) simp_all

lemma restore_owned_spec:
  assumes "linv s (l, t)"
  shows "wp (restore_owned E current) (restore_post s) (l, t)"
proof (cases "live_applied l")
  case None
  then show ?thesis by (simp add: restore_owned_def Let_def live_inv_end[OF assms] linv_ok[OF assms])
next
  case (Some applied)
  let ?rec = "lr_record l"
  let ?p = "\<lparr> pr_evidence = Some applied, pr_target = jr_before ?rec \<rparr>"
  let ?resume = "?rec\<lparr>jr_phase := Prepared, jr_applied := None\<rparr>"
  have c: "same_claim r0 ?rec" using linv_ok[OF assms] by (simp add: live_ok_def)
  then have id: "jr_identity ?rec = jr_identity r0" and bf: "jr_before ?rec = jr_before r0"
    and cr: "same_claim r0 ?resume"
    by (simp_all add: same_claim_def)
  have ok: "live_ok r0 (l\<lparr>lr_state := Compensating q ?resume\<rparr>)" for q
    using c cr by (simp add: live_ok_def)
  let ?l = "l\<lparr>lr_state := Compensating ?p ?resume\<rparr>"
  have start: "linv s (?l, t)" by (rule linv_live[OF assms ok])
  have "wp (bind_tx (inner_tx (run_mut ?p (compensate E (jr_identity ?rec) (Some AfterRestoreRestore))))
      (\<lambda>(res, pending). case res of
         Inl e \<Rightarrow> seq_tx (try_tx (retain_compensation E pending ?resume)) (throw e)
       | Inr _ \<Rightarrow> seq_tx (put_mut (l\<lparr>lr_state := Compensating pending ?resume\<rparr>)) (finish_restore E ?rec)))
      (restore_post s) (?l, t)"
  proof (rule wp_bind_innerI[OF compensate_inv[OF start id]], goal_cases)
    case (1 x u)
    obtain res q where x: "x = (res, q)" by (cases x)
    with 1 have u: "linv s (?l, u)" by simp
    show ?case
    proof (cases res)
      case (Inl e)
      have "wp (seq_tx (try_tx (retain_compensation E q ?resume)) (throw e)) (\<lambda>res. \<lambda>(l, u). linv s (l, u) \<and> \<not> succeeded res) (?l, u)"
        by (rule wp_seqI[OF wp_tryI[OF retain_inv[OF u cr]], where P = "\<lambda>_. linv s"]) auto
      then have "wp (seq_tx (try_tx (retain_compensation E q ?resume)) (throw e)) (restore_post s) (?l, u)"
        by (rule wp_mono) (use post_of_inv in \<open>auto split: prod.splits\<close>)
      with x Inl show ?thesis by simp
    next
      case (Inr y)
      have h: "holds_state E view snap (w_os u) (jr_resource r0) (jr_before r0)"
        using 1 x Inr bf by simp
      have "linv s (l\<lparr>lr_state := Compensating q ?resume\<rparr>, u)" by (rule linv_live[OF u ok])
      from finish_spec[OF this c h] x Inr show ?thesis by simp
    qed
  next
    case (3 u)
    then have "linv s (?l, u)" by simp
    from live_inv_end[OF this] linv_ok[OF this] show ?case by simp
  qed auto
  with Some live_inv_end[OF assms] linv_ok[OF assms] show ?thesis
    unfolding restore_owned_def Let_def wp_bind_mut by simp
qed

text \<open>After a read of the resource: done when it is as captured, else as the overlay is owned.\<close>

lemma finish_or_owned:
  assumes "linv s (l, t)" "same_claim r0 rec"
    and "view (w_os t) (jr_resource r0) = Some n" "c = snap (jr_resource r0) n"
  shows "wp (if bk_equivalent (e_backend E) c (jr_before rec) then finish_restore E rec else restore_owned E c)
     (restore_post s) (l, t)"
proof (cases "bk_equivalent (e_backend E) c (jr_before rec)")
  case True
  with assms(2-4) have "holds_state E view snap (w_os t) (jr_resource r0) (jr_before r0)"
    by (auto simp: holds_state_def same_claim_def)
  from finish_spec[OF assms(1,2) this] True show ?thesis by simp
next
  case False
  with restore_owned_spec[OF assms(1)] show ?thesis by simp
qed

lemma read_again:
  assumes "linv s (l, t)" "same_claim r0 rec"
  shows "wp (bind_tx (inner_tx (os (bk_readback (e_backend E) (jr_resource rec)))) (\<lambda>c.
      if bk_equivalent (e_backend E) c (jr_before rec) then finish_restore E rec else restore_owned E c))
     (restore_post s) (l, t)"
proof -
  have mine: "manages calm view (jr_resource rec)"
    using linv_manages[OF assms(1)] assms(2) by (simp add: same_claim_def)
  show ?thesis
proof (rule wp_bind_innerI[OF readback_only[OF linv_calm[OF assms(1)] mine]], goal_cases)
  case (1 c u)
  then have u: "linv s (l, u)" by (intro linv_read[OF assms(1)]) simp
  from 1 assms(2) obtain n where "view (w_os u) (jr_resource r0) = Some n" "c = snap (jr_resource r0) n"
    by (auto simp: same_claim_def)
  from finish_or_owned[OF u assms(2) this] show ?case .
next
  case (2 e u)
  then show ?case by (intro post_err linv_read[OF assms(1)]) simp
next
  case (3 u)
  then show ?case by (intro post_crash linv_read[OF assms(1)]) simp
qed
qed

lemma status_os:
  "calm (w_os t) \<Longrightarrow> wp (os (bk_status (e_backend E) (jr_identity r0)))
     (\<lambda>res _. when_ok res (\<lambda>st. st = Same \<or> st = Ambiguous)) t"
  unfolding wp_os by (rule status_live)

lemma readback_os:
  "calm (w_os t) \<Longrightarrow> wp (os (bk_readback (e_backend E) (jr_resource r0)))
     (\<lambda>res _. \<forall>e. res = Err e \<longrightarrow> \<not> gone_error e) t"
  unfolding wp_os by (rule read_live)

lemma capture_os:
  "calm (w_os t) \<Longrightarrow> wp (os (bk_capture (e_backend E) (jr_resource r0)))
     (\<lambda>res _. \<forall>e. res = Err e \<longrightarrow> \<not> gone_error e) t"
  unfolding wp_os by (rule capture_live)

lemma restore_settled_spec:
  assumes "linv s (l, t)" "view (w_os t) (jr_resource r0) = Some n" "c = snap (jr_resource r0) n"
  shows "wp (if bk_equivalent (e_backend E) c (jr_before (lr_record l)) then finish_restore E (lr_record l)
      else if lr_state l \<noteq> Committed then
        seq_tx (resolve_live E (Some c)) (
        bind_tx get_mut (\<lambda>live.
        bind_tx (inner_tx (os (bk_readback (e_backend E) (jr_resource (lr_record live))))) (\<lambda>current.
        if bk_equivalent (e_backend E) current (jr_before (lr_record live)) then finish_restore E (lr_record live)
        else restore_owned E current)))
      else restore_owned E c) (restore_post s) (l, t)"
proof -
  have claim: "same_claim r0 (lr_record l)" using linv_ok[OF assms(1)] by (simp add: live_ok_def)
  note direct = finish_or_owned[OF assms(1) claim assms(2,3)]
  have resolved: "wp (seq_tx (resolve_live E (Some c)) (
        bind_tx get_mut (\<lambda>live.
        bind_tx (inner_tx (os (bk_readback (e_backend E) (jr_resource (lr_record live))))) (\<lambda>current.
        if bk_equivalent (e_backend E) current (jr_before (lr_record live)) then finish_restore E (lr_record live)
        else restore_owned E current)))) (restore_post s) (l, t)"
  proof (rule wp_seqI[OF resolve_inv[OF assms(1)]], goal_cases)
    case (1 x lt)
    obtain l' u where lt: "lt = (l', u)" by (cases lt)
    with 1 have u: "linv s (l', u)" by simp
    then have "same_claim r0 (lr_record l')" using linv_ok by (auto simp: live_ok_def)
    from read_again[OF u this] show ?case by (simp add: lt)
  qed (auto dest: live_inv_end linv_ok)
  from direct resolved show ?thesis by (auto split: if_splits)
qed

lemma restore_spec:
  assumes "linv s (l, t)"
  shows "wp (restore_live_state E) (restore_post s) (l, t)"
proof -
  let ?rec = "lr_record l"
  have claim: "same_claim r0 ?rec" using linv_ok[OF assms] by (simp add: live_ok_def)
  then have key: "jr_identity ?rec = jr_identity r0" "jr_resource ?rec = jr_resource r0"
    by (simp_all add: same_claim_def)
  note st_spec = wp_conj[OF status_only[OF linv_calm[OF assms]] status_os[OF linv_calm[OF assms]]]
  show ?thesis
    unfolding restore_live_state_def Let_def wp_bind_mut key
  proof (rule wp_bind_innerI[OF st_spec], goal_cases)
    case (1 st u)
    then have u: "linv s (l, u)" by (intro linv_read[OF assms]) simp
    note rd_spec = wp_conj[OF readback_only[OF linv_calm[OF u] linv_manages[OF u]] readback_os[OF linv_calm[OF u]]]
    show ?case
    proof (cases "st = Same")
      case False
      with 1 have "st = Ambiguous" by auto
      with post_err[OF u] show ?thesis by simp
    next
      case True
      show ?thesis
        unfolding True resource_status.case
      proof (rule wp_match_innerI[OF rd_spec], goal_cases)
        case (1 c v)
        then obtain n where v: "linv s (l, v)" "view (w_os v) (jr_resource r0) = Some n"
          "c = snap (jr_resource r0) n" using linv_read[OF u] by auto
        show ?case
        proof (rule wp_seq_innerI[OF wp_fire], goal_cases)
          case (1 x w)
          with restore_settled_spec[OF v] show ?case by (simp add: key)
        qed (use post_err[OF v(1)] post_crash[OF v(1)] in auto)
      next
        case (2 e v)
        then have "linv s (l, v)" "\<not> gone_error e" using linv_read[OF u] by auto
        with post_err[OF this(1)] show ?case by (auto simp: gone_error_def split: error.splits)
      next
        case (3 v)
        then show ?case by (intro post_crash linv_read[OF u]) simp
      qed
    qed
  next
    case (2 e u)
    then show ?case by (intro post_err linv_read[OF assms]) simp
  next
    case (3 u)
    then show ?case by (intro post_crash linv_read[OF assms]) simp
  qed
qed

text \<open>Recovery of a record found on disk: the same invariant, on the record itself.\<close>

abbreviation rinv where "rinv s t \<equiv> linv s (\<lparr> lr_record = r0, lr_state = Committed \<rparr>, t)"

abbreviation recovered where
  "recovered s \<equiv> \<lambda>res u. einv s u \<and> when_ok res (recovered_ok E view snap files r0 u)"

lemma rinv_end: "rinv s t \<Longrightarrow> einv s t"
  by (rule live_inv_end)

lemma rinv_recorded: "rinv s t \<Longrightarrow> recorded E (store_files files (w_journal t)) r0"
  by (simp add: live_inv_def tx_inv_def)

lemma clear_record:
  assumes "rinv s t" "holds_state E view snap (w_os t) (jr_resource r0) (jr_before r0)"
    and "\<And>u. cleared E view snap files r0 u \<Longrightarrow> recovered_ok E view snap files r0 u out"
  shows "wp (seq_tx (jremove E (jr_lease r0) (jr_resource r0)) (seq_tx (fire E p) (return_tx out)))
     (recovered s) t"
proof (rule wp_seqI[OF remove_spec[OF assms(1) _ assms(2)]], goal_cases)
  case (2 x u)
  then show ?case by (intro wp_seqI[OF wp_fire]) (use assms(3) in auto)
qed auto

lemma recover_owned_spec:
  assumes "rinv s t"
  shows "wp (recover_owned E r0) (recovered s) t"
  unfolding recover_owned_def Let_def
proof (rule wp_bindI[OF compensate_inv[OF assms refl]], goal_cases)
  case (1 x u)
  obtain res q where x: "x = (res, q)" by (cases x)
  with 1 have u: "rinv s u" by simp
  show ?case
  proof (cases res)
    case (Inl e)
    have "wp (seq_tx (jwrite E (r0\<lparr>jr_phase := Prepared, jr_applied := pr_evidence q\<rparr>))
        (if is_external_modification e then return_tx (RcExternalConflict (jr_resource r0) (jr_lease r0))
         else throw e)) (recovered s) u"
      by (rule wp_seqI[OF linv_write[OF u]])
         (auto simp: recovered_ok_def rinv_end rinv_recorded)
    with x Inl show ?thesis by simp
  next
    case (Inr y)
    with 1 x have "holds_state E view snap (w_os u) (jr_resource r0) (jr_before r0)" by simp
    from clear_record[OF u this] x Inr show ?thesis by (simp add: recovered_ok_def)
  qed
next
  case (3 u)
  then show ?case using rinv_end by simp
qed auto

lemma recover_spec:
  assumes "rinv s t"
  shows "wp (recover_record E r0) (recovered s) t"
proof -
  note st_spec = wp_conj[OF status_only[OF linv_calm[OF assms]] status_os[OF linv_calm[OF assms]]]
  show ?thesis
    unfolding recover_record_def Let_def
  proof (rule wp_bindI[OF st_spec], goal_cases)
    case (1 st u)
    then have u: "rinv s u" by (intro linv_read[OF assms]) simp
    note rd_spec = wp_conj[OF capture_only[OF linv_calm[OF u] linv_manages[OF u]] capture_os[OF linv_calm[OF u]]]
    show ?case
    proof (cases "st = Same")
      case False
      with 1 have "st = Ambiguous" by auto
      with u show ?thesis by (simp add: rinv_end recovered_ok_def rinv_recorded)
    next
      case True
      show ?thesis
        unfolding True resource_status.case
      proof (rule wp_matchI[OF rd_spec], goal_cases)
        case (1 c v)
        then obtain n where v: "rinv s v" "view (w_os v) (jr_resource r0) = Some n"
          "c = snap (jr_resource r0) n" using linv_read[OF u] by auto
        show ?case
        proof (rule wp_seqI[OF wp_fire], goal_cases)
          case (1 x w)
          have "holds_state E view snap (w_os v) (jr_resource r0) (jr_before r0)"
            if "bk_equivalent (e_backend E) c (jr_before r0)"
            using v that by (auto simp: holds_state_def)
          with 1 v(1) clear_record[OF v(1)] recover_owned_spec[OF v(1)] show ?case
            by (simp add: recovered_ok_def rinv_end rinv_recorded)
        qed (use rinv_end[OF v(1)] in auto)
      next
        case (2 e v)
        then have "rinv s v" "\<not> gone_error e" using linv_read[OF u] by auto
        with rinv_end[OF this(1)] show ?case by (auto simp: gone_error_def split: error.splits)
      next
        case (3 v)
        then have "rinv s v" using linv_read[OF u] by auto
        then show ?case by (simp add: rinv_end)
      qed
    qed
  next
    case (2 e u)
    then have "rinv s u" using linv_read[OF assms] by auto
    then show ?case by (simp add: rinv_end)
  next
    case (3 u)
    then have "rinv s u" using linv_read[OF assms] by auto
    then show ?case by (simp add: rinv_end)
  qed
qed

end

end
