(* ===== verification/Update_Safety.thy ===== *)
theory Update_Safety
  imports Restore_Safety
begin

text \<open>
  Updating a lease: whatever happens, every record of the lease stays on disk with the state to go
  back to, and an update that returns leaves every resource of the lease in the new configuration.
\<close>

text \<open>
  The heap cells of a lease, each with the claim its live record makes. The cells are distinct.
\<close>

definition cells_ok :: "(addr \<times> journal_record) list \<Rightarrow> heap \<Rightarrow> bool" where
  "cells_ok cs h \<longleftrightarrow> (\<forall>(a, r)\<in>set cs. \<exists>l. h a = Some l \<and> live_ok r l)"

definition update_inv ::
  "('w, 'd) env \<Rightarrow> ('w \<Rightarrow> bool) \<Rightarrow> ('w \<Rightarrow> resource_id \<Rightarrow> 'n option) \<Rightarrow>
   (resource_id \<Rightarrow> 'n \<Rightarrow> platform_snapshot) \<Rightarrow> (handle \<Rightarrow> 'd \<Rightarrow> string \<Rightarrow> bytes option) \<Rightarrow>
   ('w, 'd) world \<Rightarrow> normalized_config \<Rightarrow> (addr \<times> journal_record) list \<Rightarrow> journal_record set \<Rightarrow>
   heap \<times> ('w, 'd) world \<Rightarrow> bool" where
  "update_inv E calm view snap files s plan cs D = (\<lambda>(h, t). cells_ok cs h \<and>
     tx_inv E calm view snap files s plan (snd ` set cs) (snd ` set cs) {} D t)"

lemma update_inv_mono:
  "update_inv E calm view snap files s plan cs D x \<Longrightarrow> D' \<subseteq> D \<Longrightarrow> update_inv E calm view snap files s plan cs D' x"
  by (auto simp: update_inv_def elim: tx_inv_mono)

text \<open>An item of an update belongs to its cell.\<close>

definition item_ok :: "(addr \<times> journal_record) list \<Rightarrow> update_item \<Rightarrow> bool" where
  "item_ok cs i \<longleftrightarrow> (\<exists>r. (ui_addr i, r) \<in> set cs \<and> same_claim r (ui_old i))"

text \<open>The new configuration is in force: the state matches it, or evidence that matches it owns it.\<close>

definition in_force ::
  "('w, 'd) env \<Rightarrow> ('w \<Rightarrow> resource_id \<Rightarrow> 'n option) \<Rightarrow> (resource_id \<Rightarrow> 'n \<Rightarrow> platform_snapshot) \<Rightarrow>
   'w \<Rightarrow> normalized_config \<Rightarrow> resource_id \<Rightarrow> bool" where
  "in_force E view snap w plan r \<longleftrightarrow> (\<exists>n. view w r = Some n \<and>
     (bk_matches_desired (e_backend E) (snap r n) plan \<or>
      (\<exists>pf. bk_matches_desired (e_backend E) pf plan \<and> owns_current (e_backend E) pf (snap r n))))"

lemma wp_with_live:
  "h a = Some l \<Longrightarrow> wp (with_live a m) Q (h, s) = wp m (\<lambda>res (l', t). Q res (h(a \<mapsto> l'), t)) (l, s)"
  by (simp add: wp_def with_live_def split: prod.splits)

lemma cells_ok_upd:
  "cells_ok cs h \<Longrightarrow> distinct (map fst cs) \<Longrightarrow> (a, r) \<in> set cs \<Longrightarrow> live_ok r l \<Longrightarrow> cells_ok cs (h(a \<mapsto> l))"
  unfolding cells_ok_def by (force dest: eq_key_imp_eq_value)

context transaction_env begin

lemma live_setI: "tx_wf E rs \<Longrightarrow> r \<in> rs \<Longrightarrow> live_set E calm view snap files rs r"
  by unfold_locales

abbreviation uinv where "uinv s plan cs D \<equiv> update_inv E calm view snap files s plan cs D"

text \<open>A critical section on one live record that keeps the record's invariant keeps that of the lease.\<close>

lemma live_step:
  assumes wf: "tx_wf E (snd ` set cs)" and d: "distinct (map fst cs)" and ar: "(a, r) \<in> set cs"
    and inv: "uinv s plan cs {} x"
    and m: "\<And>l t. live_inv E calm view snap files s plan (snd ` set cs) r (l, t) \<Longrightarrow>
      wp m (\<lambda>res lu. live_inv E calm view snap files s plan (snd ` set cs) r lu \<and> P res (fst lu)) (l, t)"
  shows "wp (with_live a m) (\<lambda>res y. uinv s plan cs {} y \<and> (\<exists>l. fst y a = Some l \<and> live_ok r l \<and> P res l)) x"
proof -
  obtain h t where x: "x = (h, t)" by (cases x)
  with inv ar obtain l where l: "h a = Some l" "live_ok r l"
    by (auto simp: update_inv_def cells_ok_def)
  have li: "live_inv E calm view snap files s plan (snd ` set cs) r (l, t)"
    using inv l x by (simp add: update_inv_def live_inv_def)
  show ?thesis
    unfolding x wp_with_live[of h a l, OF l(1)]
    by (rule wp_mono[OF m[OF li]])
       (use inv x d ar in \<open>auto simp: update_inv_def live_inv_def intro: cells_ok_upd\<close>)
qed

lemma live_step':
  assumes "tx_wf E (snd ` set cs)" "distinct (map fst cs)" "item_ok cs i" "uinv s plan cs {} x"
    and "\<And>r l t. same_claim r (ui_old i) \<Longrightarrow> live_set E calm view snap files (snd ` set cs) r \<Longrightarrow>
      live_inv E calm view snap files s plan (snd ` set cs) r (l, t) \<Longrightarrow>
      wp m (\<lambda>_. live_inv E calm view snap files s plan (snd ` set cs) r) (l, t)"
  shows "wp (with_live (ui_addr i) m) (\<lambda>_. uinv s plan cs {}) x"
proof -
  obtain r where r: "(ui_addr i, r) \<in> set cs" "same_claim r (ui_old i)"
    using assms(3) by (auto simp: item_ok_def)
  have ls: "live_set E calm view snap files (snd ` set cs) r"
    using r(1) by (intro live_setI[OF assms(1)]) force
  have "wp m (\<lambda>res lu. live_inv E calm view snap files s plan (snd ` set cs) r lu \<and> True) (l, t)"
    if "live_inv E calm view snap files s plan (snd ` set cs) r (l, t)" for l t
    using assms(5)[OF r(2) ls that] by simp
  from live_step[OF assms(1,2) r(1) assms(4) this] show ?thesis by (rule wp_mono) auto
qed

text \<open>A step outside the heap.\<close>

lemma uinv_read: "uinv s plan cs D (h, t) \<Longrightarrow> os_only calm view {} t u \<Longrightarrow> uinv s plan cs D (h, u)"
  by (auto simp: update_inv_def intro: tx_inv_read)

lemma uinv_calm: "uinv s plan cs D (h, t) \<Longrightarrow> calm (w_os t)"
  by (auto simp: update_inv_def tx_inv_def)

lemma uinv_manages: "uinv s plan cs D (h, t) \<Longrightarrow> item_ok cs i \<Longrightarrow> manages calm view (jr_resource (ui_old i))"
  by (force simp: update_inv_def tx_inv_def item_ok_def same_claim_def)

lemma items_spec:
  assumes wf: "tx_wf E (snd ` set cs)" and d: "distinct (map fst cs)"
  shows "uinv s plan cs {} x \<Longrightarrow> set as \<subseteq> fst ` set cs \<Longrightarrow>
     wp (update_items E as) (\<lambda>res y. uinv s plan cs {} y \<and>
       when_ok res (\<lambda>items. map ui_addr items = as \<and> list_all (item_ok cs) items)) x"
proof (induction as arbitrary: x)
  case Nil
  then show ?case by simp
next
  case (Cons a as)
  then obtain r where r: "(a, r) \<in> set cs" by auto
  have ls: "live_set E calm view snap files (snd ` set cs) r"
    using r by (intro live_setI[OF wf]) force
  have body: "wp (seq_tx (resolve_live E None) (
       bind_tx get_mut (\<lambda>live. case live_applied live of
         None \<Rightarrow> throw (ExternalModification (jr_resource (lr_record live))
           ''the lease record carries no verified applied state; refusing to overwrite indeterminate state'')
       | Some applied \<Rightarrow> return_tx \<lparr> ui_addr = a, ui_old = lr_record live, ui_applied = applied \<rparr>)))
     (\<lambda>res lu. live_inv E calm view snap files s plan (snd ` set cs) r lu \<and>
       when_ok res (\<lambda>i. ui_addr i = a \<and> ui_old i = lr_record (fst lu))) (l, t)"
    if "live_inv E calm view snap files s plan (snd ` set cs) r (l, t)" for l t
    by (rule wp_seqI[OF live_set.resolve_inv[OF ls that]])
       (auto split: option.splits prod.splits)
  show ?case
    unfolding update_items.simps
  proof (rule wp_bindI[OF live_step[OF wf d r Cons.prems(1) body]], goal_cases)
    case (2 i y)
    then have i: "item_ok cs i" "ui_addr i = a"
      using r by (auto simp: item_ok_def live_ok_def)
    have "uinv s plan cs {} y" using 2 by simp
    from Cons.IH[OF this] Cons.prems(2) show ?case
      by (intro wp_bindI[OF Cons.IH[OF \<open>uinv s plan cs {} y\<close>]]) (use i in auto)
  qed auto
qed

lemma check_spec:
  "uinv s plan cs {} (h, t) \<Longrightarrow> list_all (item_ok cs) items \<Longrightarrow> wp (for_tx items (check_owned E)) (\<lambda>res (h', u). h' = h \<and>
     uinv s plan cs {} (h, u) \<and> view (w_os u) = view (w_os t) \<and>
     when_ok res (\<lambda>_. \<forall>i\<in>set items. \<exists>n. view (w_os t) (jr_resource (ui_old i)) = Some n \<and>
       owns_current (e_backend E) (ui_applied i) (snap (jr_resource (ui_old i)) n))) (h, t)"
proof (induction items arbitrary: t)
  case Nil
  then show ?case by simp
next
  case (Cons i items)
  have mine: "manages calm view (jr_resource (ui_old i))"
    by (rule uinv_manages[OF Cons.prems(1)]) (use Cons.prems(2) in simp)
  have "wp (check_owned E i) (\<lambda>res (h', u). h' = h \<and> uinv s plan cs {} (h, u) \<and> view (w_os u) = view (w_os t) \<and>
     when_ok res (\<lambda>_. \<exists>n. view (w_os t) (jr_resource (ui_old i)) = Some n \<and>
       owns_current (e_backend E) (ui_applied i) (snap (jr_resource (ui_old i)) n))) (h, t)"
    unfolding check_owned_def Let_def
  proof (rule wp_bind_innerI[OF readback_only[OF uinv_calm[OF Cons.prems(1)] mine]], goal_cases)
    case (1 c u)
    then have u: "uinv s plan cs {} (h, u)" "view (w_os u) = view (w_os t)"
      by (auto intro: uinv_read[OF Cons.prems(1)] os_only_view)
    show ?case
      by (rule wp_seq_innerI[OF wp_fire]) (use 1 u in auto)
  next
    case (2 e u)
    then show ?case by (auto intro: uinv_read[OF Cons.prems(1)] os_only_view)
  next
    case (3 u)
    then show ?case by (auto intro: uinv_read[OF Cons.prems(1)] os_only_view)
  qed
  then show ?case
    unfolding for_tx.simps
  proof (rule wp_seqI, goal_cases)
    case (1 x y)
    obtain h' u where y: "y = (h', u)" by (cases y)
    with 1 have u: "h' = h" "uinv s plan cs {} (h, u)" "view (w_os u) = view (w_os t)" by auto
    show ?case
      unfolding y u(1) by (rule wp_mono[OF Cons.IH[OF u(2)]]) (use 1 u Cons.prems(2) in auto)
  qed auto
qed

lemma cleanup_spec:
  assumes wf: "tx_wf E (snd ` set cs)" and d: "distinct (map fst cs)"
    and "uinv s plan cs {} x" "list_all (item_ok cs) items"
  shows "wp (collect_tx (map (restore_old E) items)) (\<lambda>res y. no_err res \<and> uinv s plan cs {} y) x"
proof -
  have "wp (restore_old E i) (\<lambda>_ y. uinv s plan cs {} y \<and> list_all (item_ok cs) is) x"
    if "uinv s plan cs {} x \<and> list_all (item_ok cs) (i # is)" for i "is" x
  proof -
    have "wp (with_live (ui_addr i) (persist_live E (ui_old i))) (\<lambda>_. uinv s plan cs {}) x"
      by (rule live_step'[OF wf d]) (use that in \<open>auto intro: live_set.persist_live_inv\<close>)
    with that show ?thesis unfolding restore_old_def by (auto elim: wp_mono)
  qed
  with assms(3,4) show ?thesis
    by (intro wp_mono[OF wp_collect_map[where P = "\<lambda>is x. uinv s plan cs {} x \<and> list_all (item_ok cs) is"
        and f = "restore_old E" and xs = items]]) auto
qed

lemma prepare_spec:
  assumes wf: "tx_wf E (snd ` set cs)" and d: "distinct (map fst cs)"
    and x: "uinv s plan cs {} x" and items: "list_all (item_ok cs) items" "item_ok cs i"
  shows "wp (prepare_update E plan' items i) (\<lambda>_. uinv s plan cs {}) x"
  unfolding prepare_update_def
proof (rule wp_matchI[OF live_step'[OF wf d items(2) x]], goal_cases)
  case (1 r l t)
  let ?rec = "(lr_record l)\<lparr>jr_desired := plan', jr_phase := Prepared\<rparr>"
  have c: "same_claim r ?rec"
    using live_set.linv_ok[OF 1(2,3)] by (simp add: live_ok_def same_claim_def)
  then have "live_inv E calm view snap files s plan (snd ` set cs) r (\<lparr> lr_record = ?rec, lr_state = Unmutated \<rparr>, t)"
    by (intro live_set.linv_live[OF 1(2,3)]) (simp add: live_ok_def)
  from live_set.linv_write[OF 1(2) this c] show ?case
    unfolding wp_bind_mut Let_def wp_inner by (rule wp_mono) auto
next
  case (3 e y)
  show ?case by (rule wp_bindI[OF cleanup_spec[OF wf d 3 items(1)]]) auto
qed auto

lemma prepare_all_spec:
  assumes wf: "tx_wf E (snd ` set cs)" and d: "distinct (map fst cs)" and items: "list_all (item_ok cs) items"
  shows "uinv s plan cs {} x \<Longrightarrow> set is \<subseteq> set items \<Longrightarrow>
     wp (for_tx is (prepare_update E plan' items)) (\<lambda>_. uinv s plan cs {}) x"
proof (induction "is" arbitrary: x)
  case (Cons i "is")
  then have "item_ok cs i" using items by (auto simp: list_all_iff)
  then show ?case
    unfolding for_tx.simps
    by (intro wp_seqI[OF prepare_spec[OF wf d Cons.prems(1) items]]) (use Cons in auto)
qed simp

text \<open>The mutations done so far are in effect.\<close>

abbreviation done_ok where
  "done_ok plan ms t \<equiv> \<forall>(i, m)\<in>set ms. in_effect E view snap (w_os t) plan (jr_resource (ui_old i))"

lemma uinv_os:
  assumes wf: "tx_wf E (snd ` set cs)" and "uinv s plan cs {} (h, t)" "item_ok cs i"
    and "os_only calm view {jr_resource (ui_old i)} t u"
  shows "uinv s plan cs {} (h, u)"
proof -
  obtain r where r: "(ui_addr i, r) \<in> set cs" "jr_resource r = jr_resource (ui_old i)"
    using assms(3) by (auto simp: item_ok_def same_claim_def)
  then have "r \<in> snd ` set cs" by force
  with tx_inv_os_step[OF wf, where s = s and r = r and A = "snd ` set cs" and H = "{}" and D = "{}" and t = t and u = u]
    assms(2,4) r(2) show ?thesis by (auto simp: update_inv_def)
qed

lemma item_identity:
  "tx_wf E (snd ` set cs) \<Longrightarrow> item_ok cs i \<Longrightarrow> id_resource (jr_identity (ui_old i)) = jr_resource (ui_old i)"
  by (force simp: item_ok_def same_claim_def tx_wf_def)

lemma rollback_items_spec:
  assumes wf: "tx_wf E (snd ` set cs)"
  shows "uinv s plan cs {} (h, t) \<Longrightarrow> list_all (item_ok cs) (map fst ms) \<Longrightarrow>
     wp (rollback_items E ms) (\<lambda>res y. no_err res \<and> uinv s plan cs {} y \<and>
       when_ok res (\<lambda>rs. map fst rs = map fst ms)) (h, t)"
proof (induction ms arbitrary: t)
  case Nil
  then show ?case by simp
next
  case (Cons im ms)
  obtain i m where im: "im = (i, m)" by (cases im)
  have i: "item_ok cs i" "id_resource (jr_identity (ui_old i)) = jr_resource (ui_old i)"
    using Cons.prems(2) item_identity[OF wf] by (auto simp: im)
  note rb = rollback_spec[where R = "{jr_resource (ui_old i)}" and i = "jr_identity (ui_old i)" and w = "w_os t", OF
      os_only_refl[OF uinv_calm[OF Cons.prems(1)]] ]
  show ?case
    unfolding im rollback_items.simps
  proof (rule wp_bind_innerI[OF rb], goal_cases)
    case 1
    then show ?case using uinv_manages[OF Cons.prems(1) i(1)] by simp
  next
    case 2
    then show ?case by (simp add: i(2))
  next
    case (3 x u)
    then have u: "uinv s plan cs {} (h, u)" using uinv_os[OF wf Cons.prems(1) i(1)] by blast
    show ?case by (rule wp_bindI[OF Cons.IH[OF u]]) (use Cons.prems(2) in auto)
  qed (use uinv_os[OF wf Cons.prems(1) i(1)] in auto)
qed

lemma settle_update_spec:
  assumes wf: "tx_wf E (snd ` set cs)" and d: "distinct (map fst cs)"
    and x: "uinv s plan cs {} x" and i: "item_ok cs i"
  shows "wp (settle_update E (i, residue)) (\<lambda>res y. no_err res \<and> uinv s plan cs {} y) x"
proof -
  have persist: "wp (collect_tx [with_live (ui_addr i) (persist_live E c)]) (\<lambda>res y. no_err res \<and> uinv s plan cs {} y) x"
    if "same_claim (ui_old i) c" for c
    by (rule wp_collect1I[OF live_step'[OF wf d i x]])
       (auto intro: live_set.persist_live_inv same_claim_trans[OF _ that])
  have retain: "wp (collect_tx [with_live (ui_addr i) (retain_compensation E p (ui_old i))])
      (\<lambda>res y. no_err res \<and> uinv s plan cs {} y) x" for p
    by (rule wp_collect1I[OF live_step'[OF wf d i x]]) (auto intro: live_set.retain_inv)
  show ?thesis
  proof (cases residue)
    case (ResPending p)
    then show ?thesis
      unfolding settle_update_def prod.case ResPending mutation_residue.case
      by (intro wp_bindI[OF retain]) auto
  next
    case (ResRestored identity)
    then show ?thesis
      unfolding settle_update_def prod.case ResRestored mutation_residue.case Let_def
      by (intro persist) (simp add: same_claim_def)
  next
    case ResUnchanged
    then show ?thesis
      unfolding settle_update_def prod.case ResUnchanged mutation_residue.case restore_old_def
      by (intro persist) simp
  qed
qed

lemma settle_all_spec:
  assumes wf: "tx_wf E (snd ` set cs)" and d: "distinct (map fst cs)"
  shows "uinv s plan cs {} x \<Longrightarrow> list_all (item_ok cs) (map fst xs) \<Longrightarrow>
     wp (settle_updates E xs) (\<lambda>res y. no_err res \<and> uinv s plan cs {} y) x"
proof (induction xs arbitrary: x)
  case (Cons ir xs)
  obtain i residue where ir: "ir = (i, residue)" by (cases ir)
  with Cons.prems have i: "item_ok cs i" by simp
  show ?case
    unfolding ir settle_updates.simps
  proof (rule wp_bindI[OF settle_update_spec[OF wf d Cons.prems(1) i]], goal_cases)
    case (1 es y)
    then have y: "uinv s plan cs {} y" by simp
    show ?case by (rule wp_bindI[OF Cons.IH[OF y]]) (use Cons.prems(2) in auto)
  qed auto
qed simp

lemma abort_update_spec:
  assumes wf: "tx_wf E (snd ` set cs)" and d: "distinct (map fst cs)"
    and x: "uinv s plan cs {} (h, t)" and items: "list_all (item_ok cs) (map fst ms @ i # rest)"
  shows "wp (abort_update E ms i failure rest) (\<lambda>res y. \<not> succeeded res \<and> uinv s plan cs {} y) (h, t)"
proof -
  have ms: "list_all (item_ok cs) (map fst ms)" using items by simp
  show ?thesis
  unfolding abort_update_def
  proof (rule wp_bindI[OF rollback_items_spec[OF wf x ms]], goal_cases)
    case (1 undone y)
    obtain h' u where y: "y = (h', u)" by (cases y)
    have y': "uinv s plan cs {} (h', u)" using 1 y by simp
    have "wp (settle_updates E (undone @ [(i, mf_residue failure)] @ map (\<lambda>i. (i, ResUnchanged)) rest))
      (\<lambda>res y. no_err res \<and> uinv s plan cs {} y) (h', u)"
      by (rule settle_all_spec[OF wf d y']) (use 1 items in \<open>auto simp: o_def\<close>)
    then have settle: "wp (bind_tx (settle_updates E (undone @ [(i, mf_residue failure)] @ map (\<lambda>i. (i, ResUnchanged)) rest))
      (\<lambda>cleanup. throw (transaction_error (mf_error failure) cleanup)))
      (\<lambda>res y. \<not> succeeded res \<and> uinv s plan cs {} y) (h', u)"
      by (rule wp_bindI) auto
    have "wp (inner_tx (fire E AfterUpdateVerify)) (\<lambda>_ z. z = (h', u)) (h', u)"
      unfolding wp_inner by (rule wp_mono[OF wp_fire]) simp
    then show ?case
      unfolding y
      by (intro wp_seqI[where P = "\<lambda>res z. z = (h', u)"] wp_tryI[where P = "\<lambda>_ z. z = (h', u)"])
         (use settle y' in auto)
  qed auto
qed

text \<open>The loop: a mutation that succeeds puts its resource into effect and keeps the others there.\<close>

lemma update_loop_spec:
  assumes wf: "tx_wf E (snd ` set cs)" and d: "distinct (map fst cs)" and ds: "distinct (map snd cs)"
  shows "uinv s plan cs {} (h, t) \<Longrightarrow> list_all (item_ok cs) (map fst ms @ todo) \<Longrightarrow>
     distinct (map ui_addr (map fst ms @ todo)) \<Longrightarrow> done_ok plan ms t \<Longrightarrow>
     wp (update_loop E plan ms todo) (\<lambda>res y. uinv s plan cs {} y \<and>
       when_ok res (\<lambda>out. map fst out = map fst ms @ todo \<and> done_ok plan out (snd y))) (h, t)"
proof (induction todo arbitrary: ms h t)
  case Nil
  then show ?case by simp
next
  case (Cons i todo)
  have i: "item_ok cs i" using Cons.prems(2) by simp
  obtain r where r: "(ui_addr i, r) \<in> set cs" using i by (auto simp: item_ok_def)
  obtain l where l: "h (ui_addr i) = Some l" "live_ok r l"
    using Cons.prems(1) r by (auto simp: update_inv_def cells_ok_def)
  let ?h = "h(ui_addr i \<mapsto> l\<lparr>lr_state := LivePrepared\<rparr>)"
  have "live_ok r (l\<lparr>lr_state := LivePrepared\<rparr>)" using l(2) by (simp add: live_ok_def)
  then have inv: "uinv s plan cs {} (?h, t)"
    using Cons.prems(1) cells_ok_upd[OF _ d r] by (simp add: update_inv_def)
  have other: "jr_resource (ui_old j) \<noteq> jr_resource (ui_old i)" if "j \<in> set (map fst ms)" for j
  proof
    assume eq: "jr_resource (ui_old j) = jr_resource (ui_old i)"
    have "item_ok cs j" using that Cons.prems(2) by (auto simp: list_all_iff)
    then obtain q where q: "(ui_addr j, q) \<in> set cs" "same_claim q (ui_old j)" by (auto simp: item_ok_def)
    obtain p where p: "(ui_addr i, p) \<in> set cs" "same_claim p (ui_old i)" using i by (auto simp: item_ok_def)
    have "p \<in> snd ` set cs" "q \<in> snd ` set cs" using p(1) q(1) by force+
    then have "q = p"
      using eq p(2) q(2) tx_wf_resource[OF wf, of p q] by (simp add: same_claim_def)
    with p(1) q(1) ds have "ui_addr j = ui_addr i"
      by (metis distinct_map fst_conv inj_onD snd_conv)
    with that Cons.prems(3) show False by (auto simp: image_iff)
  qed
  have id: "id_resource (jr_identity (ui_old i)) = jr_resource (ui_old i)" by (rule item_identity[OF wf i])
  have mut: "wp (mutate_and_verify E (jr_identity (ui_old i)) (ui_applied i) plan UPDATE_POINTS)
     (mutate_post E calm view snap {jr_resource (ui_old i)} plan (ui_applied i) (jr_identity (ui_old i)) t (w_os t)) t"
    by (rule mutate_spec[OF os_only_refl[OF uinv_calm[OF inv]]]) (simp_all add: id uinv_manages[OF inv i])
  show ?case
    unfolding update_loop.simps
  proof (rule wp_seqI[where P = "\<lambda>_ y. y = (?h, t)"], goal_cases)
    case 1
    show ?case by (simp add: wp_with_live[of h "ui_addr i" l, OF l(1)])
  next
    case (2 x y)
    show ?case
      unfolding 2
    proof (rule wp_bind_innerI[OF mut], goal_cases)
      case (1 res u)
      then have os: "os_only calm view {jr_resource (ui_old i)} t u" by (simp add: mutate_post_def)
      have u: "uinv s plan cs {} (?h, u)" by (rule uinv_os[OF wf inv i os])
      show ?case
      proof (cases res)
        case (Inl f)
        have "list_all (item_ok cs) (map fst ms @ i # todo)" using Cons.prems(2) by simp
        from abort_update_spec[OF wf d u this, of f] Inl show ?thesis
          by (auto elim!: wp_mono simp: when_ok_def split: outcome.splits)
      next
        case (Inr m)
        have "in_effect E view snap (w_os u) plan (jr_resource (ui_old i))"
          using 1 Inr by (auto simp: mutate_post_def verified_ok_def in_effect_def id)
        moreover have "in_effect E view snap (w_os u) plan (jr_resource (ui_old j)) =
            in_effect E view snap (w_os t) plan (jr_resource (ui_old j))" if "j \<in> set (map fst ms)" for j
          by (rule in_effect_cong) (use os other[OF that] in \<open>auto simp: os_only_def\<close>)
        ultimately have "done_ok plan (ms @ [(i, m)]) u"
          using Cons.prems(4) by fastforce
        then have "wp (update_loop E plan (ms @ [(i, m)]) todo) (\<lambda>res y. uinv s plan cs {} y \<and>
            when_ok res (\<lambda>out. map fst out = map fst ms @ i # todo \<and> done_ok plan out (snd y))) (?h, u)"
          by (intro wp_mono[OF Cons.IH[OF u, of "ms @ [(i, m)]"]]) (use Cons.prems(2,3) in auto)
        with Inr show ?thesis by (simp del: fun_upd_apply)
      qed
    qed (use uinv_os[OF wf inv i] in \<open>auto simp: mutate_post_def\<close>)
  qed (use inv in \<open>simp_all del: fun_upd_apply\<close>)
qed

text \<open>The commits write records of the same claims and touch no resource.\<close>

lemma commit_update_spec:
  assumes wf: "tx_wf E (snd ` set cs)" and d: "distinct (map fst cs)"
    and x: "uinv s plan cs D x" and i: "item_ok cs i"
  shows "wp (with_live (ui_addr i) (commit_verified E m)) (\<lambda>_. uinv s plan cs D) x"
proof -
  obtain r where r: "(ui_addr i, r) \<in> set cs" using i by (auto simp: item_ok_def)
  then have rs: "r \<in> snd ` set cs" by force
  obtain h t where ht: "x = (h, t)" by (cases x)
  obtain l where l: "h (ui_addr i) = Some l" "live_ok r l"
    using x r by (auto simp: ht update_inv_def cells_ok_def)
  have inv: "tx_inv E calm view snap files s plan (snd ` set cs) (snd ` set cs) {} D t"
    using x by (simp add: ht update_inv_def)
  have c: "same_claim r (lr_record (l\<lparr>lr_state := Verified m\<rparr>))" using l(2) by (simp add: live_ok_def)
  have "wp (resolve_verified E m None) (\<lambda>res (l', u). uinv s plan cs D (h(ui_addr i \<mapsto> l'), u)) (l\<lparr>lr_state := Verified m\<rparr>, t)"
    by (rule wp_mono[OF resolve_verified_spec[OF wf inv rs c subset_refl]])
       (use x l(2) cells_ok_upd[OF _ d r] in \<open>auto simp: ht update_inv_def live_ok_def when_ok_def succeeded_def
          split: outcome.splits\<close>)
  then show ?thesis
    unfolding ht wp_with_live[of h "ui_addr i" l, OF l(1)]
    by (simp add: commit_verified_def resolve_live_def resolve_state_def repair_live_def wp_seq)
qed

lemma commit_updates_spec:
  assumes wf: "tx_wf E (snd ` set cs)" and d: "distinct (map fst cs)"
  shows "uinv s plan cs D x \<Longrightarrow> list_all (item_ok cs) (map fst ms) \<Longrightarrow>
     wp (commit_updates E ms) (\<lambda>res y. no_err res \<and> uinv s plan cs D y) x"
proof (induction ms arbitrary: x)
  case (Cons im ms)
  obtain i m where im: "im = (i, m)" by (cases im)
  with Cons.prems have i: "item_ok cs i" by simp
  have one: "wp (collect_tx [with_live (ui_addr i) (commit_verified E m)]) (\<lambda>res y. no_err res \<and> uinv s plan cs D y) x"
    by (rule wp_collect1I[OF commit_update_spec[OF wf d Cons.prems(1) i]]) auto
  show ?case
    unfolding im commit_updates.simps
  proof (rule wp_bindI[OF one], goal_cases)
    case (1 es y)
    then have y: "uinv s plan cs D y" by simp
    show ?case by (rule wp_bindI[OF Cons.IH[OF y]]) (use Cons.prems(2) in auto)
  qed auto
qed simp

lemma uinv_fire:
  "uinv s plan cs D x \<Longrightarrow> wp (inner_tx (fire E p)) (\<lambda>_ y. y = x) x"
  by (cases x) (auto simp: wp_inner intro: wp_mono[OF wp_fire])

lemma items_cover:
  assumes "map ui_addr items = map fst cs" "list_all (item_ok cs) items" "distinct (map fst cs)" "(a, r) \<in> set cs"
  shows "\<exists>i\<in>set items. same_claim r (ui_old i)"
proof -
  have "a \<in> set (map ui_addr items)" using assms(1,4) by force
  then obtain i where i: "i \<in> set items" "ui_addr i = a" by auto
  with assms(2) obtain q where "(a, q) \<in> set cs" "same_claim q (ui_old i)"
    by (auto simp: list_all_iff item_ok_def)
  with assms(3,4) i(1) show ?thesis by (auto dest: eq_key_imp_eq_value)
qed

lemma update_spec:
  assumes wf: "tx_wf E (snd ` set cs)" and d: "distinct (map fst cs)" and ds: "distinct (map snd cs)"
    and x: "uinv s plan cs {} x"
  shows "wp (transact_update E (map fst cs) plan) (\<lambda>res y. uinv s plan cs {} y \<and>
     when_ok res (\<lambda>_. \<forall>(a, r)\<in>set cs. in_force E view snap (w_os (snd y)) plan (jr_resource r))) x"
    (is "wp _ ?Q _")
  unfolding transact_update_def
proof (rule wp_seqI[OF uinv_fire[OF x]], goal_cases)
  case (1 _ y)
  then have "y = x" by simp
  show ?case
    unfolding \<open>y = x\<close>
  proof (rule wp_bindI[OF items_spec[OF wf d x]], goal_cases)
    case (2 items y)
    then have items: "map ui_addr items = map fst cs" "list_all (item_ok cs) items" by auto
    obtain h t where y: "y = (h, t)" by (cases y)
    have t: "uinv s plan cs {} (h, t)" using 2 y by simp
    show ?case
      unfolding y
    proof (rule wp_seqI[OF check_spec[OF t items(2)]], goal_cases)
      case (1 _ z)
      then obtain u where z: "z = (h, u)" "uinv s plan cs {} (h, u)" "view (w_os u) = view (w_os t)" by auto
      show ?case
      proof (cases "list_all (\<lambda>i. bk_matches_desired (e_backend E) (ui_applied i) plan) items")
        case True
        have "in_force E view snap (w_os u) plan (jr_resource r)" if "(a, r) \<in> set cs" for a r
        proof -
          from items_cover[OF items d that] obtain i where "i \<in> set items" "same_claim r (ui_old i)" by blast
          moreover from this(1) 1 z obtain n where "view (w_os u) (jr_resource (ui_old i)) = Some n"
            "owns_current (e_backend E) (ui_applied i) (snap (jr_resource (ui_old i)) n)" by auto
          ultimately show ?thesis
            using True unfolding in_force_def list_all_iff same_claim_def by metis
        qed
        with z have "wp (inner_tx (fire E AfterUpdateNoopCheck)) ?Q (h, u)"
          by (intro wp_mono[OF uinv_fire[OF z(2)]]) (auto simp: when_ok_def split: outcome.splits)
        with True z show ?thesis by simp
      next
        case False
        have commit: "wp (bind_tx (commit_updates E ms) (\<lambda>errors. case errors of
             e # _ \<Rightarrow> throw e | [] \<Rightarrow> inner_tx (fire E AfterUpdateApplied))) ?Q q"
          if q: "uinv s plan cs {} q" and ms: "map fst ms = items" "done_ok plan ms (snd q)" for ms q
        proof -
          have "in_effect E view snap (w_os (snd q)) plan (jr_resource r)" if ar: "(a, r) \<in> set cs" for a r
          proof -
            from items_cover[OF items d ar] obtain i where i: "i \<in> set items" "same_claim r (ui_old i)" by blast
            with ms(1) obtain m where "(i, m) \<in> set ms" by auto
            with ms(2) i(2) show ?thesis by (auto simp: same_claim_def)
          qed
          then have all: "uinv s plan cs (snd ` set cs) q"
            using q by (auto simp: update_inv_def tx_inv_def)
          have force: "?Q (Ok y) p" if "uinv s plan cs (snd ` set cs) p" for p and y :: unit
            using that by (force simp: update_inv_def tx_inv_def in_effect_def in_force_def)
          have weak: "uinv s plan cs {} p" if "uinv s plan cs (snd ` set cs) p" for p
            using that by (rule update_inv_mono) simp
          show ?thesis
          proof (rule wp_bindI[OF commit_updates_spec[OF wf d all, of ms]], goal_cases)
            case 1
            with ms(1) items(2) show ?case by simp
          next
            case (2 es p)
            then have p: "uinv s plan cs (snd ` set cs) p" by simp
            have "wp (inner_tx (fire E AfterUpdateApplied)) ?Q p"
              by (rule wp_mono[OF uinv_fire[OF p]])
                 (use force[OF p] weak[OF p] in \<open>auto simp: when_ok_def split: outcome.splits\<close>)
            with weak[OF p] show ?case by (auto split: list.splits)
          qed (use weak in auto)
        qed
        have loop: "wp (bind_tx (update_loop E plan [] items) (\<lambda>mutated.
            bind_tx (commit_updates E mutated) (\<lambda>errors. case errors of
             e # _ \<Rightarrow> throw e | [] \<Rightarrow> inner_tx (fire E AfterUpdateApplied)))) ?Q q"
          if q: "uinv s plan cs {} q" for q
        proof -
          obtain h t where ht: "q = (h, t)" by (cases q)
          have "wp (update_loop E plan [] items) (\<lambda>res y. uinv s plan cs {} y \<and>
             when_ok res (\<lambda>out. map fst out = items \<and> done_ok plan out (snd y))) q"
            using update_loop_spec[OF wf d ds, of s plan h t "[]" items] q items d by (simp add: ht)
          then show ?thesis by (rule wp_bindI) (auto intro: commit)
        qed
        have "wp (seq_tx (for_tx items (prepare_update E plan items)) (
            seq_tx (inner_tx (fire E AfterUpdatePrepared)) (
            bind_tx (update_loop E plan [] items) (\<lambda>mutated.
            bind_tx (commit_updates E mutated) (\<lambda>errors. case errors of
             e # _ \<Rightarrow> throw e | [] \<Rightarrow> inner_tx (fire E AfterUpdateApplied)))))) ?Q (h, u)"
        proof (rule wp_seqI[OF prepare_all_spec[OF wf d items(2) z(2) subset_refl]], goal_cases)
          case (1 _ q)
          show ?case by (rule wp_seqI[OF uinv_fire[OF 1]]) (use 1 loop in auto)
        qed auto
        with False z show ?thesis by simp
      qed
    qed auto
  qed (use x in auto)
qed (use x in auto)

end

end
