(* ===== verification/Fake_Backend.thy ===== *)
theory Fake_Backend
  imports Update_Safety
begin

text \<open>
  The in-memory backend of \<open>platform/fake.rs\<close>: an operating system's DNS state with generations and
  incarnations, injected failures, and adversaries that change a resource at chosen moments. The
  record of its state is extended by whatever else the world holds (a clock, a source of
  identifiers), so that it can be the state of an environment of the engine.
\<close>

datatype fake_op = FopWatch | FopIdentity | FopCapture | FopApply | FopReadback | FopRestore

record fake_inner =
  fk_interfaces :: "interface_info list"
  fk_states :: "resource_id \<Rightarrow> fake_state option"
  fk_generations :: "resource_id \<Rightarrow> u64 option"
  fk_incarnations :: "resource_id \<Rightarrow> u64 option"
  fk_ambiguous :: "resource_id set"
  fk_replace_before_apply :: "(resource_id \<times> fake_state) option"
  fk_replace_during_observe :: "(resource_id \<times> fake_state) option"
  fk_failures :: "(fake_op \<times> u32 \<times> u32 \<times> string) list"
  fk_readback_lie :: "fake_state option"
  fk_partial_apply_failures :: u32
  fk_before_guarded :: "(resource_id \<times> fake_state) option"
  fk_after_guarded :: "(resource_id \<times> fake_state) option"
  fk_before_nth_guarded :: "(u32 \<times> resource_id \<times> fake_state) option"
  fk_before_unconditional_readback :: "(resource_id \<times> fake_state) option"

text \<open>
  The watchers are numbered in the order they were started; \<open>fo_stopped\<close> holds the flags they share
  with their handles, \<open>fo_delivered\<close> the events their callbacks were called with.
\<close>

record fake_os =
  fo_inner :: fake_inner
  fo_watchers :: "watch_id list"
  fo_stopped :: "watch_id set"
  fo_next_watch :: watch_id
  fo_delivered :: "(watch_id \<times> dns_event) list"
  fo_start_watch_block :: bool

record fake_backend =
  fb_multi_resource :: bool
  fb_caps :: capabilities
  fb_namespace :: string

section \<open>States\<close>

definition merge_state :: "fake_state \<Rightarrow> normalized_config \<Rightarrow> fake_state" where
  "merge_state current plan =
     (let droute = (case nc_default_route plan of
            Some v \<Rightarrow> Some v
          | None \<Rightarrow> (case current of FakeConfigured _ _ _ d \<Rightarrow> d | FakeEmpty \<Rightarrow> None))
      in if nc_nameservers plan = [] \<and> nc_search plan = [] \<and> nc_routing plan = [] \<and> droute = None
         then FakeEmpty
         else FakeConfigured (nc_nameservers plan) (nc_search plan) (nc_routing plan) droute)"

definition state_matches :: "fake_state \<Rightarrow> normalized_config \<Rightarrow> bool" where
  "state_matches st plan = (case st of
       FakeEmpty \<Rightarrow> nc_nameservers plan = [] \<and> nc_search plan = [] \<and> nc_routing plan = [] \<and>
         nc_default_route plan = None
     | FakeConfigured nss search routing droute \<Rightarrow>
         nss = nc_nameservers plan \<and> search = nc_search plan \<and> routing = nc_routing plan \<and>
         (case nc_default_route plan of Some wanted \<Rightarrow> droute = Some wanted | None \<Rightarrow> True))"

definition fake_state_of_plan :: "normalized_config \<Rightarrow> fake_state" where
  "fake_state_of_plan plan =
     (if nc_nameservers plan = [] \<and> nc_search plan = [] \<and> nc_routing plan = [] \<and>
         nc_default_route plan = None
      then FakeEmpty
      else FakeConfigured (nc_nameservers plan) (nc_search plan) (nc_routing plan)
             (nc_default_route plan))"

definition fake_state_of_config :: "dns_config \<Rightarrow> fake_state" where
  "fake_state_of_config c = fake_state_of_plan
     \<lparr> nc_nameservers = dc_nameservers c, nc_search = dc_search c, nc_routing = dc_routing c,
       nc_default_route = dc_default_route c \<rparr>"

lemma merge_matches: "state_matches (merge_state st plan) plan"
  by (auto simp: merge_state_def state_matches_def Let_def split: option.splits fake_state.splits)

lemma state_of_plan_matches: "state_matches (fake_state_of_plan plan) plan"
  by (auto simp: fake_state_of_plan_def state_matches_def split: option.splits)

section \<open>Construction\<close>

definition resolver_id :: "string \<Rightarrow> resource_id result" where
  "resolver_id domain = resource_id_new (''fake:resolver:'' @ domain)"

definition global_id :: resource_id where
  "global_id = ResourceId ''fake:global''"

definition interface_id :: "u32 \<Rightarrow> resource_id" where
  "interface_id index = ResourceId (''fake:interface:'' @ decimal (unat index))"

definition initial_interfaces :: "interface_info list" where
  "initial_interfaces =
     [\<lparr> if_index = 1, if_name = ''eth0'', if_friendly_name = Some ''Ethernet'', if_guid = None,
        if_is_up = True \<rparr>,
      \<lparr> if_index = 2, if_name = ''wlan1'', if_friendly_name = Some ''Wi-Fi'', if_guid = None,
        if_is_up = True \<rparr>]"

definition fake_inner_initial :: fake_inner where
  "fake_inner_initial =
     (let ids = global_id # map (\<lambda>i. interface_id (if_index i)) initial_interfaces in
      \<lparr> fk_interfaces = initial_interfaces,
        fk_states = (\<lambda>r. if r \<in> set ids then Some FakeEmpty else None),
        fk_generations = (\<lambda>_. None),
        fk_incarnations = (\<lambda>r. if r \<in> set ids then Some 0 else None),
        fk_ambiguous = {},
        fk_replace_before_apply = None, fk_replace_during_observe = None, fk_failures = [],
        fk_readback_lie = None, fk_partial_apply_failures = 0, fk_before_guarded = None,
        fk_after_guarded = None, fk_before_nth_guarded = None,
        fk_before_unconditional_readback = None \<rparr>)"

definition fake_os_initial :: fake_os where
  "fake_os_initial = \<lparr> fo_inner = fake_inner_initial, fo_watchers = [], fo_stopped = {},
     fo_next_watch = 0, fo_delivered = [], fo_start_watch_block = False \<rparr>"

definition fake_build :: "capabilities \<Rightarrow> bool \<Rightarrow> string \<Rightarrow> fake_backend" where
  "fake_build caps multi namespace =
     \<lparr> fb_multi_resource = multi,
       fb_caps = with_resource_binding NativeGuarded (with_mutation_guard CompareAndMutate caps),
       fb_namespace = namespace \<rparr>"

definition fake_with_capabilities :: "capabilities \<Rightarrow> string \<Rightarrow> fake_backend" where
  "fake_with_capabilities caps =
     fake_build (with_ownership_identity Durable (with_mutation_guard CompareAndMutate caps)) False"

definition fake_with_multi_resource :: "capabilities \<Rightarrow> string \<Rightarrow> fake_backend" where
  "fake_with_multi_resource caps =
     fake_build (with_ownership_identity Durable (with_mutation_guard CompareAndMutate caps)) True"

definition fake_caps :: capabilities where
  "fake_caps = with_resource_binding NativeGuarded (with_ownership_identity Durable (
     with_mutation_guard CompareAndMutate (with_cache_flush True (with_watch True (
     with_default_route True (with_split_dns True (with_search_domains True (
     with_per_interface_dns True (with_global_dns True (with_read True (
     capabilities_new Fake))))))))))) "

definition fake_new :: "string \<Rightarrow> fake_backend" where
  "fake_new = fake_with_capabilities fake_caps"

definition fake_unconditional :: "string \<Rightarrow> fake_backend" where
  "fake_unconditional namespace =
     (let b = fake_new namespace in
      b\<lparr>fb_caps := with_resource_binding PreflightOnly (with_ownership_identity BestEffort (
          with_mutation_guard Unconditional (fb_caps b)))\<rparr>)"

section \<open>The outside world and its adversaries\<close>

definition bump :: "(resource_id \<Rightarrow> u64 option) \<Rightarrow> resource_id \<Rightarrow> resource_id \<Rightarrow> u64 option" where
  "bump m r = m(r \<mapsto> (case m r of None \<Rightarrow> 0 | Some g \<Rightarrow> g) + 1)"

definition gen_of :: "fake_inner \<Rightarrow> resource_id \<Rightarrow> u64" where
  "gen_of i r = (case fk_generations i r of None \<Rightarrow> 0 | Some g \<Rightarrow> g)"

definition inc_of :: "fake_inner \<Rightarrow> resource_id \<Rightarrow> u64" where
  "inc_of i r = (case fk_incarnations i r of None \<Rightarrow> 0 | Some g \<Rightarrow> g)"

text \<open>Storing a state bumps the generation; replacing the resource bumps its incarnation too.\<close>

definition store_state :: "resource_id \<Rightarrow> fake_state \<Rightarrow> fake_inner \<Rightarrow> fake_inner" where
  "store_state r st i = i\<lparr>fk_states := (fk_states i)(r \<mapsto> st), fk_generations := bump (fk_generations i) r\<rparr>"

definition replace_resource :: "resource_id \<Rightarrow> fake_state \<Rightarrow> fake_inner \<Rightarrow> fake_inner" where
  "replace_resource r st i = store_state r st (i\<lparr>fk_incarnations := bump (fk_incarnations i) r\<rparr>)"

definition on_inner :: "(fake_inner, 'a) tx \<Rightarrow> ('x fake_os_scheme, 'a) tx" where
  "on_inner = focus_tx fo_inner (\<lambda>i s. s\<lparr>fo_inner := i\<rparr>)"

definition notify :: "dns_event \<Rightarrow> 'x fake_os_scheme \<Rightarrow> 'x fake_os_scheme" where
  "notify event s = s\<lparr>fo_delivered := fo_delivered s @
     map (\<lambda>w. (w, event)) (filter (\<lambda>w. w \<notin> fo_stopped s) (fo_watchers s))\<rparr>"

definition external_change :: "resource_id \<Rightarrow> fake_state \<Rightarrow> 'x fake_os_scheme \<Rightarrow> 'x fake_os_scheme" where
  "external_change r st s =
     (let i = fo_inner s;
          i = (if fk_states i r = None then i\<lparr>fk_incarnations := bump (fk_incarnations i) r\<rparr> else i)
      in notify (ResourceChanged r) (s\<lparr>fo_inner := store_state r st i\<rparr>))"

definition external_remove :: "resource_id \<Rightarrow> ('x fake_os_scheme, bool) tx" where
  "external_remove r s =
     (let i = fo_inner s;
          pos = position (\<lambda>x. interface_id (if_index x) = r) (fk_interfaces i);
          ifaces = (case pos of None \<Rightarrow> fk_interfaces i
                    | Some n \<Rightarrow> take n (fk_interfaces i) @ drop (Suc n) (fk_interfaces i));
          removed = (pos \<noteq> None \<or> fk_states i r \<noteq> None);
          s' = s\<lparr>fo_inner := i\<lparr>fk_interfaces := ifaces, fk_states := (fk_states i)(r := None)\<rparr>\<rparr>
      in (Ok removed, if removed then notify (ResourceRemoved r) s' else s'))"

definition set_identity_ambiguous :: "resource_id \<Rightarrow> bool \<Rightarrow> fake_inner \<Rightarrow> fake_inner" where
  "set_identity_ambiguous r b i =
     i\<lparr>fk_ambiguous := (if b then insert r (fk_ambiguous i) else fk_ambiguous i - {r})\<rparr>"

definition inject_failure_after ::
  "fake_op \<Rightarrow> u32 \<Rightarrow> u32 \<Rightarrow> string \<Rightarrow> (fake_inner, unit) tx" where
  "inject_failure_after op skip left message =
     (if left = 0 then crash
      else modify_tx (\<lambda>i. i\<lparr>fk_failures := fk_failures i @ [(op, skip, left, message)]\<rparr>))"

definition inject_failure :: "fake_op \<Rightarrow> u32 \<Rightarrow> string \<Rightarrow> (fake_inner, unit) tx" where
  "inject_failure op left message = inject_failure_after op 0 left message"

definition inject_partial_apply_failure :: "u32 \<Rightarrow> fake_inner \<Rightarrow> fake_inner" where
  "inject_partial_apply_failure left i = i\<lparr>fk_partial_apply_failures := fk_partial_apply_failures i + left\<rparr>"

definition inject_external_before_guarded :: "resource_id \<Rightarrow> fake_state \<Rightarrow> fake_inner \<Rightarrow> fake_inner" where
  "inject_external_before_guarded r st i = i\<lparr>fk_before_guarded := Some (r, st)\<rparr>"

definition inject_external_before_unconditional_readback ::
  "resource_id \<Rightarrow> fake_state \<Rightarrow> fake_inner \<Rightarrow> fake_inner" where
  "inject_external_before_unconditional_readback r st i =
     i\<lparr>fk_before_unconditional_readback := Some (r, st)\<rparr>"

definition inject_external_after_guarded_mutation ::
  "resource_id \<Rightarrow> fake_state \<Rightarrow> fake_inner \<Rightarrow> fake_inner" where
  "inject_external_after_guarded_mutation r st i = i\<lparr>fk_after_guarded := Some (r, st)\<rparr>"

definition inject_external_before_nth_guarded ::
  "u32 \<Rightarrow> resource_id \<Rightarrow> fake_state \<Rightarrow> fake_inner \<Rightarrow> fake_inner" where
  "inject_external_before_nth_guarded skip r st i = i\<lparr>fk_before_nth_guarded := Some (skip, r, st)\<rparr>"

definition replace_before_next_apply :: "resource_id \<Rightarrow> fake_state \<Rightarrow> fake_inner \<Rightarrow> fake_inner" where
  "replace_before_next_apply r st i = i\<lparr>fk_replace_before_apply := Some (r, st)\<rparr>"

definition replace_during_next_observe :: "resource_id \<Rightarrow> fake_state \<Rightarrow> fake_inner \<Rightarrow> fake_inner" where
  "replace_during_next_observe r st i = i\<lparr>fk_replace_during_observe := Some (r, st)\<rparr>"

definition lie_once_on_readback :: "fake_state \<Rightarrow> fake_inner \<Rightarrow> fake_inner" where
  "lie_once_on_readback st i = i\<lparr>fk_readback_lie := Some st\<rparr>"

definition fail_watches :: "'x fake_os_scheme \<Rightarrow> 'x fake_os_scheme" where
  "fail_watches s = s\<lparr>fo_stopped := fo_stopped s \<union> set (fo_watchers s)\<rparr>"

definition fake_snapshot_data :: "platform_snapshot \<Rightarrow> fake_snapshot result" where
  "fake_snapshot_data snapshot =
     (if ps_backend snapshot \<noteq> Fake
      then Inl (PlatformError Fake ''snapshot cannot be interpreted here'')
      else case ps_data snapshot of
        SnapFake data \<Rightarrow> Inr data
      | _ \<Rightarrow> Inl (JournalCorrupt ''fake snapshot has the wrong backend data''))"

text \<open>\<open>interpret\<close>; \<open>fake_snapshot_data\<close> is \<open>interpret_full\<close>.\<close>

definition fake_interpret :: "platform_snapshot \<Rightarrow> fake_state result" where
  "fake_interpret snapshot = bind_r (fake_snapshot_data snapshot) (\<lambda>d. Inr (fs_state d))"

definition snapshot_from :: "fake_inner \<Rightarrow> resource_id \<Rightarrow> platform_snapshot result" where
  "snapshot_from i r = (case fk_states i r of
       None \<Rightarrow> Inl (BackendUnavailable ''resource is not present on this system'')
     | Some st \<Rightarrow> Inr (snapshot_new Fake r (SnapFake \<lparr> fs_state = st, fs_generation = gen_of i r \<rparr>)))"

text \<open>\<open>take_adversary\<close>: an adversary waiting for this resource strikes once.\<close>

definition take_adversary :: "bool \<Rightarrow> resource_id \<Rightarrow> fake_inner \<Rightarrow> fake_inner" where
  "take_adversary earlier r i =
     (case if earlier then fk_before_guarded i else fk_after_guarded i of
        None \<Rightarrow> i
      | Some (wanted, st) \<Rightarrow>
          if wanted = r
          then store_state r st (if earlier then i\<lparr>fk_before_guarded := None\<rparr> else i\<lparr>fk_after_guarded := None\<rparr>)
          else i)"

definition check_failure :: "fake_op \<Rightarrow> ('x fake_os_scheme, unit) tx" where
  "check_failure op = on_inner (\<lambda>i.
     case position (\<lambda>(o', _, _, _). o' = op) (fk_failures i) of
       None \<Rightarrow> (Ok (), i)
     | Some pos \<Rightarrow> (case fk_failures i ! pos of (o', skip, left, message) \<Rightarrow>
         if skip > 0
         then (Ok (), i\<lparr>fk_failures := (fk_failures i)[pos := (o', skip - 1, left, message)]\<rparr>)
         else
          (let failures = (if left - 1 = 0
                 then take pos (fk_failures i) @ drop (Suc pos) (fk_failures i)
                 else (fk_failures i)[pos := (o', skip, left - 1, message)])
           in (Err (PlatformError Fake (''injected backend failure: '' @ message)),
               i\<lparr>fk_failures := failures\<rparr>))))"

section \<open>The \<open>Backend\<close> implementation\<close>

text \<open>\<open>resolve_resources\<close>: an interface scope also resolves to one resolver per routing domain when
the backend is a multi-resource one; a resolver that is new starts empty.\<close>

definition base_resource :: "fake_inner \<Rightarrow> interface_selector \<Rightarrow> resource_id result" where
  "base_resource i sel = (case sel of
       SelDefault \<Rightarrow> (case map if_index (fk_interfaces i) of
           [] \<Rightarrow> Inl (InvalidConfig ''no interfaces are available'')
         | ix # ixs \<Rightarrow> Inr (interface_id (fold min ixs ix)))
     | SelIndex index \<Rightarrow>
         if list_ex (\<lambda>x. if_index x = index) (fk_interfaces i) then Inr (interface_id index)
         else Inl (InvalidConfig ''interface does not exist'')
     | SelName name \<Rightarrow> (case find (\<lambda>x. if_name x = name) (fk_interfaces i) of
           None \<Rightarrow> Inl (InvalidConfig ''interface does not exist'')
         | Some x \<Rightarrow> Inr (interface_id (if_index x))))"

definition ensure_state :: "resource_id \<Rightarrow> fake_inner \<Rightarrow> fake_inner" where
  "ensure_state r i =
     (if fk_states i r = None then i\<lparr>fk_states := (fk_states i)(r \<mapsto> FakeEmpty)\<rparr> else i)"

text \<open>\<open>ResourceId::new(..).expect(..)\<close>: an invalid identifier is a panic.\<close>

definition expect_id :: "resource_id result \<Rightarrow> ('s, resource_id) tx" where
  "expect_id r = (case r of Inl _ \<Rightarrow> crash | Inr x \<Rightarrow> return_tx x)"

definition push_resolver ::
  "dns_suffix \<Rightarrow> resource_id list \<Rightarrow> (fake_inner, resource_id list) tx" where
  "push_resolver domain acc =
     bind_tx (expect_id (resolver_id (suffix_str domain))) (\<lambda>resolver.
     seq_tx (modify_tx (ensure_state resolver)) (return_tx (acc @ [resolver])))"

definition fake_resolve ::
  "fake_backend \<Rightarrow> dns_scope \<Rightarrow> normalized_config \<Rightarrow> ('x fake_os_scheme, resource_id list) tx" where
  "fake_resolve F scope plan = (case scope of
       Global \<Rightarrow> return_tx [global_id]
     | Interface sel \<Rightarrow> on_inner (
         bind_tx (gets_tx (\<lambda>i. base_resource i sel)) (\<lambda>r.
         bind_tx (lift_result r) (\<lambda>base.
         if \<not> fb_multi_resource F then return_tx [base]
         else
         bind_tx (fold_tx push_resolver (nc_routing plan) [base]) (\<lambda>resources.
         if nc_default_route plan = Some True then
           bind_tx (expect_id (resolver_id ''.'')) (\<lambda>root.
           seq_tx (modify_tx (ensure_state root))
             (return_tx (if root \<in> set resources then resources else resources @ [root])))
         else return_tx resources)))))"

definition fake_identity_of :: "fake_inner \<Rightarrow> resource_id \<Rightarrow> resource_identity" where
  "fake_identity_of i r = identity_new Fake r (IdFake \<lparr> fi_incarnation = inc_of i r \<rparr>)"

definition fake_identify :: "resource_id \<Rightarrow> ('x fake_os_scheme, resource_identity) tx" where
  "fake_identify r = on_inner (bind_tx get_tx (\<lambda>i.
     if fk_states i r = None then throw (ResourcePlatform Fake r ''resource is not present'')
     else return_tx (fake_identity_of i r)))"

definition fake_observe :: "resource_id \<Rightarrow> ('x fake_os_scheme, bound_observation) tx" where
  "fake_observe r =
     seq_tx (check_failure FopIdentity) (on_inner (
     bind_tx get_tx (\<lambda>i.
     if fk_states i r = None then throw (ResourceGone Fake r ''resource is absent'')
     else
     seq_tx (case fk_replace_during_observe i of
         None \<Rightarrow> return_tx ()
       | Some (wanted, st) \<Rightarrow>
           modify_tx (\<lambda>i. replace_resource wanted st (i\<lparr>fk_replace_during_observe := None\<rparr>))) (
     bind_tx get_tx (\<lambda>j.
     if inc_of j r \<noteq> inc_of i r
     then throw (ResourceIdentity Fake r ''resource was replaced during bound observation'')
     else
     bind_tx (lift_result (snapshot_from j r)) (\<lambda>snapshot.
       return_tx \<lparr> bo_identity = fake_identity_of i r, bo_snapshot = snapshot \<rparr>))))))"

definition fake_status :: "resource_identity \<Rightarrow> ('x fake_os_scheme, resource_status) tx" where
  "fake_status identity =
     seq_tx (check_failure FopIdentity) (
     if id_backend identity \<noteq> Fake
     then throw (JournalCorrupt ''fake identity has the wrong backend'')
     else case id_data identity of
       IdFake decoded \<Rightarrow> on_inner (bind_tx get_tx (\<lambda>i.
         let r = id_resource identity in
         return_tx (
           if r \<in> fk_ambiguous i then Ambiguous
           else if fk_states i r = None then Gone
           else if fi_incarnation decoded = inc_of i r then Same else Replaced)))
     | _ \<Rightarrow> throw (JournalCorrupt ''fake identity has the wrong backend data''))"

definition snapshot_of :: "resource_id \<Rightarrow> ('x fake_os_scheme, platform_snapshot) tx" where
  "snapshot_of r = on_inner (bind_tx get_tx (\<lambda>i. lift_result (snapshot_from i r)))"

definition fake_capture :: "resource_id \<Rightarrow> ('x fake_os_scheme, platform_snapshot) tx" where
  "fake_capture r = seq_tx (check_failure FopCapture) (snapshot_of r)"

text \<open>One pending partial failure is used up.\<close>

definition take_partial :: "(fake_inner, bool) tx" where
  "take_partial = bind_tx get_tx (\<lambda>i.
     if fk_partial_apply_failures i > 0
     then seq_tx (put_tx (i\<lparr>fk_partial_apply_failures := fk_partial_apply_failures i - 1\<rparr>)) (return_tx True)
     else return_tx False)"

definition notify_changed :: "resource_id \<Rightarrow> ('x fake_os_scheme, unit) tx" where
  "notify_changed r = modify_tx (notify (ResourceChanged r))"

definition partial_error :: error where
  "partial_error = PlatformError Fake ''injected partial mutation before failure''"

definition not_present :: error where
  "not_present = BackendUnavailable ''resource is not present on this system''"

definition fake_apply :: "resource_id \<Rightarrow> normalized_config \<Rightarrow> ('x fake_os_scheme, unit) tx" where
  "fake_apply r plan =
     seq_tx (check_failure FopApply) (
     bind_tx (on_inner take_partial) (\<lambda>partial.
     seq_tx (on_inner (bind_tx get_tx (\<lambda>i. case fk_states i r of
         None \<Rightarrow> throw not_present
       | Some current \<Rightarrow> put_tx (store_state r (merge_state current plan) i)))) (
     seq_tx (notify_changed r) (
     if partial then throw partial_error else return_tx ()))))"

definition fake_readback :: "resource_id \<Rightarrow> ('x fake_os_scheme, platform_snapshot) tx" where
  "fake_readback r =
     seq_tx (check_failure FopReadback) (
     seq_tx (on_inner (bind_tx get_tx (\<lambda>i. case fk_before_unconditional_readback i of
         None \<Rightarrow> return_tx ()
       | Some (wanted, st) \<Rightarrow>
           put_tx (store_state wanted st (i\<lparr>fk_before_unconditional_readback := None\<rparr>))))) (
     bind_tx (on_inner (bind_tx get_tx (\<lambda>i.
       seq_tx (put_tx (i\<lparr>fk_readback_lie := None\<rparr>)) (return_tx (fk_readback_lie i))))) (\<lambda>lie.
     case lie of
       Some st \<Rightarrow> on_inner (gets_tx (\<lambda>i.
         snapshot_new Fake r (SnapFake \<lparr> fs_state = st, fs_generation = gen_of i r \<rparr>)))
     | None \<Rightarrow> snapshot_of r)))"

definition fake_restore :: "resource_id \<Rightarrow> platform_snapshot \<Rightarrow> ('x fake_os_scheme, unit) tx" where
  "fake_restore r snapshot =
     seq_tx (check_failure FopRestore) (
     if ps_resource snapshot \<noteq> r
     then throw (PlatformError Fake ''snapshot for another resource cannot be restored'')
     else
     bind_tx (lift_result (fake_interpret snapshot)) (\<lambda>st.
     seq_tx (on_inner (bind_tx get_tx (\<lambda>i.
       if fk_states i r = None then throw not_present else put_tx (store_state r st i)))) (
     notify_changed r)))"

text \<open>The early returns of the guarded operations: an \<open>Err\<close> is what they report as the attempt.\<close>

definition attempt_of :: "(error \<Rightarrow> mutation_attempt) \<Rightarrow> ('s, 'a) tx \<Rightarrow> ('a \<Rightarrow> ('s, mutation_attempt) tx) \<Rightarrow> ('s, mutation_attempt) tx" where
  "attempt_of report m k = match_tx m k (\<lambda>e. return_tx (report e))"

abbreviation indeterminate :: "error \<Rightarrow> mutation_attempt" where
  "indeterminate e \<equiv> Indeterminate e None"

definition changed_since :: "resource_id \<Rightarrow> mutation_attempt" where
  "changed_since r = Rejected (ExternalModification r ''the current state changed since ownership was verified'')"

text \<open>
  The critical section the guarded operations share: the state is compared with the expected one
  and replaced under one lock. \<open>Inl\<close> is an early return.
\<close>

definition swap_state ::
  "resource_id \<Rightarrow> fake_snapshot \<Rightarrow> (fake_state \<Rightarrow> fake_state) \<Rightarrow> bool \<Rightarrow>
   (fake_inner, mutation_attempt + (bool \<times> platform_snapshot)) tx" where
  "swap_state r expected new_state may_fail =
     seq_tx (modify_tx (take_adversary True r)) (
     bind_tx get_tx (\<lambda>i. case fk_states i r of
       None \<Rightarrow> return_tx (Inl (indeterminate not_present))
     | Some live \<Rightarrow>
       if gen_of i r \<noteq> fs_generation expected \<or> live \<noteq> fs_state expected
       then return_tx (Inl (changed_since r))
       else
       seq_tx (put_tx (store_state r (new_state live) i)) (
       bind_tx (gets_tx (\<lambda>i. snapshot_from i r)) (\<lambda>snap. case snap of
         Inl e \<Rightarrow> return_tx (Inl (indeterminate e))
       | Inr produced \<Rightarrow>
         bind_tx (if may_fail then take_partial else return_tx False) (\<lambda>partial.
         seq_tx (modify_tx (take_adversary False r)) (
         return_tx (Inr (partial, produced))))))))"

definition fake_apply_guarded ::
  "resource_id \<Rightarrow> platform_snapshot \<Rightarrow> normalized_config \<Rightarrow> ('x fake_os_scheme, mutation_attempt) tx" where
  "fake_apply_guarded r expected plan =
     seq_tx (on_inner (modify_tx (\<lambda>i. case fk_replace_before_apply i of
         None \<Rightarrow> i
       | Some (wanted, st) \<Rightarrow> replace_resource wanted st (i\<lparr>fk_replace_before_apply := None\<rparr>)))) (
     seq_tx (on_inner (modify_tx (\<lambda>i. case fk_before_nth_guarded i of
         None \<Rightarrow> i
       | Some (skip, wanted, st) \<Rightarrow>
           if skip = 0 then store_state wanted st (i\<lparr>fk_before_nth_guarded := None\<rparr>)
           else i\<lparr>fk_before_nth_guarded := Some (skip - 1, wanted, st)\<rparr>))) (
     attempt_of indeterminate (check_failure FopApply) (\<lambda>_.
     attempt_of indeterminate (lift_result (fake_snapshot_data expected)) (\<lambda>full.
     bind_tx (on_inner (swap_state r full (\<lambda>live. merge_state live plan) True)) (\<lambda>out. case out of
         Inl attempt \<Rightarrow> return_tx attempt
       | Inr (partial, produced) \<Rightarrow>
         seq_tx (notify_changed r) (
         return_tx (if partial then Indeterminate partial_error (Some produced)
                    else Performed (Some produced))))))))"

definition fake_restore_guarded ::
  "resource_id \<Rightarrow> platform_snapshot \<Rightarrow> platform_snapshot \<Rightarrow> ('x fake_os_scheme, mutation_attempt) tx" where
  "fake_restore_guarded r expected target =
     attempt_of indeterminate (check_failure FopRestore) (\<lambda>_.
     if ps_resource expected \<noteq> r \<or> ps_resource target \<noteq> r
     then return_tx (indeterminate (PlatformError Fake ''snapshot resource mismatch''))
     else
     attempt_of indeterminate (lift_result (fake_snapshot_data expected)) (\<lambda>full.
     attempt_of indeterminate (lift_result (fake_interpret target)) (\<lambda>target_state.
     bind_tx (on_inner (swap_state r full (\<lambda>_. target_state) False)) (\<lambda>out. case out of
         Inl attempt \<Rightarrow> return_tx attempt
       | Inr (partial, produced) \<Rightarrow>
         seq_tx (notify_changed r) (return_tx (Performed (Some produced)))))))"

definition fake_proves_current :: "platform_snapshot \<Rightarrow> platform_snapshot \<Rightarrow> bool" where
  "fake_proves_current pf current = (case (fake_snapshot_data pf, fake_snapshot_data current) of
       (Inr a, Inr b) \<Rightarrow> fs_generation a = fs_generation b \<and> fs_state a = fs_state b
     | _ \<Rightarrow> False)"

definition fake_equivalent :: "platform_snapshot \<Rightarrow> platform_snapshot \<Rightarrow> bool" where
  "fake_equivalent a b = (case (fake_interpret a, fake_interpret b) of
       (Inr x, Inr y) \<Rightarrow> x = y
     | _ \<Rightarrow> False)"

definition fake_matches_desired :: "platform_snapshot \<Rightarrow> normalized_config \<Rightarrow> bool" where
  "fake_matches_desired snapshot plan = (case fake_interpret snapshot of
       Inr st \<Rightarrow> state_matches st plan
     | Inl _ \<Rightarrow> False)"

definition fake_public_state :: "platform_snapshot \<Rightarrow> dns_scope \<Rightarrow> dns_config result" where
  "fake_public_state snapshot scope =
     bind_r (fake_interpret snapshot) (\<lambda>st. Inr (case st of
         FakeEmpty \<Rightarrow> from_parts scope [] [] [] None
       | FakeConfigured nss search routing droute \<Rightarrow> from_parts scope nss search routing droute))"

definition fake_start_watch :: "fake_backend \<Rightarrow> ('x fake_os_scheme, watch_id) tx" where
  "fake_start_watch F =
     seq_tx (check_failure FopWatch) (
     if \<not> cap_watch (fb_caps F)
     then throw (Unsupported Fake ''watching is disabled for this fake backend'')
     else
     bind_tx get_tx (\<lambda>s.
     seq_tx (put_tx (s\<lparr>fo_start_watch_block := False, fo_watchers := fo_watchers s @ [fo_next_watch s],
                      fo_next_watch := fo_next_watch s + 1\<rparr>))
       (return_tx (fo_next_watch s))))"

text \<open>\<open>WatchHandle::deactivate\<close>: the flag is set, then the cancel closure drops the entry.\<close>

definition fake_stop_watch :: "watch_id \<Rightarrow> ('x fake_os_scheme, unit) tx" where
  "fake_stop_watch w = modify_tx (\<lambda>s. s\<lparr>fo_stopped := insert w (fo_stopped s),
     fo_watchers := filter (\<lambda>x. x \<noteq> w) (fo_watchers s)\<rparr>)"

definition fake_watch_active :: "watch_id \<Rightarrow> 'x fake_os_scheme \<Rightarrow> bool" where
  "fake_watch_active w s \<longleftrightarrow> w \<notin> fo_stopped s"

definition fake_prims :: "fake_backend \<Rightarrow> 'x fake_os_scheme backend_prims" where
  "fake_prims F = \<lparr>
     bk_kind = Fake, bk_caps = fb_caps F, bk_resolve = fake_resolve F, bk_identify = fake_identify,
     bk_status = fake_status, bk_capture = fake_capture, bk_readback = fake_readback,
     bk_apply = fake_apply, bk_restore = fake_restore, bk_apply_guarded = fake_apply_guarded,
     bk_restore_guarded = fake_restore_guarded, bk_proves_current = fake_proves_current,
     bk_equivalent = fake_equivalent, bk_matches_desired = fake_matches_desired,
     bk_validate_plan = validate_plan_default, bk_public_state = fake_public_state,
     bk_interfaces = on_inner (gets_tx fk_interfaces), bk_start_watch = fake_start_watch F,
     bk_stop_watch = fake_stop_watch, bk_watch_active = fake_watch_active,
     bk_flush_cache = flush_cache_default Fake \<rparr>"

definition fake :: "fake_backend \<Rightarrow> 'x fake_os_scheme backend" where
  "fake F = (with_default_bounds (fake_prims F))\<lparr>bk_observe := fake_observe\<rparr>"

end
