(* ===== verification/Bound_Contract.thy ===== *)
theory Bound_Contract
  imports Contract
begin

text \<open>
  What the default \<open>apply_bound\<close> and \<open>restore_bound\<close> of \<open>platform/mod.rs\<close> need of the primitives they
  are made of: the locale \<open>calm_prims\<close>, in which both are shown to keep their part of the contract.
\<close>

definition frame_ok ::
  "('w \<Rightarrow> bool) \<Rightarrow> ('w \<Rightarrow> resource_id \<Rightarrow> 'n option) \<Rightarrow> resource_id set \<Rightarrow> 'w \<Rightarrow> 'w \<Rightarrow> bool" where
  "frame_ok calm view R w w' \<longleftrightarrow> calm w' \<and> (\<forall>r. r \<notin> R \<longrightarrow> view w' r = view w r)"

lemma frame_ok_trans:
  "frame_ok calm view R w w' \<Longrightarrow> frame_ok calm view Q w' w'' \<Longrightarrow> R \<subseteq> S \<Longrightarrow> Q \<subseteq> S \<Longrightarrow> frame_ok calm view S w w''"
  unfolding frame_ok_def by (metis subsetD)

lemma frame_ok_empty: "frame_ok calm view {} w w' \<longleftrightarrow> calm w' \<and> view w' = view w"
  by (auto simp: frame_ok_def)

text \<open>What an attempt on \<open>r\<close> may have done.\<close>

definition attempt_ok ::
  "('w \<Rightarrow> bool) \<Rightarrow> ('w \<Rightarrow> resource_id \<Rightarrow> 'n option) \<Rightarrow> resource_id \<Rightarrow> 'w \<Rightarrow>
   mutation_attempt outcome \<Rightarrow> 'w \<Rightarrow> bool" where
  "attempt_ok calm view r w res w' \<longleftrightarrow> no_err res \<and> frame_ok calm view {r} w w' \<and>
     when_ok res (\<lambda>a. is_rejected a \<longrightarrow> view w' = view w)"

locale calm_prims =
  fixes P :: "'w backend_prims"
    and calm :: "'w \<Rightarrow> bool"
    and view :: "'w \<Rightarrow> resource_id \<Rightarrow> 'n option"
  assumes status_prim: "calm w \<Longrightarrow> wp (bk_status P i) (\<lambda>_. frame_ok calm view {} w) w"
    and readback_prim: "calm w \<Longrightarrow> wp (bk_readback P r) (\<lambda>_. frame_ok calm view {} w) w"
    and apply_prim: "calm w \<Longrightarrow> manages calm view r \<Longrightarrow> wp (bk_apply P r plan) (\<lambda>res w'. frame_ok calm view {r} w w' \<and>
      (\<forall>e. res = Err e \<and> is_external_modification e \<longrightarrow> view w' = view w)) w"
    and restore_prim: "calm w \<Longrightarrow> manages calm view r \<Longrightarrow> wp (bk_restore P r target) (\<lambda>_. frame_ok calm view {r} w) w"
    and apply_guarded_prim: "calm w \<Longrightarrow> manages calm view r \<Longrightarrow>
      wp (bk_apply_guarded P r expected plan) (attempt_ok calm view r w) w"
    and restore_guarded_prim: "calm w \<Longrightarrow> manages calm view r \<Longrightarrow>
      wp (bk_restore_guarded P r expected target) (attempt_ok calm view r w) w"
begin

abbreviation attempted where "attempted \<equiv> attempt_ok calm view"

text \<open>Reads before the attempt change nothing.\<close>

lemma attempted_after: "frame_ok calm view {} w w' \<Longrightarrow> attempted r w' res w'' \<Longrightarrow> attempted r w res w''"
  by (auto simp: attempt_ok_def frame_ok_empty frame_ok_def[of _ _ "{r}"])

lemma reject_after: "frame_ok calm view {} w w' \<Longrightarrow> attempted r w (Ok (Rejected e)) w'"
  by (auto simp: attempt_ok_def frame_ok_empty frame_ok_def[of _ _ "{r}"])

lemma reject_step: "frame_ok calm view {} w v \<Longrightarrow> wp (return_tx (Rejected e)) (attempted r w) v"
  using reject_after by simp

lemma crash_after: "frame_ok calm view {} w w' \<Longrightarrow> attempted r w Crash w'"
  by (auto simp: attempt_ok_def frame_ok_empty frame_ok_def[of _ _ "{r}"])

lemma step_read:
  assumes "frame_ok calm view {} w u"
    and "calm u \<Longrightarrow> wp m (\<lambda>_. frame_ok calm view {} u) u"
    and "\<And>x v. frame_ok calm view {} w v \<Longrightarrow> wp (k x) (attempted r w) v"
  shows "wp (match_tx m k (\<lambda>e. return_tx (Rejected e))) (attempted r w) u"
proof -
  have "wp m (\<lambda>_. frame_ok calm view {} w) u"
    by (rule wp_mono[OF assms(2)]) (use assms(1) frame_ok_trans[of calm view "{}" w u "{}" _ "{}"] in \<open>auto simp: frame_ok_def\<close>)
  then show ?thesis
    by (rule wp_matchI) (use assms(3) reject_step crash_after in auto)
qed

lemma apply_unconditional:
  assumes "frame_ok calm view {} w u" and m: "manages calm view r"
  shows "wp (bind_tx (try_tx (bk_apply P r plan)) (\<lambda>x. return_tx (from_apply_result x))) (attempted r w) u"
proof -
  have u: "calm u" using assms(1) by (simp add: frame_ok_def)
  have "wp (bind_tx (try_tx (bk_apply P r plan)) (\<lambda>x. return_tx (from_apply_result x))) (attempted r u) u"
    unfolding wp_bind wp_try
    by (rule wp_mono[OF apply_prim[OF u m]])
       (auto simp: attempt_ok_def on_both_def on_ok_def from_apply_result_def is_rejected_def split: outcome.splits)
  then show ?thesis by (rule wp_mono) (rule attempted_after[OF assms(1)])
qed

lemma apply_bound_prim:
  assumes "calm w" "manages calm view (id_resource i)"
  shows "wp (apply_bound_default P i expected plan) (attempted (id_resource i) w) w"
proof -
  have refl: "frame_ok calm view {} w w" using assms(1) by (simp add: frame_ok_def)
  have "wp (bk_apply_guarded P (id_resource i) expected plan) (attempted (id_resource i) w) v" if "frame_ok calm view {} w v" for v
    by (rule wp_mono[OF apply_guarded_prim[OF _ assms(2)]])
       (use that attempted_after[OF that] in \<open>auto simp: frame_ok_def\<close>)
  note guarded = this
  show ?thesis
    unfolding apply_bound_default_def
    by (intro step_read[OF refl status_prim])
       (auto split: mutation_guard.splits intro!: reject_after guarded apply_unconditional assms(2)
          step_read[OF _ readback_prim] step_read[OF _ status_prim])
qed

lemma restore_unconditional:
  assumes "frame_ok calm view {} w u" and m: "manages calm view r"
  shows "wp (match_tx (bk_restore P r target) (\<lambda>_. return_tx (Performed None))
     (\<lambda>e. return_tx (Indeterminate e None))) (attempted r w) u"
proof -
  have u: "calm u" using assms(1) by (simp add: frame_ok_def)
  have "wp (match_tx (bk_restore P r target) (\<lambda>_. return_tx (Performed None))
     (\<lambda>e. return_tx (Indeterminate e None))) (attempted r u) u"
    by (rule wp_matchI[OF restore_prim[OF u m]]) (auto simp: attempt_ok_def is_rejected_def)
  then show ?thesis by (rule wp_mono) (rule attempted_after[OF assms(1)])
qed

lemma restore_bound_prim:
  assumes "calm w" "manages calm view (id_resource i)"
  shows "wp (restore_bound_default P i expected target) (attempted (id_resource i) w) w"
proof -
  have refl: "frame_ok calm view {} w w" using assms(1) by (simp add: frame_ok_def)
  have "wp (bk_restore_guarded P (id_resource i) expected target) (attempted (id_resource i) w) v" if "frame_ok calm view {} w v" for v
    by (rule wp_mono[OF restore_guarded_prim[OF _ assms(2)]])
       (use that attempted_after[OF that] in \<open>auto simp: frame_ok_def\<close>)
  note guarded = this
  show ?thesis
    unfolding restore_bound_default_def
    by (intro step_read[OF refl status_prim])
       (auto split: mutation_guard.splits intro!: reject_after guarded restore_unconditional assms(2)
          step_read[OF _ readback_prim] step_read[OF _ status_prim])
qed

end

end
