(* ===== verification/Fake_Contract.thy ===== *)
theory Fake_Contract
  imports Fake_Backend Bound_Contract
begin

text \<open>
  The in-memory backend keeps the contract the engine relies on, as a compare-and-mutate and as an
  unconditional backend, with injected failures and partial applies at any moment; only the
  adversaries, other actors that change the state, are excluded (\<open>fake_calm\<close>).
\<close>

section \<open>The in-memory backend without adversaries\<close>

text \<open>No adversary is waiting, and the incarnations of \<open>ids\<close> are the ones still there.\<close>

definition fake_calm :: "resource_identity set \<Rightarrow> 'x fake_os_scheme \<Rightarrow> bool" where
  "fake_calm ids s \<longleftrightarrow> (let i = fo_inner s in
     fk_replace_before_apply i = None \<and> fk_replace_during_observe i = None \<and>
     fk_readback_lie i = None \<and> fk_before_guarded i = None \<and> fk_after_guarded i = None \<and>
     fk_before_nth_guarded i = None \<and> fk_before_unconditional_readback i = None \<and>
     (\<forall>k\<in>ids. fk_states i (id_resource k) \<noteq> None \<and>
        id_data k = IdFake \<lparr> fi_incarnation = inc_of i (id_resource k) \<rparr>))"

definition fake_view :: "'x fake_os_scheme \<Rightarrow> resource_id \<Rightarrow> (fake_state \<times> u64) option" where
  "fake_view s r = map_option (\<lambda>st. (st, gen_of (fo_inner s) r)) (fk_states (fo_inner s) r)"

definition fake_snap :: "resource_id \<Rightarrow> fake_state \<times> u64 \<Rightarrow> platform_snapshot" where
  "fake_snap r n = snapshot_new Fake r (SnapFake \<lparr> fs_state = fst n, fs_generation = snd n \<rparr>)"

abbreviation fake_frame where "fake_frame ids \<equiv> frame_ok (fake_calm ids) fake_view"

lemma wp_on_inner: "wp (on_inner m) Q s = wp m (\<lambda>r i. Q r (s\<lparr>fo_inner := i\<rparr>)) (fo_inner s)"
  by (simp add: on_inner_def wp_focus)

lemma fake_calm_failures: "fake_calm ids (s\<lparr>fo_inner := (fo_inner s)\<lparr>fk_failures := fs\<rparr>\<rparr>) = fake_calm ids s"
  by (simp add: fake_calm_def Let_def inc_of_def)

lemma fake_view_failures: "fake_view (s\<lparr>fo_inner := (fo_inner s)\<lparr>fk_failures := fs\<rparr>\<rparr>) = fake_view s"
  by (simp add: fun_eq_iff fake_view_def gen_of_def)

definition is_injected :: "error \<Rightarrow> bool" where
  "is_injected e = (case e of PlatformError Fake _ \<Rightarrow> True | _ \<Rightarrow> False)"

lemma check_failure_spec:
  assumes "fake_calm ids s"
  shows "wp (check_failure op) (\<lambda>res t. res \<noteq> Crash \<and> fake_frame ids {} s t \<and>
     (\<forall>e. res = Err e \<longrightarrow> is_injected e)) s"
  unfolding check_failure_def wp_on_inner
  by (rule wpI)
     (use assms in \<open>auto simp: frame_ok_empty fake_calm_failures fake_view_failures is_injected_def Let_def
        split: option.splits prod.splits if_splits\<close>)

lemma fake_frame_refl: "fake_calm ids s \<Longrightarrow> fake_frame ids {} s s"
  by (simp add: frame_ok_empty)

lemma fake_frame_calm: "fake_frame ids R s t \<Longrightarrow> fake_calm ids t"
  by (simp add: frame_ok_def)

lemma snapshot_from_view:
  "snapshot_from (fo_inner s) r = (case fake_view s r of
      None \<Rightarrow> Inl not_present | Some n \<Rightarrow> Inr (fake_snap r n))"
  by (simp add: snapshot_from_def fake_view_def fake_snap_def not_present_def split: option.splits)

text \<open>What a reading operation has done.\<close>

definition fake_read ::
  "resource_identity set \<Rightarrow> resource_id \<Rightarrow> 'x fake_os_scheme \<Rightarrow> platform_snapshot outcome \<Rightarrow>
   'x fake_os_scheme \<Rightarrow> bool" where
  "fake_read ids r s res t \<longleftrightarrow> res \<noteq> Crash \<and> fake_frame ids {} s t \<and>
     (\<forall>e. res = Err e \<longrightarrow> is_injected e \<or> e = not_present) \<and>
     when_ok res (\<lambda>c. \<exists>n. fake_view s r = Some n \<and> c = fake_snap r n)"

lemma snapshot_of_spec:
  assumes "fake_frame ids {} s t"
  shows "wp (snapshot_of r) (fake_read ids r s) t"
  using assms
  by (auto simp: snapshot_of_def wp_on_inner wp_bind wp_lift_result snapshot_from_view fake_read_def frame_ok_empty
      split: option.splits)

lemma fake_capture_spec:
  assumes "fake_calm ids s"
  shows "wp (fake_capture r) (fake_read ids r s) s"
  unfolding fake_capture_def
  by (rule wp_seqI[OF check_failure_spec[OF assms]]) (auto simp: fake_read_def intro: snapshot_of_spec)

lemma fake_readback_spec:
  assumes "fake_calm ids s"
  shows "wp (fake_readback r) (fake_read ids r s) s"
  unfolding fake_readback_def
proof (rule wp_seqI[OF check_failure_spec[OF assms]], goal_cases)
  case (1 x t)
  then have t: "fake_frame ids {} s t" "fake_calm ids t" by (auto simp: frame_ok_empty)
  then have none: "fk_before_unconditional_readback (fo_inner t) = None" "fk_readback_lie (fo_inner t) = None"
    by (auto simp: fake_calm_def Let_def)
  then have same: "t\<lparr>fo_inner := (fo_inner t)\<lparr>fk_readback_lie := None\<rparr>\<rparr> = t" by simp
  show ?case
    using snapshot_of_spec[OF t(1), of r]
    by (simp add: wp_seq wp_bind wp_on_inner none same)
qed (auto simp: fake_read_def)

lemma fake_status_spec:
  assumes "fake_calm ids s"
  shows "wp (fake_status k) (\<lambda>res t. res \<noteq> Crash \<and> fake_frame ids {} s t \<and>
     (k \<in> ids \<longrightarrow> when_ok res (\<lambda>st. st = Same \<or> st = Ambiguous))) s"
  unfolding fake_status_def
proof (rule wp_seqI[OF check_failure_spec[OF assms]], goal_cases)
  case (1 x t)
  then have t: "fake_frame ids {} s t" "fake_calm ids t" by (auto simp: frame_ok_empty)
  then have "k \<in> ids \<Longrightarrow> fk_states (fo_inner t) (id_resource k) \<noteq> None \<and>
      id_data k = IdFake \<lparr> fi_incarnation = inc_of (fo_inner t) (id_resource k) \<rparr>"
    by (auto simp: fake_calm_def Let_def)
  with t(1) show ?case
    by (auto simp: wp_on_inner wp_bind Let_def split: identity_data.splits)
qed auto

section \<open>Mutations\<close>

lemma fake_calm_partial: "fake_calm ids (s\<lparr>fo_inner := (fo_inner s)\<lparr>fk_partial_apply_failures := n\<rparr>\<rparr>) = fake_calm ids s"
  by (simp add: fake_calm_def Let_def inc_of_def)

lemma fake_view_partial: "fake_view (s\<lparr>fo_inner := (fo_inner s)\<lparr>fk_partial_apply_failures := n\<rparr>\<rparr>) = fake_view s"
  by (simp add: fun_eq_iff fake_view_def gen_of_def)

lemma take_partial_spec:
  assumes "fake_frame ids R s t"
  shows "wp (on_inner take_partial) (\<lambda>res u. res \<noteq> Crash \<and> no_err res \<and> fake_frame ids R s u \<and> fake_view u = fake_view t) t"
  using assms
  by (auto simp: take_partial_def wp_on_inner wp_bind wp_seq frame_ok_def fake_calm_partial fake_view_partial)

lemma store_state_calm:
  assumes "fake_calm ids s" "fk_states (fo_inner s) r \<noteq> None"
  shows "fake_frame ids {r} s (s\<lparr>fo_inner := store_state r st (fo_inner s)\<rparr>)"
  using assms
  by (auto simp: frame_ok_def fake_calm_def Let_def store_state_def fake_view_def gen_of_def bump_def inc_of_def)

lemma notify_calm: "fake_calm ids (notify e s) = fake_calm ids s"
  by (simp add: notify_def fake_calm_def)

lemma notify_view: "fake_view (notify e s) = fake_view s"
  by (simp add: notify_def fake_view_def fun_eq_iff)

lemma notify_frame: "fake_frame ids R s (notify e t) = fake_frame ids R s t"
  by (simp add: frame_ok_def notify_calm notify_view)

lemma fake_frame_widen: "fake_frame ids {} s t \<Longrightarrow> fake_frame ids {r} s t"
  by (simp add: frame_ok_def)

lemma fake_frame_step: "fake_frame ids {} s t \<Longrightarrow> fake_frame ids {r} t u \<Longrightarrow> fake_frame ids {r} s u"
  by (simp add: frame_ok_def)

lemma fake_apply_spec:
  assumes "fake_calm ids s"
  shows "wp (fake_apply r plan) (\<lambda>res t. fake_frame ids {r} s t \<and>
     (\<forall>e. res = Err e \<and> is_external_modification e \<longrightarrow> fake_view t = fake_view s)) s"
  unfolding fake_apply_def
proof (rule wp_seqI[OF check_failure_spec[OF assms]], goal_cases)
  case (1 x t)
  then have t: "fake_frame ids {} s t" by simp
  show ?case
  proof (rule wp_bindI[OF take_partial_spec[OF t]], goal_cases)
    case (1 b u)
    then have u: "fake_frame ids {} s u" by simp
    note c = fake_frame_calm[OF u]
    show ?case
    proof (cases "fk_states (fo_inner u) r")
      case None
      with u show ?thesis
        by (auto simp: wp_seq wp_bind wp_on_inner is_external_modification_def not_present_def intro: fake_frame_widen)
    next
      case (Some st)
      then have "fake_frame ids {r} s (u\<lparr>fo_inner := store_state r (merge_state st plan) (fo_inner u)\<rparr>)"
        using store_state_calm[OF c] fake_frame_step[OF u] by auto
      with Some show ?thesis
        by (auto simp: wp_seq wp_bind wp_on_inner notify_changed_def notify_frame is_external_modification_def
            partial_error_def)
    qed
  qed (auto simp: frame_ok_empty)
qed (auto simp: frame_ok_empty is_external_modification_def is_injected_def frame_ok_def[of _ _ "{r}"] split: error.splits backend_kind.splits)

lemma fake_restore_spec:
  assumes "fake_calm ids s"
  shows "wp (fake_restore r target) (\<lambda>_. fake_frame ids {r} s) s"
  unfolding fake_restore_def
proof (rule wp_seqI[OF check_failure_spec[OF assms]], goal_cases)
  case (1 x t)
  then have t: "fake_frame ids {} s t" by simp
  have "fake_frame ids {r} s (t\<lparr>fo_inner := store_state r st (fo_inner t)\<rparr>)"
    if "fk_states (fo_inner t) r \<noteq> None" for st
    using store_state_calm[OF fake_frame_calm[OF t] that] by (rule fake_frame_step[OF t])
  with fake_frame_widen[OF t] show ?case
    by (auto simp: wp_seq wp_bind wp_on_inner wp_lift_result notify_changed_def notify_frame split: sum.splits)
qed (auto intro: fake_frame_widen)

lemma no_adversary: "fake_calm ids s \<Longrightarrow> take_adversary b r (fo_inner s) = fo_inner s"
  by (simp add: fake_calm_def Let_def take_adversary_def)

lemma swap_state_spec:
  assumes s: "fake_frame ids {} s t"
  shows "wp (on_inner (swap_state r full f b)) (\<lambda>res u. no_err res \<and> fake_frame ids {r} s u \<and>
     when_ok res (\<lambda>out. case out of Inl a \<Rightarrow> is_rejected a \<longrightarrow> fake_view u = fake_view s | Inr _ \<Rightarrow> True)) t"
proof -
  note c = fake_frame_calm[OF s]
  have same: "t\<lparr>fo_inner := fo_inner t\<rparr> = t" by simp
  show ?thesis
  proof (cases "fk_states (fo_inner t) r")
    case None
    with s show ?thesis
      by (auto simp: swap_state_def wp_on_inner wp_seq wp_bind no_adversary[OF c] is_rejected_def fake_frame_widen)
  next
    case (Some live)
    let ?t = "t\<lparr>fo_inner := store_state r (f live) (fo_inner t)\<rparr>"
    have stored: "fake_frame ids {r} s ?t"
      using fake_frame_step[OF s store_state_calm[OF c]] Some by simp
    have st: "fk_states (store_state r (f live) (fo_inner t)) r = Some (f live)"
      by (simp add: store_state_def)
    have adv: "take_adversary False r (store_state r (f live) (fo_inner t)) = store_state r (f live) (fo_inner t)"
      using no_adversary[OF fake_frame_calm[OF stored]] by simp
    have adv': "take_adversary False r ((store_state r (f live) (fo_inner t))\<lparr>fk_partial_apply_failures := n\<rparr>) =
        (store_state r (f live) (fo_inner t))\<lparr>fk_partial_apply_failures := n\<rparr>" for n
      using no_adversary[of ids "?t\<lparr>fo_inner := (fo_inner ?t)\<lparr>fk_partial_apply_failures := n\<rparr>\<rparr>" False r]
        fake_frame_calm[OF stored] fake_calm_partial[where ids = ids and s = ?t] by simp
    have part: "fake_frame ids {r} s (t\<lparr>fo_inner := (store_state r (f live) (fo_inner t))\<lparr>fk_partial_apply_failures := n\<rparr>\<rparr>)" for n
      using stored fake_calm_partial[where ids = ids and s = ?t] fake_view_partial[where s = ?t] by (simp add: frame_ok_def)
    show ?thesis
    proof (cases "gen_of (fo_inner t) r \<noteq> fs_generation full \<or> live \<noteq> fs_state full")
      case True
      with Some s show ?thesis
        by (auto simp: swap_state_def wp_on_inner wp_seq wp_bind no_adversary[OF c] frame_ok_empty frame_ok_def[of _ _ "{r}"])
    next
      case False
      with Some stored st adv adv' part show ?thesis
        by (auto simp: swap_state_def wp_on_inner wp_seq wp_bind no_adversary[OF c] snapshot_from_def take_partial_def)
    qed
  qed
qed

lemma indeterminate_ok: "fake_frame ids {} s t \<Longrightarrow> attempt_ok (fake_calm ids) fake_view r s (Ok (indeterminate e)) t"
  by (simp add: attempt_ok_def fake_frame_widen is_rejected_def)

lemma attempt_lift:
  "attempt_of f (lift_result r) k = (case r of Inl e \<Rightarrow> return_tx (f e) | Inr x \<Rightarrow> k x)"
  by (simp add: attempt_of_def split: sum.splits)

lemma swap_and_notify:
  assumes "fake_frame ids {} s t" "\<And>x. \<not> is_rejected (g x)"
  shows "wp (bind_tx (on_inner (swap_state r full f b)) (\<lambda>out. case out of
       Inl attempt \<Rightarrow> return_tx attempt
     | Inr x \<Rightarrow> seq_tx (notify_changed r) (return_tx (g x)))) (attempt_ok (fake_calm ids) fake_view r s) t"
  by (rule wp_bindI[OF swap_state_spec[OF assms(1)]])
     (auto simp: attempt_ok_def wp_seq notify_changed_def notify_frame assms(2) split: sum.splits)

lemma fake_apply_guarded_spec:
  assumes "fake_calm ids s"
  shows "wp (fake_apply_guarded r expected plan) (attempt_ok (fake_calm ids) fake_view r s) s"
proof -
  have none: "fk_replace_before_apply (fo_inner s) = None" "fk_before_nth_guarded (fo_inner s) = None"
    using assms by (auto simp: fake_calm_def Let_def)
  have eq: "(\<lambda>out. case out of
         Inl attempt \<Rightarrow> return_tx attempt
       | Inr (partial, produced) \<Rightarrow> seq_tx (notify_changed r) (
         return_tx (if partial then Indeterminate partial_error (Some produced) else Performed (Some produced)))) =
      (\<lambda>out. case out of
         Inl attempt \<Rightarrow> return_tx attempt
       | Inr x \<Rightarrow> seq_tx (notify_changed r) (return_tx (case x of (partial, produced) \<Rightarrow>
           if partial then Indeterminate partial_error (Some produced) else Performed (Some produced))))"
    by (auto simp: fun_eq_iff split: sum.splits)
  have modify: "wp (seq_tx (on_inner (modify_tx g)) m) Q s = wp m Q s" if "g (fo_inner s) = fo_inner s"
    for g and m :: "('x fake_os_scheme, 'b) tx" and Q s
    by (simp add: wp_seq wp_on_inner that)
  show ?thesis
    unfolding fake_apply_guarded_def eq
  proof (simp only: modify none option.case, unfold attempt_of_def[of _ "check_failure FopApply"],
      rule wp_matchI[OF check_failure_spec[OF assms]], goal_cases)
    case (1 x t)
    then have t: "fake_frame ids {} s t" by simp
    show ?case
      unfolding attempt_lift
      by (auto intro!: swap_and_notify[OF t] indeterminate_ok[OF t] simp: is_rejected_def split: sum.splits if_splits)
  qed (auto intro: indeterminate_ok)
qed

lemma fake_restore_guarded_spec:
  assumes "fake_calm ids s"
  shows "wp (fake_restore_guarded r expected target) (attempt_ok (fake_calm ids) fake_view r s) s"
  unfolding fake_restore_guarded_def attempt_of_def[of _ "check_failure FopRestore"]
proof (rule wp_matchI[OF check_failure_spec[OF assms]], goal_cases)
  case (1 x t)
  then have t: "fake_frame ids {} s t" by simp
  note swap = swap_and_notify[OF t, of "\<lambda>(partial, produced). Performed (Some produced)"]
  have eq: "(\<lambda>out. case out of
         Inl attempt \<Rightarrow> return_tx attempt
       | Inr (partial, produced) \<Rightarrow> seq_tx (notify_changed r) (return_tx (Performed (Some produced)))) =
      (\<lambda>out. case out of
         Inl attempt \<Rightarrow> return_tx attempt
       | Inr x \<Rightarrow> seq_tx (notify_changed r) (return_tx (case x of (partial, produced) \<Rightarrow> Performed (Some produced))))"
    by (auto simp: fun_eq_iff split: sum.splits)
  show ?case
    unfolding attempt_lift eq
    by (auto intro!: swap indeterminate_ok[OF t] simp: is_rejected_def split: sum.splits)
qed (auto intro: indeterminate_ok)

interpretation fake_calm_prims: calm_prims "fake_prims F" "fake_calm ids" fake_view
  for F :: fake_backend and ids :: "resource_identity set"
proof (unfold_locales, goal_cases)
  case (1 w i)
  show ?case
    unfolding fake_prims_def backend_prims.select_convs by (rule wp_mono[OF fake_status_spec[OF 1]]) simp
next
  case (2 w r)
  show ?case
    unfolding fake_prims_def backend_prims.select_convs by (rule wp_mono[OF fake_readback_spec[OF 2]]) (simp add: fake_read_def)
next
  case (3 w r plan)
  show ?case unfolding fake_prims_def backend_prims.select_convs by (rule fake_apply_spec[OF 3(1)])
next
  case (4 w r target)
  show ?case unfolding fake_prims_def backend_prims.select_convs by (rule fake_restore_spec[OF 4(1)])
next
  case (5 w r expected plan)
  show ?case unfolding fake_prims_def backend_prims.select_convs by (rule fake_apply_guarded_spec[OF 5(1)])
next
  case (6 w r expected target)
  show ?case unfolding fake_prims_def backend_prims.select_convs by (rule fake_restore_guarded_spec[OF 6(1)])
qed

end
