(* ===== verification/Locks.thy ===== *)
theory Locks
  imports Journal
begin

text \<open>
  The inter-process locks of \<open>ownership.rs\<close>. A resource is locked by an advisory lock on a file named
  after it, in a directory all managers of the host share, and by an entry in a registry of this
  process. \<open>lock_os\<close> is what the code asks of the operating system: private directories and files
  (the package \<open>private_fs\<close>), \<open>File::try_lock\<close>, closing a descriptor, the clock, and sleeping.

  The operations run on the registry and the opened directory paired with the system's state \<open>'w\<close>.
\<close>

section \<open>State\<close>

type_synonym fd = nat

datatype lock_attempt = LockTaken | LockWouldBlock | LockFailed io_kind string

record 'w lock_os =
  lo_pfs :: "'w pfs"
  lo_open :: "handle \<Rightarrow> string \<Rightarrow> ('w, fd) pfs_op"
  lo_clone :: "fd \<Rightarrow> 'w \<Rightarrow> (io_error + fd) \<times> 'w"
  lo_try_lock :: "fd \<Rightarrow> 'w \<Rightarrow> lock_attempt \<times> 'w"
  lo_close :: "fd \<Rightarrow> 'w \<Rightarrow> 'w"
  lo_now :: "'w \<Rightarrow> instant \<times> 'w"
  lo_sleep :: "duration \<Rightarrow> 'w \<Rightarrow> 'w"

type_synonym registry_key = "string \<times> resource_id"

definition GLOBAL_LOCK_NAMESPACE :: string where
  "GLOBAL_LOCK_NAMESPACE = ''osdns:global-os''"

definition LOCK_POLL_INTERVAL :: duration where
  "LOCK_POLL_INTERVAL = millis 20"

text \<open>\<open>ResourceLockManager\<close>; its \<open>OnceLock\<close> is in the state, beside the registry of the process.\<close>

record 'w lock_manager =
  lm_dir :: path
  lm_timeout :: duration
  lm_namespace :: string
  lm_os :: "'w lock_os"
  lm_libs :: libs

record lock_state =
  ls_registry :: "registry_key set"
  ls_directory :: "handle option"

record resource_lock =
  rl_file :: fd
  rl_key :: registry_key

definition lock_resource :: "resource_lock \<Rightarrow> resource_id" where
  "lock_resource l = snd (rl_key l)"

definition with_namespace :: "path \<Rightarrow> duration \<Rightarrow> string \<Rightarrow> 'w lock_os \<Rightarrow> libs \<Rightarrow> 'w lock_manager" where
  "with_namespace dir timeout namespace K L =
     \<lparr> lm_dir = dir, lm_timeout = timeout, lm_namespace = namespace, lm_os = K, lm_libs = L \<rparr>"

definition lock_manager_new :: "path \<Rightarrow> duration \<Rightarrow> 'w lock_os \<Rightarrow> libs \<Rightarrow> 'w lock_manager" where
  "lock_manager_new dir timeout = with_namespace dir timeout GLOBAL_LOCK_NAMESPACE"

definition registry_contains :: "registry_key \<Rightarrow> (lock_state \<times> 'w, bool) tx" where
  "registry_contains key = bind_tx get_mut (\<lambda>ls. return_tx (key \<in> ls_registry ls))"

definition registry_insert :: "registry_key \<Rightarrow> (lock_state \<times> 'w, unit) tx" where
  "registry_insert key = modify_mut (\<lambda>ls. ls\<lparr>ls_registry := insert key (ls_registry ls)\<rparr>)"

definition registry_remove :: "registry_key \<Rightarrow> (lock_state \<times> 'w, unit) tx" where
  "registry_remove key = modify_mut (\<lambda>ls. ls\<lparr>ls_registry := ls_registry ls - {key}\<rparr>)"

section \<open>Operations\<close>

definition lock_key :: "'w lock_manager \<Rightarrow> resource_id \<Rightarrow> registry_key" where
  "lock_key M r = (lm_namespace M, r)"

definition ensure_lock_dir :: "'w lock_manager \<Rightarrow> (lock_state \<times> 'w, unit) tx" where
  "ensure_lock_dir M = bind_tx get_mut (\<lambda>ls. case ls_directory ls of
       Some _ \<Rightarrow> return_tx ()
     | None \<Rightarrow> bind_tx (inner_tx (ensure_private_dir (lo_pfs (lm_os M)) (lm_dir M))) (\<lambda>h.
         modify_mut (\<lambda>ls. ls\<lparr>ls_directory := Some h\<rparr>)))"

definition lock_file_name :: "libs \<Rightarrow> resource_id \<Rightarrow> string" where
  "lock_file_name L r = slug r @ ''-'' @ stable_hash L r @ ''.lock''"

text \<open>A \<open>File\<close> that goes out of scope is closed.\<close>

definition close_file :: "'w lock_manager \<Rightarrow> fd \<Rightarrow> (lock_state \<times> 'w, unit) tx" where
  "close_file M f = inner_tx (modify_tx (lo_close (lm_os M) f))"

text \<open>The descriptor the file is locked by is a duplicate of the one the package opened.\<close>

definition open_lock_file :: "'w lock_manager \<Rightarrow> resource_id \<Rightarrow> (lock_state \<times> 'w, fd) tx" where
  "open_lock_file M r = bind_tx get_mut (\<lambda>ls. case ls_directory ls of
       None \<Rightarrow> crash
     | Some dir \<Rightarrow>
         bind_tx (inner_tx (pfs_call (lo_open (lm_os M) dir (lock_file_name (lm_libs M) r)) private_error)) (\<lambda>priv.
         match_tx (inner_tx (io_call (lo_clone (lm_os M) priv)))
           (\<lambda>f. seq_tx (close_file M priv) (return_tx f))
           (\<lambda>e. seq_tx (close_file M priv) (throw e))))"

text \<open>
  The loop of \<open>acquire\<close>. \<open>n\<close> bounds how often it may sleep; \<open>acquire_returns\<close> below shows that the
  bound is not reached, so that the crash that would mark it does not occur.
\<close>

fun poll_lock ::
  "'w lock_manager \<Rightarrow> resource_id \<Rightarrow> fd \<Rightarrow> instant \<Rightarrow> nat \<Rightarrow> (lock_state \<times> 'w, unit) tx" where
  "poll_lock M r f deadline n =
     bind_tx (registry_contains (lock_key M r)) (\<lambda>held.
     if held then throw (Conflict r AlreadyLeasedInProcess)
     else bind_tx (inner_tx (sys_call (lo_try_lock (lm_os M) f))) (\<lambda>attempt. case attempt of
         LockTaken \<Rightarrow> return_tx ()
       | LockFailed k e \<Rightarrow> throw (Io k e)
       | LockWouldBlock \<Rightarrow>
           bind_tx (inner_tx (sys_call (lo_now (lm_os M)))) (\<lambda>now.
           if now \<ge> deadline then throw (Timeout r ''acquiring the resource lock'')
           else seq_tx (inner_tx (modify_tx (lo_sleep (lm_os M) LOCK_POLL_INTERVAL)))
             (case n of 0 \<Rightarrow> crash | Suc k \<Rightarrow> poll_lock M r f deadline k))))"

declare poll_lock.simps [simp del]

definition max_polls :: "'w lock_manager \<Rightarrow> nat" where
  "max_polls M = lm_timeout M div LOCK_POLL_INTERVAL + 1"

definition acquire :: "'w lock_manager \<Rightarrow> resource_id \<Rightarrow> (lock_state \<times> 'w, resource_lock) tx" where
  "acquire M r =
     seq_tx (ensure_lock_dir M) (
     bind_tx (open_lock_file M r) (\<lambda>f.
     bind_tx (inner_tx (sys_call (lo_now (lm_os M)))) (\<lambda>now.
     match_tx (poll_lock M r f (now + lm_timeout M) (max_polls M))
       (\<lambda>_. seq_tx (registry_insert (lock_key M r)) (return_tx \<lparr> rl_file = f, rl_key = lock_key M r \<rparr>))
       (\<lambda>e. seq_tx (close_file M f) (throw e)))))"

text \<open>Dropping a lock: first the registry, then the file.\<close>

definition drop_lock :: "'w lock_manager \<Rightarrow> resource_lock \<Rightarrow> (lock_state \<times> 'w, unit) tx" where
  "drop_lock M l = seq_tx (registry_remove (rl_key l)) (close_file M (rl_file l))"

fun acquire_each ::
  "'w lock_manager \<Rightarrow> resource_lock list \<Rightarrow> resource_id list \<Rightarrow> (lock_state \<times> 'w, resource_lock list) tx" where
  "acquire_each M locks [] = return_tx locks"
| "acquire_each M locks (r # rs) =
     match_tx (acquire M r) (\<lambda>l. acquire_each M (locks @ [l]) rs)
       (\<lambda>e. seq_tx (for_tx locks (drop_lock M)) (throw e))"

text \<open>The order in which the locks of a request are taken: sorted, without duplicates.\<close>

definition lock_order :: "resource_id list \<Rightarrow> resource_id list" where
  "lock_order rs = remdups_adj (sort rs)"

definition acquire_all :: "'w lock_manager \<Rightarrow> resource_id list \<Rightarrow> (lock_state \<times> 'w, resource_lock list) tx" where
  "acquire_all M rs = acquire_each M [] (lock_order rs)"

definition try_acquire :: "'w lock_manager \<Rightarrow> resource_id \<Rightarrow> (lock_state \<times> 'w, resource_lock option) tx" where
  "try_acquire M r =
     seq_tx (ensure_lock_dir M) (
     bind_tx (registry_contains (lock_key M r)) (\<lambda>held.
     if held then return_tx None
     else bind_tx (open_lock_file M r) (\<lambda>f.
       bind_tx (inner_tx (sys_call (lo_try_lock (lm_os M) f))) (\<lambda>attempt. case attempt of
           LockTaken \<Rightarrow> seq_tx (registry_insert (lock_key M r))
             (return_tx (Some \<lparr> rl_file = f, rl_key = lock_key M r \<rparr>))
         | LockWouldBlock \<Rightarrow> seq_tx (close_file M f) (return_tx None)
         | LockFailed k e \<Rightarrow> seq_tx (close_file M f) (throw (Io k e))))))"

lemma wp_lock_calls:
  "wp (sys_call m) Q1 w = (case m w of (x, w') \<Rightarrow> Q1 (Ok x) w')"
  "wp (io_call m') Q2 w = (case m' w of (Inl (k, e), w') \<Rightarrow> Q2 (Err (Io k e)) w' | (Inr y, w') \<Rightarrow> Q2 (Ok y) w')"
  "wp (close_file M f) Q3 (ls, w) = Q3 (Ok ()) (ls, lo_close (lm_os M) f w)"
  "wp (registry_contains key) Q4 (ls, w) = Q4 (Ok (key \<in> ls_registry ls)) (ls, w)"
  "wp (registry_insert key) Q3 (ls, w) = Q3 (Ok ()) (ls\<lparr>ls_registry := insert key (ls_registry ls)\<rparr>, w)"
  "wp (registry_remove key) Q3 (ls, w) = Q3 (Ok ()) (ls\<lparr>ls_registry := ls_registry ls - {key}\<rparr>, w)"
  by (auto simp: sys_call_def io_call_def close_file_def registry_contains_def registry_insert_def registry_remove_def
      wp_inner wp_def[of "sys_call m"] wp_def[of "io_call m'"] split: prod.splits sum.splits)

text \<open>Errors of the surroundings, as opposed to those by which the lock itself is refused.\<close>

definition system_error :: "error \<Rightarrow> bool" where
  "system_error e = (case e of Timeout _ _ \<Rightarrow> False | Conflict _ _ \<Rightarrow> False | _ \<Rightarrow> True)"

lemma system_error_simps [simp]:
  "system_error (private_error pe)" "system_error (InvalidConfig s)" "system_error (Io k s)"
  "\<not> system_error (Timeout r s)" "\<not> system_error (Conflict r why)"
  by (auto simp: system_error_def private_error_def split: pfs_error.splits)

lemmas lock_wp = wp_simps wp_lock_calls wp_pfs_call

lemma distinct_remdups_adj_sorted: "sorted xs \<Longrightarrow> distinct (remdups_adj xs)" for xs :: "'a::linorder list"
  by (induction xs rule: remdups_adj.induct) (auto simp: order.antisym)

lemma lock_order_props: "sorted (lock_order rs)" "distinct (lock_order rs)" "set (lock_order rs) = set rs"
  by (simp_all add: lock_order_def sorted_remdups_adj distinct_remdups_adj_sorted)

section \<open>The interface of the operating system\<close>

text \<open>
  \<open>names w f\<close> is the file descriptor \<open>f\<close> refers to and \<open>locked w f\<close> the file it holds the lock of;
  \<open>clock w\<close> is the time, \<open>rest w\<close> whatever else of the system is of interest. Nothing but
  \<open>try_lock\<close> takes a lock, a new descriptor holds none, closing one releases its lock, a lock is
  granted on what the descriptor refers to; the clock does not run backwards and sleeping lasts.
\<close>

locale lock_system =
  fixes K :: "'w lock_os"
    and names :: "'w \<Rightarrow> fd \<Rightarrow> string option"
    and locked :: "'w \<Rightarrow> fd \<Rightarrow> string option"
    and clock :: "'w \<Rightarrow> instant"
    and rest :: "'w \<Rightarrow> 'r"
  assumes locked_names: "locked w f \<noteq> None \<Longrightarrow> names w f = locked w f"
    and dir_frame: "m = pf_ensure (lo_pfs K) p \<or> m = pf_ensure_dir (lo_pfs K) h n \<Longrightarrow>
      names (snd (m w)) = names w \<and> locked (snd (m w)) = locked w \<and> rest (snd (m w)) = rest w \<and>
      clock w \<le> clock (snd (m w))"
    and open_frame: "lo_open K h n w = (opened, w') \<Longrightarrow> locked w' = locked w \<and> rest w' = rest w \<and> clock w \<le> clock w' \<and>
      (case opened of Inl _ \<Rightarrow> names w' = names w | Inr f \<Rightarrow> names w f = None \<and> names w' = (names w)(f \<mapsto> n))"
    and clone_frame: "lo_clone K f w = (cloned, w') \<Longrightarrow> locked w' = locked w \<and> rest w' = rest w \<and> clock w \<le> clock w' \<and>
      (case cloned of Inl _ \<Rightarrow> names w' = names w | Inr g \<Rightarrow> names w g = None \<and> names w' = (names w)(g := names w f))"
    and try_frame: "lo_try_lock K f w = (attempt, w') \<Longrightarrow> names w' = names w \<and> rest w' = rest w \<and> clock w \<le> clock w' \<and>
      locked w' = (if attempt = LockTaken then (locked w)(f := names w f) else locked w)"
    and close_frame: "names (lo_close K f w) = (names w)(f := None) \<and> locked (lo_close K f w) = (locked w)(f := None) \<and>
      rest (lo_close K f w) = rest w \<and> clock w \<le> clock (lo_close K f w)"
    and now_frame: "lo_now K w = (t, w') \<Longrightarrow> names w' = names w \<and> locked w' = locked w \<and> rest w' = rest w \<and>
      clock w \<le> t \<and> t \<le> clock w'"
    and sleep_frame: "names (lo_sleep K d w) = names w \<and> locked (lo_sleep K d w) = locked w \<and>
      rest (lo_sleep K d w) = rest w \<and> clock w + d \<le> clock (lo_sleep K d w)"
begin

text \<open>Nothing happened but that time may have passed.\<close>

definition idle :: "'w \<Rightarrow> 'w \<Rightarrow> bool" where
  "idle w w' \<longleftrightarrow> names w' = names w \<and> locked w' = locked w \<and> rest w' = rest w \<and> clock w \<le> clock w'"

lemma idle_refl: "idle w w"
  by (simp add: idle_def)

lemma idle_trans: "idle u v \<Longrightarrow> idle v w \<Longrightarrow> idle u w"
  by (auto simp: idle_def)

lemma pf_idle:
  "idle w (snd (pf_ensure (lo_pfs K) p w))" "idle w (snd (pf_ensure_dir (lo_pfs K) h n w))"
  using dir_frame[OF disjI1[OF refl]] dir_frame[OF disjI2[OF refl]] by (auto simp: idle_def)

lemma wp_pfs_idle:
  "idle w (snd (m w)) \<Longrightarrow> wp (pfs_call m private_error) (\<lambda>res w'. res \<noteq> Crash \<and>
     (\<forall>e. res = Err e \<longrightarrow> system_error e) \<and> idle w w') w"
  by (cases "m w") (auto simp: wp_pfs_call split: sum.splits)

lemma ensure_dir_idle: "wp (ensure_private_dir (lo_pfs K) p) (\<lambda>res w'. res \<noteq> Crash \<and>
     (\<forall>e. res = Err e \<longrightarrow> system_error e) \<and> idle w w') w"
proof (induction "lo_pfs K" p w rule: ensure_private_dir.induct)
  case (1 p w)
  obtain res w1 where e: "pf_ensure (lo_pfs K) p w = (res, w1)" by fastforce
  with pf_idle(1)[of w p] have w1: "idle w w1" by simp
  show ?case
  proof (cases "\<exists>m q. res = Inl (PfsIo NotFound m) \<and> path_parent p = Some q \<and> \<not> path_is_empty q")
    case True
    then obtain m q where q: "res = Inl (PfsIo NotFound m)" "path_parent p = Some q" "\<not> path_is_empty q" by blast
    obtain res2 w2 where r: "ensure_private_dir (lo_pfs K) q w1 = (res2, w2)" by fastforce
    from "1.hyps"[OF e[symmetric] q(1) refl refl q(2,3)] r have w2: "res2 \<noteq> Crash" "idle w1 w2" "\<forall>e. res2 = Err e \<longrightarrow> system_error e"
      by (auto simp: wp_def)
    have p3: "wp (pfs_call (pf_ensure_dir (lo_pfs K) h n) private_error) (\<lambda>res w'. res \<noteq> Crash \<and>
        (\<forall>e. res = Err e \<longrightarrow> system_error e) \<and> idle w w') w2" for h n
      by (rule wp_mono[OF wp_pfs_idle[OF pf_idle(2)]]) (use idle_trans w1 w2 in blast)
    show ?thesis
      using e q r w2 idle_trans[OF w1 w2(2)] p3
      by (subst wp_def, subst ensure_private_dir.simps) (auto simp: wp_def split: outcome.splits option.splits prod.splits)
  next
    case False
    with e w1 show ?thesis
      by (subst wp_def, subst ensure_private_dir.simps) (auto split: sum.splits pfs_error.splits io_kind.splits option.splits)
  qed
qed

lemma ensure_lock_dir_spec:
  assumes "lm_os M = K"
  shows "wp (ensure_lock_dir M) (\<lambda>res x. ls_registry (fst x) = ls_registry ls \<and> idle w (snd x) \<and>
     res \<noteq> Crash \<and> (\<forall>e. res = Err e \<longrightarrow> system_error e) \<and>
     (res = Ok () \<longrightarrow> ls_directory (fst x) \<noteq> None)) (ls, w)"
proof (cases "ls_directory ls")
  case None
  have "wp (bind_tx (inner_tx (ensure_private_dir (lo_pfs K) (lm_dir M)))
      (\<lambda>h. modify_mut (\<lambda>ls. ls\<lparr>ls_directory := Some h\<rparr>))) (\<lambda>res x. ls_registry (fst x) = ls_registry ls \<and>
      idle w (snd x) \<and> res \<noteq> Crash \<and> (\<forall>e. res = Err e \<longrightarrow> system_error e) \<and> (res = Ok () \<longrightarrow> ls_directory (fst x) \<noteq> None)) (ls, w)"
    by (rule wp_bind_innerI[OF ensure_dir_idle]) auto
  with None assms show ?thesis by (simp add: ensure_lock_dir_def)
qed (simp add: ensure_lock_dir_def idle_refl)

text \<open>A descriptor of the file \<open>n\<close>, new and not locked, has come into being.\<close>

definition opened :: "'w \<Rightarrow> fd \<Rightarrow> string \<Rightarrow> 'w \<Rightarrow> bool" where
  "opened w f n w' \<longleftrightarrow> names w f = None \<and> names w' = (names w)(f \<mapsto> n) \<and> locked w' = locked w \<and>
     rest w' = rest w \<and> clock w \<le> clock w'"

lemma unlocked: "names w f = None \<Longrightarrow> (locked w)(f := None) = locked w"
  using locked_names[of w f] by (cases "locked w f") (auto simp: fun_upd_idem)

lemma open_lock_file_spec:
  assumes K: "lm_os M = K" and dir: "ls_directory ls = Some h"
  shows "wp (open_lock_file M r) (\<lambda>res x. fst x = ls \<and> (case res of
       Ok f \<Rightarrow> opened w f (lock_file_name (lm_libs M) r) (snd x)
     | Err e \<Rightarrow> idle w (snd x) \<and> system_error e | Crash \<Rightarrow> False)) (ls, w)"
proof -
  let ?n = "lock_file_name (lm_libs M) r"
  obtain o1 w1 where o1: "lo_open K h ?n w = (o1, w1)" by fastforce
  show ?thesis
  proof (cases o1)
    case (Inl e)
    with o1 open_frame[OF o1] show ?thesis
      by (simp add: open_lock_file_def dir K lock_wp idle_def)
  next
    case (Inr priv)
    obtain o2 w2 where o2: "lo_clone K priv w1 = (o2, w2)" by fastforce
    have f1: "names w priv = None" "names w1 = (names w)(priv \<mapsto> ?n)" "locked w1 = locked w"
      "rest w1 = rest w" "clock w \<le> clock w1"
      using open_frame[OF o1] Inr by auto
    note f2 = clone_frame[OF o2] and f3 = close_frame[of priv w2]
    have lk: "(locked w)(priv := None) = locked w" by (rule unlocked[OF f1(1)])
    show ?thesis
    proof (cases o2)
      case (Inl e)
      have "idle w (lo_close K priv w2)"
        using f1 f2 f3 lk Inl by (auto simp: idle_def fun_upd_idem)
      with o1 o2 Inr Inl show ?thesis
        by (cases e) (simp add: open_lock_file_def dir K lock_wp)
    next
      case (Inr g)
      have "names w1 g = None" using f2 Inr by auto
      with f1 have g: "g \<noteq> priv" "names w g = None" by (auto split: if_splits)
      then have "opened w g ?n (lo_close K priv w2)"
        using f1 f2 f3 lk Inr by (auto simp: opened_def fun_upd_twist[of g priv] fun_upd_idem)
      with o1 o2 \<open>o1 = Inr priv\<close> Inr show ?thesis
        by (simp add: open_lock_file_def dir K lock_wp)
    qed
  qed
qed

lemma idle_names: "idle w w' \<Longrightarrow> names w' = names w \<and> locked w' = locked w \<and> rest w' = rest w \<and> clock w \<le> clock w'"
  by (simp add: idle_def)

lemma poll_spec:
  assumes K: "lm_os M = K"
  shows "deadline \<le> clock w + k * LOCK_POLL_INTERVAL \<Longrightarrow>
     wp (poll_lock M r f deadline k) (\<lambda>res x. fst x = ls \<and> (case res of
         Ok _ \<Rightarrow> lock_key M r \<notin> ls_registry ls \<and> names (snd x) = names w \<and>
           locked (snd x) = (locked w)(f := names w f) \<and> rest (snd x) = rest w \<and> clock w \<le> clock (snd x)
       | Err e \<Rightarrow> idle w (snd x) \<and> (\<forall>r' op. e = Timeout r' op \<longrightarrow> deadline \<le> clock (snd x)) \<and>
           ((\<exists>r' why. e = Conflict r' why) \<longleftrightarrow> lock_key M r \<in> ls_registry ls)
       | Crash \<Rightarrow> False)) (ls, w)"
proof (induction k arbitrary: w)
  case (0 w)
  obtain a w1 where a: "lo_try_lock K f w = (a, w1)" by fastforce
  obtain now w2 where n: "lo_now K w1 = (now, w2)" by fastforce
  note fa = try_frame[OF a] and fn = now_frame[OF n]
  have "lock_key M r \<notin> ls_registry ls \<Longrightarrow> a = LockWouldBlock \<Longrightarrow> deadline \<le> now \<and> now \<le> clock w2 \<and> idle w w2"
    using 0 fa fn by (auto simp: idle_def)
  with a n fa idle_refl[of w] show ?case
    by (subst poll_lock.simps)
       (auto simp: K lock_wp idle_def split: lock_attempt.splits)
next
  case (Suc k w)
  obtain a w1 where a: "lo_try_lock K f w = (a, w1)" by fastforce
  obtain now w2 where n: "lo_now K w1 = (now, w2)" by fastforce
  note fa = try_frame[OF a] and fn = now_frame[OF n]
  let ?w3 = "lo_sleep K LOCK_POLL_INTERVAL w2"
  note fs = sleep_frame[of LOCK_POLL_INTERVAL w2]
  show ?case
  proof (cases "lock_key M r \<notin> ls_registry ls \<and> a = LockWouldBlock")
    case True
    then have i: "idle w w2" "idle w ?w3" "deadline \<le> clock ?w3 + k * LOCK_POLL_INTERVAL"
      using Suc.prems fa fn fs by (auto simp: idle_def)
    have "wp (poll_lock M r f deadline k) (\<lambda>res x. fst x = ls \<and> (case res of
         Ok _ \<Rightarrow> lock_key M r \<notin> ls_registry ls \<and> names (snd x) = names w \<and>
           locked (snd x) = (locked w)(f := names w f) \<and> rest (snd x) = rest w \<and> clock w \<le> clock (snd x)
       | Err e \<Rightarrow> idle w (snd x) \<and> (\<forall>r' op. e = Timeout r' op \<longrightarrow> deadline \<le> clock (snd x)) \<and>
           ((\<exists>r' why. e = Conflict r' why) \<longleftrightarrow> lock_key M r \<in> ls_registry ls)
       | Crash \<Rightarrow> False)) (ls, ?w3)"
      by (rule wp_mono[OF Suc.IH[OF i(3)]])
         (use i(2) in \<open>auto simp: idle_def split: outcome.splits intro: le_trans\<close>)
    with True a n i(1) fn show ?thesis
      by (subst poll_lock.simps)
         (simp add: K lock_wp)
  next
    case False
    with a fa idle_refl[of w] show ?thesis
      by (subst poll_lock.simps)
         (auto simp: K lock_wp idle_def split: lock_attempt.splits)
  qed
qed

text \<open>
  What a caller that started at \<open>(ls, w)\<close> holds: each lock is new, its descriptor holds the lock of
  the file of its resource, its key is registered, and nothing else has changed.
\<close>

definition holding ::
  "'w lock_manager \<Rightarrow> lock_state \<Rightarrow> 'w \<Rightarrow> resource_lock list \<Rightarrow> lock_state \<times> 'w \<Rightarrow> bool" where
  "holding M ls w locks x \<longleftrightarrow>
     distinct (map rl_file locks) \<and> distinct (map rl_key locks) \<and>
     (\<forall>l\<in>set locks. names w (rl_file l) = None \<and> fst (rl_key l) = lm_namespace M \<and>
        rl_key l \<notin> ls_registry ls \<and>
        names (snd x) (rl_file l) = Some (lock_file_name (lm_libs M) (lock_resource l)) \<and>
        locked (snd x) (rl_file l) = Some (lock_file_name (lm_libs M) (lock_resource l))) \<and>
     (\<forall>f. f \<notin> rl_file ` set locks \<longrightarrow> names (snd x) f = names w f \<and> locked (snd x) f = locked w f) \<and>
     ls_registry (fst x) = ls_registry ls \<union> rl_key ` set locks \<and>
     rest (snd x) = rest w \<and> clock w \<le> clock (snd x)"

lemma holding_Nil: "holding M ls w [] x \<longleftrightarrow> ls_registry (fst x) = ls_registry ls \<and> idle w (snd x)"
  by (auto simp: holding_def idle_def)

lemma holding_idle:
  "holding M ls w locks (ls1, w1) \<Longrightarrow> ls_registry ls2 = ls_registry ls1 \<Longrightarrow> idle w1 w2 \<Longrightarrow>
   holding M ls w locks (ls2, w2)"
  by (auto simp: holding_def idle_def)

lemma drop_lock_spec:
  assumes K: "lm_os M = K" and h: "holding M ls w (l # locks) x"
  shows "wp (drop_lock M l) (\<lambda>res x'. res = Ok () \<and> holding M ls w locks x') x"
proof -
  obtain ls1 w1 where x: "x = (ls1, w1)" by fastforce
  have "names w (rl_file l) = None" and new: "rl_file l \<notin> rl_file ` set locks" "rl_key l \<notin> rl_key ` set locks"
    and reg: "rl_key l \<notin> ls_registry ls" "ls_registry ls1 = ls_registry ls \<union> insert (rl_key l) (rl_key ` set locks)"
    using h x by (simp_all add: holding_def)
  have "ls_registry ls1 - {rl_key l} = ls_registry ls \<union> rl_key ` set locks"
    using new(2) reg by blast
  moreover have "locked w (rl_file l) = None"
    using locked_names[of w "rl_file l"] \<open>names w (rl_file l) = None\<close> by (cases "locked w (rl_file l)") auto
  moreover note close_frame[of "rl_file l" w1]
  ultimately have "holding M ls w locks (ls1\<lparr>ls_registry := ls_registry ls1 - {rl_key l}\<rparr>, lo_close K (rl_file l) w1)"
    using h new \<open>names w (rl_file l) = None\<close> unfolding x holding_def by (auto simp: image_iff)
  then show ?thesis by (simp add: x drop_lock_def lock_wp K)
qed

lemma drop_locks_spec:
  assumes K: "lm_os M = K"
  shows "holding M ls w locks x \<Longrightarrow>
     wp (for_tx locks (drop_lock M)) (\<lambda>res x'. res = Ok () \<and> holding M ls w [] x') x"
proof (induction locks arbitrary: x)
  case Nil
  then show ?case by simp
next
  case (Cons l locks)
  show ?case
    unfolding for_tx.simps
    by (rule wp_seqI[OF drop_lock_spec[OF K Cons.prems]]) (auto intro: Cons.IH)
qed

lemma acquire_spec:
  assumes K: "lm_os M = K"
  shows "wp (acquire M r) (\<lambda>res x. (case res of
       Ok l \<Rightarrow> lock_resource l = r \<and> holding M ls w [l] x
     | Err e \<Rightarrow> holding M ls w [] x \<and> (\<forall>r' op. e = Timeout r' op \<longrightarrow> clock w + lm_timeout M \<le> clock (snd x)) \<and>
         (\<forall>r' why. e = Conflict r' why \<longrightarrow> lock_key M r \<in> ls_registry ls)
     | Crash \<Rightarrow> False)) (ls, w)"
  (is "wp _ ?Q _")
  unfolding acquire_def
proof (rule wp_seqI[OF ensure_lock_dir_spec[OF K]], goal_cases)
  case (1 u x)
  obtain ls1 w1 where x: "x = (ls1, w1)" by fastforce
  with 1 obtain h where h: "ls_directory ls1 = Some h" and i1: "idle w w1" and reg: "ls_registry ls1 = ls_registry ls"
    by auto
  show ?case
    unfolding x
  proof (rule wp_bindI[OF open_lock_file_spec[OF K h]], goal_cases)
    case (1 f x2)
    then obtain w2 where x2: "x2 = (ls1, w2)" and o: "opened w1 f (lock_file_name (lm_libs M) r) w2"
      by (cases x2) auto
    obtain now w3 where n: "lo_now K w2 = (now, w3)" by fastforce
    note fn = now_frame[OF n]
    have fuel: "now + lm_timeout M \<le> clock w3 + max_polls M * LOCK_POLL_INTERVAL"
    proof -
      have "lm_timeout M \<le> max_polls M * LOCK_POLL_INTERVAL"
        unfolding max_polls_def by (simp add: LOCK_POLL_INTERVAL_def millis_def dividend_less_div_times less_imp_le)
      with fn show ?thesis by simp
    qed
    have c: "clock w + lm_timeout M \<le> now + lm_timeout M"
      using i1 o fn by (auto simp: idle_def opened_def)
    have "wp (match_tx (poll_lock M r f (now + lm_timeout M) (max_polls M))
       (\<lambda>_. seq_tx (registry_insert (lock_key M r)) (return_tx \<lparr> rl_file = f, rl_key = lock_key M r \<rparr>))
       (\<lambda>e. seq_tx (close_file M f) (throw e))) ?Q (ls1, w3)"
    proof (rule wp_matchI[OF poll_spec[OF K fuel]], goal_cases)
      case (1 u x4)
      then show ?case
        using i1 o fn reg
        by (cases x4) (auto simp: lock_wp holding_def idle_def opened_def lock_resource_def lock_key_def)
    next
      case (2 e x4)
      obtain w4 where x4: "x4 = (ls1, w4)" using 2 by (cases x4) auto
      have i: "idle w3 w4" using 2 x4 by auto
      have "names w f = None" using i1 o by (auto simp: idle_def opened_def)
      then have "locked w f = None" using locked_names[of w f] by (cases "locked w f") auto
      then have "idle w (lo_close K f w4)"
        using i1 o fn i close_frame[of f w4] \<open>names w f = None\<close> by (auto simp: idle_def opened_def fun_upd_idem)
      moreover have "clock w4 \<le> clock (lo_close K f w4)" using close_frame by blast
      ultimately show ?case
        using 2 x4 reg K c by (auto simp: lock_wp holding_Nil intro: le_trans)
    qed auto
    then show ?case unfolding x2 using n K by (simp add: lock_wp)
  next
    case (2 e x2)
    then show ?case
      using i1 reg by (auto simp: holding_Nil idle_trans system_error_def split: error.splits)
  qed auto
next
  case (2 e x)
  then show ?case by (auto simp: holding_Nil system_error_def split: error.splits)
qed auto

lemma acquire_each_spec:
  assumes K: "lm_os M = K"
  shows "holding M ls w locks x \<Longrightarrow>
     wp (acquire_each M locks rs) (\<lambda>res x'. (case res of
       Ok ls' \<Rightarrow> map lock_resource ls' = map lock_resource locks @ rs \<and> holding M ls w ls' x'
     | Err e \<Rightarrow> holding M ls w [] x' | Crash \<Rightarrow> False)) x"
proof (induction rs arbitrary: locks x)
  case Nil
  then show ?case by simp
next
  case (Cons r rs)
  obtain ls1 w1 where x: "x = (ls1, w1)" by fastforce
  show ?case
    unfolding acquire_each.simps x
  proof (rule wp_matchI[OF acquire_spec[OF K]], goal_cases)
    case (1 l x2)
    obtain ls2 w2 where x2: "x2 = (ls2, w2)" by fastforce
    have "holding M ls w (locks @ [l]) x2"
    proof -
      have l: "names w1 (rl_file l) = None" "rl_key l \<notin> ls_registry ls1" "fst (rl_key l) = lm_namespace M"
        "names w2 (rl_file l) = Some (lock_file_name (lm_libs M) r)"
        "locked w2 (rl_file l) = Some (lock_file_name (lm_libs M) r)"
        and same: "\<And>f. f \<noteq> rl_file l \<Longrightarrow> names w2 f = names w1 f \<and> locked w2 f = locked w1 f"
        and reg: "ls_registry ls2 = insert (rl_key l) (ls_registry ls1)" "rest w2 = rest w1" "clock w1 \<le> clock w2"
        and r: "lock_resource l = r"
        using 1 x2 by (auto simp: holding_def)
      have old: "rl_file l \<notin> rl_file ` set locks" "rl_key l \<notin> rl_key ` set locks"
        using Cons.prems l(1,2) x by (auto simp: holding_def)
      then show ?thesis
        using Cons.prems l same reg r x x2 unfolding holding_def
        by (auto simp: image_iff)
    qed
    from Cons.IH[OF this] 1 show ?case by (auto elim!: wp_mono split: outcome.splits)
  next
    case (2 e x2)
    obtain ls2 w2 where x2: "x2 = (ls2, w2)" by fastforce
    with 2 Cons.prems x have "holding M ls w locks x2"
      by (auto simp: holding_Nil intro: holding_idle)
    then show ?case
      by (intro wp_seqI[OF drop_locks_spec[OF K]]) auto
  qed auto
qed

lemma acquire_all_spec:
  assumes K: "lm_os M = K"
  shows "wp (acquire_all M rs) (\<lambda>res x. (case res of
       Ok locks \<Rightarrow> map lock_resource locks = lock_order rs \<and> holding M ls w locks x
     | Err e \<Rightarrow> holding M ls w [] x | Crash \<Rightarrow> False)) (ls, w)"
  unfolding acquire_all_def
  by (rule wp_mono[OF acquire_each_spec[OF K, where ls = ls and w = w]])
     (auto simp: holding_Nil idle_refl split: outcome.splits)

lemma try_acquire_spec:
  assumes K: "lm_os M = K"
  shows "wp (try_acquire M r) (\<lambda>res x. (case res of
       Ok (Some l) \<Rightarrow> lock_resource l = r \<and> holding M ls w [l] x
     | Ok None \<Rightarrow> holding M ls w [] x
     | Err e \<Rightarrow> holding M ls w [] x \<and> system_error e | Crash \<Rightarrow> False)) (ls, w)"
  (is "wp _ ?Q _")
  unfolding try_acquire_def
proof (rule wp_seqI[OF ensure_lock_dir_spec[OF K]], goal_cases)
  case (1 u x)
  obtain ls1 w1 where x: "x = (ls1, w1)" by fastforce
  with 1 obtain h where h: "ls_directory ls1 = Some h" and i1: "idle w w1" and reg: "ls_registry ls1 = ls_registry ls"
    by auto
  show ?case
  proof (cases "lock_key M r \<in> ls_registry ls")
    case True
    then show ?thesis using i1 reg by (simp add: x lock_wp holding_Nil)
  next
    case False
    have "wp (bind_tx (open_lock_file M r) (\<lambda>f.
        bind_tx (inner_tx (sys_call (lo_try_lock K f))) (\<lambda>attempt. case attempt of
           LockTaken \<Rightarrow> seq_tx (registry_insert (lock_key M r))
             (return_tx (Some \<lparr> rl_file = f, rl_key = lock_key M r \<rparr>))
         | LockWouldBlock \<Rightarrow> seq_tx (close_file M f) (return_tx None)
         | LockFailed k e \<Rightarrow> seq_tx (close_file M f) (throw (Io k e))))) ?Q (ls1, w1)"
    proof (rule wp_bindI[OF open_lock_file_spec[OF K h]], goal_cases)
      case (1 f x2)
      then obtain w2 where x2: "x2 = (ls1, w2)" and o: "opened w1 f (lock_file_name (lm_libs M) r) w2"
        by (cases x2) auto
      obtain a w3 where a: "lo_try_lock K f w2 = (a, w3)" by fastforce
      have "names w f = None" using i1 o by (auto simp: idle_def opened_def)
      then have "locked w f = None" using locked_names[of w f] by (cases "locked w f") auto
      with \<open>names w f = None\<close> show ?case
        using i1 o try_frame[OF a] close_frame[of f w3] reg False a K x2
        by (cases a) (auto simp: lock_wp holding_def idle_def opened_def lock_resource_def lock_key_def)
    next
      case (2 e x2)
      then show ?case using i1 reg by (auto simp: holding_Nil idle_trans)
    qed auto
    with False reg K show ?thesis by (simp add: x lock_wp)
  qed
qed (auto simp: holding_Nil)

end

section \<open>What the locks guarantee\<close>

text \<open>
  C11. Acquiring is all or nothing, and it always returns. Whatever other processes do with the lock
  files, \<open>acquire_all\<close> ends: either with one lock for each resource, in sorted order and without
  duplicates, none of which this process had registered before, each holding the advisory lock on
  the file of its resource, and all registered; or with an error, and then the registry, the open
  descriptors and the advisory locks are what they were. Nothing else of the system is touched.
\<close>

theorem acquire_all_or_nothing:
  assumes "lock_system (lm_os M) names locked clock rest" and "acquire_all M rs (ls, w) = (res, (ls', w'))"
  shows "rest w' = rest w \<and> (case res of
       Ok locks \<Rightarrow> map lock_resource locks = lock_order rs \<and> distinct (map rl_file locks) \<and>
         list_all (\<lambda>l. rl_key l = (lm_namespace M, lock_resource l) \<and> rl_key l \<notin> ls_registry ls \<and>
           locked w' (rl_file l) = Some (lock_file_name (lm_libs M) (lock_resource l))) locks \<and>
         ls_registry ls' = ls_registry ls \<union> Pair (lm_namespace M) ` set rs
     | Err _ \<Rightarrow> ls_registry ls' = ls_registry ls \<and> names w' = names w \<and> locked w' = locked w
     | Crash \<Rightarrow> False)"
proof -
  note spec = wp_run[OF lock_system.acquire_all_spec[OF assms(1) refl] assms(2)]
  show ?thesis
  proof (cases res)
    case (Ok locks)
    with spec have l: "map lock_resource locks = lock_order rs"
      and h: "lock_system.holding names locked clock rest M ls w locks (ls', w')" by auto
    have "rl_key l = (lm_namespace M, lock_resource l)" if "l \<in> set locks" for l
      using h that by (auto simp: lock_system.holding_def[OF assms(1)] lock_resource_def intro: prod_eqI)
    then have "rl_key ` set locks = Pair (lm_namespace M) ` set (map lock_resource locks)"
      by (auto simp: image_image)
    with l Ok h show ?thesis
      by (auto simp: lock_system.holding_def[OF assms(1)] lock_order_props list_all_iff lock_resource_def intro: prod_eqI)
  next
    case (Err e)
    with spec show ?thesis
      by (simp add: lock_system.holding_Nil[OF assms(1)] lock_system.idle_def[OF assms(1)])
  qed (use spec in simp)
qed

text \<open>
  C12. Releasing undoes acquiring: dropping the locks \<open>acquire_all\<close> returned leaves the registry, the
  open descriptors and the advisory locks as they were before the acquisition.
\<close>

theorem acquire_release_roundtrip:
  assumes "lock_system (lm_os M) names locked clock rest"
    and "acquire_all M rs (ls, w) = (Ok locks, x)" and "for_tx locks (drop_lock M) x = (res, (ls', w'))"
  shows "res = Ok () \<and> ls_registry ls' = ls_registry ls \<and> names w' = names w \<and> locked w' = locked w \<and> rest w' = rest w"
proof -
  have "lock_system.holding names locked clock rest M ls w locks x"
    using wp_run[OF lock_system.acquire_all_spec[OF assms(1) refl] assms(2)] by simp
  from wp_run[OF lock_system.drop_locks_spec[OF assms(1) refl this] assms(3)]
  show ?thesis by (simp add: lock_system.holding_Nil[OF assms(1)] lock_system.idle_def[OF assms(1)])
qed

text \<open>
  C13. A refused lock says why. A time-out is reported only once the time-out has passed since the
  call, and a conflict only when this process has the resource registered; in that case the lock is
  never granted.
\<close>

theorem acquire_refusals:
  assumes "lock_system (lm_os M) names locked clock rest" and "acquire M r (ls, w) = (res, (ls', w'))"
  shows "(\<forall>r' op. res = Err (Timeout r' op) \<longrightarrow> clock w + lm_timeout M \<le> clock w') \<and>
     (\<forall>r' why. res = Err (Conflict r' why) \<longrightarrow> (lm_namespace M, r) \<in> ls_registry ls) \<and>
     ((lm_namespace M, r) \<in> ls_registry ls \<longrightarrow> \<not> succeeded res)"
proof -
  note spec = wp_run[OF lock_system.acquire_spec[OF assms(1) refl] assms(2)]
  show ?thesis
  proof (cases res)
    case (Ok l)
    with spec have "lock_resource l = r" "lock_system.holding names locked clock rest M ls w [l] (ls', w')" by auto
    then have "rl_key l = (lm_namespace M, r)" "rl_key l \<notin> ls_registry ls"
      by (auto simp: lock_system.holding_def[OF assms(1)] lock_resource_def intro: prod_eqI)
    with Ok show ?thesis by auto
  qed (use spec in \<open>auto simp: lock_key_def\<close>)
qed

section \<open>Deadlock\<close>

text \<open>
  Any number of clients, in this process or others, that acquire the locks of their requests in the
  order of \<open>acquire_all\<close>. A client has the locks it holds and those it still waits for. \<open>Begin\<close> is
  the call, \<open>Grant\<close> one more lock, \<open>Finish\<close> the release after the work, \<open>Quit\<close> the release after an
  error, which may strike at any time; a time-out is one.
\<close>

type_synonym clients = "nat \<Rightarrow> resource_id list \<times> resource_id list"

definition is_free :: "clients \<Rightarrow> resource_id \<Rightarrow> bool" where
  "is_free c r \<longleftrightarrow> (\<forall>j. r \<notin> set (fst (c j)))"

definition no_request :: "resource_id list \<times> resource_id list" where
  "no_request = ([], [])"

inductive serve :: "clients \<Rightarrow> clients \<Rightarrow> bool" where
  Grant: "c i = (held, r # wanted) \<Longrightarrow> is_free c r \<Longrightarrow> serve c (c(i := (held @ [r], wanted)))"
| Finish: "c i = (held, []) \<Longrightarrow> held \<noteq> [] \<Longrightarrow> serve c (c(i := no_request))"

inductive client_step :: "clients \<Rightarrow> clients \<Rightarrow> bool" where
  Serve: "serve c c' \<Longrightarrow> client_step c c'"
| Begin: "c i = no_request \<Longrightarrow> client_step c (c(i := ([], lock_order rs)))"
| Quit: "client_step c (c(i := no_request))"

definition finitely_many :: "clients \<Rightarrow> bool" where
  "finitely_many c \<longleftrightarrow> finite {i. c i \<noteq> no_request}"

definition ordered_clients :: "clients \<Rightarrow> bool" where
  "ordered_clients c \<longleftrightarrow>
     (\<forall>i. sorted (fst (c i) @ snd (c i)) \<and> distinct (fst (c i) @ snd (c i))) \<and>
     (\<forall>i j. i \<noteq> j \<longrightarrow> set (fst (c i)) \<inter> set (fst (c j)) = {}) \<and> finitely_many c"

lemma finite_update: "finitely_many c \<Longrightarrow> finitely_many (c(k := v))"
  unfolding finitely_many_def by (rule finite_subset[of _ "insert k {i. c i \<noteq> no_request}"]) auto

lemma ordered_serve: "serve c c' \<Longrightarrow> ordered_clients c \<Longrightarrow> ordered_clients c'"
proof (induction rule: serve.induct)
  case (Grant c i held r wanted)
  have "sorted (held @ r # wanted)" "distinct (held @ r # wanted)"
    using Grant unfolding ordered_clients_def by (metis fst_conv snd_conv)+
  moreover have "set held \<inter> set (fst (c j)) = {}" if "j \<noteq> i" for j
    using Grant that unfolding ordered_clients_def by (metis fst_conv)
  ultimately show ?case
    using Grant unfolding ordered_clients_def is_free_def by (auto intro: finite_update)
next
  case (Finish c i held)
  then show ?case unfolding ordered_clients_def by (auto simp: no_request_def[symmetric] intro: finite_update) (auto simp: no_request_def)
qed

lemma ordered_step: "client_step c c' \<Longrightarrow> ordered_clients c \<Longrightarrow> ordered_clients c'"
proof (induction rule: client_step.induct)
  case (Serve c c')
  then show ?case by (rule ordered_serve)
next
  case (Begin c i rs)
  then show ?case
    unfolding ordered_clients_def by (auto simp: lock_order_props intro: finite_update)
next
  case (Quit c i)
  then show ?case
    unfolding ordered_clients_def by (auto simp: no_request_def[symmetric] intro: finite_update) (auto simp: no_request_def)
qed

text \<open>The client that waits for the greatest resource can go on, or the one that holds it can.\<close>

lemma some_progress:
  assumes "ordered_clients c" and "c i \<noteq> no_request"
  shows "\<exists>c'. serve c c'"
proof (rule ccontr)
  assume stuck: "\<nexists>c'. serve c c'"
  have wait: "\<exists>r wanted. snd (c k) = r # wanted \<and> \<not> is_free c r" if "c k \<noteq> no_request" for k
    using stuck that by (cases "c k"; cases "snd (c k)") (auto simp: no_request_def intro: Grant Finish)
  let ?W = "{k. c k \<noteq> no_request}"
  let ?H = "(\<lambda>k. hd (snd (c k))) ` ?W"
  have "finite ?W" using assms(1) by (simp add: ordered_clients_def finitely_many_def)
  then have fin: "finite ?H" "?H \<noteq> {}" using assms(2) by auto
  then obtain k where k: "c k \<noteq> no_request" "hd (snd (c k)) = Max ?H"
    using Max_in[OF fin] by (metis (mono_tags, lifting) imageE mem_Collect_eq)
  with wait obtain r wanted where r: "snd (c k) = r # wanted" "\<not> is_free c r" by blast
  then obtain j where j: "r \<in> set (fst (c j))" by (auto simp: is_free_def)
  then have "c j \<noteq> no_request" by (auto simp: no_request_def)
  with wait obtain r' wanted' where r': "snd (c j) = r' # wanted'" by blast
  have "sorted (fst (c j) @ r' # wanted')" "distinct (fst (c j) @ r' # wanted')"
    using assms(1) r' unfolding ordered_clients_def by metis+
  with j have "r < r'" by (auto simp: sorted_append less_le)
  moreover have "r' \<le> Max ?H" using \<open>c j \<noteq> no_request\<close> r' fin(1) by (intro Max_ge) (auto simp: image_iff intro!: exI[of _ j])
  ultimately show False using k r by simp
qed

text \<open>How much is left to be served.\<close>

definition pending_work :: "clients \<Rightarrow> nat" where
  "pending_work c = (\<Sum>i\<in>{i. c i \<noteq> no_request}. length (fst (c i)) + 2 * length (snd (c i)))"

lemma pending_on:
  assumes "finite A" and "{i. c i \<noteq> no_request} \<subseteq> A"
  shows "pending_work c = (\<Sum>i\<in>A. length (fst (c i)) + 2 * length (snd (c i)))"
  unfolding pending_work_def using assms by (intro sum.mono_neutral_left) (auto simp: no_request_def)

lemma pending_update:
  assumes "finite {i. c i \<noteq> no_request}" and "c i \<noteq> no_request"
    and less: "length (fst v) + 2 * length (snd v) < length (fst (c i)) + 2 * length (snd (c i))"
  shows "pending_work (c(i := v)) < pending_work c"
proof -
  let ?S = "{k. c k \<noteq> no_request}"
  have "pending_work (c(i := v)) = (\<Sum>k\<in>?S. length (fst ((c(i := v)) k)) + 2 * length (snd ((c(i := v)) k)))"
    using assms(1,2) by (intro pending_on) auto
  also have "\<dots> < (\<Sum>k\<in>?S. length (fst (c k)) + 2 * length (snd (c k)))"
    using assms by (intro sum_strict_mono_ex1) (auto intro!: bexI[of _ i])
  finally show ?thesis by (simp add: pending_work_def)
qed

lemma serve_pending: "serve c c' \<Longrightarrow> ordered_clients c \<Longrightarrow> pending_work c' < pending_work c"
proof (induction rule: serve.induct)
  case (Grant c i held r wanted)
  then show ?case by (intro pending_update) (auto simp: ordered_clients_def finitely_many_def no_request_def)
next
  case (Finish c i held)
  then show ?case by (intro pending_update) (auto simp: ordered_clients_def finitely_many_def no_request_def)
qed

lemma client_run_ordered: "client_step\<^sup>*\<^sup>* (\<lambda>_. no_request) c \<Longrightarrow> ordered_clients c"
proof (induction rule: rtranclp_induct)
  case base
  then show ?case by (simp add: ordered_clients_def finitely_many_def no_request_def)
next
  case (step c c')
  then show ?case using ordered_step by blast
qed



end
