(* ===== verification/Scheduler.thy ===== *)
theory Scheduler
  imports Identifiers
begin

text \<open>
  The scheduler of \<open>reconciliation.rs\<close>: which resources await a reconciliation pass and when each is
  due, and the circuit breaker that bounds how often one resource may be rebased. Both maps are
  behind a mutex; each function here is one critical section. The clock enters as an argument.
\<close>

definition STABLE_WINDOW :: duration where "STABLE_WINDOW = millis 100"
definition UNSTABLE_RETRY :: duration where "UNSTABLE_RETRY = millis 200"
definition ERROR_RETRY :: duration where "ERROR_RETRY = millis 250"
definition IDENTITY_RETRY :: duration where "IDENTITY_RETRY = secs 5"
definition BREAKER_WINDOW :: duration where "BREAKER_WINDOW = secs 5"
definition BREAKER_THRESHOLD :: nat where "BREAKER_THRESHOLD = 6"
definition BREAKER_COOLDOWN :: duration where "BREAKER_COOLDOWN = secs 2"
definition MAX_ERROR_RETRY :: duration where "MAX_ERROR_RETRY = secs 30"

lemmas reconcile_consts = STABLE_WINDOW_def UNSTABLE_RETRY_def ERROR_RETRY_def IDENTITY_RETRY_def
  BREAKER_WINDOW_def BREAKER_THRESHOLD_def BREAKER_COOLDOWN_def MAX_ERROR_RETRY_def millis_def secs_def

section \<open>Pending resources\<close>

record pending =
  pe_ready_at :: instant
  pe_generation :: u64
  pe_errors :: u32

record breaker_state =
  br_attempts :: "instant list"
  br_open_until :: "instant option"

record reconciler =
  rc_pending :: "resource_id \<Rightarrow> pending option"
  rc_breaker :: "resource_id \<Rightarrow> breaker_state option"

definition reconciler_default :: reconciler where
  "reconciler_default = \<lparr> rc_pending = Map.empty, rc_breaker = Map.empty \<rparr>"

text \<open>\<open>saturating_add(1)\<close> on an unsigned integer.\<close>

definition sat_inc :: "'a::len word \<Rightarrow> 'a word" where
  "sat_inc x = (if x = - 1 then x else x + 1)"

definition touch :: "instant \<Rightarrow> resource_id \<Rightarrow> reconciler \<Rightarrow> reconciler" where
  "touch now r rc = rc\<lparr>rc_pending := (rc_pending rc)(r \<mapsto> (case rc_pending rc r of
       Some p \<Rightarrow> p\<lparr>pe_generation := sat_inc (pe_generation p)\<rparr>
     | None \<Rightarrow> \<lparr> pe_ready_at = now, pe_generation = 0, pe_errors = 0 \<rparr>))\<rparr>"

text \<open>The delay of \<open>defer_at\<close> after \<open>n\<close> consecutive errors; \<open>1 << k\<close> with \<open>k\<close> at most seven.\<close>

definition backoff :: "duration \<Rightarrow> u32 \<Rightarrow> duration" where
  "backoff delay n = min (delay * 2 ^ min (unat n - 1) 7) MAX_ERROR_RETRY"

definition defer_at :: "resource_id \<Rightarrow> duration \<Rightarrow> bool \<Rightarrow> instant \<Rightarrow> reconciler \<Rightarrow> reconciler" where
  "defer_at r delay failed now rc =
     (let entry = (case rc_pending rc r of Some p \<Rightarrow> p
          | None \<Rightarrow> \<lparr> pe_ready_at = now + delay, pe_generation = 0, pe_errors = 0 \<rparr>);
          errors = (if failed then sat_inc (pe_errors entry) else 0);
          delay = (if failed then backoff delay errors else delay)
      in rc\<lparr>rc_pending := (rc_pending rc)(r \<mapsto>
           entry\<lparr>pe_errors := errors, pe_ready_at := max (pe_ready_at entry) (now + delay)\<rparr>)\<rparr>)"

definition reconciler_remove :: "resource_id \<Rightarrow> reconciler \<Rightarrow> reconciler" where
  "reconciler_remove r rc = rc\<lparr>rc_pending := (rc_pending rc)(r := None), rc_breaker := (rc_breaker rc)(r := None)\<rparr>"

definition generation_of :: "resource_id \<Rightarrow> reconciler \<Rightarrow> u64" where
  "generation_of r rc = (case rc_pending rc r of Some p \<Rightarrow> pe_generation p | None \<Rightarrow> 0)"

definition complete_unless_touched :: "instant \<Rightarrow> resource_id \<Rightarrow> u64 \<Rightarrow> reconciler \<Rightarrow> reconciler" where
  "complete_unless_touched now r generation rc = rc\<lparr>rc_pending := (rc_pending rc)(r :=
     (case rc_pending rc r of
        Some p \<Rightarrow> if pe_generation p \<noteq> generation then Some (p\<lparr>pe_ready_at := now, pe_errors := 0\<rparr>) else None
      | None \<Rightarrow> None))\<rparr>"

definition reconciler_clear :: "reconciler \<Rightarrow> reconciler" where
  "reconciler_clear rc = \<lparr> rc_pending = Map.empty, rc_breaker = Map.empty \<rparr>"

text \<open>What the worker takes from the pending set at \<open>now\<close>.\<close>

definition is_due :: "instant \<Rightarrow> reconciler \<Rightarrow> resource_id \<Rightarrow> bool" where
  "is_due now rc r = (case rc_pending rc r of Some p \<Rightarrow> pe_ready_at p \<le> now | None \<Rightarrow> False)"

section \<open>The circuit breaker\<close>

text \<open>The attempts that are not older than the window; the front of the queue is the oldest.\<close>

definition recent :: "instant \<Rightarrow> instant list \<Rightarrow> instant list" where
  "recent now attempts = dropWhile (\<lambda>oldest. now - oldest > BREAKER_WINDOW) attempts"

definition breaker_admit :: "instant \<Rightarrow> instant list \<Rightarrow> duration option \<times> breaker_state" where
  "breaker_admit now attempts =
     (let attempts = recent now attempts in
      if length attempts \<ge> BREAKER_THRESHOLD
      then (Some BREAKER_COOLDOWN, \<lparr> br_attempts = [], br_open_until = Some (now + BREAKER_COOLDOWN) \<rparr>)
      else (None, \<lparr> br_attempts = attempts @ [now], br_open_until = None \<rparr>))"

definition breaker_step :: "instant \<Rightarrow> breaker_state \<Rightarrow> duration option \<times> breaker_state" where
  "breaker_step now b = (case br_open_until b of
       Some open_until \<Rightarrow> if now < open_until then (Some (open_until - now), b) else breaker_admit now []
     | None \<Rightarrow> breaker_admit now (br_attempts b))"

definition breaker_gate :: "instant \<Rightarrow> resource_id \<Rightarrow> reconciler \<Rightarrow> duration option \<times> reconciler" where
  "breaker_gate now r rc =
     (let b = (case rc_breaker rc r of Some b \<Rightarrow> b | None \<Rightarrow> \<lparr> br_attempts = [], br_open_until = None \<rparr>)
      in case breaker_step now b of (verdict, b') \<Rightarrow> (verdict, rc\<lparr>rc_breaker := (rc_breaker rc)(r \<mapsto> b')\<rparr>))"

section \<open>Events\<close>

text \<open>What may happen to the pending set while a reconciliation pass of \<open>r\<close> runs.\<close>

datatype sched_event = Touched instant resource_id | Deferred_by resource_id duration bool instant

fun sched_apply :: "sched_event \<Rightarrow> reconciler \<Rightarrow> reconciler" where
  "sched_apply (Touched now r) rc = touch now r rc"
| "sched_apply (Deferred_by r delay failed now) rc = defer_at r delay failed now rc"

definition touches :: "resource_id \<Rightarrow> sched_event list \<Rightarrow> nat" where
  "touches r es = length (filter (\<lambda>e. case e of Touched _ r' \<Rightarrow> r' = r | _ \<Rightarrow> False) es)"

lemma touches_simps [simp]:
  "touches r [] = 0"
  "touches r (Touched now r' # es) = (if r' = r then Suc (touches r es) else touches r es)"
  "touches r (Deferred_by r' d f now # es) = touches r es"
  by (simp_all add: touches_def)

lemma sat_inc_unat: "unat x + 1 < 2 ^ LENGTH('a) \<Longrightarrow> unat (sat_inc x) = unat x + 1" for x :: "'a::len word"
  by (auto simp: sat_inc_def unat_word_ariths unsigned_minus_1_eq_mask mask_eq_exp_minus_1)

lemma generation_run:
  assumes "rc_pending rc r = Some p" and "unat (pe_generation p) + touches r es < 2 ^ 64"
  shows "\<exists>q. rc_pending (fold sched_apply es rc) r = Some q \<and>
     unat (pe_generation q) = unat (pe_generation p) + touches r es"
  using assms
proof (induction es arbitrary: rc p)
  case Nil
  then show ?case by simp
next
  case (Cons e es)
  show ?case
  proof (cases e)
    case (Touched now r')
    show ?thesis
    proof (cases "r' = r")
      case True
      with Cons.prems Touched have "unat (sat_inc (pe_generation p)) = unat (pe_generation p) + 1"
        by (intro sat_inc_unat) simp
      with Cons.IH[of "touch now r rc" "p\<lparr>pe_generation := sat_inc (pe_generation p)\<rparr>"] Cons.prems Touched True
      show ?thesis by (simp add: touch_def)
    next
      case False
      with Cons.IH[of "touch now r' rc" p] Cons.prems Touched show ?thesis by (simp add: touch_def)
    qed
  next
    case (Deferred_by r' delay failed now)
    obtain q where "rc_pending (defer_at r' delay failed now rc) r = Some q" "pe_generation q = pe_generation p"
      using Cons.prems(1) by (cases "r' = r") (auto simp: defer_at_def Let_def)
    with Cons.IH[of "defer_at r' delay failed now rc" q] Cons.prems Deferred_by show ?thesis by simp
  qed
qed



text \<open>
  The first event of a resource that was not pending when the pass read its generation is dropped at
  the end of the pass: absence and the first generation are both read as zero.
\<close>

lemma first_event_dropped:
  "rc_pending rc r = None \<Longrightarrow>
   rc_pending (complete_unless_touched now' r (generation_of r rc) (touch now r rc)) r = None"
  by (simp add: complete_unless_touched_def generation_of_def touch_def)

section \<open>Deferral\<close>

text \<open>
  C15. Retries are spaced and bounded. A deferral by at most thirty seconds never lets the resource
  be due before the delay has passed, never moves an earlier schedule forward, and schedules it at
  most thirty seconds ahead or as far ahead as it already was; after a failure the delay doubles with
  every consecutive failure, and a deferral without failure clears the count.
\<close>

theorem defer_spaced_and_bounded:
  assumes "delay \<le> MAX_ERROR_RETRY"
  shows "\<exists>q. rc_pending (defer_at r delay failed now rc) r = Some q \<and>
     now + delay \<le> pe_ready_at q \<and>
     (case rc_pending rc r of
        Some p \<Rightarrow> pe_ready_at p \<le> pe_ready_at q \<and> pe_ready_at q \<le> max (pe_ready_at p) (now + MAX_ERROR_RETRY) \<and>
          pe_generation q = pe_generation p \<and>
          pe_errors q = (if failed then sat_inc (pe_errors p) else 0)
      | None \<Rightarrow> pe_ready_at q = now + delay) \<and>
     (failed \<longrightarrow> now + backoff delay (pe_errors q) \<le> pe_ready_at q) \<and>
     (\<forall>r'. r' \<noteq> r \<longrightarrow> rc_pending (defer_at r delay failed now rc) r' = rc_pending rc r')"
proof -
  have "delay \<le> delay * 2 ^ k" for k :: nat by simp
  then have b: "delay \<le> backoff delay n" "backoff delay n \<le> MAX_ERROR_RETRY" for n
    using assms by (auto simp: backoff_def)
  have one: "backoff delay (sat_inc 0) = delay"
    using assms by (simp add: backoff_def sat_inc_def)
  show ?thesis
  proof (cases "rc_pending rc r")
    case None
    then show ?thesis using one assms by (simp add: defer_at_def Let_def)
  next
    case (Some p)
    then show ?thesis
      using b[of "sat_inc (pe_errors p)"] assms by (auto simp: defer_at_def Let_def)
  qed
qed

theorem defer_spaced_and_bounded_witness:
  "\<exists>q. rc_pending (defer_at (ResourceId ''a'') ERROR_RETRY True 5 reconciler_default) (ResourceId ''a'') = Some q \<and>
     5 + ERROR_RETRY \<le> pe_ready_at q"
  using defer_spaced_and_bounded[of ERROR_RETRY "ResourceId ''a''" True 5 reconciler_default]
  by (auto simp: reconcile_consts)

section \<open>The rate of rebases\<close>

text \<open>The attempts admitted out of a series of calls, at the given times.\<close>

fun admissions :: "instant list \<Rightarrow> breaker_state \<Rightarrow> instant list" where
  "admissions [] b = []"
| "admissions (t # ts) b = (case breaker_step t b of
     (None, b') \<Rightarrow> t # admissions ts b' | (Some _, b') \<Rightarrow> admissions ts b')"

definition breaker_default :: breaker_state where
  "breaker_default = \<lparr> br_attempts = [], br_open_until = None \<rparr>"

text \<open>
  The invariant of a breaker after the attempts \<open>hist\<close>: whatever of them it has forgotten is at least
  a cooldown older than any later call.
\<close>

definition breaker_inv :: "instant list \<Rightarrow> instant \<Rightarrow> breaker_state \<Rightarrow> bool" where
  "breaker_inv hist now b \<longleftrightarrow> length (br_attempts b) \<le> BREAKER_THRESHOLD \<and>
     (case br_open_until b of
        None \<Rightarrow> (\<exists>k. br_attempts b = drop k hist \<and> (\<forall>t\<in>set (take k hist). t + BREAKER_COOLDOWN \<le> now))
      | Some u \<Rightarrow> br_attempts b = [] \<and> (\<forall>t\<in>set hist. t + BREAKER_COOLDOWN \<le> u))"

definition bounded_rate :: "instant list \<Rightarrow> bool" where
  "bounded_rate hist \<longleftrightarrow>
     (\<forall>a. length (filter (\<lambda>t. a \<le> t \<and> t < a + BREAKER_COOLDOWN) hist) \<le> BREAKER_THRESHOLD)"

lemma recent_drop: "\<exists>k. recent now xs = drop k xs \<and> (\<forall>t\<in>set (take k xs). t + BREAKER_WINDOW < now)"
proof -
  let ?P = "\<lambda>oldest. now - oldest > BREAKER_WINDOW"
  have "recent now xs = drop (length (takeWhile ?P xs)) xs"
    by (simp add: recent_def dropWhile_eq_drop)
  moreover have "take (length (takeWhile ?P xs)) xs = takeWhile ?P xs"
    by (rule takeWhile_eq_take[symmetric])
  ultimately show ?thesis by (metis (no_types, lifting) add.commute less_diff_conv set_takeWhileD)
qed

lemma admit_step:
  assumes hist: "attempts = drop k hist" "\<forall>t\<in>set (take k hist). t + BREAKER_COOLDOWN \<le> now"
    and le: "\<forall>t\<in>set hist. t \<le> now" and rate: "bounded_rate hist" and b: "breaker_admit now attempts = (verdict, b')"
  shows "case verdict of
      None \<Rightarrow> breaker_inv (hist @ [now]) now b' \<and> bounded_rate (hist @ [now])
    | Some _ \<Rightarrow> breaker_inv hist now b'"
proof -
  obtain j where j: "recent now attempts = drop j attempts"
    "\<forall>t\<in>set (take j attempts). t + BREAKER_WINDOW < now"
    using recent_drop by blast
  have "drop j attempts = drop (j + k) hist" using hist(1) by simp
  moreover have "take (j + k) hist = take k hist @ take j attempts"
    by (simp add: hist(1) take_add add.commute[of j])
  ultimately have rec: "recent now attempts = drop (j + k) hist"
    and old: "\<forall>t\<in>set (take (j + k) hist). t + BREAKER_COOLDOWN \<le> now"
    using j hist(2) by (auto simp: reconcile_consts dest!: bspec)
  show ?thesis
  proof (cases "length (recent now attempts) \<ge> BREAKER_THRESHOLD")
    case True
    with b le show ?thesis
      by (auto simp: breaker_admit_def Let_def breaker_inv_def)
  next
    case False
    let ?new = "recent now attempts @ [now]"
    have len: "length ?new \<le> BREAKER_THRESHOLD" using False by simp
    have split: "hist = take (j + k) hist @ recent now attempts" using rec by simp
    have "bounded_rate (hist @ [now])"
      unfolding bounded_rate_def
    proof
      fix a
      let ?W = "\<lambda>t. a \<le> t \<and> t < a + BREAKER_COOLDOWN"
      show "length (filter ?W (hist @ [now])) \<le> BREAKER_THRESHOLD"
      proof (cases "?W now")
        case True
        then have none: "filter ?W (take (j + k) hist) = []"
          using old by (fastforce simp: filter_empty_conv)
        have "filter ?W (hist @ [now]) = filter ?W ?new"
          by (subst split) (simp add: none)
        then show ?thesis using len length_filter_le[of ?W ?new] by simp
      next
        case False
        have "filter ?W [now] = []" by (simp only: filter.simps False if_False)
        then have "filter ?W (hist @ [now]) = filter ?W hist"
          by (simp only: filter_append append_Nil2)
        moreover have "length (filter ?W hist) \<le> BREAKER_THRESHOLD"
          using rate unfolding bounded_rate_def by blast
        ultimately show ?thesis by (simp only:)
      qed
    qed
    moreover have "breaker_inv (hist @ [now]) now b'"
    proof -
      have "drop (min (j + k) (length hist)) (hist @ [now]) = ?new"
        "set (take (min (j + k) (length hist)) (hist @ [now])) = set (take (j + k) hist)"
        using rec by (auto simp: min_def)
      then show ?thesis
        using b False len old by (auto simp: breaker_admit_def Let_def breaker_inv_def intro!: exI[of _ "min (j + k) (length hist)"])
    qed
    ultimately show ?thesis using b False by (auto simp: breaker_admit_def Let_def)
  qed
qed

lemma breaker_step_inv:
  assumes inv: "breaker_inv hist earlier b" and le: "earlier \<le> now" "\<forall>t\<in>set hist. t \<le> earlier"
    and rate: "bounded_rate hist" and b: "breaker_step now b = (verdict, b')"
  shows "case verdict of
      None \<Rightarrow> breaker_inv (hist @ [now]) now b' \<and> bounded_rate (hist @ [now])
    | Some _ \<Rightarrow> breaker_inv hist now b'"
proof (cases "br_open_until b")
  case None
  with inv obtain k where "br_attempts b = drop k hist" "\<forall>t\<in>set (take k hist). t + BREAKER_COOLDOWN \<le> earlier"
    by (auto simp: breaker_inv_def)
  with le rate b None show ?thesis
    by (intro admit_step[of "br_attempts b" k]) (auto simp: breaker_step_def)
next
  case (Some u)
  show ?thesis
  proof (cases "now < u")
    case True
    with Some inv b show ?thesis by (auto simp: breaker_step_def breaker_inv_def)
  next
    case False
    with Some inv b le rate show ?thesis
      by (intro admit_step[of "[]" "length hist"]) (auto simp: breaker_step_def breaker_inv_def)
  qed
qed

lemma admissions_rate:
  "breaker_inv hist earlier b \<Longrightarrow> \<forall>t\<in>set hist. t \<le> earlier \<Longrightarrow> bounded_rate hist \<Longrightarrow>
   sorted (earlier # ts) \<Longrightarrow> bounded_rate (hist @ admissions ts b)"
proof (induction ts arbitrary: hist earlier b)
  case Nil
  then show ?case by simp
next
  case (Cons now ts)
  obtain verdict b' where step: "breaker_step now b = (verdict, b')" by fastforce
  have le: "earlier \<le> now" "sorted (now # ts)" using Cons.prems(4) by auto
  note next_inv = breaker_step_inv[OF Cons.prems(1) le(1) Cons.prems(2,3) step]
  show ?case
  proof (cases verdict)
    case None
    have "\<forall>t\<in>set (hist @ [now]). t \<le> now" using Cons.prems(2) le(1) by auto
    with Cons.IH[of "hist @ [now]" now b'] next_inv le(2) step None show ?thesis by simp
  next
    case (Some d)
    have "\<forall>t\<in>set hist. t \<le> now" using Cons.prems(2) le(1) by auto
    with Cons.IH[of hist now b'] next_inv Cons.prems(3) le(2) step Some show ?thesis by simp
  qed
qed

text \<open>
  C16. The circuit breaker bounds the rate of rebases: however often and whenever it is asked, it
  admits at most six attempts on a resource within any two seconds.
\<close>

theorem breaker_bounds_rate:
  assumes "sorted ts"
  shows "length (filter (\<lambda>t. a \<le> t \<and> t < a + BREAKER_COOLDOWN) (admissions ts breaker_default))
     \<le> BREAKER_THRESHOLD"
proof -
  have "breaker_inv [] 0 breaker_default" by (simp add: breaker_inv_def breaker_default_def)
  from admissions_rate[OF this] assms have "bounded_rate (admissions ts breaker_default)"
    by (simp add: bounded_rate_def)
  then show ?thesis by (simp add: bounded_rate_def)
qed

theorem breaker_bounds_rate_witness:
  "length (filter (\<lambda>t. 0 \<le> t \<and> t < 0 + BREAKER_COOLDOWN) (admissions [0, 1, 1, 2, 3, 5, 8, 13] breaker_default))
     \<le> BREAKER_THRESHOLD"
  by (rule breaker_bounds_rate) simp

text \<open>Six attempts at one instant are all admitted: there is no spacing between them.\<close>

lemma breaker_admits_burst: "admissions [t, t, t, t, t, t] breaker_default = [t, t, t, t, t, t]"
  by (simp add: breaker_default_def breaker_step_def breaker_admit_def Let_def recent_def reconcile_consts)

text \<open>
  An open breaker closes again. A refusal names a time of at most two seconds, and the first
  call after that time is admitted.
\<close>

theorem breaker_recovers:
  assumes "breaker_step now b = (Some wait, b')" and "now + wait \<le> later"
  shows "(case br_open_until b of None \<Rightarrow> wait = BREAKER_COOLDOWN | Some u \<Rightarrow> 0 < wait \<and> wait = u - now \<and> b' = b) \<and>
     fst (breaker_step later b') = None"
  using assms
  by (auto simp: breaker_step_def breaker_admit_def Let_def recent_def reconcile_consts
      split: option.splits if_splits)

theorem breaker_recovers_witness:
  "fst (breaker_step (secs 3) \<lparr> br_attempts = [], br_open_until = Some (secs 3) \<rparr>) = None"
  using breaker_recovers[of "secs 2" "\<lparr> br_attempts = [], br_open_until = Some (secs 3) \<rparr>" "secs 1"
      "\<lparr> br_attempts = [], br_open_until = Some (secs 3) \<rparr>" "secs 3"]
  by (simp add: breaker_step_def secs_def)

end
