(* ===== verification/Reference_Env.thy ===== *)
theory Reference_Env
  imports Fake_Contract Update_Safety Locks Scheduler "HOL-Library.AList"
begin

text \<open>
  Environments of the engine on the in-memory backend. Any clock and source of identifiers that
  leave the simulated system alone, and any directory that keeps the promises of \<open>private_fs\<close>, make
  one (\<open>fake_transaction_env\<close>). A reference machine, an in-memory directory and a codec over a table
  of documents show that the assumptions can be met; the locales of the engine are interpreted on
  them.
\<close>

definition fake_env ::
  "string \<Rightarrow> conflict_policy \<Rightarrow> fake_backend \<Rightarrow> 'd pfs \<Rightarrow> libs \<Rightarrow> ('x fake_os_scheme, instant) tx \<Rightarrow>
   ('x fake_os_scheme, uuid) tx \<Rightarrow> ('x fake_os_scheme, 'd) env" where
  "fake_env owner policy F dir L now fresh =
     \<lparr> e_owner = owner, e_policy = policy, e_backend = fake F, e_pfs = dir, e_libs = L, e_now = now,
       e_new_v4 = fresh \<rparr>"

text \<open>A source of values that leaves the simulated system alone and does not fail.\<close>

definition source_ok :: "('x fake_os_scheme, 'a) tx \<Rightarrow> bool" where
  "source_ok m \<longleftrightarrow> (\<forall>s. wp m (\<lambda>res t. no_err res \<and> fo_inner t = fo_inner s) s)"

lemma fake_env_sel [simp]:
  "e_backend (fake_env owner policy F dir L now fresh) = fake F"
  "e_pfs (fake_env owner policy F dir L now fresh) = dir"
  "e_libs (fake_env owner policy F dir L now fresh) = L"
  "e_now (fake_env owner policy F dir L now fresh) = now"
  "e_new_v4 (fake_env owner policy F dir L now fresh) = fresh"
  "e_owner (fake_env owner policy F dir L now fresh) = owner"
  "e_policy (fake_env owner policy F dir L now fresh) = policy"
  by (simp_all add: fake_env_def)

lemma fake_sel [simp]:
  "bk_status (fake F) = fake_status"
  "bk_capture (fake F) = fake_capture"
  "bk_readback (fake F) = fake_readback"
  "bk_equivalent (fake F) = fake_equivalent"
  "bk_matches_desired (fake F) = fake_matches_desired"
  "bk_proves_current (fake F) = fake_proves_current"
  "bk_apply_bound (fake F) = apply_bound_default (fake_prims F)"
  "bk_restore_bound (fake F) = restore_bound_default (fake_prims F)"
  "bk_observe (fake F) = fake_observe"
  "bk_resolve (fake F) = fake_resolve F"
  "bk_kind (fake F) = Fake"
  "bk_caps (fake F) = fb_caps F"
  "bk_validate_plan (fake F) = validate_plan_default"
  by (simp_all add: fake_def with_default_bounds_def fake_prims_def)

lemma fake_equivalent_snap: "fake_equivalent (fake_snap r n) (fake_snap r n)"
  by (simp add: fake_equivalent_def fake_interpret_def fake_snapshot_data_def fake_snap_def snapshot_new_def)

lemma source_calm:
  assumes "source_ok m" "fake_calm ids s"
  shows "wp m (\<lambda>res t. no_err res \<and> fake_calm ids t \<and> fake_view t = fake_view s) s"
proof -
  have "wp m (\<lambda>res t. no_err res \<and> fo_inner t = fo_inner s) s" using assms(1) by (simp add: source_ok_def)
  then show ?thesis
    by (rule wp_mono) (use assms(2) in \<open>auto simp: fake_calm_def fake_view_def fun_eq_iff\<close>)
qed

lemma fake_managed_backend:
  assumes "source_ok now" "source_ok fresh"
  shows "managed_backend (fake_env owner policy F dir L now fresh) (fake_calm ids) fake_view fake_snap"
proof (unfold_locales, goal_cases)
  case (1 w i)
  show ?case by (simp, rule wp_mono[OF fake_status_spec[OF 1]]) (simp add: frame_ok_empty)
next
  case (2 w r)
  show ?case by (simp, rule wp_mono[OF fake_readback_spec[OF 2]]) (auto simp: frame_ok_empty fake_read_def when_ok_def split: outcome.splits)
next
  case (3 w r)
  show ?case by (simp, rule wp_mono[OF fake_capture_spec[OF 3]]) (auto simp: frame_ok_empty fake_read_def when_ok_def split: outcome.splits)
next
  case (4 w i expected plan)
  show ?case
    by (simp, rule wp_mono[OF fake_calm_prims.apply_bound_prim[OF 4]]) (simp add: attempt_ok_def frame_ok_def)
next
  case (5 w i expected target)
  show ?case
    by (simp, rule wp_mono[OF fake_calm_prims.restore_bound_prim[OF 5]]) (simp add: attempt_ok_def frame_ok_def)
next
  case (6 w)
  from source_calm[OF assms(1) 6] show ?case by simp
next
  case (7 w)
  from source_calm[OF assms(2) 7] show ?case by simp
next
  case (8 r n)
  show ?case by (simp add: fake_equivalent_snap)
qed

lemma fake_transaction_env:
  assumes "source_ok now" "source_ok fresh" "pfs_ok dir files"
  shows "transaction_env (fake_env owner policy F dir L now fresh) (fake_calm ids) fake_view fake_snap files"
  using fake_managed_backend[OF assms(1,2)] assms(3)
  by (simp add: transaction_env_def transaction_env_axioms_def)

lemma read_not_gone: "fake_read ids r s (Err e) t \<Longrightarrow> \<not> gone_error e"
  by (auto simp: fake_read_def is_injected_def gone_error_def not_present_def split: error.splits)

lemma fake_live_env:
  assumes "source_ok now" "source_ok fresh" "pfs_ok dir files"
    and "id_resource (jr_identity r) = jr_resource r" "jr_identity r \<in> ids"
  shows "live_env (fake_env owner policy F dir L now fresh) (fake_calm ids) fake_view fake_snap files r"
proof -
  have env: "transaction_env (fake_env owner policy F dir L now fresh) (fake_calm ids) fake_view fake_snap files"
    by (rule fake_transaction_env[OF assms(1-3)])
  show ?thesis
    unfolding live_env_def
  proof (intro conjI env, unfold live_env_axioms_def, intro conjI allI impI, goal_cases)
    case (1 w)
    show ?case by (simp, rule wp_mono[OF fake_status_spec[OF 1]]) (simp add: assms(5))
  next
    case (2 w)
    show ?case by (simp, rule wp_mono[OF fake_readback_spec[OF 2]]) (auto simp: read_not_gone)
  next
    case (3 w)
    show ?case by (simp, rule wp_mono[OF fake_capture_spec[OF 3]]) (auto simp: read_not_gone)
  next
    case 4
    show ?case by (rule assms(4))
  next
    case (5 w)
    then have "fake_view w (jr_resource r) \<noteq> None"
      using assms(4,5) by (auto simp: fake_calm_def fake_view_def Let_def)
    with 5 show ?case by (auto simp: manages_def)
  qed
qed

section \<open>A reference machine, directory and codec\<close>

text \<open>
  The machine adds a clock, a source of identifiers, the open descriptors of lock files (each with
  its file and whether it holds the lock) and, for each lock file, until when another process holds
  its lock.
\<close>

record machine = fake_os +
  ma_clock :: instant
  ma_draws :: uuid
  ma_fds :: "(fd \<times> string \<times> bool) list"
  ma_foreign :: "string \<Rightarrow> instant"

definition machine_now :: "(machine, instant) tx" where
  "machine_now s = (Ok (ma_clock s), s\<lparr>ma_clock := ma_clock s + 1\<rparr>)"

definition machine_uuid :: "(machine, uuid) tx" where
  "machine_uuid s = (Ok (ma_draws s), s\<lparr>ma_draws := ma_draws s + 1\<rparr>)"

lemma machine_sources: "source_ok machine_now" "source_ok machine_uuid"
  by (simp_all add: source_ok_def machine_now_def machine_uuid_def wp_def)

definition machine_initial :: machine where
  "machine_initial = fake_os.extend fake_os_initial
     \<lparr> ma_clock = 0, ma_draws = 1, ma_fds = [], ma_foreign = (\<lambda>_. 0) \<rparr>"

text \<open>The lock files of the machine.\<close>

definition fd_names :: "machine \<Rightarrow> fd \<Rightarrow> string option" where
  "fd_names w f = map_option fst (map_of (ma_fds w) f)"

definition fd_locked :: "machine \<Rightarrow> fd \<Rightarrow> string option" where
  "fd_locked w f = (case map_of (ma_fds w) f of Some (n, True) \<Rightarrow> Some n | _ \<Rightarrow> None)"

definition machine_open :: "string \<Rightarrow> machine \<Rightarrow> fd \<times> machine" where
  "machine_open n w = (let f = Suc (sum_list (map fst (ma_fds w))) in (f, w\<lparr>ma_fds := (f, n, False) # ma_fds w\<rparr>))"

definition machine_try_lock :: "fd \<Rightarrow> machine \<Rightarrow> lock_attempt \<times> machine" where
  "machine_try_lock f w = (case fd_names w f of
       None \<Rightarrow> (LockFailed OtherKind ''bad file descriptor'', w)
     | Some n \<Rightarrow>
         if ma_clock w < ma_foreign w n \<or> list_ex (\<lambda>(g, m, held). g \<noteq> f \<and> m = n \<and> held) (ma_fds w)
         then (LockWouldBlock, w)
         else (LockTaken, w\<lparr>ma_fds := AList.update f (n, True) (ma_fds w)\<rparr>))"

definition machine_locks :: "machine lock_os" where
  "machine_locks = \<lparr>
     lo_pfs = \<lparr>
       pf_ensure = (\<lambda>p w. (Inr 0, w)), pf_ensure_dir = (\<lambda>h n w. (Inr 0, w)),
       pf_write_atomic = (\<lambda>h n bs w. (Inl (PfsOther ''lock directory''), w)),
       pf_remove_file = (\<lambda>h n w. (Inl (PfsOther ''lock directory''), w)),
       pf_sync_all = (\<lambda>h w. (Inr (), w)), pf_entries = (\<lambda>h w. (Inr [], w)),
       pf_open_file = (\<lambda>h n w. (Inl (PfsOther ''lock directory''), w)) \<rparr>,
     lo_open = (\<lambda>h n w. case machine_open n w of (f, w') \<Rightarrow> (Inr f, w')),
     lo_clone = (\<lambda>f w. case fd_names w f of None \<Rightarrow> (Inl (OtherKind, ''bad file descriptor''), w)
        | Some n \<Rightarrow> (case machine_open n w of (g, w') \<Rightarrow> (Inr g, w'))),
     lo_try_lock = machine_try_lock,
     lo_close = (\<lambda>f w. w\<lparr>ma_fds := AList.delete f (ma_fds w)\<rparr>),
     lo_now = (\<lambda>w. (ma_clock w, w\<lparr>ma_clock := ma_clock w + 1\<rparr>)),
     lo_sleep = (\<lambda>d w. w\<lparr>ma_clock := ma_clock w + d\<rparr>) \<rparr>"

lemma fresh_fd: "map_of (fds :: (fd \<times> 'a) list) (Suc (sum_list (map fst fds))) = None"
proof -
  have "f \<le> sum_list (map fst fds)" if "(f, x) \<in> set fds" for f x
    using that by (induction fds) auto
  then show ?thesis by (fastforce simp: map_of_eq_None_iff)
qed

lemma machine_open_frame:
  assumes "machine_open n w = (f, w')"
  shows "fd_names w f = None" "fd_names w' = (fd_names w)(f \<mapsto> n)" "fd_locked w' = fd_locked w"
    "fo_inner w' = fo_inner w" "ma_clock w' = ma_clock w"
  using assms
  by (auto simp: machine_open_def Let_def fd_names_def fd_locked_def fun_eq_iff fresh_fd split: if_splits)

lemma machine_lock_system: "lock_system machine_locks fd_names fd_locked ma_clock (\<lambda>w. g (fo_inner w))"
proof (standard, goal_cases)
  case (1 w f)
  then show ?case by (auto simp: fd_names_def fd_locked_def split: option.splits prod.splits bool.splits)
next
  case (2 m p h n w)
  then show ?case by (auto simp: machine_locks_def)
next
  case (3 h n w opened w')
  then show ?case
    by (auto simp: machine_locks_def dest: machine_open_frame split: prod.splits)
next
  case (4 f w cloned w')
  then show ?case
    by (auto simp: machine_locks_def dest: machine_open_frame split: prod.splits option.splits)
next
  case (5 f w attempt w')
  then show ?case
    by (auto simp: machine_locks_def machine_try_lock_def fd_names_def fd_locked_def fun_eq_iff update_conv'
        split: option.splits if_splits)
next
  case (6 f w)
  then show ?case by (auto simp: machine_locks_def fd_names_def fd_locked_def fun_eq_iff delete_conv')
next
  case (7 w t w')
  then show ?case by (auto simp: machine_locks_def fd_names_def fd_locked_def)
next
  case (8 d w)
  then show ?case by (auto simp: machine_locks_def fd_names_def fd_locked_def)
qed

interpretation reference_locks: lock_system machine_locks fd_names fd_locked ma_clock "\<lambda>w. g (fo_inner w)"
  for g :: "fake_inner \<Rightarrow> 'r"
  by (rule machine_lock_system)

text \<open>A directory held in memory: its files in the order they were created.\<close>

type_synonym mem_dir = "(string \<times> bytes) list"

definition mem_pfs :: "mem_dir pfs" where
  "mem_pfs = \<lparr>
     pf_ensure = (\<lambda>p d. (Inr 0, d)),
     pf_ensure_dir = (\<lambda>h n d. (Inr 0, d)),
     pf_write_atomic = (\<lambda>h n bs d. (Inr (), AList.update n bs d)),
     pf_remove_file = (\<lambda>h n d. if map_of d n = None then (Inl (PfsIo NotFound ''no such file''), d)
        else (Inr (), AList.delete n d)),
     pf_sync_all = (\<lambda>h d. (Inr (), d)),
     pf_entries = (\<lambda>h d. (Inr (remdups (map fst d)), d)),
     pf_open_file = (\<lambda>h n d. case map_of d n of None \<Rightarrow> (Inl (PfsIo NotFound ''no such file''), d)
        | Some bs \<Rightarrow> (Inr (Inr bs), d)) \<rparr>"

definition mem_files :: "handle \<Rightarrow> mem_dir \<Rightarrow> string \<Rightarrow> bytes option" where
  "mem_files h d = map_of d"

lemma mem_pfs_ok: "pfs_ok mem_pfs mem_files"
  by (auto simp: pfs_ok_def mem_pfs_def mem_files_def update_conv' delete_conv' dom_map_of_conv_image_fst
      fun_upd_idem split: option.splits)

text \<open>
  A codec for the documents of a table: a document is written as its place in the table, a payload
  of the in-memory backend as its place among the payloads, an identifier in decimal.
\<close>

definition place :: "'a list \<Rightarrow> 'a \<Rightarrow> json option" where
  "place xs x = map_option (\<lambda>n. JNumber (int n)) (position ((=) x) xs)"

definition at_place :: "'a list \<Rightarrow> json \<Rightarrow> 'a option" where
  "at_place xs j = (case j of JNumber i \<Rightarrow> if 0 \<le> i \<and> nat i < length xs then Some (xs ! nat i) else None | _ \<Rightarrow> None)"

lemma at_place: "place xs x = Some j \<Longrightarrow> at_place xs j = Some x"
  by (auto simp: place_def at_place_def dest!: position_Some)

definition table_libs :: "idna \<Rightarrow> fake_snapshot list \<Rightarrow> fake_identity list \<Rightarrow> record_v4 list \<Rightarrow> libs" where
  "table_libs idna snaps ids docs = \<lparr>
     lib_idna = idna,
     lib_uuid_simple = (\<lambda>u. decimal (unat u)),
     lib_uuid_v5_url = (\<lambda>s. of_nat (length s)),
     to_fake = place snaps, to_resolved = (\<lambda>_. None), to_nm = (\<lambda>_. None), to_resolvconf = (\<lambda>_. None),
     to_direct = (\<lambda>_. None), to_fake_id = place ids, to_resolved_id = (\<lambda>_. None), to_nm_id = (\<lambda>_. None),
     from_fake = at_place snaps, from_resolved = (\<lambda>_. None), from_nm = (\<lambda>_. None),
     from_resolvconf = (\<lambda>_. None), from_direct = (\<lambda>_. None), from_fake_id = at_place ids,
     from_resolved_id = (\<lambda>_. None), from_nm_id = (\<lambda>_. None),
     record_to_vec = (\<lambda>v. map_option (\<lambda>n. replicate n 0) (position ((=) v) docs)),
     envelope_from_slice = (\<lambda>bs. if length bs < length docs then Some (rv_schema_version (docs ! length bs)) else None),
     record_from_slice = (\<lambda>bs. if length bs < length docs then Some (docs ! length bs) else None) \<rparr>"

lemma table_serde_ok: "serde_ok (table_libs idna snaps ids docs)"
  by (auto simp: serde_ok_def table_libs_def at_place dest!: position_Some)

section \<open>Interpretations\<close>

definition reference_env ::
  "conflict_policy \<Rightarrow> fake_backend \<Rightarrow> libs \<Rightarrow> (machine, mem_dir) env" where
  "reference_env policy F L = fake_env ''io.example.agent'' policy F mem_pfs L machine_now machine_uuid"

text \<open>The record of a lease on an incarnation of a resource of the in-memory backend.\<close>

definition fake_record ::
  "conflict_policy \<Rightarrow> fake_backend \<Rightarrow> libs \<Rightarrow> lease_id \<Rightarrow> bool \<Rightarrow> normalized_config \<Rightarrow> resource_id \<Rightarrow>
   platform_snapshot \<Rightarrow> fake_identity \<Rightarrow> journal_record" where
  "fake_record policy F L lease noop plan r prior i =
     new_record (reference_env policy F L) lease noop plan (r, prior, identity_new Fake r (IdFake i))"

lemma fake_record_sel [simp]:
  "jr_resource (fake_record policy F L lease noop plan r prior i) = r"
  "jr_identity (fake_record policy F L lease noop plan r prior i) = identity_new Fake r (IdFake i)"
  by (simp_all add: fake_record_def new_record_def)

interpretation reference: transaction_env "reference_env policy F L" "fake_calm ids" fake_view fake_snap mem_files
  for policy :: conflict_policy and F :: fake_backend and L :: libs and ids :: "resource_identity set"
  unfolding reference_env_def by (rule fake_transaction_env[OF machine_sources mem_pfs_ok])

interpretation reference_live: live_env "reference_env policy F L"
    "fake_calm {jr_identity (fake_record policy F L lease noop plan r prior i)}" fake_view fake_snap mem_files
    "fake_record policy F L lease noop plan r prior i"
  for policy :: conflict_policy and F :: fake_backend and L :: libs and lease :: lease_id and noop :: bool
    and plan :: normalized_config and r :: resource_id and prior :: platform_snapshot and i :: fake_identity
  unfolding reference_env_def
  by (rule fake_live_env[OF machine_sources mem_pfs_ok]) (simp_all add: identity_new_def)

end
