(* ===== verification/Guarantees.thy ===== *)
theory Guarantees
  imports Reference_Env
begin

text \<open>
  What the engine guarantees over any backend and any directory that keep their contracts, with the
  in-memory backend on the reference machine as the instance at which each guarantee is applied.
\<close>

section \<open>A scenario\<close>

text \<open>The reference machine with one global resource, an open journal and a plan for it.\<close>

definition demo_config :: normalized_config where
  "demo_config = \<lparr> nc_nameservers = [V4 127 0 0 1], nc_search = [], nc_routing = [], nc_default_route = None \<rparr>"

definition demo_state :: fake_state where
  "demo_state = FakeConfigured [V4 127 0 0 1] [] [] None"

definition demo_libs :: libs where
  "demo_libs = table_libs (\<lambda>s. Some s)
     [\<lparr> fs_state = FakeEmpty, fs_generation = 0 \<rparr>, \<lparr> fs_state = demo_state, fs_generation = 1 \<rparr>]
     [\<lparr> fi_incarnation = 0 \<rparr>]
     (map (\<lambda>(ph, a). \<lparr> rv_schema_version = SCHEMA_VERSION, rv_owner = ''io.example.agent'', rv_lease = 1,
            rv_resource = global_id, rv_backend = Fake,
            rv_identity = \<lparr> sv_backend = Fake, sv_resource = global_id, sv_data = JNumber 0 \<rparr>,
            rv_phase = ph, rv_before = \<lparr> sv_backend = Fake, sv_resource = global_id, sv_data = JNumber 0 \<rparr>,
            rv_desired = demo_config, rv_applied = a \<rparr>)
       [(Prepared, None),
        (Applied, Some \<lparr> sv_backend = Fake, sv_resource = global_id, sv_data = JNumber 1 \<rparr>)])"

definition demo_env :: "(machine, mem_dir) env" where
  "demo_env = reference_env Cooperative (fake_new ''demo'') demo_libs"

definition demo_world :: "(machine, mem_dir) world" where
  "demo_world = \<lparr> w_os = machine_initial,
     w_journal = (journal_new (Path True [''var'', ''lib'', ''osdns'', ''journal'']) [])\<lparr>js_handle := Some 0\<rparr>,
     w_hook = None, w_suppressions = Map.empty \<rparr>"

abbreviation demo_before :: platform_snapshot where
  "demo_before \<equiv> fake_snap global_id (FakeEmpty, 0)"

abbreviation demo_identity :: resource_identity where
  "demo_identity \<equiv> identity_new Fake global_id (IdFake \<lparr> fi_incarnation = 0 \<rparr>)"

lemma demo_env: "transaction_env demo_env (fake_calm ids) fake_view fake_snap mem_files"
  unfolding demo_env_def by (rule reference.transaction_env_axioms)

lemma demo_calm: "fake_calm {} (w_os demo_world)" "fake_calm {demo_identity} (w_os demo_world)"
  by (simp_all add: demo_world_def machine_initial_def fake_os.defs fake_os_initial_def fake_inner_initial_def
      fake_calm_def Let_def inc_of_def identity_new_def)

lemma demo_open: "is_open (w_journal demo_world)"
  by (simp add: demo_world_def is_open_def)

lemma demo_captured:
  "captured demo_env fake_view fake_snap (w_os demo_world) [global_id] [demo_before] [demo_identity]"
  by (simp add: captured_def demo_world_def machine_initial_def fake_os.defs fake_os_initial_def
      fake_inner_initial_def fake_view_def gen_of_def identity_new_def)

text \<open>The equations by which the scenario runs.\<close>

lemma demo_sel: "e_owner demo_env = ''io.example.agent''" "e_backend demo_env = fake (fake_new ''demo'')" "e_pfs demo_env = mem_pfs"
  "e_libs demo_env = demo_libs" "e_now demo_env = machine_now" "e_new_v4 demo_env = machine_uuid"
  by (simp_all add: demo_env_def reference_env_def)
lemma fake_new_sel: "mutation_guard_of (fake_prims (fake_new n)) = CompareAndMutate" "ownership_identity_of (fake (fake_new n)) = Durable"
  by (simp_all add: mutation_guard_of_def ownership_identity_of_def fake_prims_def fake_def with_default_bounds_def fake_new_def fake_with_capabilities_def fake_build_def fake_caps_def
   with_mutation_guard_def with_ownership_identity_def with_resource_binding_def)
lemma prims_sel: "bk_status (fake_prims F) = fake_status" "bk_readback (fake_prims F) = fake_readback" "bk_apply_guarded (fake_prims F) = fake_apply_guarded"
  "bk_restore_guarded (fake_prims F) = fake_restore_guarded" "bk_kind (fake_prims F) = Fake"
  by (simp_all add: fake_prims_def)
lemmas run_tx = return_tx_def throw_def bind_tx_def seq_tx_def match_tx_def try_tx_def lift_result_def get_tx_def put_tx_def modify_tx_def gets_tx_def focus_tx_def inner_tx_def get_mut_def put_mut_def modify_mut_def run_mut_def Let_def
lemmas run_world = fire_opt_def os_def jn_def jwrite_def jremove_def kind_of_def suppress_def fire_def
lemmas run_demo = demo_sel fake_new_sel prims_sel demo_world_def machine_initial_def fake_os.defs fake_os_initial_def fake_inner_initial_def machine_uuid_def machine_now_def
  demo_config_def demo_state_def
lemmas run_journal = journal_write_def journal_new_def directory_def on_fs_def pfs_call_def mem_pfs_def injected_write_failure_def journal_bytes_def encode_record_def encode_identity_def encode_platform_snapshot_def encode_snapshot_def demo_libs_def table_libs_def place_def identity_new_def MAX_RECORD_BYTES_def SCHEMA_VERSION_def
 record_file_name_def stable_hash_def
lemmas run_fake = fake_matches_desired_def fake_interpret_def fake_snapshot_data_def fake_snap_def snapshot_new_def state_matches_def
  fake_status_def check_failure_def on_inner_def apply_bound_default_def 
  fake_apply_guarded_def attempt_of_def swap_state_def take_adversary_def gen_of_def inc_of_def store_state_def merge_state_def bump_def snapshot_from_def take_partial_def notify_changed_def notify_def fake_readback_def snapshot_of_def
lemmas run_engine = new_record_def persist_unmutated_def mutate_and_verify_def verify_mutation_def check_incarnation_def conclude_mutation_def INITIAL_POINTS_def fake_proves_current_def
  commit_verified_def resolve_live_def repair_live_def resolve_state_def resolve_verified_def owns_current_def persist_def suppression_record_def

section \<open>Applying a configuration\<close>

text \<open>What holds of the records of a transaction at every point, and after every crash.\<close>

definition settled_or_recorded ::
  "('w, 'd) env \<Rightarrow> ('w \<Rightarrow> resource_id \<Rightarrow> 'n option) \<Rightarrow> (resource_id \<Rightarrow> 'n \<Rightarrow> platform_snapshot) \<Rightarrow>
   (handle \<Rightarrow> 'd \<Rightarrow> string \<Rightarrow> bytes option) \<Rightarrow> journal_record set \<Rightarrow> ('w, 'd) world \<Rightarrow> bool" where
  "settled_or_recorded E view snap files rs t \<longleftrightarrow>
     (\<forall>r\<in>rs. holds_state E view snap (w_os t) (jr_resource r) (jr_before r) \<or>
        recorded E (store_files files (w_journal t)) r)"

definition untouched_but ::
  "('w, 'd) env \<Rightarrow> ('w \<Rightarrow> resource_id \<Rightarrow> 'n option) \<Rightarrow> (handle \<Rightarrow> 'd \<Rightarrow> string \<Rightarrow> bytes option) \<Rightarrow>
   journal_record set \<Rightarrow> ('w, 'd) world \<Rightarrow> ('w, 'd) world \<Rightarrow> bool" where
  "untouched_but E view files rs s t \<longleftrightarrow>
     (\<forall>r. r \<notin> jr_resource ` rs \<longrightarrow> view (w_os t) r = view (w_os s) r) \<and>
     (\<forall>n. n \<notin> file_of E ` rs \<longrightarrow> store_files files (w_journal t) n = store_files files (w_journal s) n)"

lemma tx_inv_guarantee:
  "tx_inv E calm view snap files s plan rs A H D t \<Longrightarrow>
   settled_or_recorded E view snap files rs t \<and> untouched_but E view files rs s t"
  by (simp add: tx_inv_def settled_or_recorded_def untouched_but_def)

text \<open>
  C1. Applying is crash safe. Start the transaction on distinct resources just observed, with the
  journal open, on any backend and directory that keep their contracts, with any faults injected.
  Whatever the outcome, success, error or a crash at any point in between, every resource of the
  transaction is as it was captured or has its record, with that captured state, on disk; no other
  resource and no other file has changed. So a process that dies leaves nothing behind that the
  journal does not know how to undo.
\<close>

theorem apply_crash_safe:
  assumes "transaction_env E calm view snap files"
    and "captured E view snap (w_os s) resources befores identities"
    and "calm (w_os s)" and "is_open (w_journal s)"
    and "transact_with_locks E resources plan befores identities s = (res, t)"
  shows "\<exists>lease. let rs = set (new_records E lease plan resources befores identities) in
     settled_or_recorded E view snap files rs t \<and> untouched_but E view files rs s t"
proof -
  note spec = wp_run[OF transaction_env.transact_spec[OF assms(1-4), of plan] assms(5)]
  then obtain lease where "tx_inv E calm view snap files s plan
      (set (new_records E lease plan resources befores identities)) {} {} {} t"
    by (auto simp: Let_def)
  from tx_inv_guarantee[OF this] show ?thesis by (auto simp: Let_def)
qed

theorem apply_crash_safe_witness:
  "\<exists>res t lease. transact_with_locks demo_env [global_id] demo_config [demo_before] [demo_identity] demo_world = (res, t) \<and>
     (let rs = set (new_records demo_env lease demo_config [global_id] [demo_before] [demo_identity]) in
      settled_or_recorded demo_env fake_view fake_snap mem_files rs t \<and>
      untouched_but demo_env fake_view mem_files rs demo_world t)"
proof -
  obtain res t where run: "transact_with_locks demo_env [global_id] demo_config [demo_before] [demo_identity] demo_world = (res, t)"
    by (cases "transact_with_locks demo_env [global_id] demo_config [demo_before] [demo_identity] demo_world")
  from apply_crash_safe[OF demo_env demo_captured demo_calm(1) demo_open run] run show ?thesis by blast
qed

text \<open>
  C2. Applying establishes what it was asked for. When the transaction returns a lease, then on every
  resource the configuration is in effect, as the backend itself compares it; the lease holds one
  live record per resource, in order, each with the owner, incarnation and captured state of its
  resource under the new lease; and every one of these claims is on disk.
\<close>

theorem apply_establishes:
  assumes "transaction_env E calm view snap files"
    and "captured E view snap (w_os s) resources befores identities"
    and "calm (w_os s)" and "is_open (w_journal s)"
    and "transact_with_locks E resources plan befores identities s = (Ok pl, t)"
  shows "list_all (in_effect E view snap (w_os t) plan) resources \<and>
     list_all2 (\<lambda>r l. same_claim r (lr_record l)) (new_records E (pl_lease pl) plan resources befores identities)
       (pl_records pl) \<and>
     list_all (recorded E (store_files files (w_journal t)))
       (new_records E (pl_lease pl) plan resources befores identities)"
proof -
  note spec = wp_run[OF transaction_env.transact_spec[OF assms(1-4), of plan] assms(5)]
  let ?rs = "new_records E (pl_lease pl) plan resources befores identities"
  from spec have inv: "tx_inv E calm view snap files s plan (set ?rs) (set ?rs) {} (set ?rs) t"
    and l: "list_all2 (\<lambda>r l. same_claim r (lr_record l)) ?rs (pl_records pl)"
    by (auto simp: Let_def)
  have "map jr_resource ?rs = resources" by (rule captured_records(1)[OF assms(2)])
  then have "list_all (in_effect E view snap (w_os t) plan) (map jr_resource ?rs) =
      list_all (in_effect E view snap (w_os t) plan) resources" by simp
  with inv l show ?thesis by (auto simp: tx_inv_def list_all_iff)
qed

theorem apply_establishes_witness:
  "\<exists>pl t. transact_with_locks demo_env [global_id] demo_config [demo_before] [demo_identity] demo_world = (Ok pl, t) \<and>
     list_all (in_effect demo_env fake_view fake_snap (w_os t) demo_config) [global_id] \<and>
     list_all (recorded demo_env (store_files mem_files (w_journal t)))
       (new_records demo_env (pl_lease pl) demo_config [global_id] [demo_before] [demo_identity])"
proof -
  have "\<exists>pl t. transact_with_locks demo_env [global_id] demo_config [demo_before] [demo_identity] demo_world = (Ok pl, t)"
    unfolding transact_with_locks_def
    by (simp add: run_tx run_world run_demo run_journal run_fake run_engine)
  then obtain pl t where run: "transact_with_locks demo_env [global_id] demo_config [demo_before] [demo_identity] demo_world = (Ok pl, t)"
    by blast
  from apply_establishes[OF demo_env demo_captured demo_calm(1) demo_open run] run show ?thesis by blast
qed

text \<open>
  C8. One mutation is verified or accounted for. \<open>mutate_and_verify\<close> changes no resource but the
  one it was given and no file, and it never fails with a bare error: it returns a verified mutation,
  whose observation is the current native state and matches the plan, or a failure whose residue is
  truthful: \<open>Unchanged\<close> only when nothing changed, \<open>Restored\<close> only when the resource is back at the
  state it is to be rolled back to, and otherwise \<open>Pending\<close> with that very state as the target.
\<close>

theorem mutation_accounted_for:
  assumes "managed_backend E calm view snap" and "calm (w_os s)" and "manages calm view (id_resource i)"
    and "mutate_and_verify E i target plan points s = (res, t)"
  shows "(\<forall>r. r \<noteq> id_resource i \<longrightarrow> view (w_os t) r = view (w_os s) r) \<and> w_journal t = w_journal s \<and>
     (case res of
        Ok (Inr m) \<Rightarrow> verified_ok E view snap plan (w_os t) (id_resource i) m
      | Ok (Inl f) \<Rightarrow> residue_ok E view snap (w_os s) (w_os t) (id_resource i) target (mf_residue f)
      | Err _ \<Rightarrow> False
      | Crash \<Rightarrow> True)"
proof -
  have "os_only calm view {id_resource i} s s" using assms(2,3) by (simp add: os_only_def)
  from wp_run[OF managed_backend.mutate_spec[OF assms(1) this] assms(4)]
  have "mutate_post E calm view snap {id_resource i} plan target i s (w_os s) res t" by simp
  then show ?thesis
    by (auto simp: mutate_post_def os_only_def split: outcome.splits sum.splits)
qed

theorem mutation_accounted_for_witness:
  "\<exists>m t. mutate_and_verify demo_env demo_identity demo_before demo_config INITIAL_POINTS demo_world = (Ok (Inr m), t) \<and>
     verified_ok demo_env fake_view fake_snap demo_config (w_os t) global_id m"
proof -
  have "\<exists>m t. mutate_and_verify demo_env demo_identity demo_before demo_config INITIAL_POINTS demo_world = (Ok (Inr m), t)"
    by (simp add: run_tx run_world run_demo run_journal run_fake run_engine)
  then obtain m t where run: "mutate_and_verify demo_env demo_identity demo_before demo_config INITIAL_POINTS demo_world = (Ok (Inr m), t)"
    by blast
  obtain n where "fake_view (w_os demo_world) global_id = Some n"
    using demo_captured by (auto simp: captured_def)
  then have "manages (fake_calm {} :: machine \<Rightarrow> bool) fake_view (id_resource demo_identity)"
    using managesI[of "fake_calm {}" "w_os demo_world" fake_view global_id n] demo_calm(1)
    by (simp add: identity_new_def)
  from mutation_accounted_for[OF transaction_env.axioms(1)[OF demo_env] demo_calm(1) this run] run
  show ?thesis by (auto simp: identity_new_def)
qed

text \<open>
  C9. A rollback never overwrites a state that is not provably ours. When the current state of the
  resource is not the target already, and either there is no evidence or the evidence does not own
  the current state, \<open>compensate\<close> fails (or crashes), with the native state of every resource and
  the journal as they were.
\<close>

theorem rollback_refuses_foreign:
  assumes "managed_backend E calm view snap" and "calm (w_os s)"
    and "view (w_os s) (id_resource i) = Some n"
    and "\<not> bk_equivalent (e_backend E) (snap (id_resource i) n) (pr_target p)"
    and "\<not> (case pr_evidence p of None \<Rightarrow> False
            | Some pf \<Rightarrow> owns_current (e_backend E) pf (snap (id_resource i) n))"
    and "compensate E i point (p, s) = (res, (p', t))"
  shows "\<not> succeeded res \<and> view (w_os t) = view (w_os s) \<and> w_journal t = w_journal s \<and> p' = p"
proof -
  note status = managed_backend.status_only[OF assms(1)]
  note read = managed_backend.readback_only[OF assms(1) _ managesI[of calm "w_os s" view "id_resource i" n, OF assms(2,3)]]
  let ?Q = "\<lambda>res (p', t). \<not> succeeded res \<and> os_only calm view {} s t \<and> p' = p"
  have "wp (compensate E i point) ?Q (p, s)"
    unfolding compensate_def Let_def
  proof (rule wp_bind_innerI[OF status[OF assms(2)]], goal_cases)
    case (1 st u)
    then have u: "calm (w_os u)" by (simp add: os_only_def)
    have "wp (bind_tx (inner_tx (os (bk_readback (e_backend E) (id_resource i)))) f) ?Q (p, u)"
      if "\<And>v. os_only calm view {} s v \<Longrightarrow> wp (f (snap (id_resource i) n)) ?Q (p, v)" for f
    proof (rule wp_bind_innerI[OF read[OF u]], goal_cases)
      case (1 c v)
      with \<open>os_only calm view {} s u\<close> have v: "os_only calm view {} s v"
        by (auto intro: os_only_trans)
      with 1 assms(3) have "c = snap (id_resource i) n" by (auto simp: os_only_def)
      with that[OF v] show ?case by simp
    qed (use \<open>os_only calm view {} s u\<close> in \<open>auto intro: os_only_trans\<close>)
    note after_read = this
    show ?case
    proof (cases "st = Same")
      case False
      with 1 show ?thesis by simp
    next
      case True
      show ?thesis
        by (simp only: True simp_thms if_False, rule after_read)
           (use assms(4,5) in \<open>auto split: option.splits\<close>)
    qed
  qed auto
  from wp_run[OF this assms(6)] show ?thesis by (auto simp: os_only_def)
qed

text \<open>The scenario once the lease is held: the configuration is in effect, its record on disk.\<close>

definition demo_record :: journal_record where
  "demo_record = fake_record Cooperative (fake_new ''demo'') demo_libs 1 False demo_config global_id
     demo_before \<lparr> fi_incarnation = 0 \<rparr>"

definition demo_applied :: journal_record where
  "demo_applied = demo_record\<lparr>jr_phase := Applied, jr_applied := Some (fake_snap global_id (demo_state, 1))\<rparr>"

definition demo_live :: live_record where
  "demo_live = \<lparr> lr_record = demo_applied, lr_state = Committed \<rparr>"

text \<open>The world of the lease, with the global resource in state \<open>st\<close> of generation \<open>g\<close>.\<close>

definition demo_held :: "fake_state \<Rightarrow> u64 \<Rightarrow> (machine, mem_dir) world" where
  "demo_held st g =
     (let i = fo_inner machine_initial in
      demo_world\<lparr>w_os := machine_initial\<lparr>fo_inner := i\<lparr>fk_states := (fk_states i)(global_id \<mapsto> st),
                      fk_generations := (fk_generations i)(global_id \<mapsto> g)\<rparr>\<rparr>,
                w_journal := (w_journal demo_world)\<lparr>js_fs := [(file_of demo_env demo_record, [0])]\<rparr>\<rparr>)"

lemmas run_records = demo_record_def demo_applied_def demo_live_def fake_record_def new_record_def kind_of_def
  reference_env_def identity_new_def

lemma demo_identity_of: "jr_identity demo_record = demo_identity" "jr_resource demo_record = global_id"
  by (simp_all add: demo_record_def)

lemma demo_live_env: "live_env demo_env (fake_calm {demo_identity}) fake_view fake_snap mem_files demo_record"
  using reference_live.live_env_axioms
    [of Cooperative "fake_new ''demo''" demo_libs 1 False demo_config global_id demo_before "\<lparr> fi_incarnation = 0 \<rparr>"]
  unfolding demo_env_def demo_record_def fake_record_sel .

lemma demo_held_calm: "fake_calm {demo_identity} (w_os (demo_held st g))"
  by (simp add: demo_held_def Let_def demo_world_def machine_initial_def fake_os.defs fake_os_initial_def
      fake_inner_initial_def fake_calm_def inc_of_def identity_new_def)

lemma demo_held_open: "is_open (w_journal (demo_held st g))"
  by (simp add: demo_held_def Let_def demo_world_def is_open_def)

lemma demo_held_view: "fake_view (w_os (demo_held st g)) global_id = Some (st, g)"
  by (simp add: demo_held_def Let_def demo_world_def fake_view_def gen_of_def)

lemma demo_held_recorded: "recorded demo_env (store_files mem_files (w_journal (demo_held st g))) demo_record"
proof -
  have "journal_bytes demo_libs demo_applied = Inr [0]"
    by (simp add: run_records run_journal run_demo fake_snap_def snapshot_new_def)
  moreover have "same_claim demo_record demo_applied" by (simp add: demo_applied_def)
  ultimately show ?thesis
    by (auto simp: recorded_def demo_held_def Let_def demo_world_def store_files_def journal_new_def mem_files_def demo_sel)
qed

lemma demo_live_ok: "live_ok demo_record demo_live"
  by (simp add: live_ok_def demo_live_def demo_applied_def)

section \<open>Restoring\<close>

lemma start_inv:
  "calm (w_os s) \<Longrightarrow> is_open (w_journal s) \<Longrightarrow> list_all (recorded E (store_files files (w_journal s))) rs \<Longrightarrow>
   list_all (\<lambda>r. manages calm view (jr_resource r)) rs \<Longrightarrow>
   tx_inv E calm view snap files s plan (set rs) (set rs) {} {} s"
  by (simp add: tx_inv_def list_all_iff)

text \<open>
  C4. Restoring is crash safe and does what it says. Let the record of a lease be on disk and its
  native object be the leased incarnation still. Whatever the state of the live record, pending
  compensation and unfinished publication included, and whatever faults are injected, after
  \<open>restore_live_state\<close> the resource is as it was captured or its record is on disk, and nothing else
  has changed; if it returned \<open>Ok\<close>, the resource is as captured and its record is gone.
\<close>

theorem restore_safe:
  assumes "live_env E calm view snap files r" and "live_ok r l"
    and "calm (w_os s)" and "is_open (w_journal s)"
    and "recorded E (store_files files (w_journal s)) r"
    and "restore_live_state E (l, s) = (res, (l', t))"
  shows "settled_or_recorded E view snap files {r} t \<and> untouched_but E view files {r} s t \<and> live_ok r l' \<and>
     when_ok res (\<lambda>_. cleared E view snap files r t)"
proof -
  have "live_inv E calm view snap files s normalized_default {r} r (l, s)"
    using start_inv[where calm = calm and E = E and files = files and rs = "[r]" and s = s] assms(2-5) live_env.managed_resource[OF assms(1,3)]
    by (simp add: live_inv_def)
  from wp_run[OF live_env.restore_spec[OF assms(1) this] assms(6)]
  have "end_inv E calm view snap files s r t \<and> live_ok r l' \<and> when_ok res (\<lambda>_. cleared E view snap files r t)"
    by simp
  with tx_inv_guarantee show ?thesis unfolding end_inv_def by blast
qed

theorem restore_safe_witness:
  "\<exists>l' t. restore_live_state demo_env (demo_live, demo_held demo_state 1) = (Ok (), (l', t)) \<and>
     cleared demo_env fake_view fake_snap mem_files demo_record t"
proof -
  have "\<exists>l' t. restore_live_state demo_env (demo_live, demo_held demo_state 1) = (Ok (), (l', t))"
    by (simp add: restore_live_state_def restore_owned_def live_applied_def compensate_def confirm_compensation_def
        finish_restore_def demo_held_def fake_equivalent_def restore_bound_default_def fake_restore_guarded_def
        file_of_def remove_file_def journal_remove_def run_records run_tx run_world run_demo run_journal run_fake run_engine)
  then obtain l' t where run: "restore_live_state demo_env (demo_live, demo_held demo_state 1) = (Ok (), (l', t))"
    by blast
  from restore_safe[OF demo_live_env demo_live_ok demo_held_calm demo_held_open demo_held_recorded run] run
  show ?thesis by auto
qed

text \<open>
  C6. Restoring never overwrites what someone else wrote. When the lease's record is settled
  (\<open>Committed\<close>) but the current state of the resource is neither equivalent to the captured one nor
  owned by the state the lease applied, \<open>restore_live_state\<close> does not succeed, and it leaves the
  native state of every resource, the journal and the live record exactly as they were.
\<close>

theorem restore_refuses_foreign:
  assumes "live_env E calm view snap files r" and "live_ok r l" and "lr_state l = Committed"
    and "calm (w_os s)" and "view (w_os s) (jr_resource r) = Some n"
    and "\<not> bk_equivalent (e_backend E) (snap (jr_resource r) n) (jr_before r)"
    and "\<not> (case live_applied l of None \<Rightarrow> False
            | Some a \<Rightarrow> owns_current (e_backend E) a (snap (jr_resource r) n))"
    and "restore_live_state E (l, s) = (res, (l', t))"
  shows "\<not> succeeded res \<and> view (w_os t) = view (w_os s) \<and> w_journal t = w_journal s \<and> l' = l"
proof -
  let ?Q = "\<lambda>res (l', t). \<not> succeeded res \<and> os_only calm view {} s t \<and> l' = l"
  have key: "jr_identity (lr_record l) = jr_identity r" "jr_resource (lr_record l) = jr_resource r"
    "jr_before (lr_record l) = jr_before r"
    using assms(2) by (simp_all add: live_ok_def same_claim_def)
  have env: "managed_backend E calm view snap"
    using assms(1) by (simp add: live_env_def transaction_env_def)
  note status = wp_conj[OF managed_backend.status_only[OF env] live_env.status_os[OF assms(1)]]
  note read = wp_conj[OF managed_backend.readback_only[OF env _ live_env.managed_resource[OF assms(1)]]
      live_env.readback_os[OF assms(1)]]
  have refuse: "wp (restore_owned E (snap (jr_resource r) n)) ?Q (l, v)" if "os_only calm view {} s v" for v
    using that assms(7) by (auto simp: restore_owned_def Let_def split: option.splits)
  have "wp (restore_live_state E) ?Q (l, s)"
    unfolding restore_live_state_def Let_def wp_bind_mut key
  proof (rule wp_bind_innerI[OF status[OF assms(4,4)]], goal_cases)
    case (1 st u)
    then have u: "os_only calm view {} s u" "calm (w_os u)" by (simp_all add: os_only_def)
    show ?case
    proof (cases "st = Same")
      case False
      with 1 u show ?thesis by auto
    next
      case True
      show ?thesis
        unfolding True resource_status.case
      proof (rule wp_match_innerI[OF read[OF u(2) u(2) u(2)]], goal_cases)
        case (1 c v)
        then have v: "os_only calm view {} s v" by (auto intro: os_only_trans[OF u(1)])
        with 1 assms(5) have c: "c = snap (jr_resource r) n" by (auto simp: os_only_def)
        show ?case
        proof (rule wp_seq_innerI[OF wp_fire], goal_cases)
          case (1 x w)
          with refuse[OF v] assms(3,6) c show ?case by simp
        qed (use v in auto)
      next
        case (2 e v)
        then have "os_only calm view {} s v" "\<not> gone_error e" by (auto intro: os_only_trans[OF u(1)])
        then show ?case by (auto simp: gone_error_def split: error.splits)
      next
        case (3 v)
        then show ?case by (auto intro: os_only_trans[OF u(1)])
      qed
    qed
  qed auto
  from wp_run[OF this assms(8)] show ?thesis by (auto simp: os_only_def)
qed

text \<open>Someone else's configuration.\<close>

definition foreign_state :: fake_state where
  "foreign_state = FakeConfigured [V4 8 8 8 8] [] [] None"

theorem restore_refuses_foreign_witness:
  "\<exists>res l' t. restore_live_state demo_env (demo_live, demo_held foreign_state 2) = (res, (l', t)) \<and>
     \<not> succeeded res \<and> fake_view (w_os t) global_id = Some (foreign_state, 2) \<and>
     w_journal t = w_journal (demo_held foreign_state 2)"
proof -
  obtain res l' t where run: "restore_live_state demo_env (demo_live, demo_held foreign_state 2) = (res, (l', t))"
    by (metis prod.exhaust)
  have "lr_state demo_live = Committed" by (simp add: demo_live_def)
  moreover have "\<not> bk_equivalent (e_backend demo_env) (fake_snap global_id (foreign_state, 2)) (jr_before demo_record)"
    by (simp add: demo_sel demo_record_def fake_record_def new_record_def fake_equivalent_def fake_interpret_def
        fake_snapshot_data_def fake_snap_def snapshot_new_def foreign_state_def)
  moreover have "\<not> (case live_applied demo_live of None \<Rightarrow> False
      | Some a \<Rightarrow> owns_current (e_backend demo_env) a (fake_snap global_id (foreign_state, 2)))"
    by (simp add: live_applied_def demo_live_def demo_applied_def owns_current_def demo_sel fake_new_sel
        fake_proves_current_def fake_snapshot_data_def fake_snap_def snapshot_new_def foreign_state_def)
  ultimately have "\<not> succeeded res \<and> fake_view (w_os t) = fake_view (w_os (demo_held foreign_state 2)) \<and>
      w_journal t = w_journal (demo_held foreign_state 2) \<and> l' = demo_live"
    using restore_refuses_foreign[OF demo_live_env demo_live_ok _ demo_held_calm _ _ _ run, unfolded demo_identity_of]
      demo_held_view[of foreign_state 2] by blast
  with run demo_held_view[of foreign_state 2] show ?thesis by auto
qed

section \<open>Recovering\<close>

text \<open>
  C5. Recovery is crash safe and truthful. For a record on disk whose native object is the recorded
  incarnation still, whatever faults are injected, \<open>recover_record\<close> leaves the resource as it was
  captured or its record on disk, and nothing else changed. It reports \<open>Restored\<close> or
  \<open>JournalCleared\<close> only with the resource as captured and the record gone, and the two conflict
  outcomes only with the record still on disk; it reports nothing else.
\<close>

theorem recover_safe:
  assumes "live_env E calm view snap files r"
    and "calm (w_os s)" and "is_open (w_journal s)"
    and "recorded E (store_files files (w_journal s)) r"
    and "recover_record E r s = (res, t)"
  shows "settled_or_recorded E view snap files {r} t \<and> untouched_but E view files {r} s t \<and>
     when_ok res (recovered_ok E view snap files r t)"
proof -
  have "live_inv E calm view snap files s normalized_default {r} r (\<lparr> lr_record = r, lr_state = Committed \<rparr>, s)"
    using start_inv[where calm = calm and E = E and files = files and rs = "[r]" and s = s] assms(2-4) live_env.managed_resource[OF assms(1,2)]
    by (simp add: live_inv_def live_ok_def)
  from wp_run[OF live_env.recover_spec[OF assms(1) this] assms(5)]
  have "end_inv E calm view snap files s r t \<and> when_ok res (recovered_ok E view snap files r t)" by simp
  with tx_inv_guarantee show ?thesis unfolding end_inv_def by blast
qed

theorem recover_safe_witness:
  "\<exists>res t. recover_record demo_env demo_record (demo_held demo_state 1) = (res, t) \<and>
     settled_or_recorded demo_env fake_view fake_snap mem_files {demo_record} t \<and>
     when_ok res (recovered_ok demo_env fake_view fake_snap mem_files demo_record t)"
proof -
  obtain res t where run: "recover_record demo_env demo_record (demo_held demo_state 1) = (res, t)"
    by (metis prod.exhaust)
  from recover_safe[OF demo_live_env demo_held_calm demo_held_open demo_held_recorded run] run
  show ?thesis by auto
qed

text \<open>
  C7. Recovery never undoes what it cannot prove to be ours. When the current state of the resource
  is not the captured one, and the record carries no evidence or evidence that does not own the
  current state (so every unverified Prepared record), \<open>recover_record\<close> reports a conflict or an
  error, never a restoration, and leaves the native state of every resource and the journal as they
  were.
\<close>

theorem recover_conservative:
  assumes "live_env E calm view snap files r"
    and "calm (w_os s)" and "view (w_os s) (jr_resource r) = Some n"
    and "\<not> bk_equivalent (e_backend E) (snap (jr_resource r) n) (jr_before r)"
    and "\<not> (case jr_applied r of None \<Rightarrow> False
            | Some a \<Rightarrow> owns_current (e_backend E) a (snap (jr_resource r) n))"
    and "recover_record E r s = (res, t)"
  shows "view (w_os t) = view (w_os s) \<and> w_journal t = w_journal s \<and>
     (case res of
        Ok out \<Rightarrow> out = RcExternalConflict (jr_resource r) (jr_lease r) \<or>
                  out = RcIdentityMismatch (jr_resource r) (jr_lease r)
      | Err _ \<Rightarrow> True | Crash \<Rightarrow> True)"
proof -
  let ?Q = "\<lambda>res t. os_only calm view {} s t \<and> when_ok res (\<lambda>out.
     out = RcExternalConflict (jr_resource r) (jr_lease r) \<or> out = RcIdentityMismatch (jr_resource r) (jr_lease r))"
  have env: "managed_backend E calm view snap"
    using assms(1) by (simp add: live_env_def transaction_env_def)
  note status = wp_conj[OF managed_backend.status_only[OF env] live_env.status_os[OF assms(1)]]
  note capture = wp_conj[OF managed_backend.capture_only[OF env _ live_env.managed_resource[OF assms(1)]]
      live_env.capture_os[OF assms(1)]]
  have "wp (recover_record E r) ?Q s"
    unfolding recover_record_def Let_def
  proof (rule wp_bindI[OF status[OF assms(2,2)]], goal_cases)
    case (1 st u)
    then have u: "os_only calm view {} s u" "calm (w_os u)" by (simp_all add: os_only_def)
    show ?case
    proof (cases "st = Same")
      case False
      with 1 u show ?thesis by auto
    next
      case True
      show ?thesis
        unfolding True resource_status.case
      proof (rule wp_matchI[OF capture[OF u(2) u(2) u(2)]], goal_cases)
        case (1 c v)
        then have v: "os_only calm view {} s v" by (auto intro: os_only_trans[OF u(1)])
        with 1 assms(3) have c: "c = snap (jr_resource r) n" by (auto simp: os_only_def)
        show ?case
        proof (rule wp_seqI[OF wp_fire], goal_cases)
          case (1 x w)
          with v assms(4,5) show ?case unfolding c by (cases "jr_applied r") auto
        qed (use v in auto)
      next
        case (2 e v)
        then have "os_only calm view {} s v" "\<not> gone_error e" by (auto intro: os_only_trans[OF u(1)])
        then show ?case by (auto simp: gone_error_def split: error.splits)
      next
        case (3 v)
        then show ?case by (auto intro: os_only_trans[OF u(1)])
      qed
    qed
  qed auto
  from wp_run[OF this assms(6)] show ?thesis by (auto simp: os_only_def split: outcome.splits)
qed

theorem recover_conservative_witness:
  "\<exists>res t. recover_record demo_env demo_record (demo_held foreign_state 2) = (res, t) \<and>
     fake_view (w_os t) global_id = Some (foreign_state, 2) \<and>
     w_journal t = w_journal (demo_held foreign_state 2)"
proof -
  obtain res t where run: "recover_record demo_env demo_record (demo_held foreign_state 2) = (res, t)"
    by (metis prod.exhaust)
  have "\<not> bk_equivalent (e_backend demo_env) (fake_snap global_id (foreign_state, 2)) (jr_before demo_record)"
    by (simp add: demo_sel demo_record_def fake_record_def new_record_def fake_equivalent_def fake_interpret_def
        fake_snapshot_data_def fake_snap_def snapshot_new_def foreign_state_def)
  moreover have "jr_applied demo_record = None"
    by (simp add: demo_record_def fake_record_def new_record_def)
  ultimately have "fake_view (w_os t) = fake_view (w_os (demo_held foreign_state 2)) \<and>
      w_journal t = w_journal (demo_held foreign_state 2)"
    using recover_conservative[OF demo_live_env demo_held_calm _ _ _ run, unfolded demo_identity_of]
      demo_held_view[of foreign_state 2] by auto
  with run demo_held_view[of foreign_state 2] show ?thesis by auto
qed

section \<open>Updating\<close>

text \<open>
  The cells of a lease: its live records in the heap, each with the claim it makes on a resource of the
  backend.
\<close>

definition lease_cells ::
  "('w, 'd) env \<Rightarrow> ('w \<Rightarrow> bool) \<Rightarrow> ('w \<Rightarrow> resource_id \<Rightarrow> 'n option) \<Rightarrow>
   (handle \<Rightarrow> 'd \<Rightarrow> string \<Rightarrow> bytes option) \<Rightarrow> (addr \<times> journal_record) list \<Rightarrow>
   heap \<times> ('w, 'd) world \<Rightarrow> bool" where
  "lease_cells E calm view files cs = (\<lambda>(h, s). list_all (\<lambda>r. manages calm view (jr_resource r)) (map snd cs) \<and> tx_wf E (snd ` set cs) \<and> distinct (map fst cs) \<and> distinct (map snd cs) \<and>
     cells_ok cs h \<and> list_all (recorded E (store_files files (w_journal s))) (map snd cs))"

text \<open>
  C3. Updating is crash safe and does what it says. Let a lease hold its live records, in any state,
  with all their claims on disk. Whatever the outcome of \<open>transact_update\<close>, every claim of the lease
  is on disk still, with the state captured when the lease began, every live record still makes its
  claim, and no other resource and no other file has changed; so a crash or a failed rollback in the
  middle of an update never loses the way back. If it returned \<open>Ok\<close>, the new configuration is in
  force on every resource of the lease.
\<close>

theorem update_safe:
  assumes "transaction_env E calm view snap files" and "lease_cells E calm view files cs (h, s)"
    and "calm (w_os s)" and "is_open (w_journal s)"
    and "transact_update E (map fst cs) plan (h, s) = (res, (h', t))"
  shows "list_all (recorded E (store_files files (w_journal t))) (map snd cs) \<and> cells_ok cs h' \<and>
     untouched_but E view files (set (map snd cs)) s t \<and>
     when_ok res (\<lambda>_. list_all (\<lambda>r. in_force E view snap (w_os t) plan (jr_resource r)) (map snd cs))"
proof -
  have cs: "tx_wf E (snd ` set cs)" "distinct (map fst cs)" "distinct (map snd cs)" "cells_ok cs h"
    "list_all (recorded E (store_files files (w_journal s))) (map snd cs)"
    "list_all (\<lambda>r. manages calm view (jr_resource r)) (map snd cs)"
    using assms(2) by (auto simp: lease_cells_def)
  have "update_inv E calm view snap files s plan cs {} (h, s)"
    using start_inv[where calm = calm and E = E and files = files and rs = "map snd cs" and s = s] assms(3,4) cs(4-6)
    by (simp add: update_inv_def)
  from wp_run[OF transaction_env.update_spec[OF assms(1) cs(1-3) this] assms(5)]
  have inv: "cells_ok cs h'" "tx_inv E calm view snap files s plan (snd ` set cs) (snd ` set cs) {} {} t"
    and "when_ok res (\<lambda>_. \<forall>(a, r)\<in>set cs. in_force E view snap (w_os t) plan (jr_resource r))"
    by (auto simp: update_inv_def)
  then show ?thesis
    using tx_inv_guarantee[OF inv(2)]
    by (auto simp: tx_inv_def list_all_iff when_ok_def split: outcome.splits)
qed

theorem update_safe_witness:
  "\<exists>res h' t. transact_update demo_env [7] normalized_default ([7 \<mapsto> demo_live], demo_held demo_state 1) = (res, (h', t)) \<and>
     list_all (recorded demo_env (store_files mem_files (w_journal t))) [demo_record] \<and>
     cells_ok [(7, demo_record)] h' \<and>
     when_ok res (\<lambda>_. in_force demo_env fake_view fake_snap (w_os t) normalized_default global_id)"
proof -
  obtain res h' t where run: "transact_update demo_env (map fst [(7, demo_record)]) normalized_default
      ([7 \<mapsto> demo_live], demo_held demo_state 1) = (res, (h', t))"
    by (metis prod.exhaust)
  have "manages (fake_calm {demo_identity} :: machine \<Rightarrow> bool) fake_view global_id"
    using managesI[of "fake_calm {demo_identity}" "w_os (demo_held demo_state 1)" fake_view global_id "(demo_state, 1)"]
      demo_held_calm demo_held_view by blast
  then have "lease_cells demo_env (fake_calm {demo_identity}) fake_view mem_files [(7, demo_record)] ([7 \<mapsto> demo_live], demo_held demo_state 1)"
    using demo_live_ok demo_held_recorded by (simp add: lease_cells_def cells_ok_def tx_wf_def demo_identity_of identity_new_def)
  from update_safe[OF demo_env this demo_held_calm demo_held_open run] run show ?thesis
    by (auto simp: demo_identity_of)
qed

text \<open>A rollback that has nothing to prove its ownership with.\<close>

theorem rollback_refuses_foreign_witness:
  "\<exists>res p' t. compensate demo_env demo_identity None
       (\<lparr> pr_evidence = None, pr_target = demo_before \<rparr>, demo_held foreign_state 2) = (res, (p', t)) \<and>
     \<not> succeeded res \<and> fake_view (w_os t) global_id = Some (foreign_state, 2)"
proof -
  obtain res p' t where run: "compensate demo_env demo_identity None
      (\<lparr> pr_evidence = None, pr_target = demo_before \<rparr>, demo_held foreign_state 2) = (res, (p', t))"
    by (metis prod.exhaust)
  have "\<not> bk_equivalent (e_backend demo_env) (fake_snap global_id (foreign_state, 2)) demo_before"
    by (simp add: demo_sel fake_equivalent_def fake_interpret_def
        fake_snapshot_data_def fake_snap_def snapshot_new_def foreign_state_def)
  then have "\<not> succeeded res \<and> fake_view (w_os t) = fake_view (w_os (demo_held foreign_state 2)) \<and>
      w_journal t = w_journal (demo_held foreign_state 2) \<and> p' = \<lparr> pr_evidence = None, pr_target = demo_before \<rparr>"
    by (intro rollback_refuses_foreign[OF transaction_env.axioms(1)[OF demo_env] demo_held_calm _ _ _ run,
        where n = "(foreign_state, 2)"])
       (simp_all add: demo_held_view identity_new_def)
  with run demo_held_view[of foreign_state 2] show ?thesis by auto
qed

section \<open>The journal\<close>

lemma demo_valid: "wf_record demo_libs demo_applied" "validate_record demo_libs (durable_part demo_applied) = Inr ()"
  "durable_part demo_applied = demo_applied"
proof -
  have rid: "wf_rid global_id"
    by code_simp
  then show "wf_record demo_libs demo_applied"
    by (simp add: wf_record_def run_records run_demo wf_identity_def wf_snapshot_def snapshot_kind_def
        fake_snap_def snapshot_new_def wf_ip_def identity_new_def)
  have owner: "validate_owner ''io.example.agent'' = Inr ()" by code_simp
  then show "validate_record demo_libs (durable_part demo_applied) = Inr ()"
    by (simp add: validate_record_def run_records run_demo durable_part_def is_unspecified_def identity_new_def
        fake_snap_def snapshot_new_def validate_snapshot_def)
  show "durable_part demo_applied = demo_applied"
    by (simp add: run_records durable_part_def identity_new_def)
qed

lemma demo_bytes: "journal_bytes demo_libs demo_applied = Inr [0]"
  by (simp add: run_records run_journal run_demo fake_snap_def snapshot_new_def)

theorem journal_roundtrip_witness:
  "\<exists>bs. journal_bytes demo_libs demo_applied = Inr bs \<and>
     decode_record demo_libs (Path True []) bs = Inr (durable_part demo_applied)"
proof -
  have "serde_ok demo_libs" unfolding demo_libs_def by (rule table_serde_ok)
  from journal_roundtrip[OF this demo_valid(1) demo_bytes demo_valid(2)] demo_bytes show ?thesis by blast
qed

lemma demo_decode: "decode_record demo_libs p [0] = Inr demo_applied"
  using demo_valid
  by (simp add: decode_record_def run_records run_demo demo_libs_def table_libs_def SCHEMA_VERSION_def MAX_RECORD_BYTES_def
      decode_v4_def decode_identity_def decode_platform_snapshot_def decode_snapshot_def at_place_def durable_part_def
      fake_snap_def snapshot_new_def identity_new_def)

lemma demo_name: "record_file_name demo_libs 1 global_id = ''1-fake+global-11.json''"
  by (simp add: record_file_name_def demo_libs_def table_libs_def stable_hash_def slug_def global_id_def decimal.simps;
      code_simp)

lemma demo_records: "records demo_libs mem_pfs (w_journal (demo_held demo_state 1))
    = (Ok [demo_applied], w_journal (demo_held demo_state 1))"
proof -
  have "extension ''1-fake+global-11.json'' = Some ''json''" by code_simp
  moreover have "jr_lease demo_applied = 1" "jr_resource demo_applied = global_id" "jr_lease demo_record = 1"
    "jr_resource demo_record = global_id"
    by (simp_all add: run_records)
  ultimately show ?thesis
    by (simp add: records_def directory_def read_record_def on_fs_def pfs_call_def demo_held_def demo_world_def
       file_of_def demo_sel demo_name demo_decode journal_new_def run_tx mem_pfs_def MAX_RECORD_BYTES_def)
qed

theorem records_complete_witness:
  "records demo_libs mem_pfs (w_journal (demo_held demo_state 1)) = (Ok [demo_applied], w_journal (demo_held demo_state 1)) \<and>
   (\<lambda>r. record_file_name demo_libs (jr_lease r) (jr_resource r)) ` set [demo_applied] =
     {n \<in> dom (store_files mem_files (w_journal (demo_held demo_state 1))). extension n = Some ''json''}"
  using records_complete[OF mem_pfs_ok demo_held_open demo_records] demo_records by simp

end
