(* ===== verification/Lock_Guarantees.thy ===== *)
theory Lock_Guarantees
  imports Reference_Env
begin

text \<open>
  The guarantees of \<open>Locks\<close> at work on the reference machine: an acquisition that is granted, one
  that waits for another process, one that times out and one refused by this process's own registry.
\<close>

definition demo_locks :: "machine lock_manager" where
  "demo_locks = lock_manager_new (Path True [''run'', ''osdns'', ''locks'']) (millis 50) machine_locks
     (table_libs (\<lambda>s. Some s) [] [] [])"

definition no_locks :: lock_state where
  "no_locks = \<lparr> ls_registry = {}, ls_directory = None \<rparr>"

text \<open>The machine on which another process holds every lock file until \<open>t\<close>.\<close>

definition contended :: "instant \<Rightarrow> machine" where
  "contended t = machine_initial\<lparr>ma_foreign := (\<lambda>_. t)\<rparr>"

lemma demo_lock_system: "lock_system (lm_os demo_locks) fd_names fd_locked ma_clock fo_inner"
  using reference_locks.lock_system_axioms[of "\<lambda>i. i"]
  by (simp add: demo_locks_def lock_manager_new_def with_namespace_def)

lemmas run_locks = acquire_all_def acquire_def poll_lock.simps ensure_lock_dir_def open_lock_file_def
  ensure_private_dir.simps registry_contains_def registry_insert_def registry_remove_def close_file_def
  sys_call_def io_call_def pfs_call_def demo_locks_def lock_manager_new_def with_namespace_def
  machine_locks_def machine_open_def machine_try_lock_def fd_names_def contended_def machine_initial_def
  no_locks_def lock_key_def max_polls_def LOCK_POLL_INTERVAL_def millis_def fake_os.defs

lemmas run_effects = return_tx_def throw_def bind_tx_def seq_tx_def match_tx_def get_mut_def modify_mut_def
  inner_tx_def modify_tx_def Let_def

lemma demo_order: "lock_order [ResourceId ''b'', ResourceId ''a'', ResourceId ''b''] = [ResourceId ''a'', ResourceId ''b'']"
  by code_simp

lemma demo_lock_names:
  "lock_file_name (lm_libs demo_locks) (ResourceId ''a'') = ''a-1.lock''"
  "lock_file_name (lm_libs demo_locks) (ResourceId ''b'') = ''b-1.lock''"
  by (simp_all add: lock_file_name_def demo_locks_def lock_manager_new_def with_namespace_def table_libs_def
      stable_hash_def slug_def decimal.simps) code_simp+

lemma demo_granted: "\<exists>x. acquire_all demo_locks [ResourceId ''b'', ResourceId ''a'', ResourceId ''b''] (no_locks, contended 3) =
   (Ok [\<lparr> rl_file = 2, rl_key = (GLOBAL_LOCK_NAMESPACE, ResourceId ''a'') \<rparr>,
        \<lparr> rl_file = 6, rl_key = (GLOBAL_LOCK_NAMESPACE, ResourceId ''b'') \<rparr>], x)"
  using demo_order demo_lock_names
  by (simp add: run_locks run_effects)

theorem acquire_all_or_nothing_witness:
  "\<exists>locks ls' w'. acquire_all demo_locks [ResourceId ''b'', ResourceId ''a'', ResourceId ''b''] (no_locks, contended 3)
       = (Ok locks, (ls', w')) \<and>
     map lock_resource locks = [ResourceId ''a'', ResourceId ''b''] \<and>
     ls_registry ls' = Pair (lm_namespace demo_locks) ` {ResourceId ''b'', ResourceId ''a''}"
proof -
  obtain locks ls' w' where run: "acquire_all demo_locks [ResourceId ''b'', ResourceId ''a'', ResourceId ''b'']
      (no_locks, contended 3) = (Ok locks, (ls', w'))"
    using demo_granted by (metis prod.exhaust)
  from acquire_all_or_nothing[OF demo_lock_system run] run show ?thesis
    by (auto simp: demo_order no_locks_def)
qed

theorem acquire_release_roundtrip_witness:
  "\<exists>locks x ls' w'. acquire_all demo_locks [ResourceId ''b'', ResourceId ''a'', ResourceId ''b''] (no_locks, contended 3)
       = (Ok locks, x) \<and> for_tx locks (drop_lock demo_locks) x = (Ok (), (ls', w')) \<and>
     ls_registry ls' = {} \<and> fd_locked w' = fd_locked (contended 3)"
proof -
  obtain locks x where run: "acquire_all demo_locks [ResourceId ''b'', ResourceId ''a'', ResourceId ''b'']
      (no_locks, contended 3) = (Ok locks, x)"
    using demo_granted by blast
  obtain res ls' w' where drop: "for_tx locks (drop_lock demo_locks) x = (res, (ls', w'))"
    by (metis prod.exhaust)
  from acquire_release_roundtrip[OF demo_lock_system run drop] run drop show ?thesis
    by (auto simp: no_locks_def)
qed

text \<open>The other process keeps the lock for a tenth of a second, which is more than the time-out.\<close>

lemma demo_timed_out:
  "fst (acquire demo_locks (ResourceId ''a'') (no_locks, contended (millis 100))) =
     Err (Timeout (ResourceId ''a'') ''acquiring the resource lock'')"
  using demo_lock_names by (simp add: run_locks run_effects)

theorem acquire_refusals_witness:
  "\<exists>ls' w'. acquire demo_locks (ResourceId ''a'') (no_locks, contended (millis 100)) =
       (Err (Timeout (ResourceId ''a'') ''acquiring the resource lock''), (ls', w')) \<and>
     lm_timeout demo_locks \<le> ma_clock w'"
proof -
  obtain ls' w' where run: "acquire demo_locks (ResourceId ''a'') (no_locks, contended (millis 100)) =
      (Err (Timeout (ResourceId ''a'') ''acquiring the resource lock''), (ls', w'))"
    using demo_timed_out by (metis prod.collapse fst_conv)
  from acquire_refusals[OF demo_lock_system run] run show ?thesis
    by (auto simp: contended_def machine_initial_def fake_os.defs)
qed

end
