(* ===== verification/Manager.thy ===== *)
theory Manager
  imports Engine Locks Scheduler "HOL-Library.AList"
begin

text \<open>
  The manager of \<open>manager.rs\<close> and its leases (\<open>lease.rs\<close>): the public operations around the
  transaction engine, the registry of active leases, and the internal observation of the Enforce
  policy.

  \<open>manager_env\<close> is what \<open>Inner\<close> is built from and never changes; \<open>manager\<close> is its state and that of
  the process: the world of the engine, the lock registry, the heap of live records, the registry
  of active resources (a hash map, here an association list: iteration takes the entries in some
  order), the reconciler and the Enforce observation. An operation holds the mutexes the code holds
  and runs alone. The tokens that keep the worker and a lease off one record are mutexes only, so
  they leave no trace in the state. A lease is a value of its owner; the operations that take it by
  reference work on it paired with the manager.
\<close>

section \<open>State\<close>

record watch_recovery =
  wr_next_retry :: instant
  wr_failures :: u32
  wr_error :: error

text \<open>\<open>EnforceState\<close>. The feed leads to the reconciler of the manager; it exists or it does not.\<close>

record enforce_state =
  en_refs :: nat
  en_handle :: "watch_id option"
  en_feed :: bool
  en_parked :: bool
  en_recovery :: "watch_recovery option"

definition enforce_default :: enforce_state where
  "enforce_default = \<lparr> en_refs = 0, en_handle = None, en_feed = False, en_parked = False, en_recovery = None \<rparr>"

record ('w, 'd) manager_env =
  me_env :: "('w, 'd) env"
  me_locks :: "'w lock_manager"
  me_spawn :: "('w, unit) tx"
  me_sleep :: "duration \<Rightarrow> ('w, unit) tx"

record ('w, 'd) manager =
  mg_world :: "('w, 'd) world"
  mg_locks :: lock_state
  mg_heap :: heap
  mg_next :: addr
  mg_active :: "(resource_id \<times> addr) list"
  mg_reconciler :: reconciler
  mg_enforce :: enforce_state

type_synonym ('w, 'd, 'a) mg_tx = "(('w, 'd) manager, 'a) tx"

definition on_world :: "(('w, 'd) world, 'a) tx \<Rightarrow> ('w, 'd, 'a) mg_tx" where
  "on_world = focus_tx mg_world (\<lambda>w g. g\<lparr>mg_world := w\<rparr>)"

definition on_os :: "('w, 'a) tx \<Rightarrow> ('w, 'd, 'a) mg_tx" where
  "on_os m = on_world (os m)"

definition on_locks :: "(lock_state \<times> 'w, 'a) tx \<Rightarrow> ('w, 'd, 'a) mg_tx" where
  "on_locks = focus_tx (\<lambda>g. (mg_locks g, w_os (mg_world g)))
     (\<lambda>(ls, w) g. g\<lparr>mg_locks := ls, mg_world := (mg_world g)\<lparr>w_os := w\<rparr>\<rparr>)"

definition on_cells :: "(heap \<times> ('w, 'd) world, 'a) tx \<Rightarrow> ('w, 'd, 'a) mg_tx" where
  "on_cells = focus_tx (\<lambda>g. (mg_heap g, mg_world g)) (\<lambda>(h, w) g. g\<lparr>mg_heap := h, mg_world := w\<rparr>)"

definition on_reconciler :: "(reconciler \<Rightarrow> reconciler) \<Rightarrow> ('w, 'd, unit) mg_tx" where
  "on_reconciler f = modify_tx (\<lambda>g. g\<lparr>mg_reconciler := f (mg_reconciler g)\<rparr>)"

definition on_enforce :: "(enforce_state \<Rightarrow> enforce_state) \<Rightarrow> ('w, 'd, unit) mg_tx" where
  "on_enforce f = modify_tx (\<lambda>g. g\<lparr>mg_enforce := f (mg_enforce g)\<rparr>)"

definition checkpoint :: "('w, 'd) manager_env \<Rightarrow> tx_point \<Rightarrow> ('w, 'd, unit) mg_tx" where
  "checkpoint M p = on_world (fire (me_env M) p)"

abbreviation me_backend :: "('w, 'd) manager_env \<Rightarrow> 'w backend" where
  "me_backend M \<equiv> e_backend (me_env M)"

abbreviation me_kind :: "('w, 'd) manager_env \<Rightarrow> backend_kind" where
  "me_kind M \<equiv> kind_of (me_env M)"

section \<open>The registry of active resources\<close>

text \<open>The record behind an address, as \<open>lock()\<close> shows it.\<close>

definition live_record_at :: "addr \<Rightarrow> ('w, 'd, journal_record) mg_tx" where
  "live_record_at a = on_cells (with_live a (bind_tx get_mut (\<lambda>live. return_tx (lr_record live))))"

definition is_active :: "resource_id \<Rightarrow> ('w, 'd) manager \<Rightarrow> bool" where
  "is_active r g \<longleftrightarrow> map_of (mg_active g) r \<noteq> None"

definition register_active :: "addr \<Rightarrow> ('w, 'd, unit) mg_tx" where
  "register_active a = bind_tx (live_record_at a) (\<lambda>rec.
     modify_tx (\<lambda>g. g\<lparr>mg_active := AList.update (jr_resource rec) a (mg_active g)\<rparr>))"

definition unregister_active :: "resource_id \<Rightarrow> ('w, 'd, unit) mg_tx" where
  "unregister_active r = modify_tx (\<lambda>g. g\<lparr>mg_active := AList.delete r (mg_active g),
     mg_reconciler := reconciler_remove r (mg_reconciler g)\<rparr>)"

text \<open>\<open>ReconcileFeed::notify\<close>: the worker is woken; what counts is the pending set.\<close>

definition feed_notify :: "('w, 'd) manager_env \<Rightarrow> resource_id \<Rightarrow> ('w, 'd, unit) mg_tx" where
  "feed_notify M r = bind_tx (on_os (e_now (me_env M))) (\<lambda>now. on_reconciler (touch now r))"

text \<open>The events of the whole registry.\<close>

definition notify_active :: "('w, 'd) manager_env \<Rightarrow> ('w, 'd, unit) mg_tx" where
  "notify_active M = bind_tx (gets_tx (\<lambda>g. map fst (mg_active g))) (\<lambda>rs. for_tx rs (feed_notify M))"

section \<open>Enforce observation\<close>

definition watch_is_active :: "('w, 'd) manager_env \<Rightarrow> ('w, 'd) manager \<Rightarrow> bool" where
  "watch_is_active M g = (case en_handle (mg_enforce g) of None \<Rightarrow> False
     | Some h \<Rightarrow> bk_watch_active (me_backend M) h (w_os (mg_world g)))"

text \<open>\<open>enforce.handle = None\<close>: the handle is dropped, which stops the native watch.\<close>

definition drop_handle :: "('w, 'd) manager_env \<Rightarrow> ('w, 'd, unit) mg_tx" where
  "drop_handle M = bind_tx (gets_tx (\<lambda>g. en_handle (mg_enforce g))) (\<lambda>h. case h of
       None \<Rightarrow> return_tx ()
     | Some h \<Rightarrow> seq_tx (try_tx (on_os (bk_stop_watch (me_backend M) h))) (on_enforce (\<lambda>e. e\<lparr>en_handle := None\<rparr>)))"

definition ensure_enforce_watch :: "('w, 'd) manager_env \<Rightarrow> ('w, 'd, unit) mg_tx" where
  "ensure_enforce_watch M =
     (if e_policy (me_env M) \<noteq> Enforce then return_tx ()
      else if \<not> cap_watch (bk_caps (me_backend M))
      then throw (Unsupported (me_kind M) ''ConflictPolicy::Enforce requires change notifications, which this backend does not support'')
      else bind_tx (gets_tx mg_enforce) (\<lambda>e.
        seq_tx (if en_refs e = 0
            then seq_tx (on_os (me_spawn M)) (
                 bind_tx (on_os (bk_start_watch (me_backend M))) (\<lambda>h.
                   on_enforce (\<lambda>e. e\<lparr>en_handle := Some h, en_feed := True, en_parked := False\<rparr>)))
            else return_tx ())
          (on_enforce (\<lambda>e. e\<lparr>en_refs := en_refs e + 1\<rparr>))))"

definition release_enforce_watch :: "('w, 'd) manager_env \<Rightarrow> ('w, 'd, unit) mg_tx" where
  "release_enforce_watch M =
     (if e_policy (me_env M) \<noteq> Enforce then return_tx ()
      else bind_tx (gets_tx mg_enforce) (\<lambda>e.
        if en_refs e = 0 then return_tx ()
        else seq_tx (on_enforce (\<lambda>e. e\<lparr>en_refs := en_refs e - 1\<rparr>))
          (if en_refs e = 1
           then seq_tx (drop_handle M)
             (on_enforce (\<lambda>e. e\<lparr>en_feed := False, en_parked := False, en_recovery := None\<rparr>))
           else return_tx ())))"

text \<open>The retry delay after \<open>n\<close> failures, \<open>1 << min (n - 1) 5\<close> seconds.\<close>

definition resubscribe_delay :: "u32 \<Rightarrow> duration" where
  "resubscribe_delay n = secs (2 ^ min (unat n - 1) 5)"

definition resubscribe_failed :: "instant \<Rightarrow> error \<Rightarrow> enforce_state \<Rightarrow> enforce_state" where
  "resubscribe_failed now e en =
     (let failures = (case en_recovery en of None \<Rightarrow> 1 | Some r \<Rightarrow> sat_inc (wr_failures r))
      in en\<lparr>en_recovery := Some \<lparr> wr_next_retry = now + resubscribe_delay failures,
             wr_failures = failures, wr_error = e \<rparr>\<rparr>)"

definition refresh_enforce_watch :: "('w, 'd) manager_env \<Rightarrow> ('w, 'd, unit) mg_tx" where
  "refresh_enforce_watch M = bind_tx get_tx (\<lambda>g.
     (let e = mg_enforce g in
      if en_refs e = 0 \<or> en_parked e \<or> watch_is_active M g then return_tx ()
      else bind_tx (on_os (e_now (me_env M))) (\<lambda>now.
        if (case en_recovery e of None \<Rightarrow> False | Some r \<Rightarrow> now < wr_next_retry r) then return_tx ()
        else seq_tx (drop_handle M) (
          if \<not> en_feed e then return_tx ()
          else seq_tx (match_tx (on_os (bk_start_watch (me_backend M)))
                 (\<lambda>h. on_enforce (\<lambda>e. e\<lparr>en_handle := Some h, en_recovery := None\<rparr>))
                 (\<lambda>err. on_enforce (resubscribe_failed now err)))
               (notify_active M)))))"

definition rescan_enforce :: "('w, 'd) manager_env \<Rightarrow> ('w, 'd, unit) mg_tx" where
  "rescan_enforce M = bind_tx (gets_tx (\<lambda>g. en_feed (mg_enforce g))) (\<lambda>feed.
     if feed then notify_active M else return_tx ())"

definition suspend_enforce_watch :: "('w, 'd) manager_env \<Rightarrow> ('w, 'd, unit) mg_tx" where
  "suspend_enforce_watch M = seq_tx (drop_handle M) (
     seq_tx (on_enforce (\<lambda>e. e\<lparr>en_feed := False, en_parked := True\<rparr>)) (on_reconciler reconciler_clear))"

datatype enforce_health = Idle | Operational | Degraded "error option"

definition observation_health :: "('w, 'd) manager_env \<Rightarrow> ('w, 'd) manager \<Rightarrow> enforce_health" where
  "observation_health M g =
     (if en_refs (mg_enforce g) = 0 then Idle
      else if watch_is_active M g then Operational
      else Degraded (map_option wr_error (en_recovery (mg_enforce g))))"

section \<open>Leases\<close>

datatype lease_phase = Active | Restoring | Abandoning

record live_lease =
  ll_live :: "addr list"
  ll_locks :: "resource_lock list"
  ll_phase :: lease_phase

record lease =
  le_resources :: "resource_id list"
  le_id :: lease_id
  le_noop :: bool
  le_state :: "live_lease option"

type_synonym ('w, 'd, 'a) lease_tx = "(lease \<times> ('w, 'd) manager, 'a) tx"

definition drop_locks :: "('w, 'd) manager_env \<Rightarrow> resource_lock list \<Rightarrow> ('w, 'd, unit) mg_tx" where
  "drop_locks M locks = for_tx locks (\<lambda>l. on_locks (drop_lock (me_locks M) l))"

definition alloc_live :: "live_record \<Rightarrow> ('w, 'd, addr) mg_tx" where
  "alloc_live l = bind_tx (gets_tx mg_next) (\<lambda>a.
     seq_tx (modify_tx (\<lambda>g. g\<lparr>mg_heap := (mg_heap g)(a \<mapsto> l), mg_next := a + 1\<rparr>)) (return_tx a))"

fun register_all :: "live_record list \<Rightarrow> ('w, 'd, addr list) mg_tx" where
  "register_all [] = return_tx []"
| "register_all (l # ls) =
     bind_tx (alloc_live l) (\<lambda>a. seq_tx (register_active a) (
     bind_tx (register_all ls) (\<lambda>as. return_tx (a # as))))"

definition new_owned :: "prepared_lease \<Rightarrow> resource_lock list \<Rightarrow> ('w, 'd, lease) mg_tx" where
  "new_owned p locks = bind_tx (register_all (pl_records p)) (\<lambda>live.
     return_tx \<lparr> le_resources = map (\<lambda>l. jr_resource (lr_record l)) (pl_records p), le_id = pl_lease p,
       le_noop = pl_was_noop p,
       le_state = Some \<lparr> ll_live = live, ll_locks = locks, ll_phase = Active \<rparr> \<rparr>)"

definition live_at :: "addr \<Rightarrow> ('w, 'd, live_record) mg_tx" where
  "live_at a = on_cells (with_live a get_mut)"

fun pending_of :: "addr list \<Rightarrow> ('w, 'd, resource_id list) mg_tx" where
  "pending_of [] = return_tx []"
| "pending_of (a # as) = bind_tx (live_at a) (\<lambda>live. bind_tx (pending_of as) (\<lambda>rs.
     return_tx (if lr_state live = Committed then rs else jr_resource (lr_record live) # rs)))"

definition pending_durability :: "lease \<Rightarrow> ('w, 'd, resource_id list) mg_tx" where
  "pending_durability l = (case le_state l of None \<Rightarrow> return_tx []
     | Some st \<Rightarrow> bind_tx (pending_of (ll_live st)) (\<lambda>rs. return_tx (sort rs)))"

definition not_active_error :: "lease \<Rightarrow> error" where
  "not_active_error l = (case le_resources l of
       [] \<Rightarrow> InvalidConfig ''lease owns no resources''
     | r # _ \<Rightarrow> Conflict r LeaseNotActive)"

definition set_state :: "live_lease option \<Rightarrow> ('w, 'd, unit) lease_tx" where
  "set_state st = modify_mut (\<lambda>l. l\<lparr>le_state := st\<rparr>)"

subsection \<open>Restore\<close>

text \<open>One record, under its token: it leaves the registry first, then it is restored.\<close>

definition restore_one :: "('w, 'd) manager_env \<Rightarrow> addr \<Rightarrow> ('w, 'd, resource_id \<times> unit result) mg_tx" where
  "restore_one M a = bind_tx (live_record_at a) (\<lambda>rec.
     seq_tx (unregister_active (jr_resource rec)) (
     bind_tx (try_tx (on_cells (with_live a (restore_live_state (me_env M))))) (\<lambda>res.
       return_tx (jr_resource rec, res))))"

text \<open>
  \<open>retain\<close> over the records of a lease that ends: \<open>one\<close> handles a record; the records it could not
  handle stay, with their locks, and the first failure is kept.
\<close>

fun retain_each ::
  "('w, 'd) manager_env \<Rightarrow> (addr \<Rightarrow> ('w, 'd, resource_id \<times> unit result) mg_tx) \<Rightarrow> addr list \<Rightarrow>
   resource_lock list \<Rightarrow> error option \<Rightarrow>
   ('w, 'd, addr list \<times> resource_lock list \<times> error option) mg_tx" where
  "retain_each M one [] locks err = return_tx ([], locks, err)"
| "retain_each M one (a # as) locks err =
     bind_tx (one a) (\<lambda>(r, res). case res of
       Inr _ \<Rightarrow> seq_tx (drop_locks M (filter (\<lambda>l. lock_resource l = r) locks))
           (retain_each M one as (filter (\<lambda>l. lock_resource l \<noteq> r) locks) err)
     | Inl e \<Rightarrow> bind_tx (retain_each M one as locks (if err = None then Some e else err))
           (\<lambda>(kept, rest, err). return_tx (a # kept, rest, err)))"

definition restore_state :: "('w, 'd) manager_env \<Rightarrow> ('w, 'd, unit) lease_tx" where
  "restore_state M = bind_tx get_mut (\<lambda>l. case le_state l of
       None \<Rightarrow> throw (not_active_error l)
     | Some st \<Rightarrow>
         seq_tx (set_state None) (
         bind_tx (inner_tx (retain_each M (restore_one M) (ll_live st) (ll_locks st) None)) (\<lambda>(kept, locks, err).
         seq_tx (if ll_phase st = Active then inner_tx (release_enforce_watch M) else return_tx ()) (
         case err of
           None \<Rightarrow> inner_tx (drop_locks M locks)
         | Some e \<Rightarrow> seq_tx (set_state (Some \<lparr> ll_live = kept, ll_locks = locks, ll_phase = Restoring \<rparr>))
             (throw e)))))"

subsection \<open>Abandon\<close>

definition abandon_one :: "('w, 'd) manager_env \<Rightarrow> addr \<Rightarrow> ('w, 'd, resource_id \<times> unit result) mg_tx" where
  "abandon_one M a = bind_tx (live_record_at a) (\<lambda>rec.
     seq_tx (unregister_active (jr_resource rec)) (
     bind_tx (try_tx (on_world (jremove (me_env M) (jr_lease rec) (jr_resource rec)))) (\<lambda>res.
       return_tx (jr_resource rec, res))))"

definition abandon_state :: "('w, 'd) manager_env \<Rightarrow> ('w, 'd, unit) lease_tx" where
  "abandon_state M = bind_tx get_mut (\<lambda>l. case le_state l of
       None \<Rightarrow> return_tx ()
     | Some st \<Rightarrow>
         seq_tx (set_state None) (
         bind_tx (inner_tx (retain_each M (abandon_one M) (ll_live st) (ll_locks st) None)) (\<lambda>(kept, locks, err).
         seq_tx (if ll_phase st = Active then inner_tx (release_enforce_watch M) else return_tx ()) (
         case err of
           None \<Rightarrow> inner_tx (drop_locks M locks)
         | Some e \<Rightarrow> seq_tx (set_state (Some \<lparr> ll_live = kept, ll_locks = locks, ll_phase = Abandoning \<rparr>))
             (throw e)))))"

subsection \<open>Dropping a lease\<close>

text \<open>Best effort: failures are logged only, and the record leaves the registry afterwards.\<close>

definition drop_one :: "('w, 'd) manager_env \<Rightarrow> lease_phase \<Rightarrow> addr \<Rightarrow> ('w, 'd, unit) mg_tx" where
  "drop_one M phase a = bind_tx (live_record_at a) (\<lambda>rec.
     seq_tx (try_tx (if phase = Abandoning
         then on_world (jremove (me_env M) (jr_lease rec) (jr_resource rec))
         else on_cells (with_live a (restore_live_state (me_env M)))))
       (unregister_active (jr_resource rec)))"

definition drop_lease :: "('w, 'd) manager_env \<Rightarrow> ('w, 'd, unit) lease_tx" where
  "drop_lease M = bind_tx get_mut (\<lambda>l. case le_state l of
       None \<Rightarrow> return_tx ()
     | Some st \<Rightarrow>
         seq_tx (set_state None) (
         seq_tx (inner_tx (for_tx (ll_live st) (drop_one M (ll_phase st)))) (
         seq_tx (inner_tx (drop_locks M (ll_locks st))) (
         if ll_phase st = Active then inner_tx (release_enforce_watch M) else return_tx ()))))"

text \<open>\<open>debug_release_locks_keep_journal\<close>: the process forgets the lease.\<close>

definition debug_release :: "('w, 'd) manager_env \<Rightarrow> ('w, 'd, unit) lease_tx" where
  "debug_release M = bind_tx get_mut (\<lambda>l. case le_state l of
       None \<Rightarrow> return_tx ()
     | Some st \<Rightarrow>
         seq_tx (set_state None) (
         seq_tx (inner_tx (for_tx (ll_live st) (\<lambda>a.
           bind_tx (live_record_at a) (\<lambda>rec. unregister_active (jr_resource rec))))) (
         seq_tx (inner_tx (drop_locks M (ll_locks st))) (
         if ll_phase st = Active then inner_tx (release_enforce_watch M) else return_tx ()))))"

subsection \<open>Update\<close>

fun records_at :: "addr list \<Rightarrow> ('w, 'd, journal_record list) mg_tx" where
  "records_at [] = return_tx []"
| "records_at (a # as) = bind_tx (live_record_at a) (\<lambda>r. bind_tx (records_at as) (\<lambda>rs. return_tx (r # rs)))"

definition check_target :: "('w, 'd) manager_env \<Rightarrow> addr \<Rightarrow> ('w, 'd, unit) mg_tx" where
  "check_target M a = bind_tx (live_record_at a) (\<lambda>rec.
     bind_tx (on_os (bk_status (me_backend M) (jr_identity rec))) (\<lambda>status. case status of
       Same \<Rightarrow> return_tx ()
     | Gone \<Rightarrow> throw (ResourceGone (me_kind M) (jr_resource rec)
         ''the leased native resource incarnation is gone; restore or abandon the lease'')
     | Replaced \<Rightarrow> throw (ResourceIdentity (me_kind M) (jr_resource rec)
         ''the lease target was replaced; restore or abandon the lease'')
     | Ambiguous \<Rightarrow> throw (ResourceIdentity (me_kind M) (jr_resource rec)
         ''the leased native resource incarnation cannot be proven; refusing update'')))"

text \<open>What \<open>update\<close> checks before the transaction, in the order of the code.\<close>

definition update_checks ::
  "('w, 'd) manager_env \<Rightarrow> dns_config \<Rightarrow> normalized_config \<Rightarrow> live_lease \<Rightarrow> ('w, 'd, unit) mg_tx" where
  "update_checks M config plan st =
     bind_tx (records_at (ll_live st)) (\<lambda>recs.
     bind_tx get_tx (\<lambda>g.
     if ll_phase st \<noteq> Active \<or> list_ex (\<lambda>rec. \<not> is_active (jr_resource rec) g) recs
     then throw LeaseEnding
     else seq_tx (for_tx (ll_live st) (check_target M)) (
       bind_tx (on_os (bk_resolve (me_backend M) (dc_scope config) plan)) (\<lambda>wanted.
         (let requested = sort wanted; owned = sort (map jr_resource recs)
          in if requested \<noteq> owned then throw (UpdateRequiresRebind owned requested) else return_tx ())))))"

definition update_lease :: "('w, 'd) manager_env \<Rightarrow> dns_config \<Rightarrow> ('w, 'd, unit) lease_tx" where
  "update_lease M config =
     bind_tx (lift_result (validate_against config (bk_caps (me_backend M)))) (\<lambda>plan.
     seq_tx (lift_result (bk_validate_plan (me_backend M) (dc_scope config) plan)) (
     bind_tx get_mut (\<lambda>l. case le_state l of
       None \<Rightarrow> throw (not_active_error l)
     | Some st \<Rightarrow>
         seq_tx (set_state None) (
         match_tx (inner_tx (update_checks M config plan st))
           (\<lambda>_. bind_tx (inner_tx (try_tx (on_cells (transact_update (me_env M) (ll_live st) plan)))) (\<lambda>res.
              seq_tx (set_state (Some st)) (
              seq_tx (inner_tx (rescan_enforce M)) (lift_result res))))
           (\<lambda>e. seq_tx (set_state (Some st)) (throw e))))))"

section \<open>The manager\<close>

subsection \<open>Recovery of stale journals\<close>

definition recover_locked ::
  "('w, 'd) manager_env \<Rightarrow> journal_record \<Rightarrow> resource_lock \<Rightarrow> ('w, 'd, recovery_outcome) mg_tx" where
  "recover_locked M rec l =
     bind_tx (try_tx (on_world (recover_record (me_env M) rec))) (\<lambda>res.
     seq_tx (on_locks (drop_lock (me_locks M) l))
       (return_tx (case res of Inr out \<Rightarrow> out | Inl e \<Rightarrow> RcFailed (jr_resource rec) (jr_lease rec) e)))"

definition recover_stale_one ::
  "('w, 'd) manager_env \<Rightarrow> journal_record \<Rightarrow> ('w, 'd, recovery_outcome) mg_tx" where
  "recover_stale_one M rec =
     (if jr_owner rec \<noteq> e_owner (me_env M) then return_tx (RcForeignOwner (jr_resource rec) (jr_owner rec))
      else match_tx (on_locks (try_acquire (me_locks M) (jr_resource rec)))
        (\<lambda>lock. case lock of
           Some l \<Rightarrow> recover_locked M rec l
         | None \<Rightarrow> return_tx (RcBusy (jr_resource rec)))
        (\<lambda>e. return_tx (case e of Conflict _ _ \<Rightarrow> RcBusy (jr_resource rec)
           | _ \<Rightarrow> RcFailed (jr_resource rec) (jr_lease rec) e)))"

fun recover_stale_each ::
  "('w, 'd) manager_env \<Rightarrow> journal_record list \<Rightarrow> ('w, 'd, recovery_outcome list) mg_tx" where
  "recover_stale_each M [] = return_tx []"
| "recover_stale_each M (rec # recs) = bind_tx (recover_stale_one M rec) (\<lambda>out.
     bind_tx (recover_stale_each M recs) (\<lambda>outs. return_tx (out # outs)))"

definition journal_records :: "('w, 'd) manager_env \<Rightarrow> ('w, 'd, journal_record list) mg_tx" where
  "journal_records M = on_world (jn (records (e_libs (me_env M)) (e_pfs (me_env M))))"

definition recover_stale :: "('w, 'd) manager_env \<Rightarrow> ('w, 'd, recovery_outcome list) mg_tx" where
  "recover_stale M = bind_tx (journal_records M) (recover_stale_each M)"

definition abandon_journal :: "('w, 'd) manager_env \<Rightarrow> resource_id \<Rightarrow> ('w, 'd, unit) mg_tx" where
  "abandon_journal M r =
     bind_tx (on_locks (acquire (me_locks M) r)) (\<lambda>l.
     match_tx
       (bind_tx (on_world (jn (records_for (e_libs (me_env M)) (e_pfs (me_env M)) r))) (\<lambda>recs.
          if list_ex (\<lambda>rec. jr_owner rec \<noteq> e_owner (me_env M)) recs
          then throw (Conflict r (ResourceOccupied ''journal belongs to another application owner''))
          else for_tx recs (\<lambda>rec. on_world (jremove (me_env M) (jr_lease rec) r))))
       (\<lambda>_. on_locks (drop_lock (me_locks M) l))
       (\<lambda>e. seq_tx (on_locks (drop_lock (me_locks M) l)) (throw e)))"

subsection \<open>Apply\<close>

text \<open>Stale journals of the requested resources are recovered first; one that cannot be blocks.\<close>

fun recover_requested ::
  "('w, 'd) manager_env \<Rightarrow> resource_id list \<Rightarrow> journal_record list \<Rightarrow> ('w, 'd, unit) mg_tx" where
  "recover_requested M [] journals = return_tx ()"
| "recover_requested M (r # rs) journals = (case position (\<lambda>rec. jr_resource rec = r) journals of
       None \<Rightarrow> recover_requested M rs journals
     | Some i \<Rightarrow> bind_tx (on_world (recover_for_resource (me_env M) (journals ! i))) (\<lambda>res. case res of
           Inr _ \<Rightarrow> recover_requested M rs (swap_remove journals i)
         | Inl (BlockJournal e) \<Rightarrow> throw e
         | Inl (BlockConflict detail) \<Rightarrow> throw (Conflict r (StaleJournalUnresolved detail))))"

fun observe_each ::
  "('w, 'd) manager_env \<Rightarrow> resource_id list \<Rightarrow>
   ('w, 'd, platform_snapshot list \<times> resource_identity list) mg_tx" where
  "observe_each M [] = return_tx ([], [])"
| "observe_each M (r # rs) =
     bind_tx (on_os (bk_observe (me_backend M) r)) (\<lambda>obs.
     seq_tx (checkpoint M AfterCapture) (
     bind_tx (observe_each M rs) (\<lambda>(befores, identities).
       return_tx (bo_snapshot obs # befores, bo_identity obs # identities))))"

definition apply_locked ::
  "('w, 'd) manager_env \<Rightarrow> resource_id list \<Rightarrow> normalized_config \<Rightarrow> ('w, 'd, prepared_lease) mg_tx" where
  "apply_locked M resources plan =
     seq_tx (checkpoint M AfterLock) (
     bind_tx (journal_records M) (\<lambda>journals.
     seq_tx (recover_requested M resources journals) (
     seq_tx (checkpoint M AfterRecovery) (
     bind_tx (observe_each M resources) (\<lambda>(befores, identities).
     seq_tx (checkpoint M AfterNoopDecision) (
     on_world (transact_with_locks (me_env M) resources plan befores identities)))))))"

text \<open>
  The lease is published. When the observation cannot be started it is restored again, and a lease
  that cannot be restored is dropped with the failure that carries it.
\<close>

definition finish_apply ::
  "('w, 'd) manager_env \<Rightarrow> prepared_lease \<Rightarrow> resource_lock list \<Rightarrow> ('w, 'd, lease) mg_tx" where
  "finish_apply M p locks =
     bind_tx (new_owned p locks) (\<lambda>lease.
     match_tx (ensure_enforce_watch M)
       (\<lambda>_. seq_tx (rescan_enforce M) (return_tx lease))
       (\<lambda>e. bind_tx (run_mut lease (restore_state M)) (\<lambda>(res, lease). case res of
           Inr _ \<Rightarrow> throw e
         | Inl failure \<Rightarrow> seq_tx (run_mut lease (drop_lease M)) (throw (transaction_error e [failure])))))"

definition apply_config :: "('w, 'd) manager_env \<Rightarrow> dns_config \<Rightarrow> ('w, 'd, lease) mg_tx" where
  "apply_config M config =
     bind_tx (lift_result (validate_against config (bk_caps (me_backend M)))) (\<lambda>plan.
     seq_tx (lift_result (bk_validate_plan (me_backend M) (dc_scope config) plan)) (
     seq_tx (checkpoint M AfterValidate) (
     bind_tx (on_os (bk_resolve (me_backend M) (dc_scope config) plan)) (\<lambda>resources.
     seq_tx (checkpoint M AfterResolve) (
     bind_tx (on_locks (acquire_all (me_locks M) resources)) (\<lambda>locks.
     match_tx (apply_locked M resources plan)
       (\<lambda>p. finish_apply M p locks)
       (\<lambda>e. seq_tx (drop_locks M locks) (throw e))))))))"

subsection \<open>Reading\<close>

definition validate :: "('w, 'd) manager_env \<Rightarrow> dns_config \<Rightarrow> unit result" where
  "validate M config =
     bind_r (validate_against config (bk_caps (me_backend M))) (\<lambda>plan.
     bk_validate_plan (me_backend M) (dc_scope config) plan)"

definition snapshot :: "('w, 'd) manager_env \<Rightarrow> dns_scope \<Rightarrow> ('w, 'd, dns_config) mg_tx" where
  "snapshot M scope =
     bind_tx (on_os (bk_resolve (me_backend M) scope normalized_default)) (\<lambda>resources.
     case resources of
       [] \<Rightarrow> throw (InvalidConfig ''the backend resolved the scope to no resources'')
     | r # _ \<Rightarrow> bind_tx (on_os (bk_capture (me_backend M) r)) (\<lambda>s.
         lift_result (bk_public_state (me_backend M) s scope)))"

definition interfaces :: "('w, 'd) manager_env \<Rightarrow> ('w, 'd, interface_info list) mg_tx" where
  "interfaces M = on_os (bk_interfaces (me_backend M))"

definition flush_cache :: "('w, 'd) manager_env \<Rightarrow> ('w, 'd, unit) mg_tx" where
  "flush_cache M = on_os (bk_flush_cache (me_backend M))"

end
