(* ===== verification/Reconciliation.thy ===== *)
theory Reconciliation
  imports Manager
begin

text \<open>
  The reconciliation of \<open>reconciliation.rs\<close>: one pass over a resource of an active lease, from the
  identity check to the overlay, and the iteration of the worker. The token and the record's mutex
  keep every other actor of the process off the record for the whole pass, so a pass runs alone; the
  native state may change at every call of the backend.
\<close>

datatype reconcile_outcome =
  NoActiveLease | StillOurs | Rebased | Deferred | IdentityAmbiguous | Failed

section \<open>Scheduling from the manager\<close>

definition rc_defer :: "('w, 'd) manager_env \<Rightarrow> resource_id \<Rightarrow> duration \<Rightarrow> bool \<Rightarrow> ('w, 'd, unit) mg_tx" where
  "rc_defer M r delay failed = bind_tx (on_os (e_now (me_env M))) (\<lambda>now. on_reconciler (defer_at r delay failed now))"

definition rc_complete :: "('w, 'd) manager_env \<Rightarrow> resource_id \<Rightarrow> u64 \<Rightarrow> ('w, 'd, unit) mg_tx" where
  "rc_complete M r generation =
     bind_tx (on_os (e_now (me_env M))) (\<lambda>now. on_reconciler (complete_unless_touched now r generation))"

definition rc_gate :: "('w, 'd) manager_env \<Rightarrow> resource_id \<Rightarrow> ('w, 'd, duration option) mg_tx" where
  "rc_gate M r = bind_tx (on_os (e_now (me_env M))) (\<lambda>now.
     bind_tx (gets_tx (\<lambda>g. breaker_gate now r (mg_reconciler g))) (\<lambda>(verdict, rc).
       seq_tx (on_reconciler (\<lambda>_. rc)) (return_tx verdict)))"

section \<open>The overlay\<close>

definition set_live_state :: "addr \<Rightarrow> live_state \<Rightarrow> ('w, 'd, unit) mg_tx" where
  "set_live_state a st = on_cells (with_live a (modify_mut (\<lambda>l. l\<lparr>lr_state := st\<rparr>)))"

definition residue_state :: "journal_record \<Rightarrow> mutation_residue \<Rightarrow> live_state" where
  "residue_state resume x = (case x of
       ResUnchanged \<Rightarrow> Unmutated
     | ResRestored _ \<Rightarrow> Unmutated
     | ResPending p \<Rightarrow> Compensating p resume)"

definition overlay_record :: "platform_snapshot \<Rightarrow> journal_record \<Rightarrow> journal_record" where
  "overlay_record before rec = rec\<lparr>jr_before := before, jr_phase := Prepared, jr_applied := None\<rparr>"

definition overlay_commit ::
  "('w, 'd) manager_env \<Rightarrow> addr \<Rightarrow> verified_mutation \<Rightarrow> ('w, 'd, reconcile_outcome) mg_tx" where
  "overlay_commit M a mutation =
     match_tx (on_cells (with_live a (commit_verified (me_env M) mutation)))
       (\<lambda>_. seq_tx (try_tx (checkpoint M AfterApplied)) (return_tx Rebased))
       (\<lambda>_. return_tx Failed)"

definition overlay_mutate ::
  "('w, 'd) manager_env \<Rightarrow> addr \<Rightarrow> platform_snapshot \<Rightarrow> journal_record \<Rightarrow> ('w, 'd, reconcile_outcome) mg_tx" where
  "overlay_mutate M a expected resume =
     seq_tx (set_live_state a LivePrepared) (
     bind_tx (on_world (mutate_and_verify (me_env M) (jr_identity resume) expected (jr_desired resume)
                RECONCILE_POINTS)) (\<lambda>res. case res of
         Inr mutation \<Rightarrow> overlay_commit M a mutation
       | Inl failure \<Rightarrow> seq_tx (set_live_state a (residue_state resume (mf_residue failure))) (return_tx Failed)))"

definition apply_overlay ::
  "('w, 'd) manager_env \<Rightarrow> addr \<Rightarrow> platform_snapshot \<Rightarrow> platform_snapshot \<Rightarrow>
   ('w, 'd, reconcile_outcome) mg_tx" where
  "apply_overlay M a expected before =
     bind_tx (live_record_at a) (\<lambda>rec.
     match_tx (on_cells (with_live a (prepare_live (me_env M) (overlay_record before rec))))
       (\<lambda>_. match_tx (checkpoint M AfterPrepared)
          (\<lambda>_. overlay_mutate M a expected (overlay_record before rec))
          (\<lambda>_. return_tx Deferred))
       (\<lambda>_. return_tx Failed))"

section \<open>A pass\<close>

text \<open>The resource is gone: the record is removed, and the lease no longer covers it.\<close>

definition forget_gone :: "('w, 'd) manager_env \<Rightarrow> resource_id \<Rightarrow> addr \<Rightarrow> ('w, 'd, reconcile_outcome) mg_tx" where
  "forget_gone M r a = bind_tx (live_record_at a) (\<lambda>rec.
     match_tx (on_world (jremove (me_env M) (jr_lease rec) r))
       (\<lambda>_. seq_tx (unregister_active r) (return_tx NoActiveLease))
       (\<lambda>_. return_tx Failed))"

text \<open>A readback of the pass: a resource that is gone or cannot be read ends it.\<close>

definition pass_read ::
  "('w, 'd) manager_env \<Rightarrow> resource_id \<Rightarrow> addr \<Rightarrow> (platform_snapshot \<Rightarrow> ('w, 'd, reconcile_outcome) mg_tx) \<Rightarrow>
   ('w, 'd, reconcile_outcome) mg_tx" where
  "pass_read M r a k = match_tx (on_os (bk_readback (me_backend M) r)) k
     (\<lambda>e. case e of ResourceGone _ _ _ \<Rightarrow> forget_gone M r a | _ \<Rightarrow> return_tx Failed)"

text \<open>What the pass does once two readings agree on \<open>second\<close>.\<close>

definition pass_decide ::
  "('w, 'd) manager_env \<Rightarrow> resource_id \<Rightarrow> addr \<Rightarrow> platform_snapshot \<Rightarrow> ('w, 'd, reconcile_outcome) mg_tx" where
  "pass_decide M r a second = bind_tx (live_at a) (\<lambda>live.
     (let B = me_backend M; before = jr_before (lr_record live);
          owned = (case live_applied live of Some applied \<Rightarrow> owns_current B applied second | None \<Rightarrow> False);
          desired = bk_matches_desired B second (jr_desired (lr_record live))
      in if lr_state live = LivePrepared \<and> \<not> bk_equivalent B second before then return_tx Deferred
      else if owned then (if desired then return_tx StillOurs else apply_overlay M a second before)
      else if desired then seq_tx (rc_defer M r IDENTITY_RETRY False) (return_tx Deferred)
      else if bk_equivalent B second before then apply_overlay M a second before
      else bind_tx (rc_gate M r) (\<lambda>verdict. case verdict of
          Some cooldown \<Rightarrow> seq_tx (rc_defer M r cooldown False) (return_tx Deferred)
        | None \<Rightarrow> apply_overlay M a second second)))"

definition pass_observe ::
  "('w, 'd) manager_env \<Rightarrow> resource_id \<Rightarrow> addr \<Rightarrow> ('w, 'd, reconcile_outcome) mg_tx" where
  "pass_observe M r a = pass_read M r a (\<lambda>first.
     seq_tx (on_os (me_sleep M STABLE_WINDOW)) (
     pass_read M r a (\<lambda>second.
       if \<not> bk_equivalent (me_backend M) first second then return_tx Deferred
       else pass_decide M r a second)))"

definition reconcile_pass ::
  "('w, 'd) manager_env \<Rightarrow> resource_id \<Rightarrow> addr \<Rightarrow> ('w, 'd, reconcile_outcome) mg_tx" where
  "reconcile_pass M r a =
     bind_tx (try_tx (on_cells (with_live a (resolve_live (me_env M) None)))) (\<lambda>res.
     bind_tx (live_at a) (\<lambda>live. case res of
         Inl e \<Rightarrow> if lr_state live \<noteq> LivePrepared
           then return_tx (if is_external_modification e then Deferred else Failed)
           else pass_observe M r a
       | Inr _ \<Rightarrow> pass_observe M r a))"

definition reconciler_forget :: "resource_id \<Rightarrow> ('w, 'd, unit) mg_tx" where
  "reconciler_forget r = on_reconciler (reconciler_remove r)"

definition settle_pass ::
  "('w, 'd) manager_env \<Rightarrow> resource_id \<Rightarrow> u64 \<Rightarrow> reconcile_outcome \<Rightarrow> ('w, 'd, unit) mg_tx" where
  "settle_pass M r generation out = (case out of
       NoActiveLease \<Rightarrow> rc_complete M r generation
     | StillOurs \<Rightarrow> rc_complete M r generation
     | Rebased \<Rightarrow> rc_complete M r generation
     | Deferred \<Rightarrow> rc_defer M r UNSTABLE_RETRY False
     | IdentityAmbiguous \<Rightarrow> return_tx ()
     | Failed \<Rightarrow> rc_defer M r ERROR_RETRY True)"

text \<open>A gone or replaced incarnation: the journal entry is removed, or the removal is retried.\<close>

definition reconcile_gone ::
  "('w, 'd) manager_env \<Rightarrow> resource_id \<Rightarrow> addr \<Rightarrow> ('w, 'd, reconcile_outcome) mg_tx" where
  "reconcile_gone M r a = bind_tx (live_record_at a) (\<lambda>rec.
     match_tx (on_world (jremove (me_env M) (jr_lease rec) r))
       (\<lambda>_. seq_tx (unregister_active r) (seq_tx (reconciler_forget r) (return_tx NoActiveLease)))
       (\<lambda>_. seq_tx (rc_defer M r ERROR_RETRY True) (return_tx Failed)))"

definition reconcile_resource :: "('w, 'd) manager_env \<Rightarrow> resource_id \<Rightarrow> ('w, 'd, reconcile_outcome) mg_tx" where
  "reconcile_resource M r = bind_tx get_tx (\<lambda>g. case map_of (mg_active g) r of
       None \<Rightarrow> seq_tx (reconciler_forget r) (return_tx NoActiveLease)
     | Some a \<Rightarrow> bind_tx (live_record_at a) (\<lambda>rec.
         match_tx (on_os (bk_status (me_backend M) (jr_identity rec)))
           (\<lambda>status. case status of
               Gone \<Rightarrow> reconcile_gone M r a
             | Replaced \<Rightarrow> reconcile_gone M r a
             | Ambiguous \<Rightarrow> seq_tx (rc_defer M r IDENTITY_RETRY False) (return_tx IdentityAmbiguous)
             | Same \<Rightarrow> bind_tx (reconcile_pass M r a) (\<lambda>out.
                 seq_tx (settle_pass M r (generation_of r (mg_reconciler g)) out) (return_tx out)))
           (\<lambda>_. seq_tx (rc_defer M r ERROR_RETRY True) (return_tx Failed))))"

section \<open>The worker\<close>

text \<open>How long the worker waits when nothing is due, for the pending entries \<open>ps\<close>.\<close>

definition worker_timeout :: "instant \<Rightarrow> pending list \<Rightarrow> duration" where
  "worker_timeout now ps = foldl min (secs 1) (map (\<lambda>p. pe_ready_at p - now) ps)"

definition worker_reconcile :: "('w, 'd) manager_env \<Rightarrow> resource_id \<Rightarrow> ('w, 'd, unit) mg_tx" where
  "worker_reconcile M r = bind_tx (gets_tx (\<lambda>g. en_parked (mg_enforce g))) (\<lambda>parked.
     if parked then return_tx () else seq_tx (reconcile_resource M r) (return_tx ()))"

text \<open>One iteration: \<open>due\<close> lists what is due when the worker looks, in the order of the map.\<close>

definition worker_iteration :: "('w, 'd) manager_env \<Rightarrow> (instant \<Rightarrow> reconciler \<Rightarrow> resource_id list) \<Rightarrow> ('w, 'd, unit) mg_tx" where
  "worker_iteration M due = seq_tx (refresh_enforce_watch M) (
     bind_tx (on_os (e_now (me_env M))) (\<lambda>now.
     bind_tx (gets_tx mg_reconciler) (\<lambda>rc. for_tx (due now rc) (worker_reconcile M))))"

definition enumerates_due :: "(instant \<Rightarrow> reconciler \<Rightarrow> resource_id list) \<Rightarrow> bool" where
  "enumerates_due due \<longleftrightarrow> (\<forall>now rc. finite (dom (rc_pending rc)) \<longrightarrow>
     distinct (due now rc) \<and> set (due now rc) = {r. is_due now rc r})"

lemma foldl_min: "foldl min m xs \<le> m \<and> (\<forall>x\<in>set xs. foldl min m xs \<le> x) \<and> (foldl min m xs = m \<or> foldl min m xs \<in> set xs)"
  for m :: nat
proof (induction xs arbitrary: m)
  case (Cons x xs)
  from Cons[of "min m x"] show ?case by (auto simp: min_def split: if_splits)
qed simp

text \<open>
  The worker wakes in time. For the pending entries it sees when nothing is due, the worker
  waits at most a second and not beyond the moment the first of them is due; it does not wait at all
  exactly when one of them has become due in the meantime.
\<close>

theorem worker_wakes_in_time:
  "worker_timeout now ps \<le> secs 1 \<and>
   list_all (\<lambda>p. now + worker_timeout now ps \<le> max now (pe_ready_at p)) ps \<and>
   (worker_timeout now ps = 0 \<longleftrightarrow> list_ex (\<lambda>p. pe_ready_at p \<le> now) ps)"
proof -
  note m = foldl_min[of "secs 1" "map (\<lambda>p. pe_ready_at p - now) ps", folded worker_timeout_def]
  have "now + worker_timeout now ps \<le> max now (pe_ready_at p)" if "p \<in> set ps" for p
    using m that by fastforce
  moreover have "worker_timeout now ps = 0 \<longleftrightarrow> (\<exists>p\<in>set ps. pe_ready_at p \<le> now)"
    using m by (fastforce simp: secs_def)
  ultimately show ?thesis using m by (auto simp: list_all_iff list_ex_iff)
qed

end
