(* ===== verification/Manager_Contract.thy ===== *)
theory Manager_Contract
  imports Reconciliation Update_Safety
begin

text \<open>
  What the manager's operations rely on, and the rules by which their proofs proceed: the pieces of
  the state each kind of step touches, and the steps that touch neither the native state nor the
  records (\<open>quiet\<close>).
\<close>

section \<open>Rules\<close>

lemma wp_on_world: "wp (on_world m) Q g = wp m (\<lambda>r t. Q r (g\<lparr>mg_world := t\<rparr>)) (mg_world g)"
  by (simp add: on_world_def wp_focus)

lemma wp_on_os:
  "wp (on_os m) Q g = wp m (\<lambda>r w. Q r (g\<lparr>mg_world := (mg_world g)\<lparr>w_os := w\<rparr>\<rparr>)) (w_os (mg_world g))"
  by (simp add: on_os_def wp_on_world wp_os)

lemma wp_on_locks:
  "wp (on_locks m) Q g = wp m (\<lambda>r x. Q r (g\<lparr>mg_locks := fst x, mg_world := (mg_world g)\<lparr>w_os := snd x\<rparr>\<rparr>))
     (mg_locks g, w_os (mg_world g))"
  by (simp add: on_locks_def wp_focus split_beta)

lemma wp_on_state [simp]:
  "wp (on_reconciler f) Q g = Q (Ok ()) (g\<lparr>mg_reconciler := f (mg_reconciler g)\<rparr>)"
  "wp (on_enforce f') Q g = Q (Ok ()) (g\<lparr>mg_enforce := f' (mg_enforce g)\<rparr>)"
  by (simp_all add: on_reconciler_def on_enforce_def)

lemma wp_on_cell:
  "mg_heap g a = Some l \<Longrightarrow> wp (on_cells (with_live a m)) Q g =
   wp m (\<lambda>r (l', t). Q r (g\<lparr>mg_heap := (mg_heap g)(a \<mapsto> l'), mg_world := t\<rparr>)) (l, mg_world g)"
  by (simp add: on_cells_def wp_focus wp_with_live)

lemma wp_live_at [simp]: "mg_heap g a = Some l \<Longrightarrow> wp (live_at a) Q g = Q (Ok l) g"
  by (simp add: live_at_def wp_on_cell fun_upd_idem)

lemma wp_live_record_at [simp]: "mg_heap g a = Some l \<Longrightarrow> wp (live_record_at a) Q g = Q (Ok (lr_record l)) g"
  by (simp add: live_record_at_def wp_on_cell fun_upd_idem)

lemma wp_set_live_state:
  "mg_heap g a = Some l \<Longrightarrow> wp (set_live_state a st) Q g =
     Q (Ok ()) (g\<lparr>mg_heap := (mg_heap g)(a \<mapsto> l\<lparr>lr_state := st\<rparr>)\<rparr>)"
  by (simp add: set_live_state_def wp_on_cell)

lemma wp_unregister [simp]:
  "wp (unregister_active r) Q g =
     Q (Ok ()) (g\<lparr>mg_active := AList.delete r (mg_active g), mg_reconciler := reconciler_remove r (mg_reconciler g)\<rparr>)"
  by (simp add: unregister_active_def)

lemma wp_checkpoint: "wp (checkpoint M p) (\<lambda>_ t. t = g) g"
  unfolding checkpoint_def wp_on_world by (rule wp_mono[OF wp_fire]) simp

section \<open>Steps that leave the native state and the records alone\<close>

definition quiet ::
  "('w \<Rightarrow> bool) \<Rightarrow> ('w \<Rightarrow> resource_id \<Rightarrow> 'n option) \<Rightarrow> ('w, 'd) manager \<Rightarrow> ('w, 'd) manager \<Rightarrow> bool" where
  "quiet calm view g g' \<longleftrightarrow> os_only calm view {} (mg_world g) (mg_world g') \<and> mg_heap g' = mg_heap g \<and>
     mg_next g' = mg_next g \<and> mg_active g' = mg_active g \<and> mg_locks g' = mg_locks g"

lemma quiet_refl: "calm (w_os (mg_world g)) \<Longrightarrow> quiet calm view g g"
  by (simp add: quiet_def os_only_def)

lemma quiet_trans: "quiet calm view g h \<Longrightarrow> quiet calm view h k \<Longrightarrow> quiet calm view g k"
  by (auto simp: quiet_def intro: os_only_trans)

lemma quietD:
  assumes "quiet calm view g g'"
  shows "calm (w_os (mg_world g'))" "view (w_os (mg_world g')) = view (w_os (mg_world g))"
    "w_journal (mg_world g') = w_journal (mg_world g)" "mg_heap g' = mg_heap g" "mg_active g' = mg_active g"
    "mg_locks g' = mg_locks g" "mg_next g' = mg_next g" "os_only calm view {} (mg_world g) (mg_world g')"
  using assms by (auto simp: quiet_def os_only_def)

text \<open>A whole quiet operation, from its steps.\<close>

lemma quiet_op:
  "keeps (quiet calm view g) m \<Longrightarrow> calm (w_os (mg_world g)) \<Longrightarrow> wp m (\<lambda>_. quiet calm view g) g"
  by (rule keepsD) (auto intro: quiet_refl)

lemma quiet_state [wp_intros]:
  "keeps (quiet calm view g) (on_reconciler f)" "keeps (quiet calm view g) (on_enforce f')"
  by (auto simp: keeps_def quiet_def)

lemma quiet_checkpoint [wp_intros]: "keeps (quiet calm view g) (checkpoint M p)"
  by (rule keepsI, rule wp_mono[OF wp_checkpoint]) simp

lemma quiet_os:
  assumes "\<And>w. calm w \<Longrightarrow> wp m (\<lambda>_ w'. calm w' \<and> view w' = view w) w"
  shows "keeps (quiet calm view g) (on_os m)"
proof (rule keepsI)
  fix h assume h: "quiet calm view g h"
  show "wp (on_os m) (\<lambda>_. quiet calm view g) h"
    unfolding wp_on_os
    by (rule wp_mono[OF assms[OF quietD(1)[OF h]]]) (use h in \<open>auto simp: quiet_def os_only_def\<close>)
qed

text \<open>
  The operations of the operating system that the manager uses beside those of the engine: none of
  them changes a resource, though resolving a scope may create one; what is observed of a resource
  is its current state.
\<close>

locale managed_system = transaction_env "me_env M" calm view snap files
  for M :: "('w, 'd) manager_env" and calm and view and snap :: "resource_id \<Rightarrow> 'n \<Rightarrow> platform_snapshot" and files +
  assumes spawn_calm: "calm w \<Longrightarrow> wp (me_spawn M) (\<lambda>_ w'. calm w' \<and> view w' = view w) w"
    and sleep_calm: "calm w \<Longrightarrow> wp (me_sleep M d) (\<lambda>res w'. no_err res \<and> calm w' \<and> view w' = view w) w"
    and start_calm: "calm w \<Longrightarrow> wp (bk_start_watch (me_backend M)) (\<lambda>_ w'. calm w' \<and> view w' = view w) w"
    and stop_calm: "calm w \<Longrightarrow> wp (bk_stop_watch (me_backend M) h) (\<lambda>_ w'. calm w' \<and> view w' = view w) w"
    and resolve_calm: "calm w \<Longrightarrow> wp (bk_resolve (me_backend M) scope plan) (\<lambda>_ w'. calm w' \<and>
      (\<forall>r. view w r \<noteq> None \<longrightarrow> view w' r = view w r)) w"
    and observe_calm: "calm w \<Longrightarrow> wp (bk_observe (me_backend M) r) (\<lambda>res w'. calm w' \<and> view w' = view w \<and>
      when_ok res (\<lambda>ob. manages calm view r \<longrightarrow> id_resource (bo_identity ob) = r \<and>
        (\<exists>n. view w r = Some n \<and> bo_snapshot ob = snap r n))) w"
begin

lemma quiet_calls [wp_intros]:
  "keeps (quiet calm view g) (on_os (e_now (me_env M)))"
  "keeps (quiet calm view g) (on_os (me_spawn M))"
  "keeps (quiet calm view g) (on_os (me_sleep M d))"
  "keeps (quiet calm view g) (on_os (bk_start_watch (me_backend M)))"
  "keeps (quiet calm view g) (on_os (bk_stop_watch (me_backend M) h))"
  "keeps (quiet calm view g) (on_os (bk_status (me_backend M) i))"
  "keeps (quiet calm view g) (on_os (bk_observe (me_backend M) r))"
  "keeps (quiet calm view g) (on_os (bk_readback (me_backend M) r))"
  by (rule quiet_os, rule wp_mono[OF clock_calm] wp_mono[OF spawn_calm] wp_mono[OF sleep_calm]
      wp_mono[OF start_calm] wp_mono[OF stop_calm] wp_mono[OF status_calm]
      wp_mono[OF observe_calm] wp_mono[OF readback_calm], assumption, simp)+

lemma quiet_feed [wp_intros]: "keeps (quiet calm view g) (feed_notify M r)"
  unfolding feed_notify_def by (intro wp_intros)

lemma quiet_notify [wp_intros]: "keeps (quiet calm view g) (notify_active M)"
  unfolding notify_active_def by (intro wp_intros keeps_for)

lemma quiet_rescan [wp_intros]: "keeps (quiet calm view g) (rescan_enforce M)"
  unfolding rescan_enforce_def by (intro wp_intros)

lemma quiet_drop_handle [wp_intros]: "keeps (quiet calm view g) (drop_handle M)"
  unfolding drop_handle_def by (intro wp_intros)

lemma quiet_ensure [wp_intros]: "keeps (quiet calm view g) (ensure_enforce_watch M)"
  unfolding ensure_enforce_watch_def by (intro wp_intros)

lemma quiet_release [wp_intros]: "keeps (quiet calm view g) (release_enforce_watch M)"
  unfolding release_enforce_watch_def by (intro wp_intros)

lemma quiet_refresh [wp_intros]: "keeps (quiet calm view g) (refresh_enforce_watch M)"
  unfolding refresh_enforce_watch_def Let_def by (intro wp_intros)

lemma quiet_schedule [wp_intros]:
  "keeps (quiet calm view g) (rc_defer M r delay failed)" "keeps (quiet calm view g) (rc_complete M r n)"
  unfolding rc_defer_def rc_complete_def by (intro wp_intros)+

lemma quiet_gate [wp_intros]: "keeps (quiet calm view g) (rc_gate M r)"
  unfolding rc_gate_def
  by (intro wp_intros)

end

end
