(* ===== verification/Reconcile_Safety.thy ===== *)
theory Reconcile_Safety
  imports Manager_Contract
begin

text \<open>
  What a reconciliation pass does to the resource and to its record: the record stays on disk, it
  names the state to go back to, and only an overlay or a pending rollback changes the resource.
\<close>

section \<open>The record on disk across a rebase\<close>

text \<open>A claim that differs from \<open>r\<close> in the state to go back to has the same file.\<close>

definition rebased :: "platform_snapshot \<Rightarrow> journal_record \<Rightarrow> journal_record" where
  "rebased b r = r\<lparr>jr_before := b\<rparr>"

lemma rebased_sel [simp]:
  "jr_resource (rebased b r) = jr_resource r"
  "jr_identity (rebased b r) = jr_identity r"
  "jr_before (rebased b r) = b"
  "file_of E (rebased b r) = file_of E r"
  "rebased (jr_before r) r = r"
  by (simp_all add: rebased_def file_of_def)

lemma overlay_claim:
  "same_claim r rec \<Longrightarrow> same_claim (rebased b r) (overlay_record b rec)"
  by (simp add: same_claim_def rebased_def overlay_record_def)

lemma overlay_sel [simp]:
  "jr_identity (overlay_record b rec) = jr_identity rec"
  "jr_desired (overlay_record b rec) = jr_desired rec"
  by (simp_all add: overlay_record_def)

text \<open>Whether a compensation of the native state is outstanding.\<close>

fun rolling_back :: "live_state \<Rightarrow> bool" where
  "rolling_back (Compensating p resume) = True"
| "rolling_back (Repair st) = rolling_back st"
| "rolling_back _ = False"

context transaction_env begin

abbreviation claim_inv where "claim_inv s r t \<equiv> tx_inv E calm view snap files s normalized_default {r} {r} {} {} t"

lemma claim_inv_iff:
  "tx_inv E calm view snap files s plan {r} {r} {} {} t \<longleftrightarrow> calm (w_os t) \<and> is_open (w_journal t) \<and>
     (\<forall>q. q \<noteq> jr_resource r \<longrightarrow> view (w_os t) q = view (w_os s) q) \<and>
     (\<forall>n. n \<noteq> file_of E r \<longrightarrow> store_files files (w_journal t) n = store_files files (w_journal s) n) \<and>
     recorded E (store_files files (w_journal t)) r \<and> manages calm view (jr_resource r)"
  by (auto simp: tx_inv_def)

lemma claim_inv_os:
  "claim_inv s r t \<Longrightarrow> os_only calm view {jr_resource r} t u \<Longrightarrow> claim_inv s r u"
  by (auto simp: claim_inv_iff os_only_def)

lemma rebase_write:
  assumes inv: "claim_inv s r t" and c: "same_claim (rebased b r) c"
  shows "wp (jwrite E c) (\<lambda>res u. res \<noteq> Crash \<and> w_os u = w_os t \<and>
     (claim_inv s r u \<and> res \<noteq> Ok () \<or> claim_inv s (rebased b r) u)) t"
proof -
  have op: "is_open (w_journal t)" using inv by (simp add: claim_inv_iff)
  have f: "file_of E c = file_of E r" using same_claim_file[OF c] by simp
  show ?thesis
  proof (rule wp_mono[OF jwrite_spec[OF op, of c]], goal_cases)
    case (1 res u)
    have "recorded E ((store_files files (w_journal t))(file_of E c \<mapsto> bs)) (rebased b r)"
      if "journal_bytes (e_libs E) c = Inr bs" for bs
      using recorded_upd_same[OF c that] f by simp
    with 1 inv f show ?case unfolding claim_inv_iff by auto
  qed
qed

text \<open>
  Publishing the intent of an overlay: the record on disk is the old one or the new one, and the
  live record moves on only when the new one is published.
\<close>

lemma prepare_live_spec:
  assumes inv: "claim_inv s r t" and rec: "same_claim r (lr_record l)" and c: "same_claim (rebased b r) c"
  shows "wp (prepare_live E c) (\<lambda>res (l', u). res \<noteq> Crash \<and> w_os u = w_os t \<and>
     (if res = Ok () then l' = \<lparr> lr_record = c, lr_state = Unmutated \<rparr> \<and> claim_inv s (rebased b r) u
      else (l' = l \<or> l' = l\<lparr>lr_state := Repair (lr_state l)\<rparr>) \<and> (claim_inv s r u \<or> claim_inv s (rebased b r) u))) (l, t)"
  unfolding prepare_live_def wp_bind_mut
proof (rule wp_match_innerI[OF rebase_write[OF inv c]], goal_cases)
  case (1 x u)
  then show ?case by simp
next
  case (2 e u)
  have old: "same_claim (rebased (jr_before r) (rebased b r)) (lr_record l)"
    using rec by (simp add: rebased_def)
  have undone: "rebased (jr_before r) (rebased b r) = r" by (simp add: rebased_def)
  have "same_claim (rebased (jr_before r) r) (lr_record l)" using rec by simp
  note back_r = rebase_write[OF _ this] and back_b = rebase_write[OF _ old, unfolded undone]
  have "wp (jwrite E (lr_record l)) (\<lambda>res v. res \<noteq> Crash \<and> w_os v = w_os t \<and>
      (claim_inv s r v \<or> claim_inv s (rebased b r) v)) u"
  proof (cases "claim_inv s r u")
    case True
    show ?thesis by (rule wp_mono[OF back_r[OF True]]) (use 2 in auto)
  next
    case False
    then have "claim_inv s (rebased b r) u" using 2 by auto
    from back_b[OF this] show ?thesis by (rule wp_mono) (use 2 in auto)
  qed
  then show ?case
    unfolding wp_seq[of "match_tx a f h" for a f h]
    by (rule wp_match_innerI) (auto simp: wp_simps)
qed auto

lemma commit_verified_spec:
  assumes id: "id_resource (jr_identity r) = jr_resource r"
    and inv: "tx_inv E calm view snap files s plan {r} {r} {} {r} t" and rec: "same_claim r (lr_record l)"
  shows "wp (commit_verified E m) (\<lambda>res (l', u). tx_inv E calm view snap files s plan {r} {r} {} {r} u \<and> live_ok r l' \<and>
     when_ok res (\<lambda>_. lr_state l' = Committed \<and> jr_desired (lr_record l') = jr_desired (lr_record l))) (l, t)"
proof -
  let ?l = "l\<lparr>lr_state := Verified m\<rparr>"
  have "wp (resolve_verified E m None) (\<lambda>res (l', u). tx_inv E calm view snap files s plan {r} {r} {} {r} u \<and> live_ok r l' \<and>
     when_ok res (\<lambda>_. lr_state l' = Committed \<and> jr_desired (lr_record l') = jr_desired (lr_record l))) (?l, t)"
    by (rule wp_mono[OF resolve_verified_spec[OF tx_wf_single[OF id] inv]])
       (use rec in \<open>auto simp: live_ok_def when_ok_def split: outcome.splits\<close>)
  then show ?thesis
    by (simp add: commit_verified_def resolve_live_def repair_live_def resolve_state_def wp_seq)
qed

text \<open>Without an outstanding rollback, resolving a live record only reads the native state.\<close>

lemma resolve_reads:
  assumes "calm (w_os s)" and "\<not> rolling_back (lr_state l)"
  shows "wp (resolve_live E given) (\<lambda>_ (l', t). view (w_os t) = view (w_os s)) (l, s)"
proof -
  define I where "I = (\<lambda>t :: ('w, 'd) world. calm (w_os t) \<and> view (w_os t) = view (w_os s))"
  have os: "keeps I (os (bk_readback (e_backend E) r))" "keeps I (os (bk_status (e_backend E) i))" for r i
    unfolding I_def keeps_def wp_os
    by (auto intro: wp_mono[OF readback_calm] wp_mono[OF status_calm])
  have jw: "keeps I (jwrite E r)" for r
    unfolding I_def keeps_def jwrite_def wp_jn by (auto intro: wpI)
  have verified: "keeps (\<lambda>lt. I (snd lt)) (resolve_verified E m given)" for m
    unfolding resolve_verified_def Let_def by (intro wp_intros os jw)
  have state: "wp (resolve_state E given l') (\<lambda>_ lt. I (snd lt)) (l', t)"
    if "I t" "\<not> rolling_back (lr_state l')" for l' t
    using that keepsD[OF verified, of "(l', t)"] by (auto simp: resolve_state_def split: live_state.splits)
  have "wp (resolve_live E given) (\<lambda>_ lt. I (snd lt)) (l, s)"
  proof (cases "lr_state l")
    case (Repair st)
    have w: "wp (jwrite E (lr_record l)) (\<lambda>_. I) s" by (rule keepsD[OF jw]) (simp add: I_def assms(1))
    have "wp (seq_tx (inner_tx (jwrite E (lr_record l))) (put_mut (l\<lparr>lr_state := st\<rparr>)))
        (\<lambda>res (l', t). I t \<and> (succeeded res \<longrightarrow> l' = l\<lparr>lr_state := st\<rparr>)) (l, s)"
      by (rule wp_seq_innerI[OF w]) auto
    then have rep: "wp (repair_live E) (\<lambda>res (l', t). I t \<and> (succeeded res \<longrightarrow> l' = l\<lparr>lr_state := st\<rparr>)) (l, s)"
      by (simp add: repair_live_def Repair)
    show ?thesis
      unfolding resolve_live_def
      by (rule wp_seqI[OF rep]) (use state assms(2) Repair in auto)
  qed (use state[of s l] assms in \<open>simp_all add: resolve_live_def repair_live_def I_def wp_seq\<close>)
  then show ?thesis by (rule wp_mono) (auto simp: I_def)
qed

end

section \<open>A pass\<close>

text \<open>A lease of one incarnation that is still there.\<close>

locale managed_live = managed_system M calm view snap files + live_env "me_env M" calm view snap files r0
  for M :: "('w, 'd) manager_env" and calm and view and snap :: "resource_id \<Rightarrow> 'n \<Rightarrow> platform_snapshot" and files
    and r0 :: journal_record
begin

abbreviation target where "target \<equiv> jr_resource r0"

text \<open>
  In \<open>g\<close>, begun in \<open>s\<close>: the live record at \<open>a\<close> makes the claim \<open>r2\<close>, the one on disk \<open>r1\<close>.
\<close>

definition holds_claim :: "('w, 'd) world \<Rightarrow> addr \<Rightarrow> journal_record \<Rightarrow> journal_record \<Rightarrow> ('w, 'd) manager \<Rightarrow> bool" where
  "holds_claim s a r1 r2 g \<longleftrightarrow> claim_inv s r1 (mg_world g) \<and> (\<exists>l. mg_heap g a = Some l \<and> live_ok r2 l)"

text \<open>A claim a pass that began in the native state \<open>w\<close> may leave; \<open>quick\<close> when no rollback was due.\<close>

definition may_claim :: "'w \<Rightarrow> bool \<Rightarrow> journal_record \<Rightarrow> bool" where
  "may_claim w quick r \<longleftrightarrow> r = r0 \<or>
     (\<exists>n. r = rebased (snap target n) r0 \<and> (quick \<longrightarrow> view w target = Some n))"

definition pass_post ::
  "('w, 'd) world \<Rightarrow> addr \<Rightarrow> bool \<Rightarrow> reconcile_outcome outcome \<Rightarrow> ('w, 'd) manager \<Rightarrow> bool" where
  "pass_post s a quick res g \<longleftrightarrow> no_err res \<and>
     (\<exists>r1 r2. may_claim (w_os s) quick r1 \<and> may_claim (w_os s) quick r2 \<and> holds_claim s a r1 r2 g \<and>
       when_ok res (\<lambda>out. out \<noteq> NoActiveLease \<and>
         (out = StillOurs \<or> out = Rebased \<longrightarrow> r1 = r2 \<and>
            (\<exists>l. mg_heap g a = Some l \<and>
               in_effect (me_env M) view snap (w_os (mg_world g)) (jr_desired (lr_record l)) target)) \<and>
         (quick \<and> out \<noteq> Rebased \<and> out \<noteq> Failed \<longrightarrow> view (w_os (mg_world g)) = view (w_os s))))"

lemma may_claim_r0 [simp]: "may_claim w quick r0"
  by (simp add: may_claim_def)

text \<open>The state before the overlay: nothing has changed yet if no rollback was due.\<close>

definition ready :: "('w, 'd) world \<Rightarrow> addr \<Rightarrow> bool \<Rightarrow> live_record \<Rightarrow> ('w, 'd) manager \<Rightarrow> bool" where
  "ready s a quick l g \<longleftrightarrow> mg_heap g a = Some l \<and> live_ok r0 l \<and> claim_inv s r0 (mg_world g) \<and>
     (quick \<longrightarrow> view (w_os (mg_world g)) = view (w_os s))"

lemma ready_quiet: "ready s a quick l g \<Longrightarrow> quiet calm view g h \<Longrightarrow> ready s a quick l h"
  unfolding ready_def claim_inv_iff by (auto simp: quiet_def os_only_def)

lemma ready_calm: "ready s a quick l g \<Longrightarrow> calm (w_os (mg_world g))"
  by (simp add: ready_def claim_inv_iff)

lemma ready_post:
  "ready s a quick l g \<Longrightarrow> no_err res \<Longrightarrow> when_ok res (\<lambda>out. out = Deferred \<or> out = Failed \<or> out = IdentityAmbiguous) \<Longrightarrow>
   pass_post s a quick res g"
  unfolding pass_post_def ready_def holds_claim_def
  by (intro conjI exI[of _ r0]) (auto simp: when_ok_def split: outcome.splits)

lemma cell_step:
  "mg_heap g a = Some l \<Longrightarrow> wp m P (l, mg_world g) \<Longrightarrow>
   (\<And>res l' t. P res (l', t) \<Longrightarrow> Q res (g\<lparr>mg_heap := (mg_heap g)(a \<mapsto> l'), mg_world := t\<rparr>)) \<Longrightarrow>
   wp (on_cells (with_live a m)) Q g"
  by (simp add: wp_on_cell) (erule wp_mono, auto)

lemma quiet_step:
  "keeps (quiet calm view g) m \<Longrightarrow> calm (w_os (mg_world g)) \<Longrightarrow> (\<And>res h. quiet calm view g h \<Longrightarrow> Q res h) \<Longrightarrow> wp m Q g"
  by (rule wp_mono[OF quiet_op])

lemma wp_checked: "wp (try_tx (checkpoint M p)) (\<lambda>res h. no_err res \<and> h = g) g"
  by (rule wp_tryI[OF wp_checkpoint]) auto

text \<open>The end of an overlay, on the record with the rebased claim.\<close>

lemma overlay_mutate_spec:
  assumes g: "mg_heap g a = Some \<lparr> lr_record = c, lr_state = Unmutated \<rparr>"
    and c: "same_claim (rebased b r0) c" and inv: "claim_inv s (rebased b r0) (mg_world g)"
    and may: "may_claim (w_os s) quick (rebased b r0)"
  shows "wp (overlay_mutate M a expected c) (pass_post s a quick) g"
proof -
  let ?r = "rebased b r0"
  let ?l = "\<lparr> lr_record = c, lr_state = LivePrepared \<rparr>"
  have id: "id_resource (jr_identity ?r) = jr_resource ?r" by (simp add: identity_resource)
  have ic: "id_resource (jr_identity c) = target" using c id by (simp add: same_claim_def)
  have calm: "calm (w_os (mg_world g))" using inv by (simp add: claim_inv_iff)
  have mine: "\<forall>q\<in>{target}. manages calm view q" using managed_resource[OF calm] by simp
  note mut = mutate_spec[OF os_only_refl[OF calm mine], of "jr_identity c", simplified ic, OF singletonI]
  have post: "pass_post s a quick (Ok Failed) h"
    if "claim_inv s ?r (mg_world h)" "mg_heap h a = Some l" "live_ok ?r l" for h l
    using that may by (auto simp: pass_post_def holds_claim_def)
  have crash: "pass_post s a quick Crash h" if "claim_inv s ?r (mg_world h)" "mg_heap h a = Some l" "live_ok ?r l" for h l
    using that may by (auto simp: pass_post_def holds_claim_def)
  have live: "live_ok ?r \<lparr> lr_record = c, lr_state = residue_state c x \<rparr>" for x
    using c by (cases x) (simp_all add: live_ok_def residue_state_def)
  let ?g = "g\<lparr>mg_heap := (mg_heap g)(a \<mapsto> ?l)\<rparr>"
  have "wp (bind_tx (on_world (mutate_and_verify (me_env M) (jr_identity c) expected (jr_desired c) RECONCILE_POINTS)) (\<lambda>res. case res of
         Inr mutation \<Rightarrow> overlay_commit M a mutation
       | Inl failure \<Rightarrow> seq_tx (set_live_state a (residue_state c (mf_residue failure))) (return_tx Failed)))
      (pass_post s a quick) ?g"
    unfolding wp_bind wp_on_world
  proof (simp, rule wp_mono[OF mut], goal_cases)
    case (1 res u)
    then have u: "os_only calm view {target} (mg_world g) u" and ne: "no_err res" by (simp_all add: mutate_post_def)
    then have inv_u: "claim_inv s ?r u" using claim_inv_os[OF inv] by simp
    show ?case
    proof (cases res)
      case (Ok x)
      show ?thesis
      proof (cases x)
        case (Inl f)
        show ?thesis
          unfolding Ok Inl
          by (simp add: wp_seq wp_set_live_state[where l = ?l])
             (rule post, simp_all add: inv_u, rule live)
      next
        case (Inr m)
        with 1 Ok obtain n where n: "view (w_os u) target = Some n"
          "bk_matches_desired (me_backend M) (snap target n) (jr_desired c)"
          by (auto simp: mutate_post_def verified_ok_def ic)
        have eff: "tx_inv (me_env M) calm view snap files s (jr_desired c) {?r} {?r} {} {?r} u"
        proof -
          have "tx_inv (me_env M) calm view snap files s (jr_desired c) {?r} {?r} {} {} u"
            using inv_u unfolding claim_inv_iff .
          moreover have "in_effect (me_env M) view snap (w_os u) (jr_desired c) (jr_resource ?r)"
            using n by (auto simp: in_effect_def)
          ultimately show ?thesis by (rule tx_inv_effect)
        qed
        have fin: "pass_post s a quick (Ok Rebased) h"
          if "mg_heap h a = Some l'" "live_ok ?r l'" "jr_desired (lr_record l') = jr_desired c"
            "tx_inv (me_env M) calm view snap files s (jr_desired c) {?r} {?r} {} {?r} (mg_world h)" for h l'
        proof -
          have "claim_inv s ?r (mg_world h)"
            using that(4) unfolding claim_inv_iff tx_inv_def by auto
          moreover have "in_effect (me_env M) view snap (w_os (mg_world h)) (jr_desired c) target"
            using that(4) unfolding tx_inv_def by auto
          ultimately show ?thesis using that(1-3) may by (auto simp: pass_post_def holds_claim_def)
        qed
        let ?h = "g\<lparr>mg_heap := (mg_heap g)(a \<mapsto> ?l), mg_world := u\<rparr>"
        have cell: "mg_heap ?h a = Some ?l" by simp
        have "wp (commit_verified (me_env M) m) (\<lambda>res (l', t). live_ok ?r l' \<and>
            tx_inv (me_env M) calm view snap files s (jr_desired c) {?r} {?r} {} {?r} t \<and>
            when_ok res (\<lambda>_. jr_desired (lr_record l') = jr_desired c)) (?l, mg_world ?h)"
          using commit_verified_spec[OF id eff, of ?l m] c
          by (auto elim!: wp_mono simp: when_ok_def split: outcome.splits)
        then show ?thesis
          unfolding Ok Inr on_simps sum.case overlay_commit_def wp_match
        proof (rule cell_step[OF cell], goal_cases)
          case (1 res l' t)
          have t: "claim_inv s ?r t" using 1 unfolding claim_inv_iff tx_inv_def by auto
          show ?case
          proof (cases res)
            case (Ok y)
            show ?thesis
              unfolding Ok on_simps
              by (rule wp_seqI[OF wp_checked]) (use 1 Ok t in \<open>auto intro!: fin[of _ l'] crash[of _ l']\<close>)
          next
            case (Err e)
            then show ?thesis using 1 t by (auto intro!: post[of _ l'])
          next
            case Crash
            then show ?thesis using 1 t by (auto intro!: crash[of _ l'])
          qed
        qed
      qed
    next
      case (Err e)
      with ne show ?thesis by simp
    next
      case Crash
      have "live_ok ?r ?l" using c by (simp add: live_ok_def)
      with inv_u Crash show ?thesis by (auto intro: crash)
    qed
  qed
  then show ?thesis
    unfolding overlay_mutate_def wp_seq wp_set_live_state[OF g] by simp
qed

lemma apply_overlay_spec:
  assumes rdy: "ready s a quick l g" and may: "may_claim (w_os s) quick (rebased b r0)"
  shows "wp (apply_overlay M a expected b) (pass_post s a quick) g"
proof -
  let ?c = "overlay_record b (lr_record l)"
  have l: "mg_heap g a = Some l" "live_ok r0 l" and inv: "claim_inv s r0 (mg_world g)"
    using rdy by (simp_all add: ready_def)
  have claim: "same_claim r0 (lr_record l)" using l(2) by (simp add: live_ok_def)
  note c = overlay_claim[OF claim, of b]
  note prep = prepare_live_spec[OF inv claim c]
  show ?thesis
    unfolding apply_overlay_def wp_bind wp_live_record_at[OF l(1)] on_simps wp_match
  proof (rule cell_step[OF l(1) prep], goal_cases)
    case (1 res l' u)
    let ?g = "g\<lparr>mg_heap := (mg_heap g)(a \<mapsto> l'), mg_world := u\<rparr>"
    show ?case
    proof (cases "res = Ok ()")
      case True
      with 1 have l': "l' = \<lparr> lr_record = ?c, lr_state = Unmutated \<rparr>" and u: "claim_inv s (rebased b r0) u"
        and w: "w_os u = w_os (mg_world g)" by simp_all
      have ok: "live_ok (rebased b r0) l'" using c by (simp add: l' live_ok_def)
      have same: "quick \<longrightarrow> view (w_os u) = view (w_os s)" using rdy w by (simp add: ready_def)
      have still: "pass_post s a quick res h" if "h = ?g" "no_err res" "when_ok res (\<lambda>out. out = Deferred)"
        for res :: "reconcile_outcome outcome" and h
        using that u ok may same
        by (auto simp: pass_post_def holds_claim_def when_ok_def split: outcome.splits)
      show ?thesis
        unfolding True on_simps
        by (rule wp_mono[OF wp_checkpoint])
           (use overlay_mutate_spec[OF _ c _ may, where g = ?g] l' u still
            in \<open>auto simp: on_both_def split: outcome.splits\<close>)
    next
      case False
      with 1 obtain e where e: "res = Err e" by (cases res) auto
      have "claim_inv s r0 u \<or> claim_inv s (rebased b r0) u" using 1 False by auto
      then obtain r1 where r1: "may_claim (w_os s) quick r1" "claim_inv s r1 u"
        using may may_claim_r0 by metis
      have "live_ok r0 l'" using 1 False l(2) by (auto simp: live_ok_def)
      then have "holds_claim s a r1 r0 ?g" using r1(2) by (simp add: holds_claim_def)
      with r1(1) have "pass_post s a quick (Ok Failed) ?g"
        unfolding pass_post_def by (intro conjI exI[of _ r1] exI[of _ r0]) simp_all
      then show ?thesis by (simp add: e)
    qed
  qed
qed

lemma pass_read_spec:
  assumes rdy: "ready s a quick l g"
    and k: "\<And>n h. ready s a quick l h \<Longrightarrow> view (w_os (mg_world h)) = view (w_os (mg_world g)) \<Longrightarrow>
      view (w_os (mg_world h)) target = Some n \<Longrightarrow> wp (k (snap target n)) (pass_post s a quick) h"
  shows "wp (pass_read M target a k) (pass_post s a quick) g"
proof -
  note calm = ready_calm[OF rdy]
  have rd: "wp (on_os (bk_readback (me_backend M) target)) (\<lambda>res h. quiet calm view g h \<and>
      (\<forall>e. res = Err e \<longrightarrow> \<not> gone_error e) \<and>
      when_ok res (\<lambda>c. \<exists>n. view (w_os (mg_world h)) target = Some n \<and> c = snap target n)) g"
    unfolding wp_on_os
    by (rule wp_mono[OF wp_conj[OF readback_calm[OF calm] read_live[OF calm]]])
       (use managed_resource[OF calm] in \<open>auto simp: quiet_def os_only_def\<close>)
  show ?thesis
    unfolding pass_read_def
  proof (rule wp_matchI[OF rd], goal_cases)
    case (1 c h)
    then obtain n where "quiet calm view g h" "view (w_os (mg_world h)) target = Some n" "c = snap target n" by auto
    then show ?case by (simp add: k ready_quiet[OF rdy] quietD(2))
  next
    case (2 e h)
    then have "ready s a quick l h" "\<not> gone_error e" using ready_quiet[OF rdy] by auto
    then show ?case by (cases e) (auto simp: gone_error_def intro: ready_post)
  next
    case (3 h)
    then have "ready s a quick l h" using ready_quiet[OF rdy] by simp
    then show ?case by (rule ready_post) simp_all
  qed
qed

lemma pass_decide_spec:
  assumes rdy: "ready s a quick l g" and n: "view (w_os (mg_world g)) target = Some n"
  shows "wp (pass_decide M target a (snap target n)) (pass_post s a quick) g"
proof -
  have l: "mg_heap g a = Some l" "live_ok r0 l" and inv: "claim_inv s r0 (mg_world g)"
    using rdy by (simp_all add: ready_def)
  have before: "jr_before (lr_record l) = jr_before r0" using l(2) by (simp add: live_ok_def same_claim_def)
  have own: "wp (apply_overlay M a x (jr_before (lr_record l))) (pass_post s a quick) g" for x
    by (rule apply_overlay_spec[OF rdy]) (simp add: before)
  have new: "wp (apply_overlay M a x (snap target n)) (pass_post s a quick) h" if "quiet calm view g h" for x h
  proof (rule apply_overlay_spec[OF ready_quiet[OF rdy that]])
    show "may_claim (w_os s) quick (rebased (snap target n) r0)"
      using rdy n unfolding may_claim_def ready_def by metis
  qed
  have wait: "wp (seq_tx (rc_defer M target d False) (return_tx Deferred)) (pass_post s a quick) h"
    if "quiet calm view g h" for d h
  proof -
    have h: "ready s a quick l h" by (rule ready_quiet[OF rdy that])
    have "wp (rc_defer M target d False) (\<lambda>res k. no_err res \<and> quiet calm view h k) h"
      unfolding rc_defer_def wp_bind wp_on_os
      by (rule wp_mono[OF clock_calm[OF ready_calm[OF h]]])
         (auto simp: on_ok_def quiet_def os_only_def split: outcome.splits)
    then show ?thesis
      by (rule wp_seqI) (auto intro!: ready_post ready_quiet[OF h])
  qed
  have gate: "wp (rc_gate M target) (\<lambda>res h. no_err res \<and> quiet calm view g h) g"
    unfolding rc_gate_def wp_bind wp_on_os
    by (rule wp_mono[OF clock_calm[OF ready_calm[OF rdy]]])
       (auto simp: on_ok_def quiet_def os_only_def wp_seq split: outcome.splits prod.splits)
  have breaker: "wp (bind_tx (rc_gate M target) (\<lambda>verdict. case verdict of
          Some cooldown \<Rightarrow> seq_tx (rc_defer M target cooldown False) (return_tx Deferred)
        | None \<Rightarrow> apply_overlay M a (snap target n) (snap target n))) (pass_post s a quick) g"
  proof (rule wp_bindI[OF gate], goal_cases)
    case (1 x h)
    then show ?case by (cases x) (auto intro: new wait)
  qed (auto intro!: ready_post ready_quiet[OF rdy])
  have ours: "pass_post s a quick (Ok StillOurs) g"
    if "bk_matches_desired (me_backend M) (snap target n) (jr_desired (lr_record l))"
  proof -
    have "in_effect (me_env M) view snap (w_os (mg_world g)) (jr_desired (lr_record l)) target"
      using that n by (auto simp: in_effect_def)
    with l inv rdy show ?thesis
      by (auto simp: pass_post_def holds_claim_def ready_def intro!: exI[of _ r0])
  qed
  have calm: "quiet calm view g g" using ready_calm[OF rdy] by (rule quiet_refl)
  show ?thesis
    unfolding pass_decide_def wp_bind wp_live_at[OF l(1)] on_simps Let_def
    using breaker own ours wait[OF calm] ready_post[OF rdy]
    by (simp add: wp_bind)
qed

lemma pass_observe_spec:
  assumes rdy: "ready s a quick l g"
  shows "wp (pass_observe M target a) (pass_post s a quick) g"
  unfolding pass_observe_def
proof (rule pass_read_spec[OF rdy], goal_cases)
  case (1 n h)
  have sl: "wp (on_os (me_sleep M STABLE_WINDOW)) (\<lambda>res k. no_err res \<and> quiet calm view h k) h"
    unfolding wp_on_os
    by (rule wp_mono[OF sleep_calm[OF ready_calm[OF 1(1)]]]) (auto simp: quiet_def os_only_def)
  show ?case
  proof (rule wp_seqI[OF sl], goal_cases)
    case (1 x k)
    then have k: "ready s a quick l k" using ready_quiet[OF \<open>ready s a quick l h\<close>] by simp
    show ?case
      by (rule pass_read_spec[OF k]) (auto intro: pass_decide_spec ready_post)
  qed (auto intro!: ready_post ready_quiet[OF 1(1)])
qed

lemma reconcile_pass_spec:
  assumes rdy: "ready s a quick l g" and quick: "quick \<longrightarrow> \<not> rolling_back (lr_state l)"
  shows "wp (reconcile_pass M target a) (pass_post s a quick) g"
proof -
  have l: "mg_heap g a = Some l" "live_ok r0 l" and inv: "claim_inv s r0 (mg_world g)"
    using rdy by (simp_all add: ready_def)
  have li: "linv s (l, mg_world g)" using l(2) inv by (simp add: live_inv_def)
  have res: "wp (resolve_live (me_env M) None) (\<lambda>_ (l', t). linv s (l', t) \<and>
      (quick \<longrightarrow> view (w_os t) = view (w_os (mg_world g)))) (l, mg_world g)"
  proof (cases quick)
    case True
    with quick have "\<not> rolling_back (lr_state l)" by simp
    from wp_conj[OF resolve_inv[OF li] resolve_reads[OF ready_calm[OF rdy] this]] show ?thesis
      by (rule wp_mono) auto
  next
    case False
    from resolve_inv[OF li] show ?thesis by (rule wp_mono) (use False in auto)
  qed
  have "wp (try_tx (on_cells (with_live a (resolve_live (me_env M) None))))
      (\<lambda>res h. no_err res \<and> (\<exists>l'. ready s a quick l' h)) g"
    unfolding wp_try
    by (rule cell_step[OF l(1) res])
       (use rdy in \<open>auto simp: on_both_def ready_def live_inv_def split: outcome.splits\<close>)
  then show ?thesis
    unfolding reconcile_pass_def
  proof (rule wp_bindI, goal_cases)
    case (1 x h)
    then obtain l' where h: "ready s a quick l' h" by auto
    then have h': "mg_heap h a = Some l'" by (simp add: ready_def)
    show ?case
      unfolding wp_bind wp_live_at[OF h'] on_simps
      using pass_observe_spec[OF h] by (auto intro!: ready_post[OF h] split: sum.splits)
  qed (auto intro: ready_post)
qed

lemma pass_post_quiet:
  assumes post: "pass_post s a quick (Ok out) g" and h: "quiet calm view g h"
  shows "pass_post s a quick (Ok out) h"
proof -
  note same = quietD(2,4)[OF h]
  have "holds_claim s a r1 r2 h" if "holds_claim s a r1 r2 g" for r1 r2
    using that tx_inv_read[OF _ quietD(8)[OF h]] unfolding holds_claim_def same by blast
  with post show ?thesis
    unfolding pass_post_def when_ok_simps same in_effect_def by blast
qed

lemma pass_post_crash: "pass_post s a quick (Ok out) g \<Longrightarrow> pass_post s a quick Crash g"
  unfolding pass_post_def by auto

lemma scheduled:
  assumes "calm (w_os (mg_world g))"
  shows "wp (rc_defer M r d failed) (\<lambda>res h. no_err res \<and> quiet calm view g h) g"
    "wp (rc_complete M r n) (\<lambda>res h. no_err res \<and> quiet calm view g h) g"
  unfolding rc_defer_def rc_complete_def wp_bind wp_on_os
  by (rule wp_mono[OF clock_calm[OF assms]], auto simp: on_ok_def quiet_def os_only_def split: outcome.splits)+

lemma settle_pass_spec:
  assumes "calm (w_os (mg_world g))"
  shows "wp (settle_pass M r n out) (\<lambda>res h. no_err res \<and> quiet calm view g h) g"
  using scheduled[OF assms] quiet_refl[of calm g view] assms
  by (cases out) (simp_all add: settle_pass_def)

lemma pass_post_calm: "pass_post s a quick res g \<Longrightarrow> calm (w_os (mg_world g))"
  by (auto simp: pass_post_def holds_claim_def claim_inv_iff)

lemma reconcile_resource_spec:
  assumes act: "map_of (mg_active g) target = Some a" and rdy: "ready s a quick l g"
    and quick: "quick \<longrightarrow> \<not> rolling_back (lr_state l)"
  shows "wp (reconcile_resource M target) (pass_post s a quick) g"
proof -
  have l: "mg_heap g a = Some l" "live_ok r0 l" using rdy by (simp_all add: ready_def)
  have i: "jr_identity (lr_record l) = jr_identity r0" using l(2) by (simp add: live_ok_def same_claim_def)
  have waited: "wp (seq_tx (rc_defer M target d f) (return_tx out)) (pass_post s a quick) h"
    if "quiet calm view g h" "out = IdentityAmbiguous \<or> out = Failed" for d f out h
  proof -
    have h: "ready s a quick l h" by (rule ready_quiet[OF rdy that(1)])
    show ?thesis
      by (rule wp_seqI[OF scheduled(1)[OF ready_calm[OF h]]])
         (use that(2) in \<open>auto intro!: ready_post ready_quiet[OF h]\<close>)
  qed
  have passed: "wp (bind_tx (reconcile_pass M target a) (\<lambda>out.
      seq_tx (settle_pass M target n out) (return_tx out))) (pass_post s a quick) h" if "quiet calm view g h" for n h
  proof (rule wp_bindI[OF reconcile_pass_spec[OF ready_quiet[OF rdy that] quick]], goal_cases)
    case (1 out k)
    show ?case
      by (rule wp_seqI[OF settle_pass_spec[OF pass_post_calm[OF 1]]])
         (use 1 in \<open>auto intro: pass_post_quiet pass_post_crash\<close>)
  qed (auto simp: pass_post_def)
  have status: "wp (on_os (bk_status (me_backend M) (jr_identity r0)))
      (\<lambda>res h. quiet calm view g h \<and> when_ok res (\<lambda>st. st = Same \<or> st = Ambiguous)) g"
    unfolding wp_on_os
    by (rule wp_mono[OF wp_conj[OF status_calm[OF ready_calm[OF rdy]] status_live[OF ready_calm[OF rdy]]]])
       (auto simp: quiet_def os_only_def)
  have "wp (match_tx (on_os (bk_status (me_backend M) (jr_identity r0)))
           (\<lambda>status. case status of
               Gone \<Rightarrow> reconcile_gone M target a
             | Replaced \<Rightarrow> reconcile_gone M target a
             | Ambiguous \<Rightarrow> seq_tx (rc_defer M target IDENTITY_RETRY False) (return_tx IdentityAmbiguous)
             | Same \<Rightarrow> bind_tx (reconcile_pass M target a) (\<lambda>out.
                 seq_tx (settle_pass M target n out) (return_tx out)))
           (\<lambda>_. seq_tx (rc_defer M target ERROR_RETRY True) (return_tx Failed))) (pass_post s a quick) g" for n
    by (rule wp_matchI[OF status]) (auto intro: waited passed intro!: ready_post ready_quiet[OF rdy])
  then show ?thesis
    unfolding reconcile_resource_def by (simp add: wp_bind act l(1) i)
qed

end

end
