(* ===== verification/Reference_Manager.thy ===== *)
theory Reference_Manager
  imports Reconcile_Safety Reference_Env
begin

text \<open>
  Managers on the in-memory backend: the remaining operations of the backend keep what
  \<open>managed_system\<close> asks of them, and a manager on the reference machine is an instance of the
  interfaces of the manager and of a reconciliation pass.
\<close>

section \<open>The remaining operations of the in-memory backend\<close>

lemma fake_more_sel [simp]:
  "bk_start_watch (fake F) = fake_start_watch F"
  "bk_stop_watch (fake F) = fake_stop_watch"
  "bk_watch_active (fake F) = fake_watch_active"
  by (simp_all add: fake_def with_default_bounds_def fake_prims_def)

lemma fake_calm_inner: "fo_inner t = fo_inner s \<Longrightarrow> fake_calm ids t = fake_calm ids s"
  by (simp add: fake_calm_def)

lemma fake_view_inner: "fo_inner t = fo_inner s \<Longrightarrow> fake_view t = fake_view s"
  by (simp add: fake_view_def fun_eq_iff)

lemma fake_start_watch_calm:
  assumes "fake_calm ids s"
  shows "wp (fake_start_watch F) (\<lambda>_ t. fake_calm ids t \<and> fake_view t = fake_view s) s"
  unfolding fake_start_watch_def
  by (rule wp_seqI[OF check_failure_spec[OF assms]])
     (auto simp: frame_ok_empty wp_bind wp_seq fake_calm_def fake_view_def fun_eq_iff)

lemma fake_stop_watch_calm:
  assumes "fake_calm ids s"
  shows "wp (fake_stop_watch h) (\<lambda>_ t. fake_calm ids t \<and> fake_view t = fake_view s) s"
  using assms by (simp add: fake_stop_watch_def fake_calm_def fake_view_def fun_eq_iff)

lemma fake_observe_calm:
  assumes "fake_calm ids s"
  shows "wp (fake_observe r) (\<lambda>res t. fake_calm ids t \<and> fake_view t = fake_view s \<and>
     when_ok res (\<lambda>ob. id_resource (bo_identity ob) = r \<and>
       (\<exists>n. fake_view s r = Some n \<and> bo_snapshot ob = fake_snap r n))) s"
  unfolding fake_observe_def
proof (rule wp_seqI[OF check_failure_spec[OF assms]], goal_cases)
  case (1 x t)
  then have t: "fake_calm ids t" "fake_view t = fake_view s" by (auto simp: frame_ok_empty)
  then have "fk_replace_during_observe (fo_inner t) = None" by (simp add: fake_calm_def Let_def)
  with t show ?case
    by (auto simp: wp_on_inner wp_bind wp_seq wp_lift_result snapshot_from_view fake_identity_of_def identity_new_def
        split: option.splits)
qed (use assms in \<open>auto simp: frame_ok_empty\<close>)

text \<open>Resolving may create a resource; those that exist stay as they are.\<close>

definition grown :: "fake_inner \<Rightarrow> fake_inner \<Rightarrow> bool" where
  "grown i j \<longleftrightarrow> j\<lparr>fk_states := Map.empty\<rparr> = i\<lparr>fk_states := Map.empty\<rparr> \<and>
     (\<forall>r. fk_states i r \<noteq> None \<longrightarrow> fk_states j r = fk_states i r)"

lemma grown_refl: "grown i i"
  by (simp add: grown_def)

lemma grown_trans: "grown i j \<Longrightarrow> grown j k \<Longrightarrow> grown i k"
  unfolding grown_def by (metis (no_types))

lemma grown_ensure: "grown i (ensure_state r i)"
  by (simp add: grown_def ensure_state_def)

lemma grown_field: "grown i j \<Longrightarrow> f (j\<lparr>fk_states := Map.empty\<rparr>) = f (i\<lparr>fk_states := Map.empty\<rparr>)"
  by (simp only: grown_def)

lemma grown_calm:
  assumes "grown (fo_inner s) (fo_inner t)" "fake_calm ids s"
  shows "fake_calm ids t \<and> (\<forall>r. fake_view s r \<noteq> None \<longrightarrow> fake_view t r = fake_view s r)"
proof -
  note same = grown_field[OF assms(1), of fk_replace_before_apply, simplified]
    grown_field[OF assms(1), of fk_replace_during_observe, simplified]
    grown_field[OF assms(1), of fk_readback_lie, simplified]
    grown_field[OF assms(1), of fk_before_guarded, simplified]
    grown_field[OF assms(1), of fk_after_guarded, simplified]
    grown_field[OF assms(1), of fk_before_nth_guarded, simplified]
    grown_field[OF assms(1), of fk_before_unconditional_readback, simplified]
    grown_field[OF assms(1), of fk_incarnations, simplified]
    grown_field[OF assms(1), of fk_generations, simplified]
  have st: "\<forall>r. fk_states (fo_inner s) r \<noteq> None \<longrightarrow> fk_states (fo_inner t) r = fk_states (fo_inner s) r"
    using assms(1) by (simp add: grown_def)
  have "fake_calm ids t"
    using assms(2) st by (simp add: fake_calm_def Let_def inc_of_def same)
  moreover have "fake_view t r = fake_view s r" if "fake_view s r \<noteq> None" for r
    using that st by (auto simp: fake_view_def gen_of_def same)
  ultimately show ?thesis by simp
qed

lemma grows: "keeps (grown i) (expect_id r)" "keeps (grown i) (modify_tx (ensure_state q))"
  by (auto simp: keeps_def expect_id_def split: sum.splits intro: grown_trans grown_ensure)

lemma fake_resolve_calm:
  assumes "fake_calm ids s"
  shows "wp (fake_resolve F scope plan) (\<lambda>_ t. fake_calm ids t \<and>
     (\<forall>r. fake_view s r \<noteq> None \<longrightarrow> fake_view t r = fake_view s r)) s"
proof -
  have push: "keeps (grown i) (fold_tx push_resolver ds acc)" for i ds acc
    by (rule keeps_fold) (auto simp: push_resolver_def intro!: wp_intros grows)
  have "wp (fake_resolve F scope plan) (\<lambda>_ t. \<exists>j. t = s\<lparr>fo_inner := j\<rparr> \<and> grown (fo_inner s) j) s"
  proof (cases scope)
    case Global
    then show ?thesis
      by (auto simp: fake_resolve_def grown_refl intro!: exI[of _ "fo_inner s"])
  next
    case (Interface sel)
    define m where "m = bind_tx (gets_tx (\<lambda>i. base_resource i sel)) (\<lambda>r.
         bind_tx (lift_result r) (\<lambda>base.
         if \<not> fb_multi_resource F then return_tx [base]
         else
         bind_tx (fold_tx push_resolver (nc_routing plan) [base]) (\<lambda>resources.
         if nc_default_route plan = Some True then
           bind_tx (expect_id (resolver_id ''.'')) (\<lambda>root.
           seq_tx (modify_tx (ensure_state root))
             (return_tx (if root \<in> set resources then resources else resources @ [root])))
         else return_tx resources)))"
    have "keeps (grown (fo_inner s)) m"
      unfolding m_def by (intro wp_intros push grows)
    from keepsD[OF this grown_refl] show ?thesis
      unfolding fake_resolve_def Interface dns_scope.case m_def[symmetric] wp_on_inner
      by (rule wp_mono) auto
  qed
  then show ?thesis
  proof (rule wp_mono, elim exE conjE, goal_cases)
    case (1 res t j)
    then have "grown (fo_inner s) (fo_inner t)" by simp
    from grown_calm[OF this assms] show ?case .
  qed
qed

section \<open>A manager on the reference machine\<close>

definition machine_sleep :: "duration \<Rightarrow> (machine, unit) tx" where
  "machine_sleep d s = (Ok (), s\<lparr>ma_clock := ma_clock s + d\<rparr>)"

definition reference_manager ::
  "conflict_policy \<Rightarrow> fake_backend \<Rightarrow> libs \<Rightarrow> (machine, mem_dir) manager_env" where
  "reference_manager policy F L = \<lparr> me_env = reference_env policy F L,
     me_locks = lock_manager_new (Path True [''run'', ''osdns'', ''locks'']) (millis 50) machine_locks L,
     me_spawn = return_tx (), me_sleep = machine_sleep \<rparr>"

lemma reference_manager_sel [simp]:
  "me_env (reference_manager policy F L) = reference_env policy F L"
  "me_spawn (reference_manager policy F L) = return_tx ()"
  "me_sleep (reference_manager policy F L) = machine_sleep"
  "lm_os (me_locks (reference_manager policy F L)) = machine_locks"
  by (simp_all add: reference_manager_def lock_manager_new_def with_namespace_def)

lemma machine_sleep_calm:
  "fake_calm ids w \<Longrightarrow> wp (machine_sleep d) (\<lambda>res w'. no_err res \<and> fake_calm ids w' \<and> fake_view w' = fake_view w) w"
  by (simp add: wp_def machine_sleep_def fake_calm_def fake_view_def fun_eq_iff)

lemma reference_managed_system:
  "managed_system (reference_manager policy F L) (fake_calm ids) fake_view fake_snap mem_files"
proof -
  have "wp (fake_observe r) (\<lambda>res w'. fake_calm ids w' \<and> fake_view w' = fake_view w \<and>
      when_ok res (\<lambda>ob. manages (fake_calm ids) fake_view r \<longrightarrow> id_resource (bo_identity ob) = r \<and>
        (\<exists>n. fake_view w r = Some n \<and> bo_snapshot ob = fake_snap r n))) w" if "fake_calm ids w" for w r
    by (rule wp_mono[OF fake_observe_calm[OF that]]) (auto simp: when_ok_def split: outcome.splits)
  moreover have "e_backend (reference_env policy F L) = fake F" by (simp add: reference_env_def)
  ultimately show ?thesis
    by (intro managed_system.intro managed_system_axioms.intro)
       (simp_all only: reference_manager_sel fake_sel fake_more_sel wp_basic reference.transaction_env_axioms
        machine_sleep_calm fake_start_watch_calm fake_stop_watch_calm fake_resolve_calm
        simp_thms not_False_eq_True)
qed

interpretation reference_system: managed_system "reference_manager policy F L" "fake_calm ids" fake_view fake_snap mem_files
  for policy :: conflict_policy and F :: fake_backend and L :: libs and ids :: "resource_identity set"
  by (rule reference_managed_system)

lemma reference_managed_live:
  "managed_live (reference_manager policy F L) (fake_calm {jr_identity (fake_record policy F L lease noop plan r prior i)})
     fake_view fake_snap mem_files (fake_record policy F L lease noop plan r prior i)"
  using reference_managed_system reference_live.live_env_axioms
  unfolding managed_live_def by simp

interpretation reference_pass: managed_live "reference_manager policy F L"
    "fake_calm {jr_identity (fake_record policy F L lease noop plan r prior i)}" fake_view fake_snap mem_files
    "fake_record policy F L lease noop plan r prior i"
  for policy :: conflict_policy and F :: fake_backend and L :: libs and lease :: lease_id and noop :: bool
    and plan :: normalized_config and r :: resource_id and prior :: platform_snapshot and i :: fake_identity
  by (rule reference_managed_live)

end
