(* ===== verification/Manager_Guarantees.thy ===== *)
theory Manager_Guarantees
  imports Reference_Manager Guarantees
begin

text \<open>
  What the manager guarantees over any system that keeps the contracts, each guarantee applied to a
  manager of the in-memory backend on the reference machine.
\<close>

section \<open>A manager with one lease\<close>

definition demo_manager_env :: "(machine, mem_dir) manager_env" where
  "demo_manager_env = reference_manager Cooperative (fake_new ''demo'') demo_libs"

text \<open>The lease of \<open>demo_live\<close>, in the world \<open>s\<close>.\<close>

definition demo_manager :: "(machine, mem_dir) world \<Rightarrow> (machine, mem_dir) manager" where
  "demo_manager s = \<lparr> mg_world = s, mg_locks = \<lparr> ls_registry = {}, ls_directory = None \<rparr>,
     mg_heap = Map.empty(0 \<mapsto> demo_live), mg_next = 1, mg_active = [(global_id, 0)],
     mg_reconciler = reconciler_default, mg_enforce = enforce_default \<rparr>"

lemma demo_manager_sel [simp]:
  "me_env demo_manager_env = demo_env"
  "me_sleep demo_manager_env = machine_sleep"
  "me_spawn demo_manager_env = return_tx ()"
  "mg_world (demo_manager s) = s" "mg_heap (demo_manager s) 0 = Some demo_live"
  "mg_active (demo_manager s) = [(global_id, 0)]"
  by (simp_all add: demo_manager_env_def demo_env_def demo_manager_def)

lemma demo_managed_live:
  "managed_live demo_manager_env (fake_calm {demo_identity}) fake_view fake_snap mem_files demo_record"
  using reference_pass.managed_live_axioms
    [of Cooperative "fake_new ''demo''" demo_libs 1 False demo_config global_id demo_before "\<lparr> fi_incarnation = 0 \<rparr>"]
  unfolding demo_manager_env_def demo_record_def fake_record_sel .

section \<open>Reconciliation\<close>

text \<open>
  The states a pass may name as the one to go back to: the one the record named, or one the pass
  found in place; when no rollback was outstanding (\<open>quick\<close>) that is the one it started from.
\<close>

definition fallback ::
  "('w \<Rightarrow> resource_id \<Rightarrow> 'n option) \<Rightarrow> (resource_id \<Rightarrow> 'n \<Rightarrow> platform_snapshot) \<Rightarrow> 'w \<Rightarrow> bool \<Rightarrow>
   journal_record \<Rightarrow> platform_snapshot \<Rightarrow> bool" where
  "fallback view snap w quick r b \<longleftrightarrow> b = jr_before r \<or>
     (\<exists>n. b = snap (jr_resource r) n \<and> (quick \<longrightarrow> view w (jr_resource r) = Some n))"

lemma reconcile_run:
  assumes live: "managed_live M calm view snap files r"
    and act: "map_of (mg_active g) (jr_resource r) = Some a" "mg_heap g a = Some l" "live_ok r l"
    and s: "calm (w_os (mg_world g))" "is_open (w_journal (mg_world g))"
      "recorded (me_env M) (store_files files (w_journal (mg_world g))) r"
    and run: "reconcile_resource M (jr_resource r) g = (res, g')"
  shows "no_err res \<and> (\<exists>b1 b2 l'.
     fallback view snap (w_os (mg_world g)) (\<not> rolling_back (lr_state l)) r b1 \<and>
     fallback view snap (w_os (mg_world g)) (\<not> rolling_back (lr_state l)) r b2 \<and>
     recorded (me_env M) (store_files files (w_journal (mg_world g'))) (rebased b1 r) \<and>
     untouched_but (me_env M) view files {r} (mg_world g) (mg_world g') \<and>
     mg_heap g' a = Some l' \<and> live_ok (rebased b2 r) l' \<and>
     when_ok res (\<lambda>out. out \<noteq> NoActiveLease \<and>
       (out = StillOurs \<or> out = Rebased \<longrightarrow> rebased b1 r = rebased b2 r \<and>
          in_effect (me_env M) view snap (w_os (mg_world g')) (jr_desired (lr_record l')) (jr_resource r)) \<and>
       (\<not> rolling_back (lr_state l) \<and> out \<noteq> Rebased \<and> out \<noteq> Failed \<longrightarrow>
          view (w_os (mg_world g')) = view (w_os (mg_world g)))))"
proof -
  let ?w = "w_os (mg_world g)" and ?q = "\<not> rolling_back (lr_state l)"
  have tx: "transaction_env (me_env M) calm view snap files"
    using live by (simp add: managed_live_def managed_system_def)
  have "live_env (me_env M) calm view snap files r" using live by (simp add: managed_live_def)
  then have "manages calm view (jr_resource r)" using s(1) by (rule live_env.managed_resource)
  then have "tx_inv (me_env M) calm view snap files (mg_world g) normalized_default {r} {r} {} {} (mg_world g)"
    using start_inv[where rs = "[r]" and files = files] s by simp
  then have "managed_live.ready M calm view snap files r (mg_world g) a ?q l g"
    using act by (simp add: managed_live.ready_def[OF live])
  note wp_run[OF managed_live.reconcile_resource_spec[OF live act(1) this] run, simplified]
  then obtain r1 r2 where r: "managed_live.may_claim view snap r ?w ?q r1" "managed_live.may_claim view snap r ?w ?q r2"
    and hold: "managed_live.holds_claim M calm view snap files (mg_world g) a r1 r2 g'" and ne: "no_err res"
    and ok: "when_ok res (\<lambda>out. out \<noteq> NoActiveLease \<and>
         (out = StillOurs \<or> out = Rebased \<longrightarrow> r1 = r2 \<and>
            (\<exists>l. mg_heap g' a = Some l \<and>
               in_effect (me_env M) view snap (w_os (mg_world g')) (jr_desired (lr_record l)) (jr_resource r))) \<and>
         (?q \<and> out \<noteq> Rebased \<and> out \<noteq> Failed \<longrightarrow> view (w_os (mg_world g')) = view ?w))"
    unfolding managed_live.pass_post_def[OF live] by blast
  have claims: "\<exists>b. fallback view snap ?w ?q r b \<and> r' = rebased b r" if "managed_live.may_claim view snap r ?w ?q r'" for r'
    using that unfolding managed_live.may_claim_def[OF live] fallback_def by (metis rebased_sel(5))
  from claims[OF r(1)] claims[OF r(2)] obtain b1 b2
    where b: "fallback view snap ?w ?q r b1" "r1 = rebased b1 r" "fallback view snap ?w ?q r b2" "r2 = rebased b2 r"
    by blast
  from hold obtain l' where l': "mg_heap g' a = Some l'" "live_ok r2 l'"
    and inv: "tx_inv (me_env M) calm view snap files (mg_world g) normalized_default {r1} {r1} {} {} (mg_world g')"
    unfolding managed_live.holds_claim_def[OF live] by blast
  have "recorded (me_env M) (store_files files (w_journal (mg_world g'))) r1"
    "untouched_but (me_env M) view files {r} (mg_world g) (mg_world g')"
    using inv tx_inv_guarantee[OF inv] unfolding transaction_env.claim_inv_iff[OF tx]
    by (simp_all add: untouched_but_def b(2))
  with b l' ne ok show ?thesis
    by (intro conjI[OF ne] exI[of _ b1, OF exI[of _ b2, OF exI[of _ l']]])
       (auto simp: when_ok_def split: outcome.splits)
qed

text \<open>
  C25. A reconciliation pass never loses the way back. Let an active lease hold a resource whose
  native incarnation is still there, with its record on disk. Whatever state the live record is in,
  whatever another program has done to the resource, and wherever the pass fails or crashes, a
  record of the lease is on disk afterwards, under the same identity, that names a state to go back
  to: the one the record named before, or the state found in place by the pass; so does the live
  record. The pass never ends with a bare error, and no other resource and no other file changed.
\<close>

theorem reconcile_keeps_way_back:
  assumes live: "managed_live M calm view snap files r"
    and "map_of (mg_active g) (jr_resource r) = Some a" "mg_heap g a = Some l" "live_ok r l"
    and "calm (w_os (mg_world g))" "is_open (w_journal (mg_world g))"
    and "recorded (me_env M) (store_files files (w_journal (mg_world g))) r"
    and run: "reconcile_resource M (jr_resource r) g = (res, g')"
  shows "no_err res \<and>
    (\<exists>b1 b2 l'. fallback view snap (w_os (mg_world g)) (\<not> rolling_back (lr_state l)) r b1 \<and>
       fallback view snap (w_os (mg_world g)) (\<not> rolling_back (lr_state l)) r b2 \<and>
       recorded (me_env M) (store_files files (w_journal (mg_world g'))) (rebased b1 r) \<and>
       mg_heap g' a = Some l' \<and> live_ok (rebased b2 r) l') \<and>
    untouched_but (me_env M) view files {r} (mg_world g) (mg_world g')"
  using reconcile_run[OF assms] by blast

theorem reconcile_keeps_way_back_witness:
  "\<exists>res g' b. reconcile_resource demo_manager_env global_id (demo_manager (demo_held FakeEmpty 0)) = (res, g') \<and>
     recorded demo_env (store_files mem_files (w_journal (mg_world g'))) (rebased b demo_record)"
proof -
  obtain res g' where run: "reconcile_resource demo_manager_env global_id (demo_manager (demo_held FakeEmpty 0)) = (res, g')"
    by (metis prod.exhaust)
  from reconcile_keeps_way_back[OF demo_managed_live, of "demo_manager (demo_held FakeEmpty 0)" 0 demo_live res g'] run
  show ?thesis
    by (auto simp: demo_identity_of demo_live_ok demo_held_calm demo_held_open demo_held_recorded)
qed

text \<open>
  C26. The outcome of a pass is true, and only an overlay or a failure changes the system. In the
  situation of the previous property, a pass that reports \<open>StillOurs\<close> or \<open>Rebased\<close> leaves the resource in the state the
  lease desires, with the record on disk naming the state the live record names. Unless a rollback
  was outstanding, a pass that reports \<open>StillOurs\<close>, \<open>Deferred\<close> or \<open>IdentityAmbiguous\<close> has changed no
  resource at all. A lease whose resource is there is never given up.
\<close>

theorem reconcile_outcome_true:
  assumes "managed_live M calm view snap files r"
    and "map_of (mg_active g) (jr_resource r) = Some a" "mg_heap g a = Some l" "live_ok r l"
    and "calm (w_os (mg_world g))" "is_open (w_journal (mg_world g))"
    and "recorded (me_env M) (store_files files (w_journal (mg_world g))) r"
    and "reconcile_resource M (jr_resource r) g = (Ok out, g')"
  shows "out \<noteq> NoActiveLease \<and>
    (out = StillOurs \<or> out = Rebased \<longrightarrow> (\<exists>b l'. mg_heap g' a = Some l' \<and> live_ok (rebased b r) l' \<and>
       recorded (me_env M) (store_files files (w_journal (mg_world g'))) (rebased b r) \<and>
       in_effect (me_env M) view snap (w_os (mg_world g')) (jr_desired (lr_record l')) (jr_resource r))) \<and>
    (\<not> rolling_back (lr_state l) \<and> out \<noteq> Rebased \<and> out \<noteq> Failed \<longrightarrow>
       view (w_os (mg_world g')) = view (w_os (mg_world g)))"
  using reconcile_run[OF assms] unfolding when_ok_simps by metis

lemmas run_manager = on_world_def on_os_def on_cells_def on_reconciler_def live_record_at_def live_at_def with_live_def
  checkpoint_def demo_manager_def demo_manager_env_def reference_manager_def machine_sleep_def demo_held_def

lemmas run_pass = reconcile_resource_def reconcile_pass_def pass_observe_def pass_read_def pass_decide_def
  settle_pass_def rc_complete_def rc_defer_def apply_overlay_def overlay_mutate_def overlay_commit_def set_live_state_def
  overlay_record_def prepare_live_def live_applied_def RECONCILE_POINTS_def

lemma demo_rebase_run:
  "fst (reconcile_resource demo_manager_env global_id (demo_manager (demo_held FakeEmpty 0))) = Ok Rebased"
  by (simp add: run_pass run_manager file_of_def fake_equivalent_def run_records run_tx run_world run_demo run_journal run_fake run_engine)

theorem reconcile_outcome_true_witness:
  "\<exists>g' b l'. reconcile_resource demo_manager_env global_id (demo_manager (demo_held FakeEmpty 0)) = (Ok Rebased, g') \<and>
     recorded demo_env (store_files mem_files (w_journal (mg_world g'))) (rebased b demo_record) \<and>
     mg_heap g' 0 = Some l' \<and>
     in_effect demo_env fake_view fake_snap (w_os (mg_world g')) (jr_desired (lr_record l')) global_id"
proof -
  obtain g' where run: "reconcile_resource demo_manager_env global_id (demo_manager (demo_held FakeEmpty 0)) = (Ok Rebased, g')"
    using demo_rebase_run by (metis prod.collapse)
  from reconcile_outcome_true[OF demo_managed_live, of "demo_manager (demo_held FakeEmpty 0)" 0 demo_live Rebased g'] run
  show ?thesis
    by (auto simp: demo_identity_of demo_live_ok demo_held_calm demo_held_open demo_held_recorded)
qed

end
