(* ===== verification/Process.thy ===== *)
theory Process
  imports Manager_Contract
begin

text \<open>
  A process: the manager, the leases its clients hold and the worker. Each call of the public
  interface and each action of the worker is a step. The invariant ties the lock registry and the
  Enforce observation to the leases that are alive.
\<close>

section \<open>Steps\<close>

type_synonym ('w, 'd) process = "('w, 'd) manager \<times> lease list"

definition lease_calls :: "('w, 'd) manager_env \<Rightarrow> ('w, 'd, unit) lease_tx set" where
  "lease_calls M = {restore_state M, abandon_state M, drop_lease M, debug_release M} \<union> range (update_lease M)"

text \<open>A lease that is dropped or consumed stays in the list without a state. A crash ends the process.\<close>

inductive process_step :: "('w, 'd) manager_env \<Rightarrow> ('w, 'd) process \<Rightarrow> ('w, 'd) process \<Rightarrow> bool" for M where
  applied: "apply_config M c g = (Ok l, g') \<Longrightarrow> process_step M (g, ls) (g', ls @ [l])"
| apply_failed: "apply_config M c g = (Err e, g') \<Longrightarrow> process_step M (g, ls) (g', ls)"
| lease_called: "i < length ls \<Longrightarrow> m \<in> lease_calls M \<Longrightarrow> m (ls ! i, g) = (res, (l', g')) \<Longrightarrow> res \<noteq> Crash \<Longrightarrow>
    process_step M (g, ls) (g', ls[i := l'])"
| recovered: "recover_stale M g = (Ok outs, g') \<Longrightarrow> process_step M (g, ls) (g', ls)"
| recover_failed: "recover_stale M g = (Err e, g') \<Longrightarrow> process_step M (g, ls) (g', ls)"
| abandoned: "abandon_journal M r g = (res, g') \<Longrightarrow> res \<noteq> Crash \<Longrightarrow> process_step M (g, ls) (g', ls)"
| refreshed: "refresh_enforce_watch M g = (res, g') \<Longrightarrow> res \<noteq> Crash \<Longrightarrow> process_step M (g, ls) (g', ls)"
| suspended: "suspend_enforce_watch M g = (res, g') \<Longrightarrow> res \<noteq> Crash \<Longrightarrow> process_step M (g, ls) (g', ls)"
| reconciled: "reconcile_resource M r g = (res, g') \<Longrightarrow> res \<noteq> Crash \<Longrightarrow> process_step M (g, ls) (g', ls)"
| notified: "feed_notify M r g = (res, g') \<Longrightarrow> res \<noteq> Crash \<Longrightarrow> process_step M (g, ls) (g', ls)"

section \<open>The invariant\<close>

definition lease_locks :: "lease \<Rightarrow> resource_lock list" where
  "lease_locks l = (case le_state l of None \<Rightarrow> [] | Some st \<Rightarrow> ll_locks st)"

definition lease_active :: "lease \<Rightarrow> bool" where
  "lease_active l = (case le_state l of None \<Rightarrow> False | Some st \<Rightarrow> ll_phase st = Active)"

definition registry :: "('w, 'd) manager \<Rightarrow> registry_key set" where
  "registry g = ls_registry (mg_locks g)"

text \<open>\<open>n\<close> leases hold a reference; without one nothing is observed.\<close>

definition enforce_inv :: "('w, 'd) manager_env \<Rightarrow> nat \<Rightarrow> enforce_state \<Rightarrow> bool" where
  "enforce_inv M n e \<longleftrightarrow> en_refs e = (if e_policy (me_env M) = Enforce then n else 0) \<and>
     (en_refs e = 0 \<longrightarrow> en_handle e = None \<and> \<not> en_feed e \<and> en_recovery e = None) \<and>
     (e_policy (me_env M) = Enforce \<and> 0 < n \<longrightarrow> cap_watch (bk_caps (me_backend M)))"

definition process_inv :: "('w, 'd) manager_env \<Rightarrow> registry_key set \<Rightarrow> ('w, 'd) process \<Rightarrow> bool" where
  "process_inv M others = (\<lambda>(g, ls).
     distinct (map rl_key (concat (map lease_locks ls))) \<and>
     others \<inter> rl_key ` set (concat (map lease_locks ls)) = {} \<and>
     registry g = others \<union> rl_key ` set (concat (map lease_locks ls)) \<and>
     enforce_inv M (length (filter lease_active ls)) (mg_enforce g))"

section \<open>Steps that touch neither\<close>

definition still :: "('w, 'd) manager \<Rightarrow> ('w, 'd) manager \<Rightarrow> bool" where
  "still g h \<longleftrightarrow> registry h = registry g \<and> mg_enforce h = mg_enforce g"

lemma still_refl [simp]: "still g g"
  by (simp add: still_def)

lemma still_op: "keeps (still g) m \<Longrightarrow> wp m (\<lambda>_. still g) g"
  by (rule keepsD) simp_all

lemma still_basic [wp_intros]:
  "keeps (still g) (on_world m1)" "keeps (still g) (on_os m2)" "keeps (still g) (on_cells m3)"
  "keeps (still g) (on_reconciler f)" "keeps (still g) (unregister_active r)"
  by (auto simp: keeps_def wp_on_world wp_on_os on_cells_def wp_focus registry_def still_def
      split: prod.splits intro: wpI)

lemma still_ops [wp_intros]:
  "keeps (still g) (live_record_at a)" "keeps (still g) (live_at a)" "keeps (still g) (checkpoint M p)"
  "keeps (still g) (journal_records M)"
  unfolding live_record_at_def live_at_def checkpoint_def journal_records_def by (intro wp_intros)+

lemma still_modify [wp_intros]:
  "keeps (still g) (modify_tx (\<lambda>h. h\<lparr>mg_active := f h\<rparr>))"
  "keeps (still g) (modify_tx (\<lambda>h. h\<lparr>mg_heap := f1 h, mg_next := f2 h\<rparr>))"
  by (auto simp: keeps_def still_def registry_def)

lemma still_register [wp_intros]: "keeps (still g) (register_all ls)"
  by (induction ls) (auto simp: alloc_live_def register_active_def intro!: wp_intros)

lemma still_feed [wp_intros]: "keeps (still g) (feed_notify M r)"
  unfolding feed_notify_def by (intro wp_intros)

lemma still_rescan [wp_intros]: "keeps (still g) (rescan_enforce M)" "keeps (still g) (notify_active M)"
  unfolding rescan_enforce_def notify_active_def by (intro wp_intros keeps_for)+

lemma still_recover [wp_intros]: "keeps (still g) (recover_requested M rs journals)"
  by (induction M rs journals rule: recover_requested.induct)
     (auto intro!: wp_intros split: option.splits recover_block.splits)

lemma still_observe [wp_intros]: "keeps (still g) (observe_each M rs)"
  by (induction rs) (auto intro!: wp_intros)

lemma still_apply [wp_intros]: "keeps (still g) (apply_locked M resources plan)"
  unfolding apply_locked_def by (intro wp_intros)

lemma still_records [wp_intros]: "keeps (still g) (records_at as)"
  by (induction as) (auto intro!: wp_intros)

lemma still_checks [wp_intros]: "keeps (still g) (update_checks M config plan st)"
  unfolding update_checks_def check_target_def Let_def
  by (intro wp_intros keeps_for) (auto intro!: wp_intros split: resource_status.splits)

lemma still_reconcile [wp_intros]: "keeps (still g) (reconcile_resource M r)"
proof -
  have sched: "keeps (still g) (rc_defer M r d f)" "keeps (still g) (rc_complete M r n)" "keeps (still g) (rc_gate M r)"
    for d f n
    unfolding rc_defer_def rc_complete_def rc_gate_def by (intro wp_intros)+
  have overlay: "keeps (still g) (apply_overlay M a x y)" for a x y
    unfolding apply_overlay_def overlay_mutate_def overlay_commit_def set_live_state_def by (intro wp_intros)
  have gone: "keeps (still g) (forget_gone M r a)" "keeps (still g) (reconcile_gone M r a)" for a
    unfolding forget_gone_def reconcile_gone_def reconciler_forget_def by (intro wp_intros sched)+
  have decide: "keeps (still g) (pass_decide M r a s)" for a s
    unfolding pass_decide_def Let_def by (intro wp_intros sched overlay)
  have read: "keeps (still g) (pass_read M r a k)" if "\<And>c. keeps (still g) (k c)" for a k
    unfolding pass_read_def by (intro wp_intros that) (auto intro!: wp_intros gone split: error.splits)
  have pass: "keeps (still g) (reconcile_pass M r a)" for a
    unfolding reconcile_pass_def pass_observe_def by (intro wp_intros read decide)
  show ?thesis
    unfolding reconcile_resource_def reconciler_forget_def settle_pass_def
    by (intro wp_intros) (auto intro!: wp_intros pass gone sched split: resource_status.splits reconcile_outcome.splits)
qed

lemma tried: "keeps I m \<Longrightarrow> I s \<Longrightarrow> wp (try_tx m) (\<lambda>res t. no_err res \<and> I t) s"
  by (rule wp_tryI[OF keepsD]) auto

section \<open>The Enforce observation\<close>

lemma wp_drop_handle:
  "wp (drop_handle M) (\<lambda>res h. res = Crash \<or> res = Ok () \<and> registry h = registry g \<and>
     mg_enforce h = (mg_enforce g)\<lparr>en_handle := None\<rparr>) g"
proof (cases "en_handle (mg_enforce g)")
  case None
  then show ?thesis by (simp add: drop_handle_def wp_bind)
next
  case (Some h)
  have "wp (try_tx (on_os (bk_stop_watch (me_backend M) h))) (\<lambda>res k. no_err res \<and> still g k) g"
    by (rule wp_tryI[OF still_op]) (auto intro!: wp_intros)
  then have "wp (seq_tx (try_tx (on_os (bk_stop_watch (me_backend M) h))) (on_enforce (\<lambda>e. e\<lparr>en_handle := None\<rparr>)))
      (\<lambda>res k. res = Crash \<or> res = Ok () \<and> registry k = registry g \<and> mg_enforce k = (mg_enforce g)\<lparr>en_handle := None\<rparr>) g"
    by (rule wp_seqI) (auto simp: still_def registry_def)
  with Some show ?thesis by (simp add: drop_handle_def wp_bind)
qed

lemma release_spec:
  assumes "enforce_inv M (Suc n) (mg_enforce g) \<or> n = 0 \<and> enforce_inv M 0 (mg_enforce g)"
  shows "wp (release_enforce_watch M) (\<lambda>res h. res = Crash \<or> res = Ok () \<and> registry h = registry g \<and>
     enforce_inv M n (mg_enforce h)) g"
proof (cases "e_policy (me_env M) = Enforce \<and> en_refs (mg_enforce g) \<noteq> 0")
  case False
  with assms show ?thesis by (auto simp: release_enforce_watch_def wp_bind enforce_inv_def)
next
  case True
  let ?g = "g\<lparr>mg_enforce := (mg_enforce g)\<lparr>en_refs := en_refs (mg_enforce g) - 1\<rparr>\<rparr>"
  have n: "en_refs (mg_enforce g) = Suc n" "cap_watch (bk_caps (me_backend M))"
    using True assms by (auto simp: enforce_inv_def)
  have "wp (seq_tx (drop_handle M) (on_enforce (\<lambda>e. e\<lparr>en_feed := False, en_parked := False, en_recovery := None\<rparr>)))
      (\<lambda>res h. res = Crash \<or> res = Ok () \<and> registry h = registry g \<and> enforce_inv M n (mg_enforce h)) ?g" if "n = 0"
    by (rule wp_seqI[OF wp_drop_handle]) (use that n True in \<open>auto simp: enforce_inv_def registry_def\<close>)
  moreover have "registry ?g = registry g" by (simp add: registry_def)
  ultimately show ?thesis
    using True n assms by (auto simp: release_enforce_watch_def wp_bind wp_seq enforce_inv_def)
qed

lemma ensure_spec:
  assumes inv: "enforce_inv M n (mg_enforce g)"
  shows "wp (ensure_enforce_watch M) (\<lambda>res h. registry h = registry g \<and> (case res of
       Ok _ \<Rightarrow> enforce_inv M (Suc n) (mg_enforce h)
     | Err e \<Rightarrow> n = 0 \<and> enforce_inv M 0 (mg_enforce h)
     | Crash \<Rightarrow> True)) g"
  (is "wp _ ?Q g")
proof (cases "e_policy (me_env M) = Enforce \<and> cap_watch (bk_caps (me_backend M))")
  case False
  with inv show ?thesis by (auto simp: ensure_enforce_watch_def enforce_inv_def)
next
  case True
  let ?start = "seq_tx (on_os (me_spawn M)) (bind_tx (on_os (bk_start_watch (me_backend M))) (\<lambda>h.
       on_enforce (\<lambda>e. e\<lparr>en_handle := Some h, en_feed := True, en_parked := False\<rparr>)))"
  have start: "wp ?start (\<lambda>res k. registry k = registry g \<and> (case res of
       Ok _ \<Rightarrow> en_refs (mg_enforce k) = en_refs (mg_enforce g) | Err e \<Rightarrow> mg_enforce k = mg_enforce g | Crash \<Rightarrow> True)) g"
  proof (rule wp_seqI[OF still_op[OF still_basic(2)]], goal_cases)
    case (1 x k)
    show ?case
      by (rule wp_bindI[OF keepsD[OF still_basic(2) 1]]) (auto simp: still_def registry_def)
  qed (auto simp: still_def)
  have "wp (seq_tx (if en_refs (mg_enforce g) = 0 then ?start else return_tx ())
      (on_enforce (\<lambda>e. e\<lparr>en_refs := en_refs e + 1\<rparr>))) ?Q g"
  proof (cases "en_refs (mg_enforce g) = 0")
    case zero: True
    then have "n = 0" using True inv by (simp add: enforce_inv_def)
    with zero show ?thesis
      by (simp, intro wp_seqI[OF start]) (use True inv in \<open>auto simp: enforce_inv_def registry_def\<close>)
  qed (use True inv in \<open>auto simp: enforce_inv_def registry_def\<close>)
  with True show ?thesis by (simp add: ensure_enforce_watch_def wp_bind)
qed

text \<open>What a step that touches neither keeps.\<close>

lemma keeps_still:
  assumes "\<And>g h. I g \<Longrightarrow> still g h \<Longrightarrow> I h" and "\<And>g. keeps (still g) m"
  shows "keeps I m"
  by (rule keepsI, rule wp_mono[OF still_op[OF assms(2)]]) (rule assms(1))

lemma refresh_spec:
  fixes M :: "('w, 'd) manager_env"
  assumes inv: "enforce_inv M n (mg_enforce g)"
  shows "wp (refresh_enforce_watch M) (\<lambda>res h. res = Crash \<or> registry h = registry g \<and> enforce_inv M n (mg_enforce h)) g"
    (is "wp _ ?Q g")
proof (cases "en_refs (mg_enforce g) = 0 \<or> en_parked (mg_enforce g) \<or> watch_is_active M g")
  case True
  with inv show ?thesis by (simp add: refresh_enforce_watch_def wp_bind Let_def)
next
  case False
  define I where "I = (\<lambda>h :: ('w, 'd) manager. registry h = registry g \<and> enforce_inv M n (mg_enforce h) \<and> 0 < en_refs (mg_enforce h))"
  have I: "I k" if "I h" "still h k" for h k using that by (simp add: I_def still_def)
  note still = keeps_still[where I = I, OF I]
  have set: "keeps I (on_enforce f)" if "\<And>e. en_refs (f e) = en_refs e" for f
    using that by (auto simp: keeps_def I_def registry_def enforce_inv_def)
  have handle: "keeps I (drop_handle M)"
    unfolding drop_handle_def
    by (intro wp_intros set still) simp_all
  have "keeps I (refresh_enforce_watch M)"
    unfolding refresh_enforce_watch_def Let_def
    by (intro wp_intros handle set still) (simp_all add: resubscribe_failed_def Let_def)
  moreover have "I g" using False inv by (simp add: I_def)
  ultimately have "wp (refresh_enforce_watch M) (\<lambda>_. I) g" by (rule keepsD)
  then show ?thesis by (rule wp_mono) (simp add: I_def)
qed

section \<open>The end of a lease\<close>

lemma wp_drop_lock:
  "wp (on_locks (drop_lock K l)) (\<lambda>res h. res = Ok () \<and> registry h = registry g - {rl_key l} \<and> mg_enforce h = mg_enforce g) g"
  unfolding wp_on_locks
  by (simp add: drop_lock_def lock_wp registry_def)

lemma drop_locks_registry:
  "wp (drop_locks M locks) (\<lambda>res h. res = Ok () \<and> registry h = registry g - rl_key ` set locks \<and> mg_enforce h = mg_enforce g) g"
proof (induction locks arbitrary: g)
  case Nil
  then show ?case by (simp add: drop_locks_def)
next
  case (Cons l locks)
  show ?case
    unfolding drop_locks_def for_tx.simps
    by (rule wp_seqI[OF wp_drop_lock], rule wp_mono[OF Cons.IH[unfolded drop_locks_def]]) auto
qed

lemma live_record_still: "wp (live_record_at a) (\<lambda>res h. no_err res \<and> still g h) g"
proof (cases "mg_heap g a")
  case None
  then show ?thesis by (simp add: live_record_at_def on_cells_def with_live_def wp_def focus_tx_def still_def registry_def)
qed simp

text \<open>One record of a lease that ends: it leaves the registry, then \<open>m\<close> is tried on it.\<close>

lemma end_one_still:
  assumes m: "\<And>rec g. keeps (still g) (m rec)"
  shows "wp (bind_tx (live_record_at a) (\<lambda>rec. seq_tx (unregister_active (jr_resource rec)) (
      bind_tx (try_tx (m rec)) (\<lambda>res. return_tx (jr_resource rec, res))))) (\<lambda>res h. no_err res \<and> still g h) g"
proof (rule wp_bindI[OF live_record_still], goal_cases)
  case (1 rec h)
  let ?h = "h\<lparr>mg_active := AList.delete (jr_resource rec) (mg_active h),
      mg_reconciler := reconciler_remove (jr_resource rec) (mg_reconciler h)\<rparr>"
  have "still g ?h" using 1 by (simp add: still_def registry_def)
  then have "wp (try_tx (m rec)) (\<lambda>res k. no_err res \<and> still g k) ?h" by (rule tried[OF m])
  then have "wp (bind_tx (try_tx (m rec)) (\<lambda>res. return_tx (jr_resource rec, res))) (\<lambda>res h. no_err res \<and> still g h) ?h"
    by (rule wp_bindI) auto
  then show ?case by (simp add: wp_seq)
qed auto

lemma one_still:
  "wp (restore_one M a) (\<lambda>res h. no_err res \<and> still g h) g"
  "wp (abandon_one M a) (\<lambda>res h. no_err res \<and> still g h) g"
  unfolding restore_one_def abandon_one_def by (rule end_one_still; rule still_basic)+

lemma retain_each_spec:
  assumes one: "\<And>a g. wp (one a) (\<lambda>res h. no_err res \<and> still g h) g"
  shows "wp (retain_each M one as locks err) (\<lambda>res h. no_err res \<and> mg_enforce h = mg_enforce g \<and>
     when_ok res (\<lambda>(kept, rest, err'). \<exists>P. rest = filter P locks \<and>
       registry h = registry g - rl_key ` set (filter (\<lambda>l. \<not> P l) locks))) g"
proof (induction "as" arbitrary: locks err g)
  case Nil
  show ?case by (auto intro!: exI[of _ "\<lambda>_. True"])
next
  case (Cons a "as")
  show ?case
    unfolding retain_each.simps
  proof (rule wp_bindI[OF one], goal_cases)
    case (1 x h)
    obtain r res where x: "x = (r, res)" by (cases x)
    from 1 have h: "registry h = registry g" "mg_enforce h = mg_enforce g" by (auto simp: still_def)
    show ?case
    proof (cases res)
      case (Inl e)
      show ?thesis
        unfolding x Inl prod.case sum.case
        by (rule wp_bindI[OF Cons.IH]) (auto simp: h)
    next
      case (Inr u)
      let ?d = "filter (\<lambda>l. lock_resource l = r) locks" and ?k = "filter (\<lambda>l. lock_resource l \<noteq> r) locks"
      show ?thesis
        unfolding x Inr prod.case sum.case
      proof (rule wp_seqI[OF drop_locks_registry], goal_cases)
        case (1 y k)
        then have k: "registry k = registry g - rl_key ` set ?d" "mg_enforce k = mg_enforce g" by (simp_all add: h)
        show ?case
        proof (rule wp_mono[OF Cons.IH], goal_cases)
          case (1 res t)
          have "\<exists>Q. rest = filter Q locks \<and> registry t = registry g - rl_key ` set (filter (\<lambda>l. \<not> Q l) locks)"
            if P: "rest = filter P ?k" "registry t = registry k - rl_key ` set (filter (\<lambda>l. \<not> P l) ?k)" for rest P
            by (rule exI[of _ "\<lambda>l. lock_resource l \<noteq> r \<and> P l"]) (use P in \<open>auto simp: k conj_commute\<close>)
          with 1 k show ?case by (auto simp: when_ok_def split: outcome.splits prod.splits)
        qed
      qed auto
    qed
  qed (auto simp: still_def)
qed

text \<open>
  What an operation that ends a lease does: locks it no longer lists have left the registry, the
  others are still in it, and the lease's reference to the observation is given up.
\<close>

definition released :: "('w, 'd) manager_env \<Rightarrow> nat \<Rightarrow> lease \<Rightarrow> ('w, 'd) manager \<Rightarrow> lease \<Rightarrow> ('w, 'd) manager \<Rightarrow> bool" where
  "released M n l g l' g' \<longleftrightarrow> \<not> lease_active l' \<and> enforce_inv M n (mg_enforce g') \<and>
     (\<exists>P. lease_locks l' = filter P (lease_locks l) \<and>
        registry g' = registry g - rl_key ` set (filter (\<lambda>k. \<not> P k) (lease_locks l)))"

definition referenced :: "('w, 'd) manager_env \<Rightarrow> nat \<Rightarrow> lease \<Rightarrow> ('w, 'd) manager \<Rightarrow> bool" where
  "referenced M n l g \<longleftrightarrow> (if lease_active l
     then enforce_inv M (Suc n) (mg_enforce g) \<or> n = 0 \<and> enforce_inv M 0 (mg_enforce g)
     else enforce_inv M n (mg_enforce g))"

lemma release_when_active:
  assumes "referenced M n l g" "le_state l = Some st" "mg_enforce h = mg_enforce g"
  shows "wp (if ll_phase st = Active then inner_tx (release_enforce_watch M) else return_tx ())
     (\<lambda>res (l'', k). res = Crash \<or> res = Ok () \<and> l'' = l' \<and> registry k = registry h \<and> enforce_inv M n (mg_enforce k)) (l', h)"
proof (cases "ll_phase st = Active")
  case True
  then have "enforce_inv M (Suc n) (mg_enforce h) \<or> n = 0 \<and> enforce_inv M 0 (mg_enforce h)"
    using assms by (simp add: referenced_def lease_active_def)
  from release_spec[OF this] show ?thesis
    unfolding if_P[OF True] wp_inner by (rule wp_mono) auto
next
  case False
  with assms show ?thesis by (simp add: referenced_def lease_active_def)
qed

text \<open>The shape \<open>restore_state\<close> and \<open>abandon_state\<close> share.\<close>

lemma end_lease_spec:
  assumes one: "\<And>a g. wp (one a) (\<lambda>res h. no_err res \<and> still g h) g"
    and ref: "referenced M n l g" and st: "le_state l = Some st" and phase: "phase \<noteq> Active"
  shows "wp (seq_tx (set_state None) (
         bind_tx (inner_tx (retain_each M one (ll_live st) (ll_locks st) None)) (\<lambda>(kept, locks, err).
         seq_tx (if ll_phase st = Active then inner_tx (release_enforce_watch M) else return_tx ()) (
         case err of
           None \<Rightarrow> inner_tx (drop_locks M locks)
         | Some e \<Rightarrow> seq_tx (set_state (Some \<lparr> ll_live = kept, ll_locks = locks, ll_phase = phase \<rparr>)) (throw e)))))
     (\<lambda>res (l', g'). res = Crash \<or> released M n l g l' g' \<and> (res = Ok () \<longrightarrow> le_state l' = None)) (l, g)"
    (is "wp _ ?Q _")
proof -
  let ?l = "l\<lparr>le_state := None\<rparr>"
  have locks: "lease_locks l = ll_locks st" by (simp add: lease_locks_def st)
  show ?thesis
    unfolding set_state_def wp_bind_mut
  proof (rule wp_bind_innerI[OF retain_each_spec[OF one]], goal_cases)
    case (1 x h)
    then obtain kept rest err P where x: "x = (kept, rest, err)" and P: "rest = filter P (ll_locks st)"
      "registry h = registry g - rl_key ` set (filter (\<lambda>l. \<not> P l) (ll_locks st))" and e: "mg_enforce h = mg_enforce g"
      by (cases x) auto
    show ?case
      unfolding x prod.case
    proof (rule wp_seqI[OF release_when_active[OF ref st e]], goal_cases)
      case (1 y lk)
      then obtain k where k: "lk = (?l, k)" "registry k = registry h" "enforce_inv M n (mg_enforce k)" by auto
      show ?case
      proof (cases err)
        case None
        have "?Q res (?l, t)" if "res = Ok ()" "registry t = registry k - rl_key ` set rest" "mg_enforce t = mg_enforce k"
          for res t
        proof -
          have "registry t = registry g - rl_key ` set (ll_locks st)"
            using that(2) k(2) P by auto
          then have "released M n l g ?l t"
            using that(3) k(3) by (auto simp: released_def lease_active_def lease_locks_def st intro!: exI[of _ "\<lambda>_. False"])
          with that(1) show ?thesis by simp
        qed
        then show ?thesis
          unfolding k(1) None option.case wp_inner by (intro wp_mono[OF drop_locks_registry]) auto
      next
        case (Some e)
        have "released M n l g (?l\<lparr>le_state := Some \<lparr> ll_live = kept, ll_locks = rest, ll_phase = phase \<rparr>\<rparr>) k"
          using k P phase by (auto simp: released_def lease_active_def lease_locks_def st intro!: exI[of _ P])
        then show ?thesis by (simp add: k(1) Some)
      qed
    qed auto
  qed auto
qed

lemma no_state_spec:
  assumes "referenced M n l g" "le_state l = None"
  shows "released M n l g l g"
  using assms by (simp add: referenced_def released_def lease_active_def lease_locks_def)

lemma restore_released:
  assumes "referenced M n l g"
  shows "wp (restore_state M) (\<lambda>res (l', g'). res = Crash \<or> released M n l g l' g' \<and> (res = Ok () \<longrightarrow> le_state l' = None)) (l, g)"
proof (cases "le_state l")
  case None
  with no_state_spec[OF assms] show ?thesis by (simp add: restore_state_def)
next
  case (Some st)
  with end_lease_spec[OF one_still(1) assms Some, of Restoring] show ?thesis by (simp add: restore_state_def)
qed

lemma abandon_released:
  assumes "referenced M n l g"
  shows "wp (abandon_state M) (\<lambda>res (l', g'). res = Crash \<or> released M n l g l' g') (l, g)"
proof (cases "le_state l")
  case None
  with no_state_spec[OF assms] show ?thesis by (simp add: abandon_state_def)
next
  case (Some st)
  from end_lease_spec[OF one_still(2) assms Some, of Abandoning] show ?thesis
    unfolding abandon_state_def wp_bind_mut Some option.case by (rule wp_mono) auto
qed

text \<open>The shape \<open>drop_lease\<close> and \<open>debug_release\<close> share.\<close>

lemma drop_shape_spec:
  assumes each: "\<And>a h. wp (each a) (\<lambda>res k. no_err res \<and> still h k) h"
    and ref: "referenced M n l g" and st: "le_state l = Some st"
  shows "wp (seq_tx (set_state None) (
         seq_tx (inner_tx (for_tx (ll_live st) each)) (
         seq_tx (inner_tx (drop_locks M (ll_locks st))) (
         if ll_phase st = Active then inner_tx (release_enforce_watch M) else return_tx ()))))
     (\<lambda>res (l', g'). res = Crash \<or> released M n l g l' g' \<and> le_state l' = None) (l, g)"
proof -
  let ?l = "l\<lparr>le_state := None\<rparr>"
  have all: "wp (for_tx as each) (\<lambda>res k. no_err res \<and> still h k) h" for "as" h
  proof (induction "as" arbitrary: h)
    case (Cons a "as")
    show ?case
      unfolding for_tx.simps
      by (rule wp_seqI[OF each], rule wp_mono[OF Cons.IH]) (auto simp: still_def)
  qed simp
  show ?thesis
    unfolding set_state_def wp_bind_mut
  proof (rule wp_seq_innerI[OF all], goal_cases)
    case (1 x h)
    show ?case
    proof (rule wp_seq_innerI[OF drop_locks_registry], goal_cases)
      case (1 y k)
      then have k: "registry k = registry g - rl_key ` set (ll_locks st)" "mg_enforce k = mg_enforce g"
        using \<open>no_err _ \<and> still g h\<close> by (simp_all add: still_def)
      show ?case
        by (rule wp_mono[OF release_when_active[OF ref st k(2)]])
           (auto simp: released_def lease_active_def lease_locks_def st k(1) intro!: exI[of _ "\<lambda>_. False"])
    qed auto
  qed auto
qed

lemma drop_released:
  assumes "referenced M n l g"
  shows "wp (drop_lease M) (\<lambda>res (l', g'). res = Crash \<or> released M n l g l' g' \<and> le_state l' = None) (l, g)"
proof (cases "le_state l")
  case None
  with no_state_spec[OF assms] show ?thesis by (simp add: drop_lease_def)
next
  case (Some st)
  have "wp (drop_one M p a) (\<lambda>res k. no_err res \<and> still h k) h" for p a h
    unfolding drop_one_def
  proof (rule wp_bindI[OF live_record_still], goal_cases)
    case (1 rec k)
    have "wp (try_tx (if p = Abandoning then on_world (jremove (me_env M) (jr_lease rec) (jr_resource rec))
        else on_cells (with_live a (restore_live_state (me_env M))))) (\<lambda>res k. no_err res \<and> still h k) k"
      by (rule wp_tryI[OF keepsD[where I = "still h"]]) (use 1 in \<open>auto intro!: wp_intros\<close>)
    then show ?case by (rule wp_seqI) (auto simp: still_def registry_def)
  qed auto
  from drop_shape_spec[OF this assms Some] show ?thesis by (simp add: drop_lease_def Some)
qed

lemma debug_released:
  assumes "referenced M n l g"
  shows "wp (debug_release M) (\<lambda>res (l', g'). res = Crash \<or> released M n l g l' g') (l, g)"
proof (cases "le_state l")
  case None
  with no_state_spec[OF assms] show ?thesis by (simp add: debug_release_def)
next
  case (Some st)
  have "wp (bind_tx (live_record_at a) (\<lambda>rec. unregister_active (jr_resource rec))) (\<lambda>res k. no_err res \<and> still h k) h"
    for a :: addr and h :: "('a, 'b) manager"
    by (rule wp_bindI[OF live_record_still]) (auto simp: still_def registry_def)
  from drop_shape_spec[OF this assms Some] show ?thesis
    unfolding debug_release_def wp_bind_mut Some option.case by (rule wp_mono) auto
qed

lemma update_still:
  "wp (update_lease M c) (\<lambda>res (l', h). res = Crash \<or> le_state l' = le_state l \<and> still g h) (l, g)"
proof -
  have body: "wp (bind_tx get_mut (\<lambda>l. case le_state l of
       None \<Rightarrow> throw (not_active_error l)
     | Some st \<Rightarrow>
         seq_tx (set_state None) (
         match_tx (inner_tx (update_checks M c plan st))
           (\<lambda>_. bind_tx (inner_tx (try_tx (on_cells (transact_update (me_env M) (ll_live st) plan)))) (\<lambda>res.
              seq_tx (set_state (Some st)) (
              seq_tx (inner_tx (rescan_enforce M)) (lift_result res))))
           (\<lambda>e. seq_tx (set_state (Some st)) (throw e)))))
      (\<lambda>res (l', h). res = Crash \<or> le_state l' = le_state l \<and> still g h) (l, g)" for plan
  proof (cases "le_state l")
    case (Some st)
    have tx: "wp (bind_tx (inner_tx (try_tx (on_cells (transact_update (me_env M) (ll_live st) plan)))) (\<lambda>res.
              seq_tx (set_state (Some st)) (
              seq_tx (inner_tx (rescan_enforce M)) (lift_result res))))
        (\<lambda>res (l', h). res = Crash \<or> le_state l' = Some st \<and> still g h) (l\<lparr>le_state := None\<rparr>, h)" if h: "still g h" for h
    proof (rule wp_bind_innerI[OF tried[OF still_basic(3) h]], goal_cases)
      case (1 x k)
      then have "wp (rescan_enforce M) (\<lambda>_. still g) k" by (intro keepsD[OF still_rescan(1)]) simp
      then show ?case
        unfolding set_state_def wp_bind_mut
        by (rule wp_seq_innerI) (auto simp: wp_lift_result split: sum.splits)
    qed auto
    show ?thesis
      unfolding wp_bind_mut Some option.case set_state_def
      by (rule wp_match_innerI[OF still_op[OF still_checks]])
         (use tx in \<open>auto simp: set_state_def wp_bind_mut\<close>)
  qed simp
  show ?thesis
    unfolding update_lease_def
    using body by (auto simp: wp_bind[of "lift_result r" for r] wp_seq[of "lift_result r" for r] wp_lift_result split: sum.splits)
qed

section \<open>Locks and the whole of apply\<close>

lemma lock_calls:
  assumes "lock_system (lm_os (me_locks M)) names locked clock rest"
  shows "wp (on_locks (acquire_all (me_locks M) rs)) (\<lambda>res h. mg_enforce h = mg_enforce g \<and> (case res of
       Ok locks \<Rightarrow> distinct (map rl_key locks) \<and> rl_key ` set locks \<inter> registry g = {} \<and>
         registry h = registry g \<union> rl_key ` set locks \<and> map lock_resource locks = lock_order rs
     | Err e \<Rightarrow> registry h = registry g | Crash \<Rightarrow> False)) g"
    and "wp (on_locks (acquire (me_locks M) r)) (\<lambda>res h. mg_enforce h = mg_enforce g \<and> (case res of
       Ok l \<Rightarrow> rl_key l \<notin> registry g \<and> registry h = insert (rl_key l) (registry g)
     | Err e \<Rightarrow> registry h = registry g | Crash \<Rightarrow> False)) g"
    and "wp (on_locks (try_acquire (me_locks M) r)) (\<lambda>res h. mg_enforce h = mg_enforce g \<and> (case res of
       Ok (Some l) \<Rightarrow> rl_key l \<notin> registry g \<and> registry h = insert (rl_key l) (registry g)
     | Crash \<Rightarrow> False | _ \<Rightarrow> registry h = registry g)) g"
  unfolding wp_on_locks
  by (rule wp_mono[OF lock_system.acquire_all_spec[OF assms refl]] wp_mono[OF lock_system.acquire_spec[OF assms refl]]
        wp_mono[OF lock_system.try_acquire_spec[OF assms refl]];
      auto simp: lock_system.holding_def[OF assms] registry_def split: outcome.splits option.splits)+

text \<open>Reading the clock cannot fail.\<close>

definition infallible :: "('s, 'a) tx \<Rightarrow> bool" where
  "infallible m \<longleftrightarrow> (\<forall>s. wp m (\<lambda>res _. no_err res) s)"

lemma register_all_still: "wp (register_all ls) (\<lambda>res h. no_err res \<and> still g h) g"
proof (induction ls arbitrary: g)
  case (Cons l ls)
  have alloc: "wp (alloc_live l) (\<lambda>res h. no_err res \<and> still g h) g" for g :: "('a, 'b) manager"
    by (simp add: alloc_live_def wp_bind wp_seq still_def registry_def)
  have reg: "wp (register_active a) (\<lambda>res h. no_err res \<and> still g h) g" for a and g :: "('a, 'b) manager"
    unfolding register_active_def by (rule wp_bindI[OF live_record_still]) (auto simp: still_def registry_def)
  show ?case
    unfolding register_all.simps
  proof (rule wp_bindI[OF alloc], goal_cases)
    case (1 a h)
    then have h: "still g h" by simp
    show ?case
    proof (rule wp_seqI[OF reg], goal_cases)
      case (1 x k)
      show ?case
        by (rule wp_bindI[OF Cons.IH]) (use h 1 in \<open>auto simp: still_def\<close>)
    qed (use h in \<open>auto simp: still_def\<close>)
  qed auto
qed simp

lemma new_owned_spec:
  "wp (new_owned p locks) (\<lambda>res h. no_err res \<and> still g h \<and>
     when_ok res (\<lambda>l. lease_locks l = locks \<and> lease_active l)) g"
  unfolding new_owned_def
  by (rule wp_bindI[OF register_all_still]) (auto simp: lease_locks_def lease_active_def)

lemma removed_twice:
  "b = a - f ` set (filter (\<lambda>x. \<not> p x) xs) \<Longrightarrow> c = b - f ` set (filter p xs) \<Longrightarrow> c = a - f ` set xs"
  by auto

lemma rescan_no_err:
  assumes "infallible (e_now (me_env M))"
  shows "wp (rescan_enforce M) (\<lambda>res h. no_err res \<and> still g h) g"
proof -
  have feed: "wp (feed_notify M r) (\<lambda>res h. no_err res \<and> still g h) h" if "still g h" for r h
    unfolding feed_notify_def wp_bind wp_on_os
    by (rule wp_mono[OF assms[unfolded infallible_def, rule_format]])
       (use that in \<open>auto simp: on_ok_def still_def registry_def split: outcome.splits\<close>)
  have all: "wp (for_tx rs (feed_notify M)) (\<lambda>res h. no_err res \<and> still g h) h" if "still g h" for rs h
    using that
  proof (induction rs arbitrary: h)
    case (Cons r rs)
    show ?case
      unfolding for_tx.simps by (rule wp_seqI[OF feed[OF Cons.prems]]) (auto intro: Cons.IH)
  qed simp
  show ?thesis
    using all[OF still_refl] by (simp add: rescan_enforce_def notify_active_def wp_bind)
qed

text \<open>Publishing a lease: it lists the locks and holds a reference, or it has been taken down again.\<close>

lemma finished_spec:
  assumes clock: "infallible (e_now (me_env M))"
    and inv: "enforce_inv M n (mg_enforce g)" and reg: "registry g = others \<union> rl_key ` set locks"
    and new: "others \<inter> rl_key ` set locks = {}"
  shows "wp (finish_apply M p locks) (\<lambda>res h. case res of
       Ok l \<Rightarrow> lease_locks l = locks \<and> lease_active l \<and> registry h = registry g \<and> enforce_inv M (Suc n) (mg_enforce h)
     | Err e \<Rightarrow> registry h = others \<and> enforce_inv M n (mg_enforce h)
     | Crash \<Rightarrow> True) g"
    (is "wp _ ?Q g")
  unfolding finish_apply_def
proof (rule wp_bindI[OF new_owned_spec], goal_cases)
  case (1 l h)
  then have l: "lease_locks l = locks" "lease_active l" and h: "registry h = registry g" "mg_enforce h = mg_enforce g"
    by (auto simp: still_def)
  have inv_h: "enforce_inv M n (mg_enforce h)" using inv h by simp
  have gone: "registry t = others" if ended: "registry k = registry g" "released M n l k l' t" "lease_locks l' = []" for k t l'
  proof -
    obtain P where "filter P locks = []" "registry t = registry k - rl_key ` set (filter (\<lambda>k. \<not> P k) locks)"
      using ended(2,3) unfolding released_def l(1) by metis
    then have "registry t = registry k - rl_key ` set locks" by (auto simp: filter_empty_conv filter_id_conv)
    with ended(1) reg new show ?thesis by auto
  qed
  show ?case
  proof (rule wp_matchI[OF ensure_spec[OF inv_h]], goal_cases)
    case (1 x k)
    show ?case
      by (rule wp_seqI[OF rescan_no_err[OF clock]]) (use 1 l h in \<open>auto simp: still_def\<close>)
  next
    case (2 e k)
    then have n: "n = 0" "registry k = registry g" "enforce_inv M 0 (mg_enforce k)" by (auto simp: h)
    have ref: "referenced M n l k" using l n by (simp add: referenced_def)
    show ?case
    proof (rule wp_bind_run_mutI[OF restore_released[OF ref]], goal_cases)
      case (1 x l' t)
      then have "released M n l k l' t" "lease_locks l' = []" by (auto simp: lease_locks_def)
      with gone[OF n(2)] show ?case by (simp add: released_def)
    next
      case (2 failure l' t)
      then have rel: "released M n l k l' t" by auto
      then have ref': "referenced M n l' t" by (simp add: referenced_def released_def)
      have "wp (run_mut l' (drop_lease M)) (\<lambda>res u. res = Crash \<or> registry u = others \<and> enforce_inv M n (mg_enforce u)) t"
        unfolding wp_run_mut
      proof (rule wp_mono[OF drop_released[OF ref']], goal_cases)
        case (1 res lu)
        have "registry u = others \<and> enforce_inv M n (mg_enforce u)"
          if ended: "released M n l' t l'' u" "le_state l'' = None" for l'' u
        proof -
          obtain P where P: "lease_locks l' = filter P locks" "registry t = registry k - rl_key ` set (filter (\<lambda>k. \<not> P k) locks)"
            using rel unfolding released_def l(1) by metis
          have "lease_locks l'' = []" using ended(2) by (simp add: lease_locks_def)
          then obtain Q where Q: "filter Q (lease_locks l') = []"
            "registry u = registry t - rl_key ` set (filter (\<lambda>k. \<not> Q k) (lease_locks l'))"
            using ended(1) unfolding released_def by metis
          have "filter (\<lambda>k. \<not> Q k) (lease_locks l') = lease_locks l'"
            using Q(1) by (simp add: filter_empty_conv filter_id_conv)
          with Q(2) P(1) have "registry u = registry t - rl_key ` set (filter P locks)" by (simp only:)
          with P(2) have "registry u = registry k - rl_key ` set locks" by (rule removed_twice)
          also have "\<dots> = others" using n(2) reg new by blast
          finally show ?thesis using ended(1) by (simp add: released_def)
        qed
        with 1 show ?case by (cases lu, cases res) (auto simp: on_mut_def)
      qed
      then have "wp (seq_tx (run_mut l' (drop_lease M)) (throw x)) ?Q t" for x
        by (rule wp_seqI) auto
      then show ?case by simp
    qed auto
  qed auto
qed auto

lemma apply_spec:
  assumes ls: "lock_system (lm_os (me_locks M)) names locked clock rest" and clock: "infallible (e_now (me_env M))"
    and inv: "enforce_inv M n (mg_enforce g)"
  shows "wp (apply_config M c) (\<lambda>res h. case res of
       Ok l \<Rightarrow> distinct (map rl_key (lease_locks l)) \<and> rl_key ` set (lease_locks l) \<inter> registry g = {} \<and>
         registry h = registry g \<union> rl_key ` set (lease_locks l) \<and> lease_active l \<and> enforce_inv M (Suc n) (mg_enforce h)
     | Err e \<Rightarrow> registry h = registry g \<and> enforce_inv M n (mg_enforce h)
     | Crash \<Rightarrow> True) g"
    (is "wp _ ?Q g")
proof -
  have lift: "wp (lift_result r) (\<lambda>res h. res \<noteq> Crash \<and> h = g) g" for r :: "'x result"
    by (simp add: wp_lift_result split: sum.splits)
  have locked: "wp (bind_tx (on_locks (acquire_all (me_locks M) rs)) (\<lambda>locks.
     match_tx (apply_locked M rs plan)
       (\<lambda>p. finish_apply M p locks)
       (\<lambda>e. seq_tx (drop_locks M locks) (throw e)))) ?Q h" if h: "still g h" for rs plan h
  proof (rule wp_bindI[OF lock_calls(1)[OF ls]], goal_cases)
    case (1 locks k)
    then have l: "distinct (map rl_key locks)" "rl_key ` set locks \<inter> registry g = {}"
      "registry k = registry g \<union> rl_key ` set locks" "mg_enforce k = mg_enforce g"
      using h by (auto simp: still_def)
    show ?case
    proof (rule wp_matchI[OF still_op[OF still_apply]], goal_cases)
      case (1 p t)
      then have t: "registry t = registry g \<union> rl_key ` set locks" "enforce_inv M n (mg_enforce t)"
        using l inv by (simp_all add: still_def)
      have "registry g \<inter> rl_key ` set locks = {}" using l(2) by blast
      note fin = finished_spec[OF clock t(2,1) this, of p]
      show ?case
        by (rule wp_mono[OF fin]) (use l(1,2) t(1) in \<open>simp split: outcome.splits\<close>)
    next
      case (2 e t)
      then have "registry t = registry g \<union> rl_key ` set locks" "enforce_inv M n (mg_enforce t)"
        using l inv by (simp_all add: still_def)
      with l(2) show ?case
        by (intro wp_seqI[OF drop_locks_registry]) auto
    qed simp
  next
    case (2 e k)
    then show ?case using h inv by (simp add: still_def)
  qed simp
  have fire: "wp (checkpoint M p) (\<lambda>_. still g) h" if "still g h" for p h
    by (rule keepsD[OF still_ops(3) that])
  show ?thesis
    unfolding apply_config_def
  proof (rule wp_bindI[OF lift], goal_cases)
    case (1 plan h)
    show ?case
    proof (rule wp_seqI[where P = "\<lambda>res h. res \<noteq> Crash \<and> h = g"], goal_cases)
      case 1
      show ?case using lift \<open>_ \<and> h = g\<close> by simp
    next
      case (2 x h)
      then have h: "still g h" by simp
      show ?case
      proof (rule wp_seqI[OF fire[OF h]], goal_cases)
        case (1 x h)
        show ?case
        proof (rule wp_bindI[OF keepsD[OF still_basic(2) 1]], goal_cases)
          case (1 rs h)
          show ?case
            by (rule wp_seqI[OF fire[OF 1]]) (use locked inv in \<open>auto simp: still_def\<close>)
        qed (use inv in \<open>auto simp: still_def\<close>)
      qed (use inv in \<open>auto simp: still_def\<close>)
    qed (use inv in \<open>auto simp: still_def\<close>)
  qed (use inv in \<open>auto simp: still_def\<close>)
qed

lemma drop_one_lock:
  assumes "registry k = insert (rl_key l) R" "rl_key l \<notin> R"
  shows "wp (on_locks (drop_lock K l)) (\<lambda>res h. res = Ok () \<and> registry h = R \<and> mg_enforce h = mg_enforce k) k"
  by (rule wp_mono[OF wp_drop_lock]) (use assms in auto)

lemma recover_stale_still:
  assumes ls: "lock_system (lm_os (me_locks M)) names locked clock rest"
  shows "wp (recover_stale M) (\<lambda>res h. res = Crash \<or> still g h) g"
proof -
  have one: "wp (recover_stale_one M rec) (\<lambda>res h. res = Crash \<or> still g h) h" if h: "still g h" for rec h
  proof -
    have "wp (match_tx (on_locks (try_acquire (me_locks M) (jr_resource rec)))
        (\<lambda>lock. case lock of
           Some l \<Rightarrow> recover_locked M rec l
         | None \<Rightarrow> return_tx (RcBusy (jr_resource rec)))
        (\<lambda>e. return_tx (case e of Conflict _ _ \<Rightarrow> RcBusy (jr_resource rec)
           | _ \<Rightarrow> RcFailed (jr_resource rec) (jr_lease rec) e))) (\<lambda>res h. res = Crash \<or> still g h) h"
    proof (rule wp_matchI[OF lock_calls(3)[OF ls]], goal_cases)
      case (1 lock k)
      show ?case
      proof (cases lock)
        case None
        with 1 h show ?thesis by (simp add: still_def)
      next
        case (Some l)
        with 1 h have k: "rl_key l \<notin> registry g" "registry k = insert (rl_key l) (registry g)" "mg_enforce k = mg_enforce g"
          by (simp_all add: still_def)
        show ?thesis
          unfolding Some option.case recover_locked_def
        proof (rule wp_bindI[OF tried[OF still_basic(1) still_refl]], goal_cases)
          case (1 res t)
          then have "registry t = insert (rl_key l) (registry g)" "mg_enforce t = mg_enforce g"
            using k by (simp_all add: still_def)
          with k(1) show ?case by (intro wp_seqI[OF drop_one_lock]) (auto simp: still_def)
        qed (use k in \<open>auto simp: still_def\<close>)
      qed
    qed (use h in \<open>auto simp: still_def\<close>)
    with h show ?thesis by (simp add: recover_stale_one_def)
  qed
  have each: "wp (recover_stale_each M recs) (\<lambda>res h. res = Crash \<or> still g h) h" if "still g h" for recs h
    using that
  proof (induction recs arbitrary: h)
    case (Cons rec recs)
    show ?case
      unfolding recover_stale_each.simps
    proof (rule wp_bindI[OF one[OF Cons.prems]], goal_cases)
      case (1 x k)
      then have "still g k" by simp
      show ?case by (rule wp_bindI[OF Cons.IH[OF \<open>still g k\<close>]]) auto
    qed auto
  qed simp
  show ?thesis
    unfolding recover_stale_def
    by (rule wp_bindI[OF still_op[OF still_ops(4)]]) (auto intro: each)
qed

lemma abandon_journal_still:
  assumes ls: "lock_system (lm_os (me_locks M)) names locked clock rest"
  shows "wp (abandon_journal M r) (\<lambda>res h. res = Crash \<or> still g h) g"
  unfolding abandon_journal_def
proof (rule wp_bindI[OF lock_calls(2)[OF ls]], goal_cases)
  case (1 l k)
  then have k: "rl_key l \<notin> registry g" "registry k = insert (rl_key l) (registry g)" "mg_enforce k = mg_enforce g"
    by simp_all
  have "wp (bind_tx (on_world (jn (records_for (e_libs (me_env M)) (e_pfs (me_env M)) r))) (\<lambda>recs.
          if list_ex (\<lambda>rec. jr_owner rec \<noteq> e_owner (me_env M)) recs
          then throw (Conflict r (ResourceOccupied ''journal belongs to another application owner''))
          else for_tx recs (\<lambda>rec. on_world (jremove (me_env M) (jr_lease rec) r)))) (\<lambda>_. still k) k"
    by (rule still_op, intro wp_intros keeps_for)
  then show ?case
  proof (rule wp_matchI, goal_cases)
    case (1 x t)
    then show ?case
      using k by (intro wp_mono[OF drop_one_lock[of t l "registry g"]]) (auto simp: still_def)
  next
    case (2 e t)
    then show ?case
      using k by (intro wp_seqI[OF drop_one_lock[of t l "registry g"]]) (auto simp: still_def)
  qed auto
qed (auto simp: still_def)

section \<open>The invariant holds\<close>

inductive_cases process_stepE: "process_step M (g, ls) (g', ls')"

lemma referenced_count:
  assumes "enforce_inv M (length (filter lease_active ls)) (mg_enforce g)" "i < length ls"
  shows "referenced M (length (filter lease_active (take i ls @ drop (Suc i) ls))) (ls ! i) g"
  using assms by (subst (asm) id_take_nth_drop[OF assms(2)]) (auto simp: referenced_def)

lemma registry_split:
  assumes "i < length ls"
  shows "mset (concat (map lease_locks ls)) =
    mset (lease_locks (ls ! i)) + mset (concat (map lease_locks (take i ls @ drop (Suc i) ls)))"
  by (subst id_take_nth_drop[OF assms]) simp

lemma distinct_filter_rest:
  "distinct (map f (xs @ ys)) \<Longrightarrow> distinct (map f (filter P xs @ ys)) \<and>
   f ` set (filter (\<lambda>x. \<not> P x) xs) \<inter> f ` set (filter P xs @ ys) = {}"
  by (induction xs) auto

lemma lease_step_inv:
  assumes inv: "process_inv M others (g, ls)" and i: "i < length ls"
    and enf: "enforce_inv M (length (filter lease_active (ls[i := l']))) (mg_enforce g')"
    and P: "lease_locks l' = filter P (lease_locks (ls ! i))"
      "registry g' = registry g - rl_key ` set (filter (\<lambda>k. \<not> P k) (lease_locks (ls ! i)))"
  shows "process_inv M others (g', ls[i := l'])"
proof -
  let ?rest = "concat (map lease_locks (take i ls @ drop (Suc i) ls))" and ?l = "lease_locks (ls ! i)"
  have ls': "ls[i := l'] = take i ls @ l' # drop (Suc i) ls" by (rule upd_conv_take_nth_drop[OF i])
  have old: "mset (map rl_key (concat (map lease_locks ls))) = mset (map rl_key (?l @ ?rest))"
    using registry_split[OF i] by simp
  have new: "mset (map rl_key (concat (map lease_locks (ls[i := l'])))) = mset (map rl_key (filter P ?l @ ?rest))"
    by (simp add: ls' P(1))
  note d = mset_eq_imp_distinct_iff[OF old] mset_eq_imp_distinct_iff[OF new]
  note s = mset_eq_setD[OF old] mset_eq_setD[OF new]
  have dist: "distinct (map rl_key (?l @ ?rest))" using inv d(1) by (simp add: process_inv_def)
  note distinct_filter_rest[OF dist, of P]
  moreover have "registry g = others \<union> rl_key ` set (?l @ ?rest)" "others \<inter> rl_key ` set (?l @ ?rest) = {}"
    using inv s(1) unfolding process_inv_def by (auto simp only: prod.case set_map)
  moreover have "set ?l = set (filter P ?l) \<union> set (filter (\<lambda>k. \<not> P k) ?l)" by auto
  ultimately show ?thesis
    unfolding process_inv_def prod.case d(2) set_map[symmetric] s(2)
    using enf P(2) by (simp only: set_map set_append image_Un) blast
qed

text \<open>A lease operation gives locks back, or leaves the lease as it was.\<close>

lemma lease_call_inv:
  assumes inv: "process_inv M others (g, ls)" and i: "i < length ls" and m: "m \<in> lease_calls M"
    and run: "m (ls ! i, g) = (res, (l', g'))" "res \<noteq> Crash"
  shows "process_inv M others (g', ls[i := l'])"
proof -
  let ?n = "length (filter lease_active (take i ls @ drop (Suc i) ls))"
  have e: "enforce_inv M (length (filter lease_active ls)) (mg_enforce g)"
    using inv by (simp add: process_inv_def)
  note ref = referenced_count[OF e i]
  have ls': "ls[i := l'] = take i ls @ l' # drop (Suc i) ls" by (rule upd_conv_take_nth_drop[OF i])
  from m consider c where "m = update_lease M c" | "m \<in> {restore_state M, abandon_state M, drop_lease M, debug_release M}"
    by (auto simp: lease_calls_def)
  then show ?thesis
  proof cases
    case 1
    have "wp m (\<lambda>res (l', h). res = Crash \<or> le_state l' = le_state (ls ! i) \<and> still g h) (ls ! i, g)"
      unfolding 1 by (rule update_still)
    from wp_run[OF this run(1)] run(2) have same: "le_state l' = le_state (ls ! i)" "still g g'" by auto
    then have l: "lease_locks l' = lease_locks (ls ! i)" "lease_active l' = lease_active (ls ! i)"
      by (simp_all add: lease_locks_def lease_active_def)
    have "length (filter lease_active (ls[i := l'])) = length (filter lease_active ls)"
      using l(2) by (subst (2) id_take_nth_drop[OF i]) (simp add: ls')
    with e same(2) l(1) show ?thesis
      by (intro lease_step_inv[OF inv i, where P = "\<lambda>_. True"]) (simp_all add: still_def)
  next
    case 2
    then have "wp m (\<lambda>res (l', h). res = Crash \<or> released M ?n (ls ! i) g l' h) (ls ! i, g)"
      using restore_released[OF ref] abandon_released[OF ref] drop_released[OF ref] debug_released[OF ref]
      by (auto elim!: wp_mono)
    from wp_run[OF this run(1)] run(2) have rel: "released M ?n (ls ! i) g l' g'" by auto
    then obtain P where "lease_locks l' = filter P (lease_locks (ls ! i))"
      "registry g' = registry g - rl_key ` set (filter (\<lambda>k. \<not> P k) (lease_locks (ls ! i)))"
      unfolding released_def by blast
    with rel show ?thesis
      by (intro lease_step_inv[OF inv i]) (simp_all add: released_def ls')
  qed
qed

lemma same_process_inv: "process_inv M others (g, ls) \<Longrightarrow> still g g' \<Longrightarrow> process_inv M others (g', ls)"
  by (simp add: process_inv_def still_def)

lemma suspend_spec:
  assumes "enforce_inv M n (mg_enforce g)"
  shows "wp (suspend_enforce_watch M) (\<lambda>res h. res = Crash \<or> registry h = registry g \<and> enforce_inv M n (mg_enforce h)) g"
  unfolding suspend_enforce_watch_def
  by (rule wp_seqI[OF wp_drop_handle]) (use assms in \<open>auto simp: wp_seq registry_def enforce_inv_def\<close>)

lemma process_step_inv:
  assumes ls: "lock_system (lm_os (me_locks M)) names locked clock rest" and clock: "infallible (e_now (me_env M))"
    and step: "process_step M p p'" and inv: "process_inv M others p"
  shows "process_inv M others p'"
  using step inv
proof (induction rule: process_step.induct)
  case (applied c g l g' ls)
  then have e: "enforce_inv M (length (filter lease_active ls)) (mg_enforce g)" by (simp add: process_inv_def)
  let ?new = "rl_key ` set (lease_locks l)" and ?old = "rl_key ` set (concat (map lease_locks ls))"
  from applied(2) have old: "distinct (map rl_key (concat (map lease_locks ls)))" "others \<inter> ?old = {}"
    "registry g = others \<union> ?old" by (simp_all add: process_inv_def del: set_concat)
  from wp_run[OF apply_spec[OF assms(1) clock e] applied(1)]
  have new: "distinct (map rl_key (lease_locks l))" "?new \<inter> registry g = {}" "registry g' = registry g \<union> ?new"
    "lease_active l" "enforce_inv M (Suc (length (filter lease_active ls))) (mg_enforce g')" by simp_all
  have "?new \<inter> ?old = {}" "others \<inter> (?old \<union> ?new) = {}" "registry g' = others \<union> (?old \<union> ?new)"
    using old(2,3) new(2,3) by blast+
  with old(1) new(1,4,5) show ?case
    by (simp add: process_inv_def image_Un Int_commute del: set_concat)
next
  case (apply_failed c g e g' ls)
  then have e: "enforce_inv M (length (filter lease_active ls)) (mg_enforce g)" by (simp add: process_inv_def)
  from wp_run[OF apply_spec[OF assms(1) clock e] apply_failed(1)] apply_failed(2) show ?case
    by (auto simp: process_inv_def)
next
  case (lease_called i ls m g res l' g')
  then show ?case by (intro lease_call_inv)
next
  case (recovered g outs g' ls)
  from wp_run[OF recover_stale_still[OF assms(1)] recovered(1)] recovered(2) show ?case
    by (auto intro: same_process_inv)
next
  case (recover_failed g e g' ls)
  from wp_run[OF recover_stale_still[OF assms(1)] recover_failed(1)] recover_failed(2) show ?case
    by (auto intro: same_process_inv)
next
  case (abandoned r g res g' ls)
  from wp_run[OF abandon_journal_still[OF assms(1)] abandoned(1)] abandoned(2,3) show ?case
    by (auto intro: same_process_inv)
next
  case (refreshed g res g' ls)
  then have e: "enforce_inv M (length (filter lease_active ls)) (mg_enforce g)" by (simp add: process_inv_def)
  from wp_run[OF refresh_spec[OF e] refreshed(1)] refreshed(2,3) show ?case
    by (simp add: process_inv_def)
next
  case (suspended g res g' ls)
  then have e: "enforce_inv M (length (filter lease_active ls)) (mg_enforce g)" by (simp add: process_inv_def)
  from wp_run[OF suspend_spec[OF e] suspended(1)] suspended(2,3) show ?case
    by (simp add: process_inv_def)
next
  case (reconciled r g res g' ls)
  from wp_run[OF still_op[OF still_reconcile] reconciled(1)] reconciled(3) show ?case
    by (rule same_process_inv[rotated])
next
  case (notified r g res g' ls)
  from wp_run[OF still_op[OF still_feed] notified(1)] notified(3) show ?case
    by (rule same_process_inv[rotated])
qed


end
