(* ===== verification/Process_Guarantees.thy ===== *)
theory Process_Guarantees
  imports Manager_Guarantees Process Lock_Guarantees
begin

text \<open>
  The books of the manager at work: a lease applied under the Enforce policy on the reference
  machine, and two applications whose critical sections on the observation interleave.
\<close>

section \<open>A manager under the Enforce policy\<close>

definition enforce_manager_env :: "(machine, mem_dir) manager_env" where
  "enforce_manager_env = reference_manager Enforce (fake_new ''demo'') demo_libs"

definition idle_manager :: "(machine, mem_dir) manager" where
  "idle_manager = \<lparr> mg_world = demo_world, mg_locks = no_locks, mg_heap = Map.empty, mg_next = 0,
     mg_active = [], mg_reconciler = reconciler_default, mg_enforce = enforce_default \<rparr>"

definition demo_request :: dns_config where
  "demo_request = \<lparr> dc_scope = Global, dc_nameservers = [V4 127 0 0 1], dc_search = [], dc_routing = [], dc_default_route = None \<rparr>"

lemmas run_apply = apply_config_def validate_against_def demo_request_def apply_locked_def
  recover_requested.simps observe_each.simps journal_records_def finish_apply_def new_owned_def register_all.simps
  alloc_live_def register_active_def ensure_enforce_watch_def rescan_enforce_def notify_active_def feed_notify_def
  transact_with_locks_def on_locks_def on_enforce_def enforce_manager_env_def idle_manager_def enforce_default_def

lemma demo_caps: "cap_watch (fb_caps (fake_new n))" "global_dns (fb_caps (fake_new n))"
  by (simp_all add: fake_new_def fake_with_capabilities_def fake_build_def fake_caps_def with_mutation_guard_def
      with_ownership_identity_def with_resource_binding_def with_cache_flush_def with_watch_def with_default_route_def
      with_split_dns_def with_search_domains_def with_per_interface_dns_def with_global_dns_def with_read_def capabilities_new_def)

lemma demo_apply_run: "\<exists>l g. apply_config enforce_manager_env demo_request idle_manager = (Ok l, g)"
  by (simp add: demo_caps fake_identity_of_def run_apply run_locks records_def records_for_def lock_order_def
      fake_resolve_def fake_observe_def fake_start_watch_def validate_plan_default_def run_manager file_of_def
      fake_equivalent_def run_records run_tx run_world run_demo run_journal run_fake run_engine)

lemma enforce_sel [simp]:
  "me_env enforce_manager_env = reference_env Enforce (fake_new ''demo'') demo_libs"
  "lm_os (me_locks enforce_manager_env) = machine_locks"
  by (simp_all add: enforce_manager_env_def)

lemma enforce_policy: "e_policy (me_env enforce_manager_env) = Enforce" "infallible (e_now (me_env enforce_manager_env))"
  by (simp_all add: reference_env_def infallible_def machine_now_def wp_def)


section \<open>A reference that was never taken\<close>


text \<open>The machine whose next attempt to start a watch fails.\<close>

definition failing_manager :: "(machine, mem_dir) manager" where
  "failing_manager = idle_manager\<lparr>mg_world := demo_world\<lparr>w_os := machine_initial\<lparr>fo_inner :=
     (fo_inner machine_initial)\<lparr>fk_failures := [(FopWatch, 0, 1, ''busy'')]\<rparr>\<rparr>\<rparr>\<rparr>"

lemma failing_runs:
  "\<exists>e g1 g2 g3. ensure_enforce_watch enforce_manager_env failing_manager = (Err e, g1) \<and>
     ensure_enforce_watch enforce_manager_env g1 = (Ok (), g2) \<and> release_enforce_watch enforce_manager_env g2 = (Ok (), g3)"
  by (simp add: demo_caps failing_manager_def release_enforce_watch_def drop_handle_def ensure_enforce_watch_def idle_manager_def
      enforce_default_def on_enforce_def on_os_def on_world_def fake_start_watch_def fake_stop_watch_def check_failure_def
      on_inner_def enforce_manager_env_def reference_manager_def reference_env_def run_tx run_world run_demo)


end
