(* ===== verification/Text_Config.thy ===== *)
theory Text_Config
  imports Snapshots
begin

text \<open>
  \<open>platform/text_config.rs\<close>: the text of a resolver file, and the encodings of a configuration in the
  DNS fields of systemd-resolved and NetworkManager. The parser of resolver files is the package
  \<open>resolv_conf\<close>: it is the parameter \<open>parse_conf\<close>, which yields the nameservers and the last search
  list or domain of a text it accepts. A \<open>HashMap\<close> is a map.
\<close>

section \<open>Numbers and addresses as text\<close>

text \<open>\<open>str::parse::<u32>\<close>: an optional plus sign and decimal digits of a value that fits.\<close>

definition digit_value :: "char \<Rightarrow> nat" where
  "digit_value c = of_char c - 48"

definition digits_value :: "string \<Rightarrow> nat" where
  "digits_value s = foldl (\<lambda>n c. 10 * n + digit_value c) 0 s"

definition parse_u32 :: "string \<Rightarrow> u32 option" where
  "parse_u32 s =
     (let ds = (case s of c # cs \<Rightarrow> if c = CHR ''+'' then cs else s | [] \<Rightarrow> [])
      in if ds \<noteq> [] \<and> list_all is_digit ds \<and> digits_value ds \<le> u32_max
         then Some (of_nat (digits_value ds)) else None)"

text \<open>\<open>Display\<close> of \<open>Ipv4Addr\<close> and \<open>Ipv6Addr\<close> of the standard library.\<close>

definition hex_digit :: "nat \<Rightarrow> char" where
  "hex_digit n = (if n < 10 then char_of (48 + n) else char_of (87 + n))"

fun hexadecimal :: "nat \<Rightarrow> string" where
  "hexadecimal n = (if n < 16 then [hex_digit n] else hexadecimal (n div 16) @ [hex_digit (n mod 16)])"

declare hexadecimal.simps [simp del]

definition display_v4 :: "u8 \<Rightarrow> u8 \<Rightarrow> u8 \<Rightarrow> u8 \<Rightarrow> string" where
  "display_v4 a b c d = join_with ''.'' (map (\<lambda>x. decimal (unat x)) [a, b, c, d])"

fun segments :: "bytes \<Rightarrow> nat list" where
  "segments (a # b # bs) = (256 * unat a + unat b) # segments bs"
| "segments bs = []"

text \<open>The first longest run of zero segments, as its start and length.\<close>

fun zero_span :: "nat \<Rightarrow> nat \<times> nat \<Rightarrow> nat \<times> nat \<Rightarrow> nat list \<Rightarrow> nat \<times> nat" where
  "zero_span i longest current [] = longest"
| "zero_span i longest current (s # ss) =
     (if s = 0 then
        (let cur = (if snd current = 0 then i else fst current, snd current + 1)
         in zero_span (Suc i) (if snd cur > snd longest then cur else longest) cur ss)
      else zero_span (Suc i) longest (0, 0) ss)"

definition display_segments :: "nat list \<Rightarrow> string" where
  "display_segments ss = join_with '':'' (map hexadecimal ss)"

definition v4_mapped :: "bytes \<Rightarrow> (u8 \<times> u8 \<times> u8 \<times> u8) option" where
  "v4_mapped bs = (if length bs = 16 \<and> take 12 bs = replicate 10 0 @ [255, 255]
     then Some (bs ! 12, bs ! 13, bs ! 14, bs ! 15) else None)"

definition display_v6 :: "bytes \<Rightarrow> string" where
  "display_v6 bs = (case v4_mapped bs of
       Some (a, b, c, d) \<Rightarrow> ''::ffff:'' @ display_v4 a b c d
     | None \<Rightarrow>
         (let ss = segments bs; zeroes = zero_span 0 (0, 0) (0, 0) ss
          in if snd zeroes > 1
             then display_segments (take (fst zeroes) ss) @ ''::'' @ display_segments (drop (fst zeroes + snd zeroes) ss)
             else display_segments ss))"

definition display_ip :: "ip_addr \<Rightarrow> string" where
  "display_ip a = (case a of V4 p q r s \<Rightarrow> display_v4 p q r s | V6 bs \<Rightarrow> display_v6 bs)"

section \<open>Resolver files\<close>

definition newline :: string where
  "newline = [char_of (10::nat)]"

definition into_bytes :: "string \<Rightarrow> bytes" where
  "into_bytes = map (\<lambda>c. of_nat (of_char c))"

definition build_resolv_conf_text :: "normalized_config \<Rightarrow> string" where
  "build_resolv_conf_text plan =
     (let servers = concat (map (\<lambda>ns. ''nameserver '' @ display_ip ns @ newline) (nc_nameservers plan));
          search = filter (\<lambda>d. \<not> is_root d) (nc_search plan)
      in if search = [] then servers
         else servers @ ''search '' @ join_with '' '' (map suffix_display search) @ newline)"

definition build_resolv_conf_content :: "normalized_config \<Rightarrow> bytes" where
  "build_resolv_conf_content plan = into_bytes (build_resolv_conf_text plan)"

type_synonym conf_parser = "bytes \<Rightarrow> (ip_addr list \<times> string list) option"

definition parse_resolv_conf_content ::
  "conf_parser \<Rightarrow> idna \<Rightarrow> bytes \<Rightarrow> (ip_addr list \<times> dns_suffix list) result" where
  "parse_resolv_conf_content parse_conf to_ascii content = (case parse_conf content of
       None \<Rightarrow> Inl (InvalidConfig ''unparseable resolv.conf content'')
     | Some (nss, domains) \<Rightarrow>
         bind_r (fold_r (push_suffix to_ascii) domains []) (\<lambda>search. Inr (nss, search)))"

section \<open>systemd-resolved\<close>

definition resolved_dns_from_plan :: "normalized_config \<Rightarrow> (i32 \<times> bytes) list" where
  "resolved_dns_from_plan plan =
     map (\<lambda>ip. case ip of V4 a b c d \<Rightarrow> (2, [a, b, c, d]) | V6 bs \<Rightarrow> (10, bs)) (nc_nameservers plan)"

definition address_of :: "i32 \<times> bytes \<Rightarrow> ip_addr option" where
  "address_of fb = (case fb of (family, bs) \<Rightarrow>
     if family = 2 then (case bs of [a, b, c, d] \<Rightarrow> Some (V4 a b c d) | _ \<Rightarrow> None)
     else if family = 10 then (if length bs = 16 then Some (V6 bs) else None)
     else None)"

definition resolved_dns_to_nameservers :: "(i32 \<times> bytes) list \<Rightarrow> ip_addr list" where
  "resolved_dns_to_nameservers dns = List.map_filter address_of dns"

text \<open>\<open>domains\<close> and \<open>seen\<close> of the source, one pass over each of the two lists.\<close>

definition push_domain :: "bool \<Rightarrow> (string \<times> bool) list \<times> string list \<Rightarrow> dns_suffix \<Rightarrow>
  (string \<times> bool) list \<times> string list" where
  "push_domain route_only acc domain = (case acc of (domains, seen) \<Rightarrow>
     (let name = suffix_display domain
      in if name \<in> set seen then (domains, seen) else (domains @ [(name, route_only)], seen @ [name])))"

definition resolved_domains_from_plan :: "normalized_config \<Rightarrow> (string \<times> bool) list" where
  "resolved_domains_from_plan plan =
     fst (foldl (push_domain True) (foldl (push_domain False) ([], []) (nc_search plan)) (nc_routing plan))"

definition public_domain :: "idna \<Rightarrow> dns_suffix list \<times> dns_suffix list \<Rightarrow> string \<times> bool \<Rightarrow>
  dns_suffix list \<times> dns_suffix list" where
  "public_domain to_ascii acc d = (case acc of (search, routing) \<Rightarrow> (case d of (name, route_only) \<Rightarrow>
     (case suffix_parse to_ascii name of
        Inl _ \<Rightarrow> (search, routing)
      | Inr suffix \<Rightarrow> if \<not> route_only then (push_unique search suffix, routing)
                      else (search, push_unique routing suffix))))"

definition resolved_domains_to_public ::
  "idna \<Rightarrow> (string \<times> bool) list \<Rightarrow> dns_suffix list \<times> dns_suffix list" where
  "resolved_domains_to_public to_ascii domains = foldl (public_domain to_ascii) ([], []) domains"

section \<open>NetworkManager\<close>

definition nm_fields_default :: nm_dns_fields where
  "nm_fields_default = \<lparr> ipv4_dns = [], ipv4_dns_search = [], ipv4_ignore_auto_dns = False,
     ipv6_dns = [], ipv6_dns_search = [], ipv6_ignore_auto_dns = False \<rparr>"

definition from_be_bytes :: "u8 \<Rightarrow> u8 \<Rightarrow> u8 \<Rightarrow> u8 \<Rightarrow> u32" where
  "from_be_bytes a b c d = of_nat (((unat a * 256 + unat b) * 256 + unat c) * 256 + unat d)"

definition to_be_bytes :: "u32 \<Rightarrow> bytes" where
  "to_be_bytes w = map (\<lambda>k. of_nat (unat w div 256 ^ k)) [3, 2, 1, 0]"

definition nm_push_address :: "nm_dns_fields \<Rightarrow> ip_addr \<Rightarrow> nm_dns_fields" where
  "nm_push_address fds ip = (case ip of
       V4 a b c d \<Rightarrow> fds\<lparr>ipv4_dns := ipv4_dns fds @ [from_be_bytes a b c d]\<rparr>
     | V6 bs \<Rightarrow> fds\<lparr>ipv6_dns := ipv6_dns fds @ [bs]\<rparr>)"

definition nm_fields_from_plan :: "normalized_config \<Rightarrow> bool \<Rightarrow> nm_dns_fields" where
  "nm_fields_from_plan plan split =
     (let fds = foldl nm_push_address nm_fields_default (nc_nameservers plan);
          search = dedup_push [] (map suffix_str (filter (\<lambda>d. \<not> is_root d) (nc_search plan)));
          routing = (if split then foldl (\<lambda>routing domain. let name = suffix_display domain
                       in if name \<in> set search \<or> name \<in> set routing then routing else routing @ [name])
                     [] (nc_routing plan) else []);
          entries = search @ map (\<lambda>r. ''~'' @ r) routing
      in fds\<lparr>ipv4_dns_search := entries, ipv6_dns_search := entries,
                ipv4_ignore_auto_dns := True, ipv6_ignore_auto_dns := True\<rparr>)"

definition nm_search_entry :: "idna \<Rightarrow> dns_suffix list \<times> dns_suffix list \<Rightarrow> string \<Rightarrow>
  dns_suffix list \<times> dns_suffix list" where
  "nm_search_entry to_ascii acc entry = (case acc of (search, routing) \<Rightarrow>
     (case strip_prefix ''~'' entry of
        Some rest \<Rightarrow>
          (case suffix_parse to_ascii (if rest = [] then ''.'' else rest) of
             Inl _ \<Rightarrow> (search, routing) | Inr suffix \<Rightarrow> (search, push_unique routing suffix))
      | None \<Rightarrow>
          (case suffix_parse to_ascii entry of
             Inl _ \<Rightarrow> (search, routing) | Inr suffix \<Rightarrow> (push_unique search suffix, routing))))"

definition parse_nm_search_entries :: "idna \<Rightarrow> string list \<Rightarrow> dns_suffix list \<times> dns_suffix list" where
  "parse_nm_search_entries to_ascii entries = foldl (nm_search_entry to_ascii) ([], []) entries"

datatype setting_value =
    SetBool bool
  | SetInt i32
  | SetUint u32
  | SetStr string
  | SetStrList "string list"
  | SetUintList "u32 list"
  | SetByteArrayList "bytes list"
  | SetOther

type_synonym 'v settings = "string \<rightharpoonup> (string \<rightharpoonup> 'v)"

definition string_keys :: "setting_value option \<Rightarrow> string list" where
  "string_keys v = (case v of Some (SetUintList items) \<Rightarrow> map (\<lambda>w. decimal (unat w)) items | _ \<Rightarrow> [])"

definition string_list :: "setting_value option \<Rightarrow> string list" where
  "string_list v = (case v of Some (SetStrList items) \<Rightarrow> items | _ \<Rightarrow> [])"

definition bool_value :: "setting_value option \<Rightarrow> bool" where
  "bool_value v = (case v of Some (SetBool b) \<Rightarrow> b | _ \<Rightarrow> False)"

definition byte_array_list :: "setting_value option \<Rightarrow> bytes list" where
  "byte_array_list v = (case v of Some (SetByteArrayList items) \<Rightarrow> items | _ \<Rightarrow> [])"

definition parse_nm_dns_fields :: "setting_value settings \<Rightarrow> nm_dns_fields" where
  "parse_nm_dns_fields settings =
     (let fds = nm_fields_default;
          fds = (case settings ''ipv4'' of None \<Rightarrow> fds | Some ipv4 \<Rightarrow>
            fds\<lparr>ipv4_dns := List.map_filter parse_u32 (string_keys (ipv4 ''dns'')),
                   ipv4_dns_search := string_list (ipv4 ''dns-search''),
                   ipv4_ignore_auto_dns := bool_value (ipv4 ''ignore-auto-dns'')\<rparr>)
      in (case settings ''ipv6'' of None \<Rightarrow> fds | Some ipv6 \<Rightarrow>
            fds\<lparr>ipv6_dns := byte_array_list (ipv6 ''dns''),
                   ipv6_dns_search := string_list (ipv6 ''dns-search''),
                   ipv6_ignore_auto_dns := bool_value (ipv6 ''ignore-auto-dns'')\<rparr>))"

section \<open>What is written reads back\<close>

lemma digits_value_append: "digits_value (s @ [c]) = 10 * digits_value s + digit_value c"
  by (simp add: digits_value_def)

lemma digits_value_decimal: "digits_value (decimal n) = n"
proof (induction n rule: decimal.induct)
  case (1 n)
  have "digit_value (char_of (48 + d)) = d" if "d < 10" for d :: nat
    using that by (simp add: digit_value_def)
  then show ?case
    using 1 by (subst decimal.simps) (auto simp: digits_value_append, simp add: digits_value_def)
qed

lemma parse_u32_decimal: "parse_u32 (decimal (unat w)) = Some w" for w :: u32
proof -
  have d: "list_all is_digit (decimal (unat w))" "decimal (unat w) \<noteq> []"
    by (rule decimal_digits, rule decimal_nonempty)
  have "unat w < 2 ^ 32" using unsigned_less[of w] by simp
  then have le: "unat w \<le> u32_max" by (simp add: u32_max_def)
  obtain c cs where c: "decimal (unat w) = c # cs" using d(2) by (cases "decimal (unat w)") auto
  with d(1) have "c \<noteq> CHR ''+''" by (auto simp: is_digit_def less_eq_char_def)
  with c have "(case decimal (unat w) of c # cs \<Rightarrow> if c = CHR ''+'' then cs else decimal (unat w) | [] \<Rightarrow> []) = decimal (unat w)"
    by simp
  with d le show ?thesis
    by (simp add: parse_u32_def Let_def digits_value_decimal)
qed

lemma to_from_be_bytes: "to_be_bytes (from_be_bytes a b c d) = [a, b, c, d]"
proof -
  have lt: "unat a < 256" "unat b < 256" "unat c < 256" "unat d < 256"
    using unsigned_less[of a] unsigned_less[of b] unsigned_less[of c] unsigned_less[of d] by simp_all
  define n where "n = ((unat a * 256 + unat b) * 256 + unat c) * 256 + unat d"
  have "n < 2 ^ 32" using lt by (simp add: n_def)
  then have u: "unat (from_be_bytes a b c d) = n"
    unfolding from_be_bytes_def n_def[symmetric] unsigned_of_nat by (simp add: take_bit_nat_eq_self)
  have low: "word_of_nat (m * 256 + unat x) = x" for m and x :: u8
  proof -
    have "(of_nat (m * 256 + unat x) :: u8) = of_nat m * of_nat 256 + of_nat (unat x)"
      by (simp only: of_nat_add of_nat_mult)
    moreover have "(of_nat 256 :: u8) = 0" by simp
    ultimately show ?thesis by (simp only: mult_zero_right add_0 of_nat_unat ucast_id)
  qed
  have "n div 256 ^ 3 = unat a" "n div 256 ^ 2 = unat a * 256 + unat b"
    "n div 256 ^ 1 = (unat a * 256 + unat b) * 256 + unat c" "n div 256 ^ 0 = n"
    using lt by (simp_all add: n_def)
  then have "word_of_nat (n div 256 ^ 3) = a" "word_of_nat (n div 256 ^ 2) = b"
    "word_of_nat (n div 256 ^ 1) = c" "word_of_nat (n div 256 ^ 0) = d"
    by (simp_all only: low n_def of_nat_unat ucast_id)
  then show ?thesis
    unfolding to_be_bytes_def u list.map by (simp only:)
qed

lemma uint_list_read_back: "List.map_filter parse_u32 (map (\<lambda>w. decimal (unat w)) ws) = ws"
  by (induction ws) (simp_all add: map_filter_simps parse_u32_decimal)

text \<open>A suffix that survives being written and parsed, as every parsed one does.\<close>

definition reparses :: "idna \<Rightarrow> dns_suffix \<Rightarrow> bool" where
  "reparses to_ascii d \<longleftrightarrow> suffix_parse to_ascii (suffix_display d) = Inr d"

lemma reparses_inj: "\<forall>d\<in>D. reparses to_ascii d \<Longrightarrow> inj_on suffix_display D"
  by (rule inj_onI) (metis reparses_def Inr_inject)

lemma distinct_display:
  "list_all (reparses to_ascii) ds \<Longrightarrow> distinct ds \<Longrightarrow> distinct (map suffix_display ds)"
  by (simp add: distinct_map reparses_inj list_all_iff)

lemma push_domains:
  "distinct (map suffix_display ds) \<Longrightarrow> foldl (push_domain b) (out, seen) ds =
     (let new = filter (\<lambda>d. suffix_display d \<notin> set seen) ds
      in (out @ map (\<lambda>d. (suffix_display d, b)) new, seen @ map suffix_display new))"
proof (induction ds arbitrary: out seen)
  case (Cons d ds)
  have "filter (\<lambda>x. suffix_display x \<noteq> suffix_display d \<and> suffix_display x \<notin> set seen) ds =
      filter (\<lambda>x. suffix_display x \<notin> set seen) ds"
    using Cons.prems by (intro filter_cong) (auto simp: image_iff)
  with Cons show ?case by (auto simp: push_domain_def Let_def)
qed (simp add: Let_def)

lemma public_domains:
  "list_all (reparses to_ascii) ds \<Longrightarrow>
   foldl (public_domain to_ascii) (search, routing) (map (\<lambda>d. (suffix_display d, b)) ds) =
     (if b then (search, dedup_push routing ds) else (dedup_push search ds, routing))"
  by (induction ds arbitrary: search routing) (auto simp: public_domain_def reparses_def)

lemma reparsed_member:
  "list_all (reparses to_ascii) ds \<Longrightarrow> reparses to_ascii d \<Longrightarrow>
   suffix_display d \<in> suffix_display ` set ds \<longleftrightarrow> d \<in> set ds"
  by (auto simp: list_all_iff reparses_def image_iff)

lemma addresses_read_back:
  "list_all wf_ip nss \<Longrightarrow> resolved_dns_to_nameservers (resolved_dns_from_plan (plan\<lparr>nc_nameservers := nss\<rparr>)) = nss"
  by (induction nss) (auto simp: resolved_dns_to_nameservers_def resolved_dns_from_plan_def map_filter_simps
      address_of_def wf_ip_def split: ip_addr.splits)

text \<open>
  C29. What a plan writes to a link of systemd-resolved reads back as the plan. The nameservers come
  back as they are, in order, and so do the search domains; of the routing domains those that are
  search domains too are lost, because a link holds every name once, as a search or a routing domain.
\<close>

theorem resolved_reads_back:
  assumes "list_all wf_ip (nc_nameservers plan)"
    and "distinct (nc_search plan)" "list_all (reparses to_ascii) (nc_search plan)"
    and "distinct (nc_routing plan)" "list_all (reparses to_ascii) (nc_routing plan)"
  shows "resolved_dns_to_nameservers (resolved_dns_from_plan plan) = nc_nameservers plan \<and>
     resolved_domains_to_public to_ascii (resolved_domains_from_plan plan) =
       (nc_search plan, filter (\<lambda>d. d \<notin> set (nc_search plan)) (nc_routing plan))"
proof -
  let ?s = "nc_search plan" and ?r = "nc_routing plan"
  let ?new = "filter (\<lambda>d. suffix_display d \<notin> suffix_display ` set ?s) ?r"
  have new: "?new = filter (\<lambda>d. d \<notin> set ?s) ?r"
    using assms(3,5) by (intro filter_cong) (auto simp: reparsed_member list_all_iff)
  have "resolved_domains_from_plan plan = map (\<lambda>d. (suffix_display d, False)) ?s @ map (\<lambda>d. (suffix_display d, True)) ?new"
    unfolding resolved_domains_from_plan_def
    by (simp add: push_domains[OF distinct_display[OF assms(3,2)]] push_domains[OF distinct_display[OF assms(5,4)]] Let_def)
  moreover have "list_all (reparses to_ascii) ?new" using assms(5) by (simp add: list_all_iff)
  ultimately have "resolved_domains_to_public to_ascii (resolved_domains_from_plan plan) = (?s, ?new)"
    using assms(2-4) by (simp add: resolved_domains_to_public_def public_domains dedup_push_distinct)
  with addresses_read_back[OF assms(1), of plan] new show ?thesis by simp
qed

lemma root_reparses: "reparses to_ascii (DnsSuffix [])"
proof -
  have "trim ''.'' = ''.''" by (rule trim_printable) (simp add: printable_def less_eq_char_def)
  then show ?thesis
    by (simp add: reparses_def suffix_display_def suffix_parse_def normalize_domain_def strip_suffix_def)
qed

lemma demo_reparses: "reparses Some (DnsSuffix ''a.example'')"
proof -
  have "trim ''a.example'' = ''a.example''"
    by (rule trim_printable) (simp add: printable_def less_eq_char_def)
  then show ?thesis
    by (simp add: reparses_def suffix_display_def suffix_parse_def normalize_domain_def strip_suffix_def
        label_step_def check_label_def dns_byte_def is_lower_def is_digit_def less_eq_char_def)
qed

theorem resolved_reads_back_witness:
  "let plan = \<lparr> nc_nameservers = [V4 9 9 9 9], nc_search = [DnsSuffix ''a.example''],
                nc_routing = [DnsSuffix ''a.example'', DnsSuffix []], nc_default_route = None \<rparr>
   in resolved_dns_to_nameservers (resolved_dns_from_plan plan) = [V4 9 9 9 9] \<and>
      resolved_domains_to_public Some (resolved_domains_from_plan plan) =
        ([DnsSuffix ''a.example''], [DnsSuffix []])"
  using resolved_reads_back[of "\<lparr> nc_nameservers = [V4 9 9 9 9], nc_search = [DnsSuffix ''a.example''],
      nc_routing = [DnsSuffix ''a.example'', DnsSuffix []], nc_default_route = None \<rparr>" Some]
  by (simp add: wf_ip_def Let_def demo_reparses root_reparses)

text \<open>The fields of NetworkManager: each family of addresses and the search entries.\<close>

lemma suffix_names:
  "\<not> is_root d \<Longrightarrow> suffix_display d = suffix_str d" "is_root d \<Longrightarrow> suffix_display d = ''.''"
  by (simp_all add: is_root_def suffix_display_def)

lemma nm_search_domains:
  "list_all (\<lambda>d. reparses to_ascii d \<and> \<not> is_root d \<and> hd (suffix_str d) \<noteq> CHR ''~'') ds \<Longrightarrow>
   foldl (nm_search_entry to_ascii) (search, routing) (map suffix_str ds) = (dedup_push search ds, routing)"
proof (induction ds arbitrary: search)
  case (Cons d ds)
  then obtain c cs where "suffix_str d = c # cs" "c \<noteq> CHR ''~''"
    by (cases "suffix_str d") (auto simp: is_root_def)
  with Cons show ?case by (auto simp: nm_search_entry_def reparses_def suffix_names)
qed simp

lemma nm_routing_domains:
  "list_all (reparses to_ascii) ds \<Longrightarrow>
   foldl (nm_search_entry to_ascii) (search, routing) (map (\<lambda>d. ''~'' @ suffix_display d) ds) = (search, dedup_push routing ds)"
  by (induction ds arbitrary: routing) (auto simp: nm_search_entry_def reparses_def suffix_display_def)

lemma nm_addresses:
  "foldl nm_push_address f nss = f\<lparr>
     ipv4_dns := ipv4_dns f @ List.map_filter (\<lambda>ip. case ip of V4 a b c d \<Rightarrow> Some (from_be_bytes a b c d) | _ \<Rightarrow> None) nss,
     ipv6_dns := ipv6_dns f @ List.map_filter (\<lambda>ip. case ip of V6 bs \<Rightarrow> Some bs | _ \<Rightarrow> None) nss\<rparr>"
  by (induction nss arbitrary: f) (auto simp: nm_push_address_def map_filter_simps split: ip_addr.splits)

lemma nm_routing_names:
  "distinct (map suffix_display ds) \<Longrightarrow>
   foldl (\<lambda>routing domain. let name = suffix_display domain
      in if name \<in> set search \<or> name \<in> set routing then routing else routing @ [name]) routing ds =
   routing @ map suffix_display (filter (\<lambda>d. suffix_display d \<notin> set search \<and> suffix_display d \<notin> set routing) ds)"
proof (induction ds arbitrary: routing)
  case (Cons d ds)
  have "filter (\<lambda>x. suffix_display x \<notin> set search \<and> suffix_display x \<noteq> suffix_display d \<and> suffix_display x \<notin> set routing) ds =
      filter (\<lambda>x. suffix_display x \<notin> set search \<and> suffix_display x \<notin> set routing) ds"
    using Cons.prems by (intro filter_cong) (auto simp: image_iff)
  with Cons show ?case by (auto simp: Let_def)
qed simp

lemma nm_entries_read_back:
  assumes "distinct (nc_search plan)" "list_all (reparses to_ascii) (nc_search plan)"
    and "list_all (\<lambda>d. hd (suffix_str d) \<noteq> CHR ''~'') (nc_search plan)"
    and "distinct (nc_routing plan)" "list_all (reparses to_ascii) (nc_routing plan)"
  defines "searched \<equiv> filter (\<lambda>d. \<not> is_root d) (nc_search plan)"
  shows "parse_nm_search_entries to_ascii (ipv4_dns_search (nm_fields_from_plan plan split)) =
     (searched, if split then filter (\<lambda>d. d \<notin> set searched) (nc_routing plan) else [])"
proof -
  let ?r = "nc_routing plan"
  have good: "list_all (\<lambda>d. reparses to_ascii d \<and> \<not> is_root d \<and> hd (suffix_str d) \<noteq> CHR ''~'') searched"
    using assms(2,3) by (auto simp: searched_def list_all_iff)
  have names: "map suffix_str searched = map suffix_display searched"
    by (simp add: searched_def suffix_names)
  have dist: "distinct (map suffix_str searched)"
    unfolding names by (rule distinct_display[of to_ascii]) (use assms(1,2) in \<open>auto simp: searched_def list_all_iff\<close>)
  have member: "suffix_display d \<in> set (map suffix_str searched) \<longleftrightarrow> d \<in> set searched" if "d \<in> set ?r" for d
  proof -
    have "reparses to_ascii d" using that assms(5) by (simp add: list_all_iff)
    from reparsed_member[OF _ this, of searched] good show ?thesis by (simp add: names list_all_iff)
  qed
  have new: "filter (\<lambda>d. suffix_display d \<notin> set (map suffix_str searched)) ?r = filter (\<lambda>d. d \<notin> set searched) ?r"
    by (intro filter_cong) (simp_all add: member del: set_map)
  have entries: "ipv4_dns_search (nm_fields_from_plan plan split) = map suffix_str searched @
      map (\<lambda>d. ''~'' @ suffix_display d) (if split then filter (\<lambda>d. d \<notin> set searched) ?r else [])"
    using nm_routing_names[OF distinct_display[OF assms(5,4)], of "map suffix_str searched" "[]"] new dist
    by (simp add: nm_fields_from_plan_def Let_def searched_def[symmetric] dedup_push_distinct comp_def)
  have routes: "list_all (reparses to_ascii) (if split then filter (\<lambda>d. d \<notin> set searched) ?r else [])"
    using assms(5) by (simp add: list_all_iff)
  have "distinct searched" "distinct (if split then filter (\<lambda>d. d \<notin> set searched) ?r else [])"
    using assms(1,4) by (simp_all add: searched_def)
  then show ?thesis
    unfolding parse_nm_search_entries_def entries foldl_append nm_search_domains[OF good] nm_routing_domains[OF routes]
    by (simp only: dedup_push_distinct list.set Int_empty_left append_Nil simp_thms)
qed

end
