(* ===== verification/Linux_System.thy ===== *)
theory Linux_System
  imports Text_Config Watch
begin

text \<open>
  \<open>platform/linux/mod.rs\<close> and \<open>platform/linux/route.rs\<close>: network interfaces, the interface of the
  default route, and the connection to the system bus. The file system, the bus (package \<open>zbus\<close>) and
  the exchange with the kernel's routing table (packages \<open>netlink_*\<close>) are parameters: the records
  \<open>linux_fs\<close> and \<open>dbus\<close> of operations on the state \<open>'w\<close> of the system, any of which may fail. Names
  of files are strings; descriptors that go out of scope leave no trace in the model.
\<close>

section \<open>Files and routes\<close>

text \<open>
  Routes as the package \<open>netlink_packet_route\<close> presents them. What \<open>poll\<close> and \<open>receive\<close> yield, one
  after the other, once a dump has been requested, is a list of events.
\<close>

datatype address_family = Inet | Inet6 | OtherFamily
datatype route_type = Unicast | OtherRoute

datatype route_attribute =
    RouteTable u32
  | RoutePriority u32
  | RouteOif u32
  | RouteMultiPath "u32 list"
  | RouteOtherAttribute

record route_message =
  rm_family :: address_family
  rm_table :: u8
  rm_destination_length :: u8
  rm_source_length :: u8
  rm_tos :: u8
  rm_kind :: route_type
  rm_attributes :: "route_attribute list"

datatype netlink_payload = NewRoute route_message | NetlinkDone i32 | NetlinkError | NetlinkOther

record netlink_message =
  nl_sequence :: u32
  nl_interrupted :: bool
  nl_length :: u32
  nl_payload :: netlink_payload

datatype dump_event = DumpTimeout | DumpFailed | DumpData u32 bytes

record 'w linux_fs =
  lf_read_to_string :: "string \<Rightarrow> 'w \<Rightarrow> (io_error + string) \<times> 'w"
  lf_read_link :: "string \<Rightarrow> 'w \<Rightarrow> (io_error + string) \<times> 'w"
  lf_read_dir :: "string \<Rightarrow> 'w \<Rightarrow> (io_error + (io_error + string) list) \<times> 'w"
  lf_open :: "string \<Rightarrow> 'w \<Rightarrow> (io_error + nat) \<times> 'w"
  lf_inode :: "nat \<Rightarrow> 'w \<Rightarrow> (io_error + u64) \<times> 'w"
  lf_netlink_parse :: "bytes \<Rightarrow> netlink_message option"
  lf_route_dump :: "'w \<Rightarrow> (error + dump_event list) \<times> 'w"

text \<open>\<open>Path::join\<close>: an absolute path replaces the base.\<close>

definition fs_join :: "string \<Rightarrow> string \<Rightarrow> string" where
  "fs_join base p =
     (if strip_prefix ''/'' p \<noteq> None then p
      else if strip_suffix ''/'' base \<noteq> None then base @ p else base @ ''/'' @ p)"

text \<open>\<open>.ok()\<close> of a computation.\<close>

definition ok_tx :: "('s, 'a) tx \<Rightarrow> ('s, 'a option) tx" where
  "ok_tx m = match_tx m (\<lambda>x. return_tx (Some x)) (\<lambda>_. return_tx None)"

definition SYS_CLASS_NET :: string where
  "SYS_CLASS_NET = ''/sys/class/net''"

section \<open>Interfaces\<close>

fun entry_names :: "(io_error + string) list \<Rightarrow> string list result" where
  "entry_names [] = Inr []"
| "entry_names (Inl (k, e) # es) = Inl (Io k e)"
| "entry_names (Inr n # es) = bind_r (entry_names es) (\<lambda>ns. Inr (n # ns))"

definition interface_names :: "'w linux_fs \<Rightarrow> ('w, string list) tx" where
  "interface_names F =
     bind_tx (io_call (lf_read_dir F SYS_CLASS_NET)) (\<lambda>entries.
     bind_tx (lift_result (entry_names entries)) (\<lambda>names. return_tx (sort names)))"

definition ifindex_for_name :: "'w linux_fs \<Rightarrow> string \<Rightarrow> ('w, u32) tx" where
  "ifindex_for_name F name =
     match_tx (io_call (lf_read_to_string F (fs_join (fs_join SYS_CLASS_NET name) ''ifindex'')))
       (\<lambda>text. case parse_u32 (trim text) of
            None \<Rightarrow> throw (PlatformError SystemdResolved ''unparseable ifindex'')
          | Some i \<Rightarrow> return_tx i)
       (\<lambda>_. throw (InvalidConfig ''interface does not exist''))"

fun first_with_index :: "'w linux_fs \<Rightarrow> u32 \<Rightarrow> string list \<Rightarrow> ('w, string) tx" where
  "first_with_index F i [] = throw (InvalidConfig ''interface with index does not exist'')"
| "first_with_index F i (name # names) =
     bind_tx (try_tx (ifindex_for_name F name)) (\<lambda>found.
     if found = Inr i then return_tx name else first_with_index F i names)"

definition name_for_ifindex :: "'w linux_fs \<Rightarrow> u32 \<Rightarrow> ('w, string) tx" where
  "name_for_ifindex F i = bind_tx (interface_names F) (first_with_index F i)"

definition push_interface ::
  "'w linux_fs \<Rightarrow> string \<Rightarrow> interface_info list \<Rightarrow> ('w, interface_info list) tx" where
  "push_interface F name out =
     match_tx (ifindex_for_name F name)
       (\<lambda>index.
          bind_tx (ok_tx (io_call (lf_read_to_string F (fs_join (fs_join SYS_CLASS_NET name) ''operstate'')))) (\<lambda>text.
          let operstate = (case text of Some s \<Rightarrow> trim s | None \<Rightarrow> ''unknown'')
          in return_tx (out @ [\<lparr> if_index = index, if_name = name, if_friendly_name = None, if_guid = None,
               if_is_up = (operstate = ''up'' \<or> operstate = ''unknown'') \<rparr>])))
       (\<lambda>_. return_tx out)"

definition list_interfaces :: "'w linux_fs \<Rightarrow> ('w, interface_info list) tx" where
  "list_interfaces F = bind_tx (interface_names F) (\<lambda>names. fold_tx (push_interface F) names [])"

section \<open>The interface of the default route\<close>

definition RT_TABLE_MAIN :: u8 where
  "RT_TABLE_MAIN = 254"

fun find_map :: "('a \<Rightarrow> 'b option) \<Rightarrow> 'a list \<Rightarrow> 'b option" where
  "find_map f [] = None"
| "find_map f (x # xs) = (case f x of Some y \<Rightarrow> Some y | None \<Rightarrow> find_map f xs)"

definition route_table :: "route_message \<Rightarrow> u32" where
  "route_table r = (case find_map (\<lambda>a. case a of RouteTable t \<Rightarrow> Some t | _ \<Rightarrow> None) (rm_attributes r) of
       Some t \<Rightarrow> t | None \<Rightarrow> ucast (rm_table r))"

definition route_metric :: "route_message \<Rightarrow> u32" where
  "route_metric r = (case find_map (\<lambda>a. case a of RoutePriority m \<Rightarrow> Some m | _ \<Rightarrow> None) (rm_attributes r) of
       Some m \<Rightarrow> m | None \<Rightarrow> 0)"

definition is_default_route :: "address_family \<Rightarrow> route_message \<Rightarrow> bool" where
  "is_default_route family r \<longleftrightarrow> rm_family r = family \<and> route_table r = ucast RT_TABLE_MAIN
     \<and> rm_destination_length r = 0 \<and> rm_source_length r = 0 \<and> rm_tos r = 0 \<and> rm_kind r = Unicast"

text \<open>The candidates an attribute adds, and the flag \<open>found\<close> as it leaves it.\<close>

definition route_output :: "route_attribute \<Rightarrow> u32 list \<times> bool \<Rightarrow> u32 list \<times> bool" where
  "route_output a acc = (case acc of (candidates, found) \<Rightarrow>
     (case a of
        RouteOif index \<Rightarrow> (push_unique candidates index, True)
      | RouteMultiPath paths \<Rightarrow> (dedup_push candidates paths, paths \<noteq> [])
      | _ \<Rightarrow> (candidates, found)))"

definition add_route :: "route_message \<Rightarrow> u32 list \<Rightarrow> u32 list result" where
  "add_route r candidates =
     (case fold route_output (rm_attributes r) (candidates, False) of (candidates, found) \<Rightarrow>
        if found then Inr candidates
        else Inl (InvalidConfig ''default route has no unambiguous output interface; select an interface explicitly''))"

definition best_routes :: "address_family \<Rightarrow> route_message list \<Rightarrow> route_message list" where
  "best_routes family routes =
     (let rs = filter (is_default_route family) routes
      in filter (\<lambda>r. route_metric r = Min (set (map route_metric rs))) rs)"

definition select_default :: "route_message list \<Rightarrow> u32 result" where
  "select_default routes =
     bind_r (fold_r (\<lambda>family. fold_r add_route (best_routes family routes)) [Inet, Inet6] [])
       (\<lambda>candidates. case candidates of
            [] \<Rightarrow> Inl (InvalidConfig ''no unicast default route exists in the main routing table'')
          | [i] \<Rightarrow> Inr i
          | _ \<Rightarrow> Inl (InvalidConfig ''main-table default routes select multiple interfaces; select an interface explicitly''))"

text \<open>
  The inner loop over one response. \<open>Inr (routes, True)\<close> is the end of the dump, \<open>Inr (routes, False)\<close>
  the end of the response. A message is at least its header, so the offset grows.
\<close>

definition SEQUENCE :: u32 where
  "SEQUENCE = 1"

definition netlink_error :: error where
  "netlink_error = BackendUnavailable ''Linux default-route discovery failed''"

definition aligned :: "nat \<Rightarrow> nat" where
  "aligned n = (n + 3) div 4 * 4"

function read_response ::
  "(bytes \<Rightarrow> netlink_message option) \<Rightarrow> bytes \<Rightarrow> nat \<Rightarrow> route_message list \<Rightarrow> (route_message list \<times> bool) result" where
  "read_response parse response offset routes =
     (if offset < length response then
        (case parse (drop offset response) of
           None \<Rightarrow> Inl netlink_error
         | Some m \<Rightarrow>
             if nl_sequence m \<noteq> SEQUENCE \<or> nl_interrupted m then Inl netlink_error
             else (let len = unat (nl_length m)
               in if len < 16 \<or> len > length response - offset then Inl netlink_error
                  else (case nl_payload m of
                      NewRoute r \<Rightarrow> read_response parse response (offset + aligned len) (routes @ [r])
                    | NetlinkDone code \<Rightarrow> if code = 0 then Inr (routes, True) else Inl netlink_error
                    | _ \<Rightarrow> Inl netlink_error)))
      else Inr (routes, False))"
  by pat_completeness auto
termination
  by (relation "measure (\<lambda>(parse, response, offset, routes). length response - offset)") (auto simp: aligned_def)

declare read_response.simps [simp del]

text \<open>The outer loop; \<open>None\<close> is a dump that is still waited for.\<close>

fun read_dump ::
  "(bytes \<Rightarrow> netlink_message option) \<Rightarrow> dump_event list \<Rightarrow> route_message list \<Rightarrow> route_message list result option" where
  "read_dump parse [] routes = None"
| "read_dump parse (DumpTimeout # es) routes = Some (Inl netlink_error)"
| "read_dump parse (DumpFailed # es) routes = Some (Inl netlink_error)"
| "read_dump parse (DumpData port response # es) routes =
     (if port \<noteq> 0 then Some (Inl netlink_error)
      else case read_response parse response 0 routes of
        Inl e \<Rightarrow> Some (Inl e)
      | Inr (routes', True) \<Rightarrow> Some (Inr routes')
      | Inr (routes', False) \<Rightarrow> read_dump parse es routes')"

text \<open>A dump whose events end before it does is one that never returns.\<close>

definition default_routes :: "'w linux_fs \<Rightarrow> ('w, route_message list) tx" where
  "default_routes F w = (case lf_route_dump F w of
       (Inl e, w') \<Rightarrow> (Err e, w')
     | (Inr events, w') \<Rightarrow>
         (case read_dump (lf_netlink_parse F) events [] of
            None \<Rightarrow> (Crash, w')
          | Some (Inl e) \<Rightarrow> (Err e, w')
          | Some (Inr routes) \<Rightarrow> (Ok routes, w')))"

definition default_route_ifindex :: "'w linux_fs \<Rightarrow> ('w, u32) tx" where
  "default_route_ifindex F = bind_tx (default_routes F) (\<lambda>routes. lift_result (select_default routes))"

text \<open>A global scope is the caller's business; here it panics.\<close>

definition resolve_interface_selector :: "'w linux_fs \<Rightarrow> dns_scope \<Rightarrow> ('w, u32 \<times> string) tx" where
  "resolve_interface_selector F scope = (case scope of
       Global \<Rightarrow> crash
     | Interface selector \<Rightarrow> (case selector of
           SelDefault \<Rightarrow> bind_tx (default_route_ifindex F) (\<lambda>index.
             bind_tx (name_for_ifindex F index) (\<lambda>name. return_tx (index, name)))
         | SelIndex index \<Rightarrow> bind_tx (name_for_ifindex F index) (\<lambda>name. return_tx (index, name))
         | SelName name \<Rightarrow> bind_tx (ifindex_for_name F name) (\<lambda>index. return_tx (index, name))))"

section \<open>The system bus\<close>

text \<open>
  An error of \<open>zbus\<close> is an error reply with its name, or any other. A connection is a number; the
  one a backend holds is the state beside the system's, as \<open>BusConnection\<close> replaces it when closed.
\<close>

datatype dbus_error = MethodError string | DbusOther

type_synonym ('w, 'a) dbus_op = "'w \<Rightarrow> (dbus_error + 'a) \<times> 'w"
type_synonym conn = nat

record match_rule =
  mr_sender :: string
  mr_interface :: string
  mr_path_namespace :: "string option"
  mr_member :: "string option"
  mr_arg0 :: "string option"

record 'w dbus =
  db_system :: "('w, conn) dbus_op"
  db_is_closed :: "conn \<Rightarrow> 'w \<Rightarrow> bool \<times> 'w"
  db_daemon :: "conn \<Rightarrow> ('w, unit) dbus_op"
  db_name_owner :: "conn \<Rightarrow> string \<Rightarrow> ('w, string) dbus_op"
  db_unix_process_id :: "conn \<Rightarrow> string \<Rightarrow> ('w, u32) dbus_op"
  db_add_match :: "conn \<Rightarrow> match_rule \<Rightarrow> ('w, unit) dbus_op"

definition dbus_call :: "(dbus_error \<Rightarrow> error) \<Rightarrow> ('w, 'a) dbus_op \<Rightarrow> ('w, 'a) tx" where
  "dbus_call conv m w = (case m w of (Inl e, w') \<Rightarrow> (Err (conv e), w') | (Inr x, w') \<Rightarrow> (Ok x, w'))"

definition bus_get :: "'w dbus \<Rightarrow> (dbus_error \<Rightarrow> error) \<Rightarrow> (conn \<times> 'w, conn) tx" where
  "bus_get D conv =
     bind_tx get_mut (\<lambda>c.
     bind_tx (inner_tx (sys_call (db_is_closed D c))) (\<lambda>closed.
     if closed then bind_tx (inner_tx (dbus_call conv (db_system D))) (\<lambda>c'. seq_tx (put_mut c') (return_tx c'))
     else return_tx c))"

definition verify_namespace ::
  "'w linux_fs \<Rightarrow> 'w dbus \<Rightarrow> string \<Rightarrow> backend_kind \<Rightarrow> (conn \<times> 'w, unit) tx" where
  "verify_namespace F D service kind =
     (let conv = (\<lambda>e. PlatformError kind ''bus error'')
      in bind_tx (bus_get D conv) (\<lambda>c.
         seq_tx (inner_tx (dbus_call conv (db_daemon D c))) (
         bind_tx (inner_tx (dbus_call conv (db_name_owner D c service))) (\<lambda>owner.
         bind_tx (inner_tx (dbus_call conv (db_unix_process_id D c owner))) (\<lambda>pid.
         bind_tx (inner_tx (io_call (lf_read_link F ''/proc/thread-self/ns/net''))) (\<lambda>current.
         bind_tx (inner_tx (io_call (lf_read_link F (''/proc/'' @ decimal (unat pid) @ ''/ns/net'')))) (\<lambda>native.
         if current \<noteq> native
         then throw (Unsupported kind ''the DNS service controls a different network namespace'')
         else return_tx ())))))))"

definition watch_signals :: "'w dbus \<Rightarrow> (dbus_error \<Rightarrow> error) \<Rightarrow> conn \<Rightarrow> match_rule \<Rightarrow> string \<Rightarrow> ('w, unit) tx" where
  "watch_signals D conv c rule service =
     seq_tx (dbus_call conv (db_daemon D c)) (
     seq_tx (dbus_call conv (db_add_match D c rule)) (
     dbus_call conv (db_add_match D c
       \<lparr> mr_sender = ''org.freedesktop.DBus'', mr_interface = ''org.freedesktop.DBus'', mr_path_namespace = None,
          mr_member = Some ''NameOwnerChanged'', mr_arg0 = Some service \<rparr>)))"

text \<open>
  A native watch: the thread that delivers events, its handle named by a number. A message of the bus
  is what the watching threads look at: the member and the path of its header.
\<close>

record 'w watch_host =
  wt_spawn :: "'w \<Rightarrow> (io_error + watch_id) \<times> 'w"
  wt_stop :: "watch_id \<Rightarrow> 'w \<Rightarrow> 'w"
  wt_active :: "watch_id \<Rightarrow> 'w \<Rightarrow> bool"

record bus_message =
  bm_member :: "string option"
  bm_path :: "string option"

datatype watch_action = WatchStop | WatchSkip | WatchEmit "dns_event list"

section \<open>Which interface is selected\<close>

fun is_output :: "route_attribute \<Rightarrow> bool" where
  "is_output (RouteOif _) = True"
| "is_output (RouteMultiPath _) = True"
| "is_output _ = False"

fun attribute_outputs :: "route_attribute \<Rightarrow> u32 set" where
  "attribute_outputs (RouteOif i) = {i}"
| "attribute_outputs (RouteMultiPath is) = set is"
| "attribute_outputs _ = {}"

definition route_outputs :: "route_message \<Rightarrow> u32 set" where
  "route_outputs r = (\<Union>a\<in>set (rm_attributes r). attribute_outputs a)"

text \<open>The last attribute that says where a route leads names an interface.\<close>

definition names_output :: "route_message \<Rightarrow> bool" where
  "names_output r \<longleftrightarrow> (let outs = filter is_output (rm_attributes r)
     in outs \<noteq> [] \<and> attribute_outputs (last outs) \<noteq> {})"

definition preferred :: "route_message list \<Rightarrow> route_message \<Rightarrow> bool" where
  "preferred routes r \<longleftrightarrow> (\<exists>family\<in>{Inet, Inet6}. r \<in> set routes \<and> is_default_route family r \<and>
     (\<forall>r'\<in>set routes. is_default_route family r' \<longrightarrow> route_metric r \<le> route_metric r'))"

lemma best_routes_iff:
  "r \<in> set (best_routes family routes) \<longleftrightarrow> r \<in> set routes \<and> is_default_route family r \<and>
     (\<forall>r'\<in>set routes. is_default_route family r' \<longrightarrow> route_metric r \<le> route_metric r')"
proof -
  let ?rs = "filter (is_default_route family) routes"
  have "route_metric r = Min (set (map route_metric ?rs)) \<longleftrightarrow> (\<forall>r'\<in>set ?rs. route_metric r \<le> route_metric r')"
    if "r \<in> set ?rs"
    using that by (subst eq_commute) (subst Min_eq_iff, auto)
  then show ?thesis by (auto simp: best_routes_def Let_def)
qed

lemma preferred_iff: "preferred routes r \<longleftrightarrow> r \<in> set (best_routes Inet routes) \<or> r \<in> set (best_routes Inet6 routes)"
  by (auto simp: preferred_def best_routes_iff)

lemma fold_route_output:
  "fold route_output as (cs, b) = (cs', b') \<Longrightarrow>
     set cs' = set cs \<union> (\<Union>a\<in>set as. attribute_outputs a) \<and> (distinct cs \<longrightarrow> distinct cs') \<and>
     (b' \<longleftrightarrow> (if filter is_output as = [] then b else attribute_outputs (last (filter is_output as)) \<noteq> {}))"
proof (induction as arbitrary: cs' b' rule: rev_induct)
  case (snoc a as)
  obtain ds d where f: "fold route_output as (cs, b) = (ds, d)" by fastforce
  from snoc.prems f have "route_output a (ds, d) = (cs', b')" by simp
  with snoc.IH[OF f] show ?case
    by (cases a) (auto simp: route_output_def)
qed simp

lemma add_route_spec:
  "add_route r cs = (if names_output r then Inr (fst (fold route_output (rm_attributes r) (cs, False)))
     else Inl (InvalidConfig ''default route has no unambiguous output interface; select an interface explicitly''))"
  using fold_route_output[of "rm_attributes r" cs False]
  by (cases "fold route_output (rm_attributes r) (cs, False)") (auto simp: add_route_def names_output_def Let_def)

lemma add_routes:
  "distinct cs \<Longrightarrow> fold_r add_route rs cs = Inr cs' \<Longrightarrow>
     list_all names_output rs \<and> distinct cs' \<and> set cs' = set cs \<union> (\<Union>r\<in>set rs. route_outputs r)"
proof (induction rs arbitrary: cs)
  case (Cons r rs)
  obtain ds b where f: "fold route_output (rm_attributes r) (cs, False) = (ds, b)" by fastforce
  note out = fold_route_output[OF f]
  from Cons.prems(2) have n: "names_output r" and rest: "fold_r add_route rs ds = Inr cs'"
    by (auto simp: add_route_spec[of r] f split: if_splits)
  from out Cons.prems(1) have "distinct ds" by simp
  from Cons.IH[OF this rest] n out show ?case by (auto simp: route_outputs_def)
qed simp

lemma add_routes_total:
  "list_all names_output rs \<Longrightarrow> \<exists>cs'. fold_r add_route rs cs = Inr cs'"
  by (induction rs arbitrary: cs) (auto simp: add_route_spec)

lemma distinct_singleton_set: "distinct xs \<Longrightarrow> set xs = {x} \<longleftrightarrow> xs = [x]"
proof
  assume d: "distinct xs" and s: "set xs = {x}"
  then have "length xs = 1" using distinct_card by fastforce
  with s show "xs = [x]" by (cases xs) auto
qed simp

text \<open>
  C30. The interface of the default route. The selection yields an interface exactly when it is the
  only one that the preferred default routes lead to: the routes of the main table for everything,
  of the lowest metric in each of the two address families, every one of which must name its output.
  So a host whose families or equal-cost paths disagree is refused, never guessed.
\<close>

theorem select_default_unique:
  "select_default routes = Inr i \<longleftrightarrow>
     (\<forall>r. preferred routes r \<longrightarrow> names_output r) \<and> (\<Union>r\<in>{r. preferred routes r}. route_outputs r) = {i}"
proof -
  let ?v4 = "best_routes Inet routes" and ?v6 = "best_routes Inet6 routes"
  have all: "(\<forall>r. preferred routes r \<longrightarrow> names_output r) \<longleftrightarrow> list_all names_output ?v4 \<and> list_all names_output ?v6"
    by (auto simp: preferred_iff list_all_iff)
  have outs: "(\<Union>r\<in>{r. preferred routes r}. route_outputs r) =
      (\<Union>r\<in>set ?v4. route_outputs r) \<union> (\<Union>r\<in>set ?v6. route_outputs r)"
    by (auto simp: preferred_iff)
  have one: "set cs = {i} \<longleftrightarrow> cs = [i]" if "distinct cs" for cs :: "u32 list"
    by (metis distinct_singleton_set that)
  show ?thesis
  proof (cases "list_all names_output ?v4 \<and> list_all names_output ?v6")
    case True
    then obtain cs ds where r: "fold_r add_route ?v4 [] = Inr cs" "fold_r add_route ?v6 cs = Inr ds"
      using add_routes_total by metis
    from add_routes[OF _ r(1)] have c: "distinct cs" "set cs = (\<Union>r\<in>set ?v4. route_outputs r)" by simp_all
    from add_routes[OF c(1) r(2)] c(2) have d: "distinct ds"
      "set ds = (\<Union>r\<in>set ?v4. route_outputs r) \<union> (\<Union>r\<in>set ?v6. route_outputs r)" by simp_all
    have "select_default routes = Inr i \<longleftrightarrow> ds = [i]"
      by (auto simp: select_default_def r split: list.splits)
    with True one[OF d(1)] d(2) show ?thesis by (simp add: all outs)
  next
    case False
    have "select_default routes \<noteq> Inr i"
    proof
      assume "select_default routes = Inr i"
      then obtain cs ds where r: "fold_r add_route ?v4 [] = Inr cs" "fold_r add_route ?v6 cs = Inr ds"
        by (auto simp: select_default_def bind_r_Inr)
      from add_routes[OF _ r(1)] have "distinct cs" "list_all names_output ?v4" by simp_all
      with add_routes[OF this(1) r(2)] False show False by simp
    qed
    with False show ?thesis unfolding all by blast
  qed
qed

text \<open>Two default routes of equal families lead to interface 2; the one of interface 5 has a higher metric.\<close>

definition demo_route :: "address_family \<Rightarrow> u32 \<Rightarrow> u32 \<Rightarrow> route_message" where
  "demo_route family metric index = \<lparr> rm_family = family, rm_table = RT_TABLE_MAIN, rm_destination_length = 0,
     rm_source_length = 0, rm_tos = 0, rm_kind = Unicast, rm_attributes = [RouteOif index, RoutePriority metric] \<rparr>"

definition demo_routes :: "route_message list" where
  "demo_routes = [demo_route Inet 600 5, demo_route Inet 100 2, demo_route Inet6 1024 2]"

theorem select_default_unique_witness:
  "select_default demo_routes = Inr 2 \<and> (\<Union>r\<in>{r. preferred demo_routes r}. route_outputs r) = {2}"
proof -
  have "select_default demo_routes = Inr 2"
    by (simp add: select_default_def demo_routes_def demo_route_def best_routes_def Let_def is_default_route_def
        route_table_def route_metric_def add_route_def route_output_def push_unique_def RT_TABLE_MAIN_def)
  with select_default_unique[of demo_routes 2] show ?thesis by simp
qed

end
