(* ===== verification/Network_Manager.thy ===== *)
theory Network_Manager
  imports Linux_System
begin

text \<open>
  \<open>platform/linux/network_manager.rs\<close>: the backend of NetworkManager. The service is the parameter
  \<open>nm_service\<close>, the generated proxies over a connection. A device proxy is a connection, a destination
  when one is given, and the object path. The settings of a connection are maps of maps of the values
  of \<open>zvariant\<close>; the variants the code does not look into are one constructor; building an array of values is the parameter \<open>nh_array\<close>.
\<close>

section \<open>The service\<close>

datatype nm_value =
    VBool bool
  | VU8 u8
  | VI32 i32
  | VU32 u32
  | VStr string
  | VArray "nm_value list"
  | VOther nat

type_synonym nm_settings = "nm_value settings"
type_synonym device = "conn \<times> string option \<times> string"

record 'w nm_service =
  ns_manager :: "conn \<Rightarrow> ('w, unit) dbus_op"
  ns_device_by_iface :: "conn \<Rightarrow> string \<Rightarrow> ('w, string) dbus_op"
  ns_dns_manager :: "conn \<Rightarrow> ('w, unit) dbus_op"
  ns_mode :: "conn \<Rightarrow> ('w, string) dbus_op"
  ns_rc_manager :: "conn \<Rightarrow> ('w, string) dbus_op"
  ns_device :: "device \<Rightarrow> ('w, unit) dbus_op"
  ns_applied :: "device \<Rightarrow> ('w, nm_settings \<times> u64) dbus_op"
  ns_reapply :: "device \<Rightarrow> nm_settings \<Rightarrow> u64 \<Rightarrow> ('w, bool) dbus_op"
  ns_interface :: "device \<Rightarrow> ('w, string) dbus_op"
  ns_managed :: "device \<Rightarrow> ('w, bool) dbus_op"
  ns_active :: "device \<Rightarrow> ('w, string) dbus_op"

record 'w nm_host =
  nh_fs :: "'w linux_fs"
  nh_bus :: "'w dbus"
  nh_service :: "'w nm_service"
  nh_threads :: "'w watch_host"
  nh_parse_uuid :: "string \<Rightarrow> uuid option"
  nh_unique_name :: "string \<Rightarrow> bool"
  nh_object_path :: "string \<Rightarrow> bool"
  nh_array :: "nm_value list \<Rightarrow> nm_value"
  nh_idna :: idna

record network_manager =
  nm_dns_mode :: string
  nm_rc_manager :: string
  nm_caps :: capabilities

definition NM_SERVICE :: string where
  "NM_SERVICE = ''org.freedesktop.NetworkManager''"

definition NM_PATH :: string where
  "NM_PATH = ''/org/freedesktop/NetworkManager''"

definition nm_error :: "dbus_error \<Rightarrow> error" where
  "nm_error e = PlatformError NetworkManager ''bus error''"

definition nm_resource_error :: "resource_id \<Rightarrow> dbus_error \<Rightarrow> error" where
  "nm_resource_error r e =
     (if e = MethodError ''org.freedesktop.DBus.Error.UnknownObject''
      then ResourceGone NetworkManager r ''no such object''
      else ResourcePlatform NetworkManager r ''bus error'')"

section \<open>Settings\<close>

text \<open>\<open>entry(..).or_default()\<close> on a map of maps, then inserting into the inner map.\<close>

definition section_of :: "'v settings \<Rightarrow> string \<Rightarrow> (string \<rightharpoonup> 'v)" where
  "section_of settings name = (case settings name of Some m \<Rightarrow> m | None \<Rightarrow> Map.empty)"

text \<open>\<open>Array::from\<close> of \<open>zvariant\<close> is the parameter \<open>array\<close>.\<close>

definition u32_array :: "(nm_value list \<Rightarrow> nm_value) \<Rightarrow> u32 list \<Rightarrow> nm_value" where
  "u32_array array vs = array (map VU32 vs)"

definition byte_list_array :: "(nm_value list \<Rightarrow> nm_value) \<Rightarrow> bytes list \<Rightarrow> nm_value" where
  "byte_list_array array vs = array (map (\<lambda>bs. array (map VU8 bs)) vs)"

definition str_array :: "(nm_value list \<Rightarrow> nm_value) \<Rightarrow> string list \<Rightarrow> nm_value" where
  "str_array array vs = array (map VStr vs)"

definition with_dns_fields :: "(nm_value list \<Rightarrow> nm_value) \<Rightarrow> nm_settings \<Rightarrow> nm_dns_fields \<Rightarrow> nm_settings" where
  "with_dns_fields array settings fds =
     (let ipv4 = (section_of settings ''ipv4'')(
            ''dns'' \<mapsto> u32_array array (ipv4_dns fds),
            ''dns-search'' \<mapsto> str_array array (ipv4_dns_search fds),
            ''ignore-auto-dns'' \<mapsto> VBool (ipv4_ignore_auto_dns fds));
          settings = settings(''ipv4'' \<mapsto> ipv4);
          ipv6 = (section_of settings ''ipv6'')(
            ''dns'' \<mapsto> byte_list_array array (ipv6_dns fds),
            ''dns-search'' \<mapsto> str_array array (ipv6_dns_search fds),
            ''ignore-auto-dns'' \<mapsto> VBool (ipv6_ignore_auto_dns fds))
      in settings(''ipv6'' \<mapsto> ipv6))"

text \<open>The accumulators of \<open>to_setting_value\<close> over the items of an array.\<close>

record array_scan =
  as_strings :: "string list"
  as_uints :: "u32 list"
  as_byte_lists :: "bytes list"
  as_all_strings :: bool
  as_all_uints :: bool
  as_all_bytes :: bool

definition scan_start :: array_scan where
  "scan_start = \<lparr> as_strings = [], as_uints = [], as_byte_lists = [], as_all_strings = True, as_all_uints = True,
     as_all_bytes = True \<rparr>"

definition scan_item :: "array_scan \<Rightarrow> nm_value \<Rightarrow> array_scan" where
  "scan_item a item = (case item of
       VStr s \<Rightarrow> a\<lparr>as_all_uints := False, as_all_bytes := False, as_strings := as_strings a @ [s]\<rparr>
     | VU8 b \<Rightarrow> a\<lparr>as_all_strings := False, as_all_uints := False, as_byte_lists := as_byte_lists a @ [[b]]\<rparr>
     | VU32 u \<Rightarrow> a\<lparr>as_all_strings := False, as_all_bytes := False, as_uints := as_uints a @ [u]\<rparr>
     | VArray inner \<Rightarrow> a\<lparr>as_all_strings := False, as_all_uints := False,
         as_byte_lists := as_byte_lists a @ [List.map_filter (\<lambda>v. case v of VU8 b \<Rightarrow> Some b | _ \<Rightarrow> None) inner]\<rparr>
     | _ \<Rightarrow> a\<lparr>as_all_strings := False, as_all_uints := False, as_all_bytes := False\<rparr>)"

definition to_setting_value :: "nm_value \<Rightarrow> setting_value" where
  "to_setting_value v = (case v of
       VBool b \<Rightarrow> SetBool b
     | VI32 i \<Rightarrow> SetInt i
     | VU32 u \<Rightarrow> SetUint u
     | VStr s \<Rightarrow> SetStr s
     | VArray items \<Rightarrow>
         (let a = foldl scan_item scan_start items
          in if as_all_uints a then SetUintList (as_uints a)
             else if as_all_bytes a \<and> as_byte_lists a \<noteq> [] then SetByteArrayList (as_byte_lists a)
             else if as_all_strings a then SetStrList (as_strings a)
             else SetOther)
     | _ \<Rightarrow> SetOther)"

definition convert_settings :: "nm_settings \<Rightarrow> setting_value settings" where
  "convert_settings settings = (\<lambda>s. map_option (\<lambda>entries. map_option to_setting_value \<circ> entries) (settings s))"

text \<open>A value owned and the same value borrowed are one value here.\<close>

definition to_owned_static :: "nm_settings \<Rightarrow> nm_settings" where
  "to_owned_static settings = settings"

definition setting_string :: "nm_value option \<Rightarrow> string option" where
  "setting_string v = (case v of Some (VStr s) \<Rightarrow> Some s | _ \<Rightarrow> None)"

definition extract_uuid :: "nm_settings \<Rightarrow> string option" where
  "extract_uuid settings = Option.bind (settings ''connection'') (\<lambda>c. setting_string (c ''uuid''))"

section \<open>Names, identities and snapshots\<close>

definition nm_prefix :: string where
  "nm_prefix = ''linux:network-manager:ifname:''"

definition ifname_of :: "resource_id \<Rightarrow> string result" where
  "ifname_of r = (case strip_prefix nm_prefix (rid_str r) of
       Some name \<Rightarrow> Inr name
     | None \<Rightarrow> Inl (InvalidConfig ''resource is not a NetworkManager device''))"

definition native_object_path :: "string \<Rightarrow> string \<Rightarrow> bool" where
  "native_object_path path kind =
     (case strip_prefix (''/org/freedesktop/NetworkManager/'' @ kind @ ''/'') path of
        Some i \<Rightarrow> i \<noteq> [] \<and> list_all is_digit i
      | None \<Rightarrow> False)"

definition nm_identity_decode :: "'w nm_host \<Rightarrow> resource_identity \<Rightarrow> nm_identity result" where
  "nm_identity_decode H i =
     (if id_backend i \<noteq> NetworkManager then Inl (JournalCorrupt ''NetworkManager identity has the wrong backend'')
      else case ifname_of (id_resource i) of
        Inl _ \<Rightarrow> Inl (JournalCorrupt ''invalid NetworkManager resource selector'')
      | Inr selector_name \<Rightarrow> (case id_data i of
          IdNetworkManager d \<Rightarrow>
            if nmi_ifname d \<noteq> selector_name
               \<or> \<not> nh_unique_name H (nmi_service_owner d)
               \<or> \<not> nh_object_path H (nmi_device_path d)
               \<or> \<not> nh_object_path H (nmi_active_path d)
               \<or> \<not> native_object_path (nmi_device_path d) ''Devices''
               \<or> \<not> native_object_path (nmi_active_path d) ''ActiveConnection''
            then Inl (JournalCorrupt ''invalid NetworkManager resource identity fields'')
            else Inr d
        | _ \<Rightarrow> Inl (JournalCorrupt ''NetworkManager identity has the wrong backend data'')))"

definition classify_nm_activation :: "nm_identity \<Rightarrow> string \<Rightarrow> string \<Rightarrow> uuid \<Rightarrow> resource_status" where
  "classify_nm_activation recorded service_owner active_path connection_uuid =
     (if nmi_service_owner recorded \<noteq> service_owner then Ambiguous
      else if nmi_active_path recorded \<noteq> active_path \<or> nmi_connection_uuid recorded \<noteq> connection_uuid then Replaced
      else Same)"

definition classify_lifetime_result :: "resource_id \<Rightarrow> resource_status result \<Rightarrow> resource_status result" where
  "classify_lifetime_result r res = (case res of
       Inl (ResourceGone k gone m) \<Rightarrow> if k = NetworkManager \<and> gone = r then Inr Gone else res
     | _ \<Rightarrow> res)"

definition to_nm_snapshot :: "resource_id \<Rightarrow> nm_dns_fields \<Rightarrow> u64 \<Rightarrow> platform_snapshot" where
  "to_nm_snapshot r fds version =
     snapshot_new NetworkManager r (SnapNetworkManager \<lparr> nm_fields = fds, nm_version = version \<rparr>)"

definition nm_snapshot_data :: "platform_snapshot \<Rightarrow> nm_snapshot result" where
  "nm_snapshot_data s = (case ps_data s of
       SnapNetworkManager d \<Rightarrow> Inr d
     | _ \<Rightarrow> Inl (JournalCorrupt ''NetworkManager snapshot has the wrong backend data''))"

definition fields_from_snapshot :: "platform_snapshot \<Rightarrow> nm_dns_fields result" where
  "fields_from_snapshot s = bind_r (nm_snapshot_data s) (\<lambda>d. Inr (nm_fields d))"

definition version_from_snapshot :: "platform_snapshot \<Rightarrow> u64" where
  "version_from_snapshot s = (case nm_snapshot_data s of Inr d \<Rightarrow> nm_version d | Inl _ \<Rightarrow> 0)"

definition nm_capabilities :: "string \<Rightarrow> capabilities" where
  "nm_capabilities dns_mode =
     with_resource_binding NativeGuarded (with_ownership_identity BestEffort (with_mutation_guard CompareAndMutate
     (with_cache_flush False (with_watch True (with_default_route False
     (with_split_dns (dns_mode = ''dnsmasq'' \<or> dns_mode = ''systemd-resolved'') (with_search_domains True
     (with_per_interface_dns True (with_global_dns False (with_read True (capabilities_new NetworkManager)))))))))))"

section \<open>Operations\<close>

definition nm_call :: "(dbus_error \<Rightarrow> error) \<Rightarrow> ('w, 'a) dbus_op \<Rightarrow> (conn \<times> 'w, 'a) tx" where
  "nm_call conv m = inner_tx (dbus_call conv m)"

definition nm_manager :: "'w nm_host \<Rightarrow> (conn \<times> 'w, conn) tx" where
  "nm_manager H = bind_tx (bus_get (nh_bus H) nm_error) (\<lambda>c.
     seq_tx (nm_call nm_error (ns_manager (nh_service H) c)) (return_tx c))"

definition service_owner :: "'w nm_host \<Rightarrow> (conn \<times> 'w, string) tx" where
  "service_owner H = bind_tx (bus_get (nh_bus H) nm_error) (\<lambda>c.
     seq_tx (nm_call nm_error (db_daemon (nh_bus H) c))
       (nm_call nm_error (db_name_owner (nh_bus H) c NM_SERVICE)))"

definition nm_device :: "'w nm_host \<Rightarrow> string \<Rightarrow> (conn \<times> 'w, device) tx" where
  "nm_device H path = bind_tx (bus_get (nh_bus H) nm_error) (\<lambda>c.
     seq_tx (nm_call nm_error (ns_device (nh_service H) (c, None, path))) (return_tx (c, None, path)))"

definition nm_applied :: "'w nm_host \<Rightarrow> device \<Rightarrow> (conn \<times> 'w, nm_settings \<times> u64) tx" where
  "nm_applied H dev = nm_call nm_error (ns_applied (nh_service H) dev)"

definition device_by_iface :: "'w nm_host \<Rightarrow> string \<Rightarrow> (conn \<times> 'w, device) tx" where
  "device_by_iface H name =
     bind_tx (nm_manager H) (\<lambda>m.
     bind_tx (nm_call nm_error (ns_device_by_iface (nh_service H) m name)) (\<lambda>path. nm_device H path))"

definition device_for :: "'w nm_host \<Rightarrow> dns_scope \<Rightarrow> (conn \<times> 'w, device \<times> string) tx" where
  "device_for H scope =
     bind_tx (inner_tx (resolve_interface_selector (nh_fs H) scope)) (\<lambda>(index, name).
     bind_tx (device_by_iface H name) (\<lambda>dev.
     bind_tx (nm_call nm_error (ns_managed (nh_service H) dev)) (\<lambda>managed.
     if \<not> managed then throw (BackendUnavailable ''interface is not managed by NetworkManager'')
     else bind_tx (nm_call nm_error (ns_interface (nh_service H) dev)) (\<lambda>iface. return_tx (dev, iface)))))"

definition device_for_resource :: "'w nm_host \<Rightarrow> resource_id \<Rightarrow> (conn \<times> 'w, device \<times> string) tx" where
  "device_for_resource H r =
     bind_tx (lift_result (ifname_of r)) (\<lambda>name.
     bind_tx (device_by_iface H name) (\<lambda>dev. return_tx (dev, name)))"

definition nm_resolve :: "'w nm_host \<Rightarrow> dns_scope \<Rightarrow> normalized_config \<Rightarrow> (conn \<times> 'w, resource_id list) tx" where
  "nm_resolve H scope plan = (case scope of
       Global \<Rightarrow> throw (Unsupported NetworkManager ''NetworkManager has no global DNS API; DNS is per-device'')
     | Interface _ \<Rightarrow>
         bind_tx (device_for H scope) (\<lambda>(dev, name).
         bind_tx (nm_applied H dev) (\<lambda>(settings, _).
         if extract_uuid (to_owned_static settings) = None
         then throw (BackendUnavailable ''interface has no active connection'')
         else bind_tx (lift_result (resource_id_new (nm_prefix @ name))) (\<lambda>r. return_tx [r]))))"

definition nm_uuid :: "'w nm_host \<Rightarrow> resource_id \<Rightarrow> nm_settings \<Rightarrow> uuid result" where
  "nm_uuid H r settings = (case extract_uuid (to_owned_static settings) of
       None \<Rightarrow> Inl (ResourcePlatform NetworkManager r ''the device has no active connection UUID'')
     | Some text \<Rightarrow> (case nh_parse_uuid H text of
         None \<Rightarrow> Inl (ResourcePlatform NetworkManager r ''invalid active connection UUID'')
       | Some u \<Rightarrow> Inr u))"

text \<open>The fields of the identity are computed in the order of the struct expression.\<close>

definition nm_identify :: "'w nm_host \<Rightarrow> resource_id \<Rightarrow> (conn \<times> 'w, resource_identity) tx" where
  "nm_identify H r =
     bind_tx (device_for_resource H r) (\<lambda>(dev, name).
     bind_tx (nm_applied H dev) (\<lambda>(settings, version).
     case extract_uuid (to_owned_static settings) of
       None \<Rightarrow> throw (ResourcePlatform NetworkManager r ''the device has no active connection UUID'')
     | Some text \<Rightarrow>
         bind_tx (nm_call (nm_resource_error r) (ns_active (nh_service H) dev)) (\<lambda>active.
         bind_tx (lift_result (nm_uuid H r settings)) (\<lambda>uuid.
         bind_tx (service_owner H) (\<lambda>owner.
         return_tx (identity_new NetworkManager r (IdNetworkManager
           \<lparr> nmi_ifname = name, nmi_device_path = snd (snd dev), nmi_active_path = active,
              nmi_connection_uuid = uuid, nmi_service_owner = owner \<rparr>)))))))"

definition nm_lifetime :: "'w nm_host \<Rightarrow> resource_identity \<Rightarrow> (conn \<times> 'w, resource_status) tx" where
  "nm_lifetime H i =
     (let conv = nm_resource_error (id_resource i) in
      bind_tx (lift_result (nm_identity_decode H i)) (\<lambda>recorded.
      bind_tx (service_owner H) (\<lambda>owner.
      if nmi_service_owner recorded \<noteq> owner then return_tx Ambiguous
      else if \<not> nh_object_path H (nmi_device_path recorded) then crash
      else
        bind_tx (nm_device H (nmi_device_path recorded)) (\<lambda>dev.
        bind_tx (nm_call conv (ns_active (nh_service H) dev)) (\<lambda>active.
        if active \<noteq> nmi_active_path recorded then return_tx Replaced
        else
          bind_tx (nm_call conv (ns_applied (nh_service H) dev)) (\<lambda>(settings, _).
          case Option.bind (extract_uuid (to_owned_static settings)) (nh_parse_uuid H) of
            None \<Rightarrow> throw (ResourcePlatform NetworkManager (id_resource i) ''the applied connection has no valid UUID'')
          | Some uuid \<Rightarrow> return_tx (classify_nm_activation recorded owner active uuid)))))))"

definition nm_status :: "'w nm_host \<Rightarrow> resource_identity \<Rightarrow> (conn \<times> 'w, resource_status) tx" where
  "nm_status H i =
     bind_tx (try_tx (nm_lifetime H i)) (\<lambda>res. lift_result (classify_lifetime_result (id_resource i) res))"

definition nm_observe :: "'w nm_host \<Rightarrow> resource_id \<Rightarrow> (conn \<times> 'w, bound_observation) tx" where
  "nm_observe H r =
     bind_tx (device_for_resource H r) (\<lambda>(dev, name).
     bind_tx (service_owner H) (\<lambda>owner.
     bind_tx (nm_call (nm_resource_error r) (ns_active (nh_service H) dev)) (\<lambda>active.
     bind_tx (nm_applied H dev) (\<lambda>(settings, version).
     bind_tx (lift_result (nm_uuid H r settings)) (\<lambda>uuid.
     bind_tx (service_owner H) (\<lambda>owner'.
     bind_tx (if owner \<noteq> owner' then return_tx True
              else bind_tx (nm_call (nm_resource_error r) (ns_active (nh_service H) dev)) (\<lambda>active'.
                return_tx (active \<noteq> active'))) (\<lambda>changed.
     if changed
     then throw (ResourceIdentity NetworkManager r ''NetworkManager activation changed while it was being observed'')
     else return_tx
       \<lparr> bo_identity = identity_new NetworkManager r (IdNetworkManager
            \<lparr> nmi_ifname = name, nmi_device_path = snd (snd dev), nmi_active_path = active,
               nmi_connection_uuid = uuid, nmi_service_owner = owner \<rparr>),
          bo_snapshot = to_nm_snapshot r (parse_nm_dns_fields (convert_settings settings)) version \<rparr>)))))))"

definition nm_capture :: "'w nm_host \<Rightarrow> resource_id \<Rightarrow> (conn \<times> 'w, platform_snapshot) tx" where
  "nm_capture H r =
     bind_tx (device_for_resource H r) (\<lambda>(dev, name).
     bind_tx (nm_applied H dev) (\<lambda>(settings, version).
     return_tx (to_nm_snapshot r (parse_nm_dns_fields (convert_settings settings)) version)))"

section \<open>Mutations\<close>

definition guarded_baseline_device ::
  "'w nm_host \<Rightarrow> resource_id \<Rightarrow> device \<Rightarrow> platform_snapshot \<Rightarrow> (conn \<times> 'w, nm_settings \<times> u64) tx" where
  "guarded_baseline_device H r dev expected =
     bind_tx (lift_result (fields_from_snapshot expected)) (\<lambda>expected_fields.
     let expected_version = version_from_snapshot expected in
     if expected_version = 0
     then throw (Unsupported NetworkManager ''NetworkManager returned no comparison version'')
     else bind_tx (nm_applied H dev) (\<lambda>(live_settings, live_version).
       if parse_nm_dns_fields (convert_settings live_settings) \<noteq> expected_fields
       then throw (ExternalModification r ''the NetworkManager connection changed since ownership was verified'')
       else if live_version \<noteq> expected_version
       then throw (ExternalModification r ''the NetworkManager applied connection changed; refusing to overwrite it'')
       else return_tx (live_settings, expected_version)))"

definition reapply_versioned ::
  "'w nm_host \<Rightarrow> device \<Rightarrow> nm_settings \<Rightarrow> u64 \<Rightarrow> (conn \<times> 'w, unit) tx" where
  "reapply_versioned H dev settings version =
     bind_tx (nm_call nm_error (ns_reapply (nh_service H) dev settings version)) (\<lambda>_. return_tx ())"

definition map_reapply_error :: "'w nm_host \<Rightarrow> resource_id \<Rightarrow> device \<Rightarrow> u64 \<Rightarrow> error \<Rightarrow> (conn \<times> 'w, error) tx" where
  "map_reapply_error H r dev expected_version e =
     match_tx (nm_applied H dev)
       (\<lambda>(_, now). if now \<noteq> expected_version
          then return_tx (ExternalModification r
            ''the NetworkManager applied connection changed during the operation; refusing to overwrite it'')
          else return_tx e)
       (\<lambda>_. return_tx e)"

definition nm_mutate_bound ::
  "'w nm_host \<Rightarrow> resource_identity \<Rightarrow> platform_snapshot \<Rightarrow> nm_dns_fields \<Rightarrow> (conn \<times> 'w, mutation_attempt) tx" where
  "nm_mutate_bound H i expected fds =
     (let reject = (\<lambda>e. return_tx (Rejected e)); r = id_resource i in
      match_tx (verify_namespace (nh_fs H) (nh_bus H) NM_SERVICE NetworkManager) (\<lambda>_.
      match_tx (nm_status H i) (\<lambda>status.
      if status \<noteq> Same then reject (ResourceIdentity NetworkManager r ''refusing the operation'')
      else case nm_identity_decode H i of
        Inl e \<Rightarrow> reject e
      | Inr recorded \<Rightarrow>
          if \<not> nh_object_path H (nmi_device_path recorded) then crash
          else
            match_tx (bus_get (nh_bus H) nm_error) (\<lambda>c.
            let dev = (c, Some (nmi_service_owner recorded), nmi_device_path recorded) in
            match_tx (nm_call nm_error (ns_device (nh_service H) dev)) (\<lambda>_.
            match_tx (guarded_baseline_device H r dev expected) (\<lambda>(live_settings, expected_version).
            match_tx (nm_status H i) (\<lambda>status.
            if status \<noteq> Same then reject (ResourceIdentity NetworkManager r ''before the operation'')
            else
              match_tx (reapply_versioned H dev (with_dns_fields (nh_array H) (to_owned_static live_settings) fds) expected_version)
                (\<lambda>_. return_tx (Performed None))
                (\<lambda>e. bind_tx (map_reapply_error H r dev expected_version e) (\<lambda>e'. return_tx (Indeterminate e' None))))
            reject) reject) reject) reject)
      reject) reject)"

definition nm_apply_bound ::
  "'w nm_host \<Rightarrow> capabilities \<Rightarrow> resource_identity \<Rightarrow> platform_snapshot \<Rightarrow> normalized_config \<Rightarrow>
   (conn \<times> 'w, mutation_attempt) tx" where
  "nm_apply_bound H caps i expected plan = nm_mutate_bound H i expected (nm_fields_from_plan plan (split_dns caps))"

definition nm_restore_bound ::
  "'w nm_host \<Rightarrow> resource_identity \<Rightarrow> platform_snapshot \<Rightarrow> platform_snapshot \<Rightarrow> (conn \<times> 'w, mutation_attempt) tx" where
  "nm_restore_bound H i expected target = (case fields_from_snapshot target of
       Inr fds \<Rightarrow> nm_mutate_bound H i expected fds
     | Inl e \<Rightarrow> return_tx (Rejected e))"

section \<open>The backend\<close>

definition nm_equivalent :: "platform_snapshot \<Rightarrow> platform_snapshot \<Rightarrow> bool" where
  "nm_equivalent a b = (case (fields_from_snapshot a, fields_from_snapshot b) of
       (Inr x, Inr y) \<Rightarrow> x = y | _ \<Rightarrow> False)"

definition nm_matches_desired :: "capabilities \<Rightarrow> platform_snapshot \<Rightarrow> normalized_config \<Rightarrow> bool" where
  "nm_matches_desired caps s plan = (case fields_from_snapshot s of
       Inl _ \<Rightarrow> False | Inr current \<Rightarrow> current = nm_fields_from_plan plan (split_dns caps))"

definition nm_nameservers :: "nm_dns_fields \<Rightarrow> ip_addr list" where
  "nm_nameservers fds =
     map (\<lambda>raw. case to_be_bytes raw of [a, b, c, d] \<Rightarrow> V4 a b c d) (ipv4_dns fds) @
     List.map_filter (\<lambda>bs. if length bs = 16 then Some (V6 bs) else None) (ipv6_dns fds)"

definition nm_public_state :: "'w nm_host \<Rightarrow> platform_snapshot \<Rightarrow> dns_scope \<Rightarrow> dns_config result" where
  "nm_public_state H s scope =
     bind_r (fields_from_snapshot s) (\<lambda>fds.
     case parse_nm_search_entries (nh_idna H) (ipv4_dns_search fds) of (search, routing) \<Rightarrow>
       Inr (from_parts scope (nm_nameservers fds) search routing None))"

definition nm_start_watch :: "'w nm_host \<Rightarrow> (conn \<times> 'w, watch_id) tx" where
  "nm_start_watch H =
     bind_tx (nm_call nm_error (db_system (nh_bus H))) (\<lambda>c.
     seq_tx (inner_tx (watch_signals (nh_bus H) nm_error c
        \<lparr> mr_sender = NM_SERVICE, mr_interface = ''org.freedesktop.DBus.Properties'',
           mr_path_namespace = Some NM_PATH, mr_member = None, mr_arg0 = None \<rparr> NM_SERVICE)) (
     match_tx (inner_tx (io_call (wt_spawn (nh_threads H)))) return_tx
       (\<lambda>_. throw (PlatformError NetworkManager ''cannot spawn watch thread''))))"

text \<open>The watching thread asks for the interface of the device a message is about.\<close>

definition nm_on_message :: "'w nm_host \<Rightarrow> conn \<Rightarrow> bool \<Rightarrow> (dbus_error + bus_message) \<Rightarrow> ('w, watch_action) tx" where
  "nm_on_message H c cancelled m =
     (if cancelled then return_tx WatchStop
      else case m of
        Inl _ \<Rightarrow> return_tx WatchStop
      | Inr msg \<Rightarrow>
          if bm_member msg = Some ''NameOwnerChanged'' then return_tx WatchStop
          else case bm_path msg of
            None \<Rightarrow> return_tx WatchSkip
          | Some path \<Rightarrow>
              if strip_prefix ''/org/freedesktop/NetworkManager/Devices/'' path = None then return_tx WatchSkip
              else
                match_tx (dbus_call nm_error (ns_device (nh_service H) (c, None, path))) (\<lambda>_.
                match_tx (dbus_call nm_error (ns_interface (nh_service H) (c, None, path))) (\<lambda>iface.
                case resource_id_new (nm_prefix @ iface) of
                  Inl _ \<Rightarrow> return_tx WatchSkip
                | Inr r \<Rightarrow> return_tx (WatchEmit [ResourceChanged r]))
                (\<lambda>_. return_tx WatchSkip)) (\<lambda>_. return_tx WatchSkip))"

definition nm_prims :: "'w nm_host \<Rightarrow> capabilities \<Rightarrow> (conn \<times> 'w) backend_prims" where
  "nm_prims H caps = \<lparr>
     bk_kind = NetworkManager, bk_caps = caps, bk_resolve = nm_resolve H,
     bk_identify = nm_identify H, bk_status = nm_status H, bk_capture = nm_capture H,
     bk_readback = nm_capture H, bk_apply = apply_default NetworkManager, bk_restore = restore_default NetworkManager,
     bk_apply_guarded = (\<lambda>_ _ _. guarded_default NetworkManager),
     bk_restore_guarded = (\<lambda>_ _ _. guarded_default NetworkManager),
     bk_proves_current = proves_current_default, bk_equivalent = nm_equivalent,
     bk_matches_desired = nm_matches_desired caps, bk_validate_plan = validate_plan_default,
     bk_public_state = nm_public_state H, bk_interfaces = inner_tx (list_interfaces (nh_fs H)),
     bk_start_watch = nm_start_watch H,
     bk_stop_watch = (\<lambda>i. inner_tx (modify_tx (wt_stop (nh_threads H) i))),
     bk_watch_active = (\<lambda>i (c, w). wt_active (nh_threads H) i w),
     bk_flush_cache = flush_cache_default NetworkManager \<rparr>"

definition nm_backend :: "'w nm_host \<Rightarrow> capabilities \<Rightarrow> (conn \<times> 'w) backend" where
  "nm_backend H caps = (with_default_bounds (nm_prims H caps))\<lparr>
     bk_observe := nm_observe H, bk_apply_bound := nm_apply_bound H caps, bk_restore_bound := nm_restore_bound H \<rparr>"

definition nm_connect :: "'w nm_host \<Rightarrow> ('w, conn \<times> network_manager) tx" where
  "nm_connect H =
     bind_tx (dbus_call (\<lambda>_. BackendUnavailable ''cannot connect to the system D-Bus'') (db_system (nh_bus H))) (\<lambda>c.
     seq_tx (dbus_call nm_error (ns_dns_manager (nh_service H) c)) (
     bind_tx (dbus_call nm_error (ns_mode (nh_service H) c)) (\<lambda>mode.
     bind_tx (dbus_call nm_error (ns_rc_manager (nh_service H) c)) (\<lambda>rc.
     return_tx (c, \<lparr> nm_dns_mode = mode, nm_rc_manager = rc, nm_caps = nm_capabilities mode \<rparr>)))))"

end
