(* ===== verification/Linux_Contract.thy ===== *)
theory Linux_Contract
  imports Linux_System Contract
begin

text \<open>
  Reading the system changes nothing of interest: the locale \<open>quiet_system\<close> says so of the files and
  the bus by a relation \<open>same\<close>, and carries it over to the operations of \<open>platform/linux/mod.rs\<close>.
\<close>

section \<open>Quiet computations\<close>

text \<open>Such a computation keeps \<open>I\<close>, does not panic and reports no external modification.\<close>

definition quietly :: "('s \<Rightarrow> bool) \<Rightarrow> 'a outcome \<Rightarrow> 's \<Rightarrow> bool" where
  "quietly I res t \<longleftrightarrow> I t \<and> res \<noteq> Crash \<and> (\<forall>e. res = Err e \<longrightarrow> \<not> is_external_modification e)"

definition quiet :: "('s \<Rightarrow> bool) \<Rightarrow> ('s, 'a) tx \<Rightarrow> bool" where
  "quiet I m \<longleftrightarrow> (\<forall>s. I s \<longrightarrow> wp m (quietly I) s)"

named_theorems quiet_intros

lemma quietlyD: "quiet I m \<Longrightarrow> I s \<Longrightarrow> wp m (quietly I) s"
  by (simp add: quiet_def)

lemma quietly_simps [simp]:
  "quietly I (Ok x) t \<longleftrightarrow> I t"
  "quietly I (Err e) t \<longleftrightarrow> I t \<and> \<not> is_external_modification e"
  "\<not> quietly I Crash t"
  by (auto simp: quietly_def)

lemma quiet_return [quiet_intros]: "quiet I (return_tx x)"
  by (simp add: quiet_def)

lemma quiet_throw [quiet_intros]: "\<not> is_external_modification e \<Longrightarrow> quiet I (throw e)"
  by (simp add: quiet_def)

lemma quiet_lift [quiet_intros]: "(\<And>e. r = Inl e \<Longrightarrow> \<not> is_external_modification e) \<Longrightarrow> quiet I (lift_result r)"
  by (cases r) (auto intro: quiet_intros)

lemma quiet_bind [quiet_intros]: "quiet I m \<Longrightarrow> (\<And>x. quiet I (f x)) \<Longrightarrow> quiet I (bind_tx m f)"
  unfolding quiet_def by (intro allI impI, rule wp_bindI[where P = "quietly I"]) auto

lemma quiet_seq [quiet_intros]: "quiet I m \<Longrightarrow> quiet I n \<Longrightarrow> quiet I (seq_tx m n)"
  unfolding seq_tx_def by (rule quiet_bind)

lemma quiet_match [quiet_intros]:
  "quiet I m \<Longrightarrow> (\<And>x. quiet I (f x)) \<Longrightarrow> (\<And>e. quiet I (g e)) \<Longrightarrow> quiet I (match_tx m f g)"
  unfolding quiet_def by (intro allI impI, rule wp_matchI[where P = "quietly I"]) auto

lemma quiet_ok [quiet_intros]: "quiet I m \<Longrightarrow> quiet I (ok_tx m)"
  unfolding ok_tx_def by (intro quiet_intros)

lemma quiet_let [quiet_intros]: "quiet I (f x) \<Longrightarrow> quiet I (let y = x in f y)"
  by simp

lemma quiet_if [quiet_intros]: "(b \<Longrightarrow> quiet I m) \<Longrightarrow> (\<not> b \<Longrightarrow> quiet I n) \<Longrightarrow> quiet I (if b then m else n)"
  by simp

lemma quiet_option [quiet_intros]:
  "(x = None \<Longrightarrow> quiet I m) \<Longrightarrow> (\<And>y. x = Some y \<Longrightarrow> quiet I (f y)) \<Longrightarrow> quiet I (case x of None \<Rightarrow> m | Some y \<Rightarrow> f y)"
  by (cases x) auto

lemma quiet_pair [quiet_intros]: "(\<And>a b. quiet I (f a b)) \<Longrightarrow> quiet I (case x of (a, b) \<Rightarrow> f a b)"
  by (cases x) auto

text \<open>A quiet computation and what it returns.\<close>

definition yields :: "('s \<Rightarrow> bool) \<Rightarrow> ('s, 'a) tx \<Rightarrow> ('a \<Rightarrow> bool) \<Rightarrow> bool" where
  "yields I m P \<longleftrightarrow> (\<forall>s. I s \<longrightarrow> wp m (\<lambda>res t. quietly I res t \<and> when_ok res P) s)"

lemma yields_quiet: "quiet I m \<Longrightarrow> yields I m (\<lambda>_. True)"
  unfolding quiet_def yields_def
  by (intro allI impI, elim allE impE, assumption, erule wp_mono) (auto simp: when_ok_def split: outcome.splits)

lemma yields_return: "Q x \<Longrightarrow> yields I (return_tx x) Q"
  by (simp add: yields_def)

lemma yields_bind:
  assumes "yields I m P" "\<And>x. P x \<Longrightarrow> yields I (f x) Q"
  shows "yields I (bind_tx m f) Q"
  unfolding yields_def
proof (intro allI impI)
  fix s assume "I s"
  with assms(1) have "wp m (\<lambda>res t. quietly I res t \<and> when_ok res P) s" by (simp add: yields_def)
  then show "wp (bind_tx m f) (\<lambda>res t. quietly I res t \<and> when_ok res Q) s"
    by (rule wp_bindI) (use assms(2) in \<open>auto simp: yields_def\<close>)
qed

lemma yields_seq: "yields I m P \<Longrightarrow> yields I n Q \<Longrightarrow> yields I (seq_tx m n) Q"
  unfolding seq_tx_def by (erule yields_bind)

lemma yields_lift:
  "(\<And>x. r = Inr x \<Longrightarrow> P x) \<Longrightarrow> (\<And>e. r = Inl e \<Longrightarrow> \<not> is_external_modification e) \<Longrightarrow> yields I (lift_result r) P"
  by (cases r) (auto simp: yields_def)

lemma yields_try:
  assumes "quiet I m"
  shows "yields I (try_tx m) (\<lambda>r. \<forall>e. r = Inl e \<longrightarrow> \<not> is_external_modification e)"
  unfolding yields_def wp_try
  by (intro allI impI, rule wp_mono[OF quietlyD[OF assms]]) (auto simp: quietly_def on_both_def split: outcome.splits)

lemma quiet_yields: "yields I m P \<Longrightarrow> quiet I m"
  unfolding quiet_def yields_def by (intro allI impI, elim allE impE, assumption, erule wp_mono) simp

lemma yieldsD: "yields I m P \<Longrightarrow> I s \<Longrightarrow> wp m (\<lambda>res t. quietly I res t \<and> when_ok res P) s"
  by (simp add: yields_def)

lemma wp_match_yields:
  assumes "yields I m P" "I s" "\<And>x t. I t \<Longrightarrow> P x \<Longrightarrow> wp (f x) Q t" "\<And>e t. I t \<Longrightarrow> wp (g e) Q t"
  shows "wp (match_tx m f g) Q s"
  by (rule wp_matchI[OF yieldsD[OF assms(1,2)]]) (use assms(3,4) in simp_all)

text \<open>The shape of \<open>apply_bound\<close> and \<open>restore_bound\<close> of a backend without compare-and-mutate.\<close>

lemma wp_unconditional_bound:
  assumes "quiet I status" "yields I readback P" "I s"
    and rejected: "\<And>e t. I t \<Longrightarrow> Q (Ok (Rejected e)) t"
    and mutate: "\<And>current t. I t \<Longrightarrow> P current \<Longrightarrow> accepted current \<Longrightarrow> wp m Q t"
  shows "wp (match_tx status (\<lambda>st. if st = Same then
       match_tx readback (\<lambda>current. if accepted current then
           match_tx status (\<lambda>st. if st = Same then m else return_tx (Rejected e1)) (\<lambda>e. return_tx (Rejected e))
         else return_tx (Rejected e2)) (\<lambda>e. return_tx (Rejected e))
     else return_tx (Rejected e3)) (\<lambda>e. return_tx (Rejected e))) Q s"
  by (auto intro!: wp_match_yields[OF yields_quiet[OF assms(1)]] wp_match_yields[OF assms(2)]
      simp: assms(3) rejected mutate)

lemma not_external [simp]:
  "\<not> is_external_modification (Io k s)" "\<not> is_external_modification (InvalidConfig s)"
  "\<not> is_external_modification (PlatformError b s)" "\<not> is_external_modification (JournalCorrupt s)"
  "\<not> is_external_modification (Unsupported b s)" "\<not> is_external_modification (ResourceGone b r s)"
  "\<not> is_external_modification (ResourcePlatform b r s)" "\<not> is_external_modification (ResourceIdentity b r s)"
  "\<not> is_external_modification (BackendUnavailable s)" "\<not> is_external_modification (UnsafeFilesystem s)"
  "\<not> is_external_modification (IndeterminateMutation b s)"
  by (simp_all add: is_external_modification_def)

lemma wp_dbus_call:
  "wp (dbus_call conv m) Q w = (case m w of (Inl e, w') \<Rightarrow> Q (Err (conv e)) w' | (Inr x, w') \<Rightarrow> Q (Ok x) w')"
  by (simp add: wp_def dbus_call_def split: prod.splits sum.splits)

lemma wp_inner_dbus:
  "wp (inner_tx (dbus_call conv m)) Q (c, w) =
     (case m w of (Inl e, w') \<Rightarrow> Q (Err (conv e)) (c, w') | (Inr x, w') \<Rightarrow> Q (Ok x) (c, w'))"
  by (simp add: wp_inner wp_dbus_call split: prod.splits sum.splits)

section \<open>The system\<close>

locale quiet_system =
  fixes F :: "'w linux_fs" and D :: "'w dbus" and same :: "'w \<Rightarrow> 'w \<Rightarrow> bool"
  assumes same_refl: "same w w"
    and same_trans: "same w w' \<Longrightarrow> same w' w'' \<Longrightarrow> same w w''"
    and files_same: "same w (snd (lf_read_to_string F p w))" "same w (snd (lf_read_link F p w))"
      "same w (snd (lf_read_dir F p w))" "same w (snd (lf_open F p w))" "same w (snd (lf_inode F f w))"
      "same w (snd (lf_route_dump F w))"
    and bus_same: "same w (snd (db_system D w))" "same w (snd (db_is_closed D c w))" "same w (snd (db_daemon D c w))"
      "same w (snd (db_name_owner D c s w))" "same w (snd (db_unix_process_id D c s w))"
      "same w (snd (db_add_match D c m w))"
begin

definition on_system :: "'w \<Rightarrow> 'w \<Rightarrow> bool" where
  "on_system w0 w = same w0 w"

definition beside :: "'w \<Rightarrow> 'c \<times> 'w \<Rightarrow> bool" where
  "beside w0 s = same w0 (snd s)"

lemma quiet_inner [quiet_intros]: "quiet (on_system w0) m \<Longrightarrow> quiet (beside w0) (inner_tx m)"
proof (unfold quiet_def, intro allI impI)
  fix s :: "'c \<times> 'w" assume m: "\<forall>w. on_system w0 w \<longrightarrow> wp m (quietly (on_system w0)) w" and i: "beside w0 s"
  obtain c w where s: "s = (c, w)" by fastforce
  with i have "on_system w0 w" by (simp add: beside_def on_system_def)
  with m have "wp m (quietly (on_system w0)) w" by blast
  then show "wp (inner_tx m) (quietly (beside w0)) s"
    unfolding s wp_inner by (rule wp_mono) (auto simp: quietly_def beside_def on_system_def)
qed

lemma quiet_io: "(\<And>w. same w (snd (m w))) \<Longrightarrow> quiet (on_system w0) (io_call m)"
proof (unfold quiet_def, intro allI impI)
  fix w assume s: "\<And>w. same w (snd (m w))" and i: "on_system w0 w"
  show "wp (io_call m) (quietly (on_system w0)) w"
    using s[of w] i same_trans by (auto simp: wp_def io_call_def on_system_def split: prod.splits sum.splits)
qed

lemma quiet_sys: "(\<And>w. same w (snd (m w))) \<Longrightarrow> quiet (on_system w0) (sys_call m)"
proof (unfold quiet_def, intro allI impI)
  fix w assume s: "\<And>w. same w (snd (m w))" and i: "on_system w0 w"
  show "wp (sys_call m) (quietly (on_system w0)) w"
    using s[of w] i same_trans by (auto simp: wp_def sys_call_def on_system_def split: prod.splits)
qed

lemma quiet_dbus:
  "(\<And>w. same w (snd (m w))) \<Longrightarrow> (\<And>e. \<not> is_external_modification (conv e)) \<Longrightarrow> quiet (on_system w0) (dbus_call conv m)"
proof (unfold quiet_def, intro allI impI)
  fix w assume s: "\<And>w. same w (snd (m w))" and c: "\<And>e. \<not> is_external_modification (conv e)" and i: "on_system w0 w"
  show "wp (dbus_call conv m) (quietly (on_system w0)) w"
    using s[of w] i same_trans c by (auto simp: wp_def dbus_call_def on_system_def split: prod.splits sum.splits)
qed

lemma quiet_mut: "quiet (beside w0) get_mut" "quiet (beside w0) (put_mut c)"
  by (auto simp: quiet_def beside_def)

lemmas quiet_calls [quiet_intros] =
  quiet_io[OF files_same(1)] quiet_io[OF files_same(2)] quiet_io[OF files_same(3)] quiet_io[OF files_same(4)]
  quiet_io[OF files_same(5)] quiet_dbus[OF bus_same(1)] quiet_sys[OF bus_same(2)] quiet_dbus[OF bus_same(3)]
  quiet_dbus[OF bus_same(4)] quiet_dbus[OF bus_same(5)] quiet_dbus[OF bus_same(6)] quiet_mut

lemma quiet_bus_get [quiet_intros]:
  "(\<And>e. \<not> is_external_modification (conv e)) \<Longrightarrow> quiet (beside w0) (bus_get D conv)"
  unfolding bus_get_def by (intro quiet_intros)

lemma quiet_verify_namespace [quiet_intros]: "quiet (beside w0) (verify_namespace F D service kind)"
  unfolding verify_namespace_def Let_def by (intro quiet_intros) simp_all

end

end
