(* ===== verification/Network_Manager_Contract.thy ===== *)
theory Network_Manager_Contract
  imports Network_Manager Linux_Contract
begin

text \<open>
  A mutation of NetworkManager is a compare-and-swap, whatever other clients do at the same time. The
  locale \<open>versioned_service\<close> says what the code relies on: \<open>later w w'\<close> holds when only others, or reads,
  have acted between \<open>w\<close> and \<open>w'\<close>, in any number; \<open>applied w owner path\<close> is the applied connection of
  a device and its version. A version of a device names one content for good, and a reapply under a
  version other than zero takes place only while that version is the current one.
\<close>

type_synonym connections = "string \<Rightarrow> string \<Rightarrow> (nm_settings \<times> u64) option"

definition replaced :: "connections \<Rightarrow> string \<Rightarrow> string \<Rightarrow> nm_settings \<times> u64 \<Rightarrow> connections" where
  "replaced m owner path new = m(owner := (m owner)(path \<mapsto> new))"

text \<open>
  At some moment between \<open>w\<close> and \<open>w'\<close> the connection of the device was \<open>old\<close> under \<open>version\<close>, and was
  replaced by \<open>settings\<close>.
\<close>

definition reapplied ::
  "('w \<Rightarrow> 'w \<Rightarrow> bool) \<Rightarrow> ('w \<Rightarrow> connections) \<Rightarrow> string \<Rightarrow> string \<Rightarrow> nm_settings \<Rightarrow> u64 \<Rightarrow> nm_settings \<Rightarrow> 'w \<Rightarrow> 'w \<Rightarrow> bool" where
  "reapplied later applied owner path old version settings w w' \<longleftrightarrow>
     (\<exists>u u' version'. later w u \<and> later u' w' \<and> applied u owner path = Some (old, version) \<and>
        version' \<noteq> version \<and> applied u' = replaced (applied u) owner path (settings, version'))"

locale versioned_service = quiet_system "nh_fs H" "nh_bus H" later
  for H :: "'w nm_host" and later :: "'w \<Rightarrow> 'w \<Rightarrow> bool" +
  fixes applied :: "'w \<Rightarrow> connections"
  assumes version_content: "later w w' \<Longrightarrow> applied w owner path = Some (s, v) \<Longrightarrow>
      applied w' owner path = Some (s', v) \<Longrightarrow> s' = s"
    and service_later: "later w (snd (ns_manager (nh_service H) c w))"
      "later w (snd (ns_device_by_iface (nh_service H) c n w))" "later w (snd (ns_device (nh_service H) d w))"
      "later w (snd (ns_active (nh_service H) d w))" "later w (snd (ns_applied (nh_service H) d w))"
    and applied_read: "ns_applied (nh_service H) (c, Some owner, path) w = (Inr (s, v), w') \<Longrightarrow>
      \<exists>u. later w u \<and> later u w' \<and> applied u owner path = Some (s, v)"
    and reapply_guarded: "version \<noteq> 0 \<Longrightarrow> ns_reapply (nh_service H) (c, Some owner, path) s version w = (res, w') \<Longrightarrow>
      (\<not> isl res \<longrightarrow> (\<exists>old. reapplied later applied owner path old version s w w')) \<and>
      (isl res \<longrightarrow> later w w' \<or> (\<exists>old. reapplied later applied owner path old version s w w'))"
begin

lemma quiet_nm_call: "(\<And>w. later w (snd (m w))) \<Longrightarrow> (\<And>e. \<not> is_external_modification (conv e)) \<Longrightarrow> quiet (beside w0) (nm_call conv m)"
  unfolding nm_call_def by (intro quiet_inner quiet_dbus)

lemma nm_errors [simp]:
  "\<not> is_external_modification (nm_error e)" "\<not> is_external_modification (nm_resource_error r e)"
  by (simp_all add: nm_error_def nm_resource_error_def)

lemmas quiet_nm [quiet_intros] =
  quiet_nm_call[OF bus_same(3)] quiet_nm_call[OF bus_same(4)] quiet_nm_call[OF service_later(1)]
  quiet_nm_call[OF service_later(2)] quiet_nm_call[OF service_later(3)] quiet_nm_call[OF service_later(4)]
  quiet_nm_call[OF service_later(5)]

lemma quiet_owner [quiet_intros]: "quiet (beside w0) (service_owner H)"
  unfolding service_owner_def by (intro quiet_intros) simp_all

lemma quiet_nm_device [quiet_intros]: "quiet (beside w0) (nm_device H path)"
  unfolding nm_device_def by (intro quiet_intros) simp_all

lemma decode_path: "nm_identity_decode H i = Inr d \<Longrightarrow> nh_object_path H (nmi_device_path d)"
  by (auto simp: nm_identity_decode_def split: if_splits sum.splits identity_data.splits)

lemma nm_decode_error: "nm_identity_decode H i = Inl e \<Longrightarrow> \<not> is_external_modification e"
  by (auto simp: nm_identity_decode_def split: if_splits sum.splits identity_data.splits)

lemma quiet_lifetime: "quiet (beside w0) (nm_lifetime H i)"
proof -
  have "yields (beside w0) (nm_lifetime H i) (\<lambda>_. True)"
    unfolding nm_lifetime_def Let_def
  proof (rule yields_bind)
    show "yields (beside w0) (lift_result (nm_identity_decode H i)) (\<lambda>d. nh_object_path H (nmi_device_path d))"
      by (rule yields_lift) (simp_all add: decode_path nm_decode_error)
  next
    fix d :: nm_identity assume "nh_object_path H (nmi_device_path d)"
    then show "yields (beside w0) (bind_tx (service_owner H) (\<lambda>owner.
      if nmi_service_owner d \<noteq> owner then return_tx Ambiguous
      else if \<not> nh_object_path H (nmi_device_path d) then crash
      else
        bind_tx (nm_device H (nmi_device_path d)) (\<lambda>dev.
        bind_tx (nm_call (nm_resource_error (id_resource i)) (ns_active (nh_service H) dev)) (\<lambda>active.
        if active \<noteq> nmi_active_path d then return_tx Replaced
        else
          bind_tx (nm_call (nm_resource_error (id_resource i)) (ns_applied (nh_service H) dev)) (\<lambda>(settings, _).
          case Option.bind (extract_uuid (to_owned_static settings)) (nh_parse_uuid H) of
            None \<Rightarrow> throw (ResourcePlatform NetworkManager (id_resource i) ''the applied connection has no valid UUID'')
          | Some uuid \<Rightarrow> return_tx (classify_nm_activation d owner active uuid)))))) (\<lambda>_. True)"
      by (intro yields_quiet quiet_intros) simp_all
  qed
  then show ?thesis by (rule quiet_yields)
qed

lemma quiet_nm_status [quiet_intros]: "quiet (beside w0) (nm_status H i)"
proof -
  have "yields (beside w0) (nm_status H i) (\<lambda>_. True)"
    unfolding nm_status_def
    by (rule yields_bind[OF yields_try[OF quiet_lifetime]], rule yields_lift)
       (auto simp: classify_lifetime_result_def split: sum.splits error.splits if_splits)
  then show ?thesis by (rule quiet_yields)
qed

lemma beside_later: "beside w s \<Longrightarrow> later w (snd s)"
  by (simp add: beside_def)

lemma beside_trans: "later w u \<Longrightarrow> beside u s \<Longrightarrow> beside w s"
  by (auto simp: beside_def intro: same_trans)

text \<open>The verified baseline: at some moment the connection had the expected fields and version.\<close>

definition baseline ::
  "string \<Rightarrow> string \<Rightarrow> platform_snapshot \<Rightarrow> 'w \<Rightarrow> nm_settings \<times> u64 \<Rightarrow> conn \<times> 'w \<Rightarrow> bool" where
  "baseline owner path expected w x s \<longleftrightarrow> (case x of (old, v) \<Rightarrow>
     \<exists>u. later w u \<and> beside u s \<and> applied u owner path = Some (old, v) \<and> v \<noteq> 0 \<and> v = version_from_snapshot expected \<and>
        fields_from_snapshot expected = Inr (parse_nm_dns_fields (convert_settings old)))"

lemma baseline_spec:
  assumes "beside w s"
  shows "wp (guarded_baseline_device H r (c, Some owner, path) expected) (\<lambda>res t. beside w t \<and> res \<noteq> Crash \<and>
    when_ok res (\<lambda>x. baseline owner path expected w x t)) s"
proof (cases "fields_from_snapshot expected")
  case (Inr fds)
  obtain k v where s: "s = (k, v)" by fastforce
  have v: "later w v" using beside_later[OF assms] by (simp add: s)
  obtain res u where read: "ns_applied (nh_service H) (c, Some owner, path) v = (res, u)" by fastforce
  have u: "later w u" using same_trans[OF v, of u] service_later(5)[of v "(c, Some owner, path)"] by (simp add: read)
  show ?thesis
  proof (cases res)
    case (Inl e)
    with assms u show ?thesis
      by (auto simp: guarded_baseline_device_def Inr Let_def nm_applied_def nm_call_def wp_bind s wp_inner_dbus read beside_def)
  next
    case (Inr x)
    obtain old version where x: "x = (old, version)" by fastforce
    from applied_read[OF read[unfolded Inr x]] obtain z
      where z: "later v z" "later z u" "applied z owner path = Some (old, version)" by blast
    with same_trans[OF v] have "later w z" by blast
    with z(2,3) u assms Inr x \<open>fields_from_snapshot expected = Inr fds\<close> show ?thesis
      by (auto simp: guarded_baseline_device_def Let_def nm_applied_def nm_call_def wp_bind s wp_inner_dbus read beside_def
          baseline_def intro!: exI[of _ z])
  qed
qed (use assms in \<open>auto simp: guarded_baseline_device_def\<close>)

text \<open>What a mutation has done that writes \<open>fds\<close> over the connection of a device.\<close>

definition swapped :: "string \<Rightarrow> string \<Rightarrow> platform_snapshot \<Rightarrow> nm_dns_fields \<Rightarrow> 'w \<Rightarrow> 'w \<Rightarrow> bool" where
  "swapped owner path expected fds w w' \<longleftrightarrow> (\<exists>old.
     fields_from_snapshot expected = Inr (parse_nm_dns_fields (convert_settings old)) \<and>
     reapplied later applied owner path old (version_from_snapshot expected) (with_dns_fields (nh_array H) old fds) w w')"

definition compare_swap ::
  "string \<Rightarrow> string \<Rightarrow> platform_snapshot \<Rightarrow> nm_dns_fields \<Rightarrow> 'w \<Rightarrow> mutation_attempt outcome \<Rightarrow> conn \<times> 'w \<Rightarrow> bool" where
  "compare_swap owner path expected fds w res t \<longleftrightarrow> (\<exists>a. res = Ok a \<and> (case a of
       Performed p \<Rightarrow> p = None \<and> swapped owner path expected fds w (snd t)
     | Rejected e \<Rightarrow> later w (snd t)
     | Indeterminate e p \<Rightarrow> later w (snd t) \<or> swapped owner path expected fds w (snd t)))"

lemma reapplied_later:
  "later w u \<Longrightarrow> later u' w' \<Longrightarrow> reapplied later applied owner path old v s u u' \<Longrightarrow>
   reapplied later applied owner path old v s w w'"
  unfolding reapplied_def by (meson same_trans)

lemma reapply_spec:
  assumes "beside u s" "later w u" "applied u owner path = Some (old, v)" "v \<noteq> 0" "v = version_from_snapshot expected"
    and "fields_from_snapshot expected = Inr (parse_nm_dns_fields (convert_settings old))"
  shows "wp (match_tx (reapply_versioned H (c, Some owner, path) (with_dns_fields (nh_array H) (to_owned_static old) fds) v)
      (\<lambda>_. return_tx (Performed None))
      (\<lambda>e. bind_tx (map_reapply_error H r (c, Some owner, path) v e) (\<lambda>e'. return_tx (Indeterminate e' None))))
    (compare_swap owner path expected fds w) s"
proof -
  let ?new = "with_dns_fields (nh_array H) old fds"
  obtain k x where s: "s = (k, x)" by fastforce
  have x: "later u x" using beside_later[OF assms(1)] by (simp add: s)
  obtain res y where run: "ns_reapply (nh_service H) (c, Some owner, path) ?new v x = (res, y)" by fastforce
  have content: "o2 = old" if "reapplied later applied owner path o2 v ?new x y" for o2
    using that version_content[OF _ assms(3)] same_trans[OF x] unfolding reapplied_def by blast
  note post = reapply_guarded[OF assms(4) run]
  have swap: "swapped owner path expected fds w z" if "reapplied later applied owner path o2 v ?new x y" "later y z" for o2 z
    using reapplied_later[OF same_trans[OF assms(2) x] that(2)] that(1) content[OF that(1)] assms(5,6)
    by (auto simp: swapped_def)
  show ?thesis
  proof (cases res)
    case (Inr b)
    with post swap[OF _ same_refl] show ?thesis
      by (auto simp: reapply_versioned_def to_owned_static_def nm_call_def wp_match wp_bind s wp_inner_dbus run compare_swap_def)
  next
    case (Inl e)
    have undecided: "later w z \<or> swapped owner path expected fds w z" if "later y z" for z
      using post swap[OF _ that] same_trans[OF same_trans[OF assms(2) x]] same_trans[OF _ that] Inl by auto
    have map: "quiet (beside y) (nm_applied H (c, Some owner, path))"
      unfolding nm_applied_def by (intro quiet_intros) simp
    have mapped: "wp (map_reapply_error H r (c, Some owner, path) v e') (\<lambda>res t. no_err res \<and> res \<noteq> Crash \<and> beside y t) (k, y)" for e'
      unfolding map_reapply_error_def
      by (rule wp_match_yields[OF yields_quiet[OF map]]) (auto simp: beside_def same_refl)
    show ?thesis
      by (simp add: reapply_versioned_def to_owned_static_def nm_call_def wp_match wp_bind s wp_inner_dbus run Inl)
         (rule wp_mono[OF mapped], auto simp: compare_swap_def undecided beside_later on_ok_def split: outcome.splits)
  qed
qed

lemma mutate_spec:
  assumes "beside w s" "id_data i = IdNetworkManager d"
  shows "wp (nm_mutate_bound H i expected fds) (compare_swap (nmi_service_owner d) (nmi_device_path d) expected fds w) s"
proof -
  let ?Q = "compare_swap (nmi_service_owner d) (nmi_device_path d) expected fds w"
  have rej: "wp (return_tx (Rejected e)) ?Q t" if "beside w t" for e and t :: "conn \<times> 'w"
    using beside_later[OF that] by (simp add: compare_swap_def)
  note quietly = wp_match_yields[OF yields_quiet]
  show ?thesis
    unfolding nm_mutate_bound_def Let_def
  proof (rule quietly[OF quiet_verify_namespace assms(1)], goal_cases)
    case (1 x t)
    show ?case
    proof (rule quietly[OF quiet_nm_status 1(1)], goal_cases)
      case (1 st t)
      show ?case
      proof (cases "st = Same \<and> (\<exists>d'. nm_identity_decode H i = Inr d')")
        case True
        then have d: "nm_identity_decode H i = Inr d"
          using assms(2) by (auto simp: nm_identity_decode_def split: if_splits sum.splits)
        have get: "quiet (beside w) (bus_get (nh_bus H) nm_error)" by (intro quiet_intros) simp
        have same: "\<not> st \<noteq> Same" and path: "\<not> \<not> nh_object_path H (nmi_device_path d)"
          using True decode_path[OF d] by simp_all
        show ?thesis
          unfolding if_not_P[OF same] d sum.case if_not_P[OF path]
        proof (rule quietly[OF get 1(1)], goal_cases)
          case (1 c t)
          have dev: "quiet (beside w) (nm_call nm_error (ns_device (nh_service H) dev))" for dev
            by (intro quiet_intros) simp
          show ?case
          proof (rule quietly[OF dev 1(1)], goal_cases)
            case (1 x t)
            show ?case
            proof (rule wp_matchI[OF baseline_spec[OF 1(1)]], goal_cases)
              case (1 x t)
              then obtain old v u where x: "x = (old, v)" and u: "later w u" "beside u t"
                "applied u (nmi_service_owner d) (nmi_device_path d) = Some (old, v)" "v \<noteq> 0" "v = version_from_snapshot expected"
                "fields_from_snapshot expected = Inr (parse_nm_dns_fields (convert_settings old))"
                by (cases x) (auto simp: baseline_def)
              show ?case
                unfolding x prod.case
              proof (rule quietly[OF quiet_nm_status u(2)], goal_cases)
                case (1 st t)
                with rej[OF beside_trans[OF u(1)], of t] reapply_spec[OF 1(1) u(1) u(3-6)] show ?case by simp
              next
                case (2 e t)
                with rej[OF beside_trans[OF u(1)]] show ?case by simp
              qed
            qed (rule rej, simp, simp)
          qed (rule rej)
        qed (rule rej)
      next
        case False
        show ?thesis by (use False in \<open>auto intro!: rej 1(1) simp del: wp_basic split: sum.splits\<close>)
      qed
    qed (rule rej)
  qed (rule rej)
qed

end

end
