(* ===== verification/Resolved.thy ===== *)
theory Resolved
  imports Linux_System
begin

text \<open>
  \<open>platform/linux/resolved.rs\<close>: the backend of systemd-resolved. The service is the parameter
  \<open>resolve1\<close>, the generated proxies of the interfaces \<open>Manager\<close> and \<open>Link\<close> over a connection; a call
  may fail. The state of the operations is the connection the backend holds beside the system's.
\<close>

section \<open>The service\<close>

record 'w resolve1 =
  r1_manager :: "conn \<Rightarrow> ('w, unit) dbus_op"
  r1_mode :: "conn \<Rightarrow> ('w, string) dbus_op"
  r1_get_link :: "conn \<Rightarrow> i32 \<Rightarrow> ('w, string) dbus_op"
  r1_link :: "conn \<Rightarrow> string \<Rightarrow> ('w, unit) dbus_op"
  r1_dns :: "conn \<Rightarrow> string \<Rightarrow> ('w, (i32 \<times> bytes) list) dbus_op"
  r1_domains :: "conn \<Rightarrow> string \<Rightarrow> ('w, (string \<times> bool) list) dbus_op"
  r1_default_route :: "conn \<Rightarrow> string \<Rightarrow> ('w, bool) dbus_op"
  r1_set_dns :: "conn \<Rightarrow> i32 \<Rightarrow> (i32 \<times> bytes) list \<Rightarrow> ('w, unit) dbus_op"
  r1_set_domains :: "conn \<Rightarrow> i32 \<Rightarrow> (string \<times> bool) list \<Rightarrow> ('w, unit) dbus_op"
  r1_set_default_route :: "conn \<Rightarrow> i32 \<Rightarrow> bool \<Rightarrow> ('w, unit) dbus_op"
  r1_flush_caches :: "conn \<Rightarrow> ('w, unit) dbus_op"

record 'w resolved_host =
  rh_fs :: "'w linux_fs"
  rh_bus :: "'w dbus"
  rh_service :: "'w resolve1"
  rh_threads :: "'w watch_host"
  rh_parse_uuid :: "string \<Rightarrow> uuid option"
  rh_idna :: idna

definition RESOLVED_SERVICE :: string where
  "RESOLVED_SERVICE = ''org.freedesktop.resolve1''"

definition RESOLVED_PATH :: string where
  "RESOLVED_PATH = ''/org/freedesktop/resolve1''"

definition resolved_error :: "dbus_error \<Rightarrow> error" where
  "resolved_error e = PlatformError SystemdResolved ''bus error''"

definition resolved_resource_error :: "resource_id \<Rightarrow> dbus_error \<Rightarrow> error" where
  "resolved_resource_error r e =
     (if e = MethodError ''org.freedesktop.resolve1.NoSuchLink''
      then ResourceGone SystemdResolved r ''no such link''
      else ResourcePlatform SystemdResolved r ''bus error'')"

section \<open>Names and identities\<close>

definition link_prefix :: string where
  "link_prefix = ''linux:resolved:ifindex:''"

definition ifindex_of :: "resource_id \<Rightarrow> u32 result" where
  "ifindex_of r = (case Option.bind (strip_prefix link_prefix (rid_str r)) parse_u32 of
       Some i \<Rightarrow> Inr i
     | None \<Rightarrow> Inl (InvalidConfig ''resource is not a resolved link''))"

definition link_name :: "u32 \<Rightarrow> string" where
  "link_name i = link_prefix @ decimal (unat i)"

record observation_context =
  oc_boot_id :: uuid
  oc_netns :: string

definition netns_ok :: "string \<Rightarrow> bool" where
  "netns_ok netns \<longleftrightarrow> (case Option.bind (strip_prefix ''net:['' netns) (strip_suffix '']'') of
       Some v \<Rightarrow> v \<noteq> [] \<and> list_all is_digit v
     | None \<Rightarrow> False)"

definition context_current :: "'w resolved_host \<Rightarrow> ('w, observation_context) tx" where
  "context_current H =
     bind_tx (io_call (lf_read_to_string (rh_fs H) ''/proc/sys/kernel/random/boot_id'')) (\<lambda>text.
     bind_tx (case rh_parse_uuid H (trim text) of
          Some u \<Rightarrow> return_tx u | None \<Rightarrow> throw (PlatformError SystemdResolved ''boot id'')) (\<lambda>boot_id.
     bind_tx (io_call (lf_read_link (rh_fs H) ''/proc/thread-self/ns/net'')) (\<lambda>netns.
     if netns_ok netns then return_tx \<lparr> oc_boot_id = boot_id, oc_netns = netns \<rparr>
     else throw (PlatformError SystemdResolved ''cannot establish the current network namespace identity''))))"

definition resolved_identity_validate :: "resource_id \<Rightarrow> resolved_identity \<Rightarrow> unit result" where
  "resolved_identity_validate r d = (case ifindex_of r of
       Inl _ \<Rightarrow> Inl (JournalCorrupt ''invalid systemd-resolved resource selector'')
     | Inr index \<Rightarrow>
         if ri_ifindex d = 0 \<or> ri_ifindex d \<noteq> index \<or> ri_ifname d = [] \<or> \<not> netns_ok (ri_netns d)
         then Inl (JournalCorrupt ''invalid systemd-resolved resource identity'')
         else Inr ())"

definition resolved_identity_decode :: "resource_identity \<Rightarrow> resolved_identity result" where
  "resolved_identity_decode i =
     (if id_backend i \<noteq> SystemdResolved then Inl (JournalCorrupt ''resolved identity has the wrong backend'')
      else case id_data i of
          IdResolved d \<Rightarrow> bind_r (resolved_identity_validate (id_resource i) d) (\<lambda>_. Inr d)
        | _ \<Rightarrow> Inl (JournalCorrupt ''resolved identity has the wrong backend data''))"

definition classify_observation_context ::
  "resolved_identity \<Rightarrow> observation_context \<Rightarrow> resource_status option" where
  "classify_observation_context recorded c =
     (if oc_boot_id c \<noteq> ri_boot_id recorded then Some Gone
      else if oc_netns c \<noteq> ri_netns recorded then Some Ambiguous
      else None)"

definition classify_identity ::
  "resolved_identity \<Rightarrow> observation_context \<Rightarrow> resolved_identity option \<Rightarrow> (u64 \<times> u64) option \<Rightarrow> resource_status" where
  "classify_identity recorded c current live_inodes =
     (case classify_observation_context recorded c of
        Some status \<Rightarrow> status
      | None \<Rightarrow> (case current of
          None \<Rightarrow> Gone
        | Some _ \<Rightarrow> (case live_inodes of
            Some (old, now) \<Rightarrow> if old = now then Same else Replaced
          | None \<Rightarrow> Ambiguous)))"

text \<open>The first entry of the directory whose index is the one looked for.\<close>

fun entry_with_index :: "'w linux_fs \<Rightarrow> u32 \<Rightarrow> (io_error + string) list \<Rightarrow> ('w, string option) tx" where
  "entry_with_index F i [] = return_tx None"
| "entry_with_index F i (Inl _ # es) = entry_with_index F i es"
| "entry_with_index F i (Inr name # es) =
     bind_tx (ok_tx (io_call (lf_read_to_string F (fs_join (fs_join SYS_CLASS_NET name) ''ifindex'')))) (\<lambda>text.
     if Option.bind text (\<lambda>s. parse_u32 (trim s)) = Some i then return_tx (Some name)
     else entry_with_index F i es)"

definition identity_data_of ::
  "'w resolved_host \<Rightarrow> observation_context \<Rightarrow> u32 \<Rightarrow> ('w, (resolved_identity \<times> nat) option) tx" where
  "identity_data_of H c i =
     bind_tx (io_call (lf_read_dir (rh_fs H) SYS_CLASS_NET)) (\<lambda>entries.
     bind_tx (entry_with_index (rh_fs H) i entries) (\<lambda>entry. case entry of
         None \<Rightarrow> return_tx None
       | Some name \<Rightarrow>
           let path = fs_join SYS_CLASS_NET name;
               read = (\<lambda>n. bind_tx (ok_tx (io_call (lf_read_to_string (rh_fs H) (fs_join path n))))
                              (\<lambda>s. return_tx (map_option trim s)))
           in bind_tx (io_call (lf_open (rh_fs H) path)) (\<lambda>f.
              bind_tx (read ''iflink'') (\<lambda>iflink.
              bind_tx (read ''address'') (\<lambda>address.
              bind_tx (read ''uevent'') (\<lambda>uevent.
              return_tx (Some (\<lparr> ri_boot_id = oc_boot_id c, ri_netns = oc_netns c, ri_ifindex = i, ri_ifname = name,
                 ri_iflink = Option.bind iflink parse_u32, ri_address = address, ri_uevent = uevent \<rparr>, f))))))))"

definition link_identity :: "'w resolved_host \<Rightarrow> resource_id \<Rightarrow> ('w, resource_identity) tx" where
  "link_identity H r =
     bind_tx (lift_result (ifindex_of r)) (\<lambda>ifindex.
     bind_tx (context_current H) (\<lambda>c.
     bind_tx (identity_data_of H c ifindex) (\<lambda>found. case found of
         None \<Rightarrow> throw (ResourceGone SystemdResolved r ''the kernel link is absent'')
       | Some (d, f) \<Rightarrow>
           seq_tx (lift_result (resolved_identity_validate r d))
             (return_tx ((identity_new SystemdResolved r (IdResolved d))\<lparr>id_live_handle := Some f\<rparr>)))))"

section \<open>Snapshots\<close>

definition resolved_from_plan :: "normalized_config \<Rightarrow> resolved_snapshot" where
  "resolved_from_plan plan = \<lparr> rs_dns = resolved_dns_from_plan plan, rs_domains = resolved_domains_from_plan plan,
     rs_default_route = (case nc_default_route plan of Some b \<Rightarrow> b | None \<Rightarrow> False) \<rparr>"

definition merged_from_plan :: "resolved_snapshot \<Rightarrow> normalized_config \<Rightarrow> resolved_snapshot" where
  "merged_from_plan current plan = \<lparr> rs_dns = resolved_dns_from_plan plan, rs_domains = resolved_domains_from_plan plan,
     rs_default_route = (case nc_default_route plan of Some b \<Rightarrow> b | None \<Rightarrow> rs_default_route current) \<rparr>"

definition to_resolved_snapshot :: "resource_id \<Rightarrow> resolved_snapshot \<Rightarrow> platform_snapshot" where
  "to_resolved_snapshot r d = snapshot_new SystemdResolved r (SnapResolved d)"

definition from_resolved_snapshot :: "platform_snapshot \<Rightarrow> resolved_snapshot result" where
  "from_resolved_snapshot s = (case ps_data s of
       SnapResolved d \<Rightarrow> Inr d
     | _ \<Rightarrow> Inl (JournalCorrupt ''resolved snapshot has the wrong backend data''))"

section \<open>Operations\<close>

text \<open>A proxy of the manager: a usable connection, and the proxy built over it.\<close>

definition resolved_manager :: "'w resolved_host \<Rightarrow> (conn \<times> 'w, conn) tx" where
  "resolved_manager H = bind_tx (bus_get (rh_bus H) resolved_error) (\<lambda>c.
     seq_tx (inner_tx (dbus_call resolved_error (r1_manager (rh_service H) c))) (return_tx c))"

definition resolved_snapshot_of ::
  "'w resolved_host \<Rightarrow> resource_id \<Rightarrow> u32 \<Rightarrow> (conn \<times> 'w, resolved_snapshot) tx" where
  "resolved_snapshot_of H r ifindex =
     (let S = rh_service H; conv = resolved_resource_error r
      in bind_tx (resolved_manager H) (\<lambda>m.
         bind_tx (inner_tx (dbus_call conv (r1_get_link S m ifindex))) (\<lambda>link.
         bind_tx (bus_get (rh_bus H) resolved_error) (\<lambda>c.
         seq_tx (inner_tx (dbus_call resolved_error (r1_link S c link))) (
         bind_tx (inner_tx (dbus_call conv (r1_dns S c link))) (\<lambda>dns.
         bind_tx (inner_tx (dbus_call conv (r1_domains S c link))) (\<lambda>domains.
         bind_tx (inner_tx (dbus_call conv (r1_default_route S c link))) (\<lambda>default_route.
         return_tx \<lparr> rs_dns = dns, rs_domains = domains, rs_default_route = default_route \<rparr>))))))))"

definition resolved_apply_snapshot ::
  "'w resolved_host \<Rightarrow> resource_id \<Rightarrow> u32 \<Rightarrow> resolved_snapshot \<Rightarrow> (conn \<times> 'w, unit) tx" where
  "resolved_apply_snapshot H r ifindex d =
     (let S = rh_service H; conv = resolved_resource_error r
      in bind_tx (resolved_manager H) (\<lambda>m.
         seq_tx (inner_tx (dbus_call conv (r1_set_dns S m ifindex (rs_dns d)))) (
         seq_tx (inner_tx (dbus_call conv (r1_set_domains S m ifindex (rs_domains d)))) (
         inner_tx (dbus_call conv (r1_set_default_route S m ifindex (rs_default_route d)))))))"

definition resolved_capabilities :: capabilities where
  "resolved_capabilities =
     with_resource_binding PreflightOnly (with_cache_flush True (with_watch True (with_default_route True
     (with_split_dns True (with_search_domains True (with_per_interface_dns True (with_global_dns False
     (with_read True (capabilities_new SystemdResolved)))))))))"

definition resolved_resolve ::
  "'w resolved_host \<Rightarrow> dns_scope \<Rightarrow> normalized_config \<Rightarrow> (conn \<times> 'w, resource_id list) tx" where
  "resolved_resolve H scope plan = (case scope of
       Global \<Rightarrow> throw (Unsupported SystemdResolved
         ''global DNS configuration lives in systemd/resolved.conf and has no D-Bus API'')
     | Interface _ \<Rightarrow>
         bind_tx (inner_tx (resolve_interface_selector (rh_fs H) scope)) (\<lambda>(ifindex, name).
         bind_tx (lift_result (resource_id_new (link_name ifindex))) (\<lambda>r. return_tx [r])))"

definition resolved_identify :: "'w resolved_host \<Rightarrow> resource_id \<Rightarrow> (conn \<times> 'w, resource_identity) tx" where
  "resolved_identify H r =
     seq_tx (verify_namespace (rh_fs H) (rh_bus H) RESOLVED_SERVICE SystemdResolved) (inner_tx (link_identity H r))"

definition resolved_status :: "'w resolved_host \<Rightarrow> resource_identity \<Rightarrow> (conn \<times> 'w, resource_status) tx" where
  "resolved_status H i =
     bind_tx (lift_result (resolved_identity_decode i)) (\<lambda>old.
     bind_tx (inner_tx (context_current H)) (\<lambda>c.
     case classify_observation_context old c of
       Some status \<Rightarrow> return_tx status
     | None \<Rightarrow>
         seq_tx (verify_namespace (rh_fs H) (rh_bus H) RESOLVED_SERVICE SystemdResolved) (
         bind_tx (inner_tx (identity_data_of H c (ri_ifindex old))) (\<lambda>found. case found of
           None \<Rightarrow> return_tx Gone
         | Some (current, current_file) \<Rightarrow>
             bind_tx (case id_live_handle i of
                 Some original \<Rightarrow>
                   bind_tx (inner_tx (io_call (lf_inode (rh_fs H) original))) (\<lambda>a.
                   bind_tx (inner_tx (io_call (lf_inode (rh_fs H) current_file))) (\<lambda>b. return_tx (Some (a, b))))
               | None \<Rightarrow> return_tx None) (\<lambda>live_inodes.
             return_tx (classify_identity old c (Some current) live_inodes))))))"

definition resolved_capture :: "'w resolved_host \<Rightarrow> resource_id \<Rightarrow> (conn \<times> 'w, platform_snapshot) tx" where
  "resolved_capture H r =
     bind_tx (lift_result (ifindex_of r)) (\<lambda>ifindex.
     bind_tx (resolved_snapshot_of H r ifindex) (\<lambda>d. return_tx (to_resolved_snapshot r d)))"

definition resolved_apply ::
  "'w resolved_host \<Rightarrow> resource_id \<Rightarrow> normalized_config \<Rightarrow> (conn \<times> 'w, unit) tx" where
  "resolved_apply H r plan =
     bind_tx (lift_result (ifindex_of r)) (\<lambda>ifindex.
     bind_tx (resolved_snapshot_of H r ifindex) (\<lambda>current.
     resolved_apply_snapshot H r ifindex (merged_from_plan current plan)))"

definition resolved_restore ::
  "'w resolved_host \<Rightarrow> resource_id \<Rightarrow> platform_snapshot \<Rightarrow> (conn \<times> 'w, unit) tx" where
  "resolved_restore H r target =
     bind_tx (lift_result (ifindex_of r)) (\<lambda>ifindex.
     bind_tx (lift_result (from_resolved_snapshot target)) (\<lambda>captured.
     resolved_apply_snapshot H r ifindex captured))"

definition resolved_equivalent :: "platform_snapshot \<Rightarrow> platform_snapshot \<Rightarrow> bool" where
  "resolved_equivalent a b = (case (from_resolved_snapshot a, from_resolved_snapshot b) of
       (Inr x, Inr y) \<Rightarrow> x = y | _ \<Rightarrow> False)"

definition resolved_matches_desired :: "platform_snapshot \<Rightarrow> normalized_config \<Rightarrow> bool" where
  "resolved_matches_desired s plan = (case from_resolved_snapshot s of
       Inl _ \<Rightarrow> False
     | Inr state \<Rightarrow>
         let expected = resolved_from_plan plan
         in if nc_default_route plan = None
            then rs_dns state = rs_dns expected \<and> rs_domains state = rs_domains expected
            else state = expected)"

definition resolved_public_state ::
  "'w resolved_host \<Rightarrow> platform_snapshot \<Rightarrow> dns_scope \<Rightarrow> dns_config result" where
  "resolved_public_state H s scope =
     bind_r (from_resolved_snapshot s) (\<lambda>state.
     case resolved_domains_to_public (rh_idna H) (rs_domains state) of (search, routing) \<Rightarrow>
       Inr (from_parts scope (resolved_dns_to_nameservers (rs_dns state)) search routing
         (Some (rs_default_route state))))"

definition resolved_flush_cache :: "'w resolved_host \<Rightarrow> (conn \<times> 'w, unit) tx" where
  "resolved_flush_cache H = bind_tx (resolved_manager H) (\<lambda>m.
     inner_tx (dbus_call resolved_error (r1_flush_caches (rh_service H) m)))"

text \<open>The watch has a connection of its own.\<close>

definition resolved_start_watch :: "'w resolved_host \<Rightarrow> (conn \<times> 'w, watch_id) tx" where
  "resolved_start_watch H =
     bind_tx (inner_tx (dbus_call resolved_error (db_system (rh_bus H)))) (\<lambda>c.
     seq_tx (inner_tx (watch_signals (rh_bus H) resolved_error c
        \<lparr> mr_sender = RESOLVED_SERVICE, mr_interface = ''org.freedesktop.DBus.Properties'',
           mr_path_namespace = Some RESOLVED_PATH, mr_member = None, mr_arg0 = None \<rparr> RESOLVED_SERVICE)) (
     match_tx (inner_tx (io_call (wt_spawn (rh_threads H)))) return_tx
       (\<lambda>_. throw (PlatformError SystemdResolved ''cannot spawn watch thread''))))"

text \<open>What the watching thread does with the next message, or a failure to receive one.\<close>

definition resolved_on_message :: "bool \<Rightarrow> (dbus_error + bus_message) \<Rightarrow> watch_action" where
  "resolved_on_message cancelled m =
     (if cancelled then WatchStop
      else case m of
        Inl _ \<Rightarrow> WatchStop
      | Inr msg \<Rightarrow>
          if bm_member msg = Some ''NameOwnerChanged'' then WatchStop
          else case Option.bind (Option.bind (bm_path msg) (strip_prefix ''/org/freedesktop/resolve1/link/_'')) parse_u32 of
              None \<Rightarrow> WatchSkip
            | Some index \<Rightarrow> (case resource_id_new (link_name index) of
                  Inl _ \<Rightarrow> WatchSkip
                | Inr r \<Rightarrow> WatchEmit [ResourceChanged r]))"

definition resolved_prims :: "'w resolved_host \<Rightarrow> (conn \<times> 'w) backend_prims" where
  "resolved_prims H = \<lparr>
     bk_kind = SystemdResolved, bk_caps = resolved_capabilities, bk_resolve = resolved_resolve H,
     bk_identify = resolved_identify H, bk_status = resolved_status H, bk_capture = resolved_capture H,
     bk_readback = resolved_capture H, bk_apply = resolved_apply H, bk_restore = resolved_restore H,
     bk_apply_guarded = (\<lambda>_ _ _. guarded_default SystemdResolved),
     bk_restore_guarded = (\<lambda>_ _ _. guarded_default SystemdResolved),
     bk_proves_current = proves_current_default, bk_equivalent = resolved_equivalent,
     bk_matches_desired = resolved_matches_desired, bk_validate_plan = validate_plan_default,
     bk_public_state = resolved_public_state H, bk_interfaces = inner_tx (list_interfaces (rh_fs H)),
     bk_start_watch = resolved_start_watch H,
     bk_stop_watch = (\<lambda>i. inner_tx (modify_tx (wt_stop (rh_threads H) i))),
     bk_watch_active = (\<lambda>i (c, w). wt_active (rh_threads H) i w),
     bk_flush_cache = resolved_flush_cache H \<rparr>"

definition resolved :: "'w resolved_host \<Rightarrow> (conn \<times> 'w) backend" where
  "resolved H = with_default_bounds (resolved_prims H)"

text \<open>\<open>SystemdResolved::connect\<close>: a connection, and the mode of the resolver file if it can be read.\<close>

definition resolved_connect :: "'w resolved_host \<Rightarrow> ('w, conn \<times> string option) tx" where
  "resolved_connect H =
     bind_tx (dbus_call (\<lambda>_. BackendUnavailable ''cannot connect to the system D-Bus'') (db_system (rh_bus H))) (\<lambda>c.
     seq_tx (dbus_call resolved_error (r1_manager (rh_service H) c)) (
     bind_tx (ok_tx (dbus_call resolved_error (r1_mode (rh_service H) c))) (\<lambda>mode. return_tx (c, mode))))"

end
