(* ===== verification/Resolved_Contract.thy ===== *)
theory Resolved_Contract
  imports Resolved Linux_Contract Bound_Contract
begin

text \<open>
  The backend of systemd-resolved keeps the contract of the engine. The locale \<open>resolved_service\<close>
  says what the code relies on of the service: each link has its servers, domains and default-route
  flag; a read yields them; a call that sets one of them sets that one, of that link, or, when it
  fails, possibly nothing.
\<close>

definition link_of :: "resource_id \<Rightarrow> u32 option" where
  "link_of r = (case ifindex_of r of
       Inr i \<Rightarrow> if rid_str r = link_name i then Some i else None
     | Inl _ \<Rightarrow> None)"

lemma parse_prefixed: "strip_prefix p (p @ s) = Some s"
  by (induction p) auto

lemma ifindex_of_name: "ifindex_of (ResourceId (link_name i)) = Inr i"
  by (simp add: ifindex_of_def link_name_def parse_prefixed parse_u32_decimal)

lemma link_of_name: "link_of (ResourceId (link_name i)) = Some i"
  by (simp add: link_of_def ifindex_of_name)

lemma link_name_inj: "link_name i = link_name j \<longleftrightarrow> i = j"
  by (metis ifindex_of_name Inr_inject)

lemma link_of_Some: "link_of r = Some i \<longleftrightarrow> r = ResourceId (link_name i)"
proof
  assume "link_of r = Some i"
  then have "rid_str r = link_name i" by (auto simp: link_of_def split: sum.splits if_splits)
  then show "r = ResourceId (link_name i)" by (cases r) simp
qed (simp add: link_of_name)

text \<open>The backend's resources are the links under their canonical names, whatever the connection.\<close>

definition link_calm :: "('w \<Rightarrow> bool) \<Rightarrow> conn \<times> 'w \<Rightarrow> bool" where
  "link_calm calm s = calm (snd s)"

definition link_view ::
  "('w \<Rightarrow> u32 \<Rightarrow> resolved_snapshot option) \<Rightarrow> conn \<times> 'w \<Rightarrow> resource_id \<Rightarrow> resolved_snapshot option" where
  "link_view links s r = Option.bind (link_of r) (links (snd s))"

text \<open>What a call that sets something of link \<open>i\<close> has done.\<close>

definition written ::
  "('w \<Rightarrow> bool) \<Rightarrow> ('w \<Rightarrow> u32 \<Rightarrow> resolved_snapshot option) \<Rightarrow> ('w \<Rightarrow> string \<Rightarrow> u32 option) \<Rightarrow>
   (resolved_snapshot \<Rightarrow> resolved_snapshot) \<Rightarrow> u32 \<Rightarrow> 'w \<Rightarrow> (dbus_error + unit) \<times> 'w \<Rightarrow> bool" where
  "written calm links object f i w out \<longleftrightarrow> (case out of (res, w') \<Rightarrow>
     calm w' \<and> object w' = object w \<and>
     (links w' = links w \<and> res \<noteq> Inr () \<or> (\<exists>l. links w i = Some l \<and> links w' = (links w)(i \<mapsto> f l))))"

text \<open>The three calls that write a snapshot: after \<open>n\<close> of them, this much of it is in place.\<close>

fun stage :: "nat \<Rightarrow> resolved_snapshot \<Rightarrow> resolved_snapshot \<Rightarrow> resolved_snapshot" where
  "stage 0 d l = l"
| "stage (Suc 0) d l = l\<lparr>rs_dns := rs_dns d\<rparr>"
| "stage (Suc (Suc 0)) d l = l\<lparr>rs_dns := rs_dns d, rs_domains := rs_domains d\<rparr>"
| "stage _ d l = d"

locale resolved_service = quiet_system "rh_fs H" "rh_bus H" same
  for H :: "'w resolved_host" and same :: "'w \<Rightarrow> 'w \<Rightarrow> bool" +
  fixes calm :: "'w \<Rightarrow> bool"
    and links :: "'w \<Rightarrow> u32 \<Rightarrow> resolved_snapshot option"
    and object :: "'w \<Rightarrow> string \<Rightarrow> u32 option"
  assumes same_keeps: "calm w \<Longrightarrow> same w w' \<Longrightarrow> calm w' \<and> links w' = links w \<and> object w' = object w"
    and service_same: "same w (snd (r1_manager (rh_service H) c w))" "same w (snd (r1_get_link (rh_service H) c i w))"
      "same w (snd (r1_link (rh_service H) c p w))" "same w (snd (r1_dns (rh_service H) c p w))"
      "same w (snd (r1_domains (rh_service H) c p w))" "same w (snd (r1_default_route (rh_service H) c p w))"
    and get_link_names: "calm w \<Longrightarrow> r1_get_link (rh_service H) c i w = (Inr p, w') \<Longrightarrow> object w p = Some i"
    and reads: "calm w \<Longrightarrow> object w p = Some i \<Longrightarrow> r1_dns (rh_service H) c p w = (Inr v, w') \<Longrightarrow>
        \<exists>l. links w i = Some l \<and> rs_dns l = v"
      "calm w \<Longrightarrow> object w p = Some i \<Longrightarrow> r1_domains (rh_service H) c p w = (Inr ds, w') \<Longrightarrow>
        \<exists>l. links w i = Some l \<and> rs_domains l = ds"
      "calm w \<Longrightarrow> object w p = Some i \<Longrightarrow> r1_default_route (rh_service H) c p w = (Inr b, w') \<Longrightarrow>
        \<exists>l. links w i = Some l \<and> rs_default_route l = b"
    and writes: "calm w \<Longrightarrow> written calm links object (rs_dns_update (\<lambda>_. v)) i w (r1_set_dns (rh_service H) c i v w)"
      "calm w \<Longrightarrow> written calm links object (rs_domains_update (\<lambda>_. ds)) i w (r1_set_domains (rh_service H) c i ds w)"
      "calm w \<Longrightarrow> written calm links object (rs_default_route_update (\<lambda>_. b)) i w (r1_set_default_route (rh_service H) c i b w)"
begin

abbreviation rcalm where "rcalm \<equiv> link_calm calm"
abbreviation rview where "rview \<equiv> link_view links"

lemma beside_keeps: "calm w \<Longrightarrow> beside w s \<Longrightarrow> calm (snd s) \<and> links (snd s) = links w \<and> object (snd s) = object w"
  by (auto simp: beside_def dest: same_keeps)

lemmas quiet_service [quiet_intros] =
  quiet_dbus[OF service_same(1)] quiet_dbus[OF service_same(2)] quiet_dbus[OF service_same(3)]
  quiet_dbus[OF service_same(4)] quiet_dbus[OF service_same(5)] quiet_dbus[OF service_same(6)]

lemma resolved_errors [simp]:
  "\<not> is_external_modification (resolved_error e)" "\<not> is_external_modification (resolved_resource_error r e)"
  by (simp_all add: resolved_error_def resolved_resource_error_def)

lemma quiet_manager [quiet_intros]: "quiet (beside w0) (resolved_manager H)"
  unfolding resolved_manager_def by (intro quiet_intros) simp_all

text \<open>Reading one property of a link.\<close>

lemma yields_call:
  assumes "calm w" "\<And>w. same w (snd (m w))"
    and "\<And>v x v'. calm v \<Longrightarrow> links v = links w \<Longrightarrow> object v = object w \<Longrightarrow> m v = (Inr x, v') \<Longrightarrow> P x"
  shows "yields (beside w) (inner_tx (dbus_call (resolved_resource_error r) m)) P"
  unfolding yields_def
proof (intro allI impI)
  fix s :: "'c \<times> 'w" assume b: "beside w s"
  obtain c v where s: "s = (c, v)" by fastforce
  from beside_keeps[OF assms(1) b] have v: "calm v" "links v = links w" "object v = object w" by (simp_all add: s)
  have "same w v" using b by (simp add: s beside_def)
  from same_trans[OF this assms(2)] have same: "same w (snd (m v))" .
  show "wp (inner_tx (dbus_call (resolved_resource_error r) m)) (\<lambda>res t. quietly (beside w) res t \<and> when_ok res P) s"
  proof (cases "m v")
    case (Pair e u)
    with same assms(3)[OF v] show ?thesis by (cases e) (auto simp: s wp_inner_dbus beside_def)
  qed
qed

lemma yields_snapshot:
  assumes "calm w"
  shows "yields (beside w) (resolved_snapshot_of H r i) (\<lambda>d. links w i = Some d)"
proof -
  have link: "yields (beside w) (inner_tx (dbus_call (resolved_resource_error r) (r1_get_link (rh_service H) m i)))
      (\<lambda>p. object w p = Some i)" for m
    by (rule yields_call[OF assms service_same(2)]) (metis get_link_names)
  have dns: "yields (beside w) (inner_tx (dbus_call (resolved_resource_error r) (r1_dns (rh_service H) c p)))
      (\<lambda>v. \<exists>l. links w i = Some l \<and> rs_dns l = v)" if "object w p = Some i" for c p
    by (rule yields_call[OF assms service_same(4)]) (metis reads(1) that)
  have domains: "yields (beside w) (inner_tx (dbus_call (resolved_resource_error r) (r1_domains (rh_service H) c p)))
      (\<lambda>v. \<exists>l. links w i = Some l \<and> rs_domains l = v)" if "object w p = Some i" for c p
    by (rule yields_call[OF assms service_same(5)]) (metis reads(2) that)
  have route: "yields (beside w) (inner_tx (dbus_call (resolved_resource_error r) (r1_default_route (rh_service H) c p)))
      (\<lambda>v. \<exists>l. links w i = Some l \<and> rs_default_route l = v)" if "object w p = Some i" for c p
    by (rule yields_call[OF assms service_same(6)]) (metis reads(3) that)
  have get: "quiet (beside w) (bus_get (rh_bus H) resolved_error)"
    "quiet (beside w) (inner_tx (dbus_call resolved_error (r1_link (rh_service H) c p)))" for c p
    by (intro quiet_intros, simp)+
  show ?thesis
    unfolding resolved_snapshot_of_def Let_def
    by (rule yields_bind yields_seq yields_quiet quiet_manager link get dns domains route yields_return | assumption | force)+
qed

definition at_stage :: "nat \<Rightarrow> u32 \<Rightarrow> resolved_snapshot \<Rightarrow> 'w \<Rightarrow> conn \<times> 'w \<Rightarrow> bool" where
  "at_stage n i d w s \<longleftrightarrow> calm (snd s) \<and> object (snd s) = object w \<and>
     (n = 0 \<and> links (snd s) = links w \<or> (\<exists>l. links w i = Some l \<and> links (snd s) = (links w)(i \<mapsto> stage n d l)))"

definition partly_written :: "u32 \<Rightarrow> resolved_snapshot \<Rightarrow> 'w \<Rightarrow> conn \<times> 'w \<Rightarrow> bool" where
  "partly_written i d w s \<longleftrightarrow> (\<exists>n. n \<le> 3 \<and> at_stage n i d w s)"

lemma write_step:
  assumes "\<And>v. calm v \<Longrightarrow> written calm links object f i v (m v)" "\<And>l. f (stage n d l) = stage (Suc n) d l"
    and "at_stage n i d w s" "n < 3"
  shows "wp (inner_tx (dbus_call (resolved_resource_error r) m)) (\<lambda>res t.
    quietly (partly_written i d w) res t \<and> when_ok res (\<lambda>_. at_stage (Suc n) i d w t)) s"
proof -
  obtain c v where s: "s = (c, v)" by fastforce
  from assms(3) have calm: "calm v" by (simp add: at_stage_def s)
  obtain e u where m: "m v = (e, u)" by fastforce
  have w: "written calm links object f i v (e, u)" using assms(1)[OF calm] by (simp add: m)
  have set: "at_stage (Suc n) i d w (c, u)" if "links v i = Some l" "links u = (links v)(i \<mapsto> f l)" for l
    using assms(2-3) w that by (auto simp: at_stage_def s written_def)
  have failed: "at_stage n i d w (c, u)" if "links u = links v"
    using assms(3) w that by (auto simp: at_stage_def s written_def)
  have p: "partly_written i d w (c, u)"
    using w set failed assms(4) by (auto simp: written_def partly_written_def intro: exI[of _ n] exI[of _ "Suc n"])
  show ?thesis
    using w set p by (cases e) (auto simp: s wp_inner_dbus m written_def)
qed

lemma apply_snapshot_spec:
  assumes "calm w" "beside w s"
  shows "wp (resolved_apply_snapshot H r i d) (\<lambda>res t. quietly (partly_written i d w) res t \<and>
    when_ok res (\<lambda>_. at_stage 3 i d w t)) s"
proof -
  have start: "at_stage 0 i d w t" if "beside w t" for t :: "conn \<times> 'w"
    using beside_keeps[OF assms(1) that] by (simp add: at_stage_def)
  have p0: "partly_written i d w t" if "beside w t" for t :: "conn \<times> 'w"
    using start[OF that] by (auto simp: partly_written_def)
  show ?thesis
    unfolding resolved_apply_snapshot_def Let_def
  proof (rule wp_bindI[OF quietlyD[OF quiet_manager assms(2)]], goal_cases)
    case (1 m t)
    then have "at_stage 0 i d w t" by (simp add: start)
    note set_dns = write_step[OF writes(1) _ this, where r = r]
    show ?case
    proof (rule wp_seqI[OF set_dns])
      fix x u assume "quietly (partly_written i d w) (Ok x) u \<and> when_ok (Ok x) (\<lambda>_. at_stage (Suc 0) i d w u)"
      then have "at_stage 1 i d w u" by simp
      note set_domains = write_step[OF writes(2) _ this, where r = r]
      show "wp (seq_tx (inner_tx (dbus_call (resolved_resource_error r) (r1_set_domains (rh_service H) m i (rs_domains d))))
          (inner_tx (dbus_call (resolved_resource_error r) (r1_set_default_route (rh_service H) m i (rs_default_route d)))))
        (\<lambda>res t. quietly (partly_written i d w) res t \<and> when_ok res (\<lambda>_. at_stage 3 i d w t)) u"
      proof (rule wp_seqI[OF set_domains])
        fix x v assume "quietly (partly_written i d w) (Ok x) v \<and> when_ok (Ok x) (\<lambda>_. at_stage (Suc 1) i d w v)"
        then have "at_stage 2 i d w v" by (simp add: numeral_2_eq_2)
        note set_route = write_step[OF writes(3) _ this, where r = r]
        show "wp (inner_tx (dbus_call (resolved_resource_error r) (r1_set_default_route (rh_service H) m i (rs_default_route d))))
          (\<lambda>res t. quietly (partly_written i d w) res t \<and> when_ok res (\<lambda>_. at_stage 3 i d w t)) v"
          by (rule wp_mono[OF set_route]) (simp_all add: numeral_2_eq_2 numeral_3_eq_3)
      qed (simp_all add: quietly_def)
    qed (simp_all add: quietly_def)
  qed (auto simp: quietly_def p0)
qed

text \<open>Link \<open>i\<close> may have been written, up to any of the three calls; its new state is \<open>f\<close> of the old one.\<close>

definition changed_link :: "u32 \<Rightarrow> (resolved_snapshot \<Rightarrow> resolved_snapshot) \<Rightarrow> 'w \<Rightarrow> conn \<times> 'w \<Rightarrow> bool" where
  "changed_link i f w s \<longleftrightarrow> calm (snd s) \<and> (links (snd s) = links w \<or>
     (\<exists>l n. n \<le> 3 \<and> links w i = Some l \<and> links (snd s) = (links w)(i \<mapsto> stage n (f l) l)))"

lemma partly_changed:
  "partly_written i d w s \<Longrightarrow> links w i = Some l \<Longrightarrow> f l = d \<Longrightarrow> changed_link i f w s"
  by (auto simp: partly_written_def changed_link_def at_stage_def)

lemma beside_changed: "calm w \<Longrightarrow> beside w s \<Longrightarrow> changed_link i f w s"
  by (drule (1) beside_keeps) (simp add: changed_link_def)

lemma stage_3: "stage 3 d l = d"
  by (simp add: numeral_3_eq_3)

lemma no_partly: "partly_written i d w s \<Longrightarrow> links w i = None \<Longrightarrow> links (snd s) = links w"
  by (auto simp: partly_written_def at_stage_def)

definition link_set :: "u32 \<Rightarrow> (resolved_snapshot \<Rightarrow> resolved_snapshot) \<Rightarrow> 'w \<Rightarrow> conn \<times> 'w \<Rightarrow> bool" where
  "link_set i f w s \<longleftrightarrow> (\<exists>l. links w i = Some l \<and> links (snd s) = (links w)(i \<mapsto> f l))"

lemma write_snapshot_spec:
  assumes "calm w" "beside w s" "\<And>l. links w i = Some l \<Longrightarrow> f l = d"
  shows "wp (resolved_apply_snapshot H r i d) (\<lambda>res t. quietly (changed_link i f w) res t \<and>
    when_ok res (\<lambda>_. link_set i f w t)) s"
proof (rule wp_mono[OF apply_snapshot_spec[OF assms(1,2)]], elim conjE, intro conjI)
  fix res t assume q: "quietly (partly_written i d w) res t" and o: "when_ok res (\<lambda>_. at_stage 3 i d w t)"
  from q have p: "partly_written i d w t" by (simp add: quietly_def)
  have "changed_link i f w t"
  proof (cases "links w i")
    case None
    from no_partly[OF p None] p show ?thesis by (auto simp: partly_written_def changed_link_def at_stage_def)
  next
    case (Some l)
    show ?thesis by (rule partly_changed[where f = f, OF p Some assms(3)[OF Some]])
  qed
  with q show "quietly (changed_link i f w) res t" by (simp add: quietly_def)
  from o assms(3) show "when_ok res (\<lambda>_. link_set i f w t)"
    by (cases res) (auto simp: at_stage_def link_set_def stage_3)
qed

lemma set_spec:
  assumes "calm w" "beside w s" "ifindex_of r = Inr i"
  shows "wp (resolved_apply H r plan) (\<lambda>res t. quietly (changed_link i (\<lambda>l. merged_from_plan l plan) w) res t \<and>
    when_ok res (\<lambda>_. link_set i (\<lambda>l. merged_from_plan l plan) w t)) s"
  unfolding resolved_apply_def assms(3) bind_return
proof (rule wp_bindI[OF yieldsD[OF yields_snapshot[OF assms(1)] assms(2)]])
  fix l and t :: "conn \<times> 'w" assume "quietly (beside w) (Ok l) t \<and> when_ok (Ok l) (\<lambda>d. links w i = Some d)"
  then have t: "beside w t" "links w i = Some l" by simp_all
  show "wp (resolved_apply_snapshot H r i (merged_from_plan l plan)) (\<lambda>res t.
      quietly (changed_link i (\<lambda>l. merged_from_plan l plan) w) res t \<and>
      when_ok res (\<lambda>_. link_set i (\<lambda>l. merged_from_plan l plan) w t)) t"
    by (rule write_snapshot_spec[OF assms(1) t(1)]) (simp add: t(2))
qed (auto intro: beside_changed[OF assms(1)])

lemma reset_spec:
  assumes "calm w" "beside w s" "ifindex_of r = Inr i"
  shows "wp (resolved_restore H r target) (\<lambda>res t.
    (case from_resolved_snapshot target of
       Inl e \<Rightarrow> beside w t \<and> res = Err e
     | Inr d \<Rightarrow> quietly (changed_link i (\<lambda>_. d) w) res t \<and> when_ok res (\<lambda>_. link_set i (\<lambda>_. d) w t))) s"
  unfolding resolved_restore_def assms(3) bind_return
  using write_snapshot_spec[OF assms(1,2), of i] assms(2)
  by (cases "from_resolved_snapshot target") simp_all

lemma quiet_entry: "quiet (on_system w0) (entry_with_index (rh_fs H) i es)"
proof (induction es)
  case (Cons e es)
  then show ?case by (cases e) (simp_all, intro quiet_intros)
qed (simp add: quiet_intros)

lemma quiet_context: "quiet (on_system w0) (context_current H)"
  unfolding context_current_def by (intro quiet_intros) simp_all

lemma quiet_identity_data: "quiet (on_system w0) (identity_data_of H c i)"
  unfolding identity_data_of_def Let_def by (intro quiet_intros quiet_entry)

lemma decode_error: "resolved_identity_decode i = Inl e \<Longrightarrow> \<not> is_external_modification e"
  by (auto simp: resolved_identity_decode_def resolved_identity_validate_def bind_r_def
      split: if_splits identity_data.splits sum.splits)

lemma quiet_status: "quiet (beside w0) (resolved_status H i)"
  unfolding resolved_status_def by (intro quiet_intros quiet_context quiet_identity_data) (rule decode_error)

lemma yields_capture:
  assumes "calm w"
  shows "yields (beside w) (resolved_capture H r) (\<lambda>c. \<exists>i d. ifindex_of r = Inr i \<and> links w i = Some d \<and> c = to_resolved_snapshot r d)"
proof (cases "ifindex_of r")
  case (Inl e)
  then show ?thesis
    by (auto simp: resolved_capture_def yields_def ifindex_of_def split: option.splits)
next
  case (Inr i)
  then show ?thesis
    unfolding resolved_capture_def Inr bind_return
    by (intro yields_bind[OF yields_snapshot[OF assms]] yields_return) simp
qed

text \<open>What an attempt on link \<open>k\<close> has done that only goes ahead from a state accepted by \<open>ok\<close>.\<close>

definition attempted_write ::
  "u32 \<Rightarrow> (resolved_snapshot \<Rightarrow> bool) \<Rightarrow> (resolved_snapshot \<Rightarrow> resolved_snapshot) \<Rightarrow> 'w \<Rightarrow>
   mutation_attempt outcome \<Rightarrow> conn \<times> 'w \<Rightarrow> bool" where
  "attempted_write k ok f w res t \<longleftrightarrow> (\<exists>a. res = Ok a \<and> calm (snd t) \<and> (case a of
       Performed p \<Rightarrow> p = None \<and> (\<exists>l. links w k = Some l \<and> ok l) \<and> link_set k f w t
     | Rejected e \<Rightarrow> links (snd t) = links w
     | Indeterminate e p \<Rightarrow> changed_link k f w t))"

lemma rejected_write: "calm w \<Longrightarrow> beside w t \<Longrightarrow> wp (return_tx (Rejected e)) (attempted_write k ok f w) t"
  by (drule (1) beside_keeps) (simp add: attempted_write_def)

lemma resolved_prims_sel [simp]:
  "bk_status (resolved_prims H) = resolved_status H" "bk_readback (resolved_prims H) = resolved_capture H"
  "bk_apply (resolved_prims H) = resolved_apply H" "bk_restore (resolved_prims H) = resolved_restore H"
  "bk_equivalent (resolved_prims H) = resolved_equivalent" "mutation_guard_of (resolved_prims H) = Unconditional"
  "owns_current (resolved_prims H) = resolved_equivalent"
  by (simp_all add: fun_eq_iff resolved_prims_def mutation_guard_of_def resolved_capabilities_def owns_current_def
      ownership_identity_of_def capabilities_new_def with_read_def with_global_dns_def with_per_interface_dns_def
      with_search_domains_def with_split_dns_def with_default_route_def with_watch_def with_cache_flush_def
      with_resource_binding_def)

lemma equivalent_iff: "resolved_equivalent s (to_resolved_snapshot r l) \<longleftrightarrow> from_resolved_snapshot s = Inr l"
  by (auto simp: resolved_equivalent_def from_resolved_snapshot_def to_resolved_snapshot_def snapshot_new_def
      split: snapshot_data.splits)

lemma captured_link:
  assumes "id_resource i = ResourceId (link_name k)" "resolved_equivalent expected current"
    and "\<exists>j d. ifindex_of (id_resource i) = Inr j \<and> links w j = Some d \<and> current = to_resolved_snapshot (id_resource i) d"
  shows "\<exists>l. links w k = Some l \<and> from_resolved_snapshot expected = Inr l"
  using assms by (auto simp: ifindex_of_name equivalent_iff)

lemma apply_bound_spec:
  assumes "calm w" "beside w s" "id_resource i = ResourceId (link_name k)"
  shows "wp (bk_apply_bound (resolved H) i expected plan)
    (attempted_write k (\<lambda>l. from_resolved_snapshot expected = Inr l) (\<lambda>l. merged_from_plan l plan) w) s"
  unfolding resolved_def with_default_bounds_def backend.select_convs apply_bound_default_def resolved_prims_sel
    mutation_guard.case
proof (rule wp_unconditional_bound[OF quiet_status yields_capture[OF assms(1)] assms(2)], goal_cases)
  case (1 e t)
  then show ?case using rejected_write[OF assms(1)] by simp
next
  case (2 current t)
  from captured_link[OF assms(3) 2(3,2)] obtain l where l: "links w k = Some l" "from_resolved_snapshot expected = Inr l"
    by blast
  show ?case
    unfolding wp_bind wp_try
  proof (rule wp_mono[OF set_spec[OF assms(1) 2(1), of _ k]], goal_cases)
    case (2 r u)
    then have "calm (snd u)" by (simp add: changed_link_def quietly_def)
    with 2 l show ?case by (cases r) (auto simp: attempted_write_def from_apply_result_def)
  qed (simp add: assms(3) ifindex_of_name)
qed

lemma restore_bound_spec:
  assumes "calm w" "beside w s" "id_resource i = ResourceId (link_name k)" "from_resolved_snapshot target = Inr d"
  shows "wp (bk_restore_bound (resolved H) i expected target)
    (attempted_write k (\<lambda>l. from_resolved_snapshot expected = Inr l) (\<lambda>_. d) w) s"
  unfolding resolved_def with_default_bounds_def backend.select_convs restore_bound_default_def resolved_prims_sel
    mutation_guard.case
proof (rule wp_unconditional_bound[OF quiet_status yields_capture[OF assms(1)] assms(2)], goal_cases)
  case (1 e t)
  then show ?case using rejected_write[OF assms(1)] by simp
next
  case (2 current t)
  from captured_link[OF assms(3) 2(3,2)] obtain l where l: "links w k = Some l" "from_resolved_snapshot expected = Inr l"
    by blast
  show ?case
    unfolding wp_match
  proof (rule wp_mono[OF reset_spec[OF assms(1) 2(1), of _ k]], goal_cases)
    case (2 r u)
    then have "calm (snd u)" by (simp add: changed_link_def quietly_def assms(4))
    with 2 l show ?case by (cases r) (auto simp: attempted_write_def assms(4))
  qed (simp add: assms(3) ifindex_of_name)
qed

lemma beside_pair: "beside w (c, w)"
  by (simp add: beside_def same_refl)

lemma attempt_accounted:
  assumes "attempted_write k ok f w res (c', w')"
  shows "\<exists>a. res = Ok a \<and> (\<forall>j. j \<noteq> k \<longrightarrow> links w' j = links w j) \<and> (case a of
      Performed p \<Rightarrow> \<exists>l. links w k = Some l \<and> ok l \<and> links w' k = Some (f l)
    | Rejected e \<Rightarrow> links w' = links w
    | Indeterminate e p \<Rightarrow> links w' k = links w k \<or> (\<exists>l n. n \<le> 3 \<and> links w k = Some l \<and>
        links w' k = Some (stage n (f l) l)))"
proof -
  from assms obtain a where a: "res = Ok a" and post: "case a of
       Performed p \<Rightarrow> p = None \<and> (\<exists>l. links w k = Some l \<and> ok l) \<and> link_set k f w (c', w')
     | Rejected e \<Rightarrow> links (snd (c', w')) = links w
     | Indeterminate e p \<Rightarrow> changed_link k f w (c', w')"
    by (auto simp: attempted_write_def)
  from post show ?thesis
    by (auto simp: a link_set_def changed_link_def fun_eq_iff split: mutation_attempt.splits)
qed

text \<open>The contract of the engine.\<close>

lemma managed_link: "manages rcalm rview r \<Longrightarrow> \<exists>i. r = ResourceId (link_name i)"
  by (auto simp: manages_def link_view_def link_of_Some bind_eq_Some_conv)

lemma beside_frame: "rcalm s \<Longrightarrow> beside (snd s) t \<Longrightarrow> frame_ok rcalm rview {} s t"
proof -
  assume "rcalm s" "beside (snd s) t"
  then have "calm (snd t)" "links (snd t) = links (snd s)" using beside_keeps[of "snd s" t] by (simp_all add: link_calm_def)
  then show "frame_ok rcalm rview {} s t" by (simp add: frame_ok_empty link_calm_def link_view_def fun_eq_iff[of "link_view _ _"])
qed

lemma changed_frame:
  assumes "changed_link i f (snd s) t"
  shows "frame_ok rcalm rview {ResourceId (link_name i)} s t"
proof -
  have "rview t r = rview s r" if "r \<noteq> ResourceId (link_name i)" for r
  proof (cases "link_of r")
    case (Some j)
    with that have "j \<noteq> i" by (auto simp: link_of_Some)
    with assms Some show ?thesis by (auto simp: changed_link_def link_view_def)
  qed (simp add: link_view_def)
  with assms show ?thesis by (simp add: frame_ok_def changed_link_def link_calm_def)
qed

lemma frame_ok_widen: "frame_ok rcalm rview {} s t \<Longrightarrow> frame_ok rcalm rview R s t"
  by (simp add: frame_ok_def)

lemma beside_refl: "beside (snd s) s"
  by (simp add: beside_def same_refl)

end

sublocale resolved_service \<subseteq> prims: calm_prims "resolved_prims H" rcalm rview
proof (unfold_locales, goal_cases)
  case (1 s i)
  show ?case
    by (simp, rule wp_mono[OF quietlyD[OF quiet_status beside_refl]]) (use 1 in \<open>auto simp: quietly_def intro: beside_frame\<close>)
next
  case (2 s r)
  then have c: "calm (snd s)" by (simp add: link_calm_def)
  show ?case
    by (simp, rule wp_mono[OF yieldsD[OF yields_capture[OF c] beside_refl]]) (use 2 in \<open>auto simp: quietly_def intro: beside_frame\<close>)
next
  case (3 s r plan)
  from 3(1) have c: "calm (snd s)" by (simp add: link_calm_def)
  from managed_link[OF 3(2)] obtain i where i: "r = ResourceId (link_name i)" by blast
  show ?case
    unfolding resolved_prims_sel i
    by (rule wp_mono[OF set_spec[OF c beside_refl ifindex_of_name]]) (auto simp: quietly_def changed_frame)
next
  case (4 s r target)
  from 4(1) have c: "calm (snd s)" by (simp add: link_calm_def)
  from managed_link[OF 4(2)] obtain i where i: "r = ResourceId (link_name i)" by blast
  show ?case
    unfolding resolved_prims_sel i
    by (rule wp_mono[OF reset_spec[OF c beside_refl ifindex_of_name]])
       (auto simp: quietly_def changed_frame intro: frame_ok_widen[OF beside_frame[OF 4(1)]] split: sum.splits)
qed (simp_all add: resolved_prims_def guarded_default_def attempt_ok_def frame_ok_def)

context resolved_service begin

text \<open>An environment over this backend, whose clock and source of identifiers leave the service alone.\<close>

lemma managed:
  assumes "e_backend E = resolved H"
    and "\<And>s. wp (e_now E) (\<lambda>res t. no_err res \<and> beside (snd s) t) s"
    and "\<And>s. wp (e_new_v4 E) (\<lambda>res t. no_err res \<and> beside (snd s) t) s"
  shows "managed_backend E rcalm rview to_resolved_snapshot"
proof -
  have sel: "bk_status (e_backend E) = resolved_status H" "bk_readback (e_backend E) = resolved_capture H"
    "bk_capture (e_backend E) = resolved_capture H" "bk_equivalent (e_backend E) = resolved_equivalent"
    "bk_apply_bound (e_backend E) = apply_bound_default (resolved_prims H)"
    "bk_restore_bound (e_backend E) = restore_bound_default (resolved_prims H)"
    by (simp_all add: assms(1) resolved_def with_default_bounds_def resolved_prims_def)
  have read: "wp (resolved_capture H r) (\<lambda>res t. rcalm t \<and> rview t = rview s \<and>
      when_ok res (\<lambda>c. manages rcalm rview r \<longrightarrow> (\<exists>n. rview s r = Some n \<and> c = to_resolved_snapshot r n))) s"
    if s: "rcalm s" for s r
  proof -
    from s have c: "calm (snd s)" by (simp add: link_calm_def)
    show ?thesis
    proof (rule wp_mono[OF yieldsD[OF yields_capture[OF c] beside_refl]], elim conjE, intro conjI)
      fix res and t :: "conn \<times> 'w" assume q: "quietly (beside (snd s)) res t"
        and v: "when_ok res (\<lambda>c. \<exists>i d. ifindex_of r = Inr i \<and> links (snd s) i = Some d \<and> c = to_resolved_snapshot r d)"
      from q beside_frame[OF s, of t] show "rcalm t" "rview t = rview s" by (simp_all add: quietly_def frame_ok_empty)
      from v show "when_ok res (\<lambda>c. manages rcalm rview r \<longrightarrow> (\<exists>n. rview s r = Some n \<and> c = to_resolved_snapshot r n))"
        by (auto simp: when_ok_def link_view_def link_of_name ifindex_of_name dest!: managed_link split: outcome.splits)
    qed
  qed
  show ?thesis
proof (unfold_locales, goal_cases)
  case (1 s i)
  show ?case
    by (simp add: sel, rule wp_mono[OF quietlyD[OF quiet_status beside_refl]]) (use beside_frame[OF 1] in \<open>auto simp: quietly_def frame_ok_empty\<close>)
next
  case (2 s r)
  show ?case unfolding sel by (rule read[OF 2])
next
  case (3 s r)
  show ?case unfolding sel by (rule read[OF 3])
next
  case (4 s i expected plan)
  show ?case
    by (simp add: sel, rule wp_mono[OF prims.apply_bound_prim[OF 4]]) (simp add: attempt_ok_def frame_ok_def)
next
  case (5 s i expected target)
  show ?case
    by (simp add: sel, rule wp_mono[OF prims.restore_bound_prim[OF 5]]) (simp add: attempt_ok_def frame_ok_def)
next
  case (6 s)
  show ?case by (rule wp_mono[OF assms(2)]) (use beside_frame[OF 6] in \<open>auto simp: frame_ok_empty\<close>)
next
  case (7 s)
  show ?case by (rule wp_mono[OF assms(3)]) (use beside_frame[OF 7] in \<open>auto simp: frame_ok_empty\<close>)
next
  case (8 r n)
  show ?case by (simp add: sel equivalent_iff) (simp add: from_resolved_snapshot_def to_resolved_snapshot_def snapshot_new_def)
qed
qed

end

end
