(* ===== verification/Resolved_Guarantees.thy ===== *)
theory Resolved_Guarantees
  imports Resolved_Contract Guarantees
begin

text \<open>
  What the engine and the backend of systemd-resolved guarantee together, and a service over a table
  of links on which the assumptions about the service hold.
\<close>

section \<open>A service over a table of links\<close>

type_synonym link_table = "u32 \<rightharpoonup> resolved_snapshot"

definition link_path :: string where
  "link_path = ''/org/freedesktop/resolve1/link/_''"

definition table_object :: "string \<Rightarrow> u32 option" where
  "table_object p = Option.bind (strip_prefix link_path p) parse_u32"

definition table_read :: "(resolved_snapshot \<Rightarrow> 'a) \<Rightarrow> string \<Rightarrow> link_table \<Rightarrow> (dbus_error + 'a) \<times> link_table" where
  "table_read f p w = (case Option.bind (table_object p) w of
       Some l \<Rightarrow> (Inr (f l), w) | None \<Rightarrow> (Inl (MethodError ''org.freedesktop.DBus.Error.UnknownObject''), w))"

definition table_write ::
  "(resolved_snapshot \<Rightarrow> resolved_snapshot) \<Rightarrow> u32 \<Rightarrow> link_table \<Rightarrow> (dbus_error + unit) \<times> link_table" where
  "table_write f i w = (case w i of
       Some l \<Rightarrow> (Inr (), w(i \<mapsto> f l))
     | None \<Rightarrow> (Inl (MethodError ''org.freedesktop.resolve1.NoSuchLink''), w))"

definition table_service :: "link_table resolve1" where
  "table_service = \<lparr>
     r1_manager = (\<lambda>c w. (Inr (), w)), r1_mode = (\<lambda>c w. (Inr ''stub'', w)),
     r1_get_link = (\<lambda>c i w. if w i = None then (Inl (MethodError ''org.freedesktop.resolve1.NoSuchLink''), w)
                            else (Inr (link_path @ decimal (unat i)), w)),
     r1_link = (\<lambda>c p w. (Inr (), w)),
     r1_dns = (\<lambda>c. table_read rs_dns), r1_domains = (\<lambda>c. table_read rs_domains),
     r1_default_route = (\<lambda>c. table_read rs_default_route),
     r1_set_dns = (\<lambda>c i v. table_write (rs_dns_update (\<lambda>_. v)) i),
     r1_set_domains = (\<lambda>c i v. table_write (rs_domains_update (\<lambda>_. v)) i),
     r1_set_default_route = (\<lambda>c i v. table_write (rs_default_route_update (\<lambda>_. v)) i),
     r1_flush_caches = (\<lambda>c w. (Inr (), w)) \<rparr>"

text \<open>A system with one interface, \<open>eth0\<close> of index 2.\<close>

definition table_fs :: "'w linux_fs" where
  "table_fs = \<lparr>
     lf_read_to_string = (\<lambda>p w. (case map_of
        [(''/proc/sys/kernel/random/boot_id'', ''b''), (''/sys/class/net/eth0/ifindex'', ''2'')] p of
          Some s \<Rightarrow> Inr s | None \<Rightarrow> Inl (NotFound, ''no such file''), w)),
     lf_read_link = (\<lambda>p w. (Inr ''net:[4026531840]'', w)),
     lf_read_dir = (\<lambda>p w. (Inr [Inr ''eth0''], w)),
     lf_open = (\<lambda>p w. (Inr 7, w)),
     lf_inode = (\<lambda>f w. (Inr 42, w)),
     lf_netlink_parse = (\<lambda>bs. None),
     lf_route_dump = (\<lambda>w. (Inl netlink_error, w)) \<rparr>"

definition table_bus :: "'w dbus" where
  "table_bus = \<lparr>
     db_system = (\<lambda>w. (Inr 1, w)), db_is_closed = (\<lambda>c w. (False, w)), db_daemon = (\<lambda>c w. (Inr (), w)),
     db_name_owner = (\<lambda>c s w. (Inr '':1.5'', w)), db_unix_process_id = (\<lambda>c s w. (Inr 400, w)),
     db_add_match = (\<lambda>c m w. (Inr (), w)) \<rparr>"

definition table_threads :: "'w watch_host" where
  "table_threads = \<lparr> wt_spawn = (\<lambda>w. (Inr 0, w)), wt_stop = (\<lambda>i w. w), wt_active = (\<lambda>i w. True) \<rparr>"

definition table_host :: "link_table resolved_host" where
  "table_host = \<lparr> rh_fs = table_fs, rh_bus = table_bus, rh_service = table_service, rh_threads = table_threads,
     rh_parse_uuid = (\<lambda>s. Some 5), rh_idna = Some \<rparr>"

lemma table_quiet: "quiet_system table_fs table_bus (\<lambda>w w'. w' = w)"
  by unfold_locales (simp_all add: table_fs_def table_bus_def)

interpretation table: resolved_service table_host "\<lambda>w w'. w' = w" "\<lambda>_. True" "\<lambda>w. w" "\<lambda>_. table_object"
proof -
  have host: "rh_fs table_host = table_fs" "rh_bus table_host = table_bus" "rh_service table_host = table_service"
    by (simp_all add: table_host_def)
  have object: "table_object (link_path @ decimal (unat i)) = Some i" for i
    by (simp add: table_object_def parse_prefixed parse_u32_decimal)
  show "resolved_service table_host (\<lambda>w w'. w' = w) (\<lambda>_. True) (\<lambda>w. w) (\<lambda>_. table_object)"
    unfolding resolved_service_def resolved_service_axioms_def host
    using table_quiet
    by (auto simp: table_service_def table_read_def table_write_def written_def object split: option.splits if_splits)
qed

section \<open>Writing to a link\<close>

lemma merged_matches: "resolved_matches_desired (to_resolved_snapshot r (merged_from_plan l plan)) plan"
  by (simp add: resolved_matches_desired_def from_resolved_snapshot_def to_resolved_snapshot_def snapshot_new_def
      merged_from_plan_def resolved_from_plan_def Let_def split: option.splits)

lemma link_name_2: "ResourceId (link_name 2) = ResourceId ''linux:resolved:ifindex:2''"
  by (simp add: link_name_def link_prefix_def decimal.simps char_of_eq_iff)

lemma index_2: "parse_u32 (trim ''2'') = Some 2"
  by (simp add: trim_printable printable_def parse_u32_def digits_value_def digit_value_def is_digit_def u32_max_def)

lemma decimal_2: "parse_u32 (decimal 2) = Some 2"
  using parse_u32_decimal[of 2] by simp

lemmas run_table = table_host_def table_fs_def table_bus_def table_service_def table_read_def table_write_def table_object_def
  resolved_snapshot_of_def resolved_manager_def resolved_apply_snapshot_def bus_get_def io_call_def sys_call_def dbus_call_def
  merged_from_plan_def resolved_dns_from_plan_def resolved_domains_from_plan_def parse_prefixed decimal_2
  to_resolved_snapshot_def from_resolved_snapshot_def snapshot_new_def

text \<open>The link \<open>eth0\<close> before and after \<open>demo_config\<close> is applied to it, and its identity.\<close>

definition before_2 :: resolved_snapshot where
  "before_2 = \<lparr> rs_dns = [], rs_domains = [(''old.example'', False)], rs_default_route = True \<rparr>"

definition after_2 :: resolved_snapshot where
  "after_2 = \<lparr> rs_dns = [(2, [127, 0, 0, 1])], rs_domains = [], rs_default_route = True \<rparr>"

definition link_2 :: resource_id where
  "link_2 = ResourceId ''linux:resolved:ifindex:2''"

definition demo_link :: resource_identity where
  "demo_link = (identity_new SystemdResolved link_2 (IdResolved \<lparr> ri_boot_id = 5, ri_netns = ''net:[4026531840]'',
     ri_ifindex = 2, ri_ifname = ''eth0'', ri_iflink = None, ri_address = None, ri_uevent = None \<rparr>))\<lparr>id_live_handle := Some 3\<rparr>"

lemma demo_ids: "ifindex_of link_2 = Inr 2" "id_resource demo_link = link_2" "id_resource demo_link = ResourceId (link_name 2)"
  using ifindex_of_name[of 2] by (simp_all add: link_name_2 link_2_def demo_link_def identity_new_def)

lemma demo_status: "resolved_status table_host demo_link (0, w) = (Ok Same, (0, w))"
  by (simp add: resolved_status_def resolved_identity_decode_def resolved_identity_validate_def demo_link_def identity_new_def
      demo_ids(1) netns_ok_def run_tx context_current_def table_host_def table_fs_def table_bus_def io_call_def sys_call_def
      dbus_call_def is_digit_def classify_observation_context_def classify_identity_def verify_namespace_def bus_get_def
      identity_data_of_def ok_tx_def fs_join_def SYS_CLASS_NET_def strip_suffix_def index_2)

lemma demo_capture: "resolved_capture table_host link_2 (0, [2 \<mapsto> l]) = (Ok (to_resolved_snapshot link_2 l), (0, [2 \<mapsto> l]))"
  by (simp add: resolved_capture_def demo_ids(1) run_tx run_table)

lemma demo_apply: "resolved_apply table_host link_2 demo_config (0, [2 \<mapsto> before_2]) = (Ok (), (0, [2 \<mapsto> after_2]))"
  by (simp add: resolved_apply_def demo_ids(1) run_tx run_table before_2_def after_2_def demo_config_def)

lemma demo_restore: "resolved_restore table_host link_2 (to_resolved_snapshot link_2 before_2) (0, [2 \<mapsto> after_2]) =
    (Ok (), (0, [2 \<mapsto> before_2]))"
  by (simp add: resolved_restore_def demo_ids(1) run_tx run_table before_2_def after_2_def)

lemma demo_equivalent: "resolved_equivalent (to_resolved_snapshot r l) (to_resolved_snapshot r l)"
  by (simp add: resolved_equivalent_def from_resolved_snapshot_def to_resolved_snapshot_def snapshot_new_def)

lemmas run_bound = resolved_def with_default_bounds_def apply_bound_default_def restore_bound_default_def
  table.resolved_prims_sel demo_ids(2) demo_equivalent from_apply_result_def match_tx_def bind_tx_def try_tx_def return_tx_def
  demo_status demo_capture demo_apply demo_restore

text \<open>
  C31. Applying to a link of systemd-resolved. Whatever fails on the way, the attempt reports what it
  has done. \<open>Performed\<close>: the link was exactly in the expected state, now it has the servers and
  domains of the plan and its default-route flag, or the old flag when the plan has none, and it
  matches the plan. \<open>Rejected\<close>: nothing has changed. \<open>Indeterminate\<close>: the link is somewhere between
  the two, in the order servers, domains, flag. No other link changes in any case.
\<close>

theorem resolved_apply_accounted:
  assumes "resolved_service H same calm links object" and "calm w"
    and "id_resource i = ResourceId (link_name k)"
    and "bk_apply_bound (resolved H) i expected plan (c, w) = (res, (c', w'))"
  shows "\<exists>a. res = Ok a \<and> (\<forall>j. j \<noteq> k \<longrightarrow> links w' j = links w j) \<and> (case a of
      Performed p \<Rightarrow> \<exists>l. links w k = Some l \<and> from_resolved_snapshot expected = Inr l \<and>
        links w' k = Some (merged_from_plan l plan) \<and>
        resolved_matches_desired (to_resolved_snapshot (id_resource i) (merged_from_plan l plan)) plan
    | Rejected e \<Rightarrow> links w' = links w
    | Indeterminate e p \<Rightarrow> links w' k = links w k \<or> (\<exists>l n. n \<le> 3 \<and> links w k = Some l \<and>
        links w' k = Some (stage n (merged_from_plan l plan) l)))"
proof -
  from resolved_service.attempt_accounted[OF assms(1)
      wp_run[OF resolved_service.apply_bound_spec[OF assms(1,2) resolved_service.beside_pair[OF assms(1)] assms(3)] assms(4)]]
  obtain a where "res = Ok a" and "\<forall>j. j \<noteq> k \<longrightarrow> links w' j = links w j" and "case a of
      Performed p \<Rightarrow> \<exists>l. links w k = Some l \<and> from_resolved_snapshot expected = Inr l \<and>
        links w' k = Some (merged_from_plan l plan)
    | Rejected e \<Rightarrow> links w' = links w
    | Indeterminate e p \<Rightarrow> links w' k = links w k \<or> (\<exists>l n. n \<le> 3 \<and> links w k = Some l \<and>
        links w' k = Some (stage n (merged_from_plan l plan) l))" by blast
  then show ?thesis using merged_matches by (cases a) auto
qed

theorem resolved_apply_accounted_witness:
  "bk_apply_bound (resolved table_host) demo_link (to_resolved_snapshot link_2 before_2) demo_config (0, [2 \<mapsto> before_2]) =
     (Ok (Performed None), (0, [2 \<mapsto> after_2])) \<and>
   resolved_matches_desired (to_resolved_snapshot link_2 after_2) demo_config"
proof -
  have run: "bk_apply_bound (resolved table_host) demo_link (to_resolved_snapshot link_2 before_2) demo_config (0, [2 \<mapsto> before_2]) =
      (Ok (Performed None), (0, [2 \<mapsto> after_2]))"
    by (simp add: run_bound)
  from resolved_apply_accounted[OF table.resolved_service_axioms TrueI demo_ids(3) run] run demo_ids(2) show ?thesis
    by (simp, metis)
qed

text \<open>
  C32. Restoring a link of systemd-resolved to a captured state \<open>d\<close>, likewise: \<open>Performed\<close> means that the
  link was in the state the caller proved to be its own and is now exactly in \<open>d\<close>.
\<close>

theorem resolved_restore_accounted:
  assumes "resolved_service H same calm links object" and "calm w"
    and "id_resource i = ResourceId (link_name k)" and "from_resolved_snapshot target = Inr d"
    and "bk_restore_bound (resolved H) i expected target (c, w) = (res, (c', w'))"
  shows "\<exists>a. res = Ok a \<and> (\<forall>j. j \<noteq> k \<longrightarrow> links w' j = links w j) \<and> (case a of
      Performed p \<Rightarrow> \<exists>l. links w k = Some l \<and> from_resolved_snapshot expected = Inr l \<and> links w' k = Some d
    | Rejected e \<Rightarrow> links w' = links w
    | Indeterminate e p \<Rightarrow> links w' k = links w k \<or> (\<exists>l n. n \<le> 3 \<and> links w k = Some l \<and> links w' k = Some (stage n d l)))"
  by (rule resolved_service.attempt_accounted[OF assms(1)
      wp_run[OF resolved_service.restore_bound_spec[OF assms(1,2) resolved_service.beside_pair[OF assms(1)] assms(3,4)] assms(5)]])

theorem resolved_restore_accounted_witness:
  "bk_restore_bound (resolved table_host) demo_link (to_resolved_snapshot link_2 after_2)
     (to_resolved_snapshot link_2 before_2) (0, [2 \<mapsto> after_2]) = (Ok (Performed None), (0, [2 \<mapsto> before_2])) \<and>
   from_resolved_snapshot (to_resolved_snapshot link_2 after_2) = Inr after_2"
proof -
  have t: "from_resolved_snapshot (to_resolved_snapshot link_2 before_2) = Inr before_2"
    by (simp add: from_resolved_snapshot_def to_resolved_snapshot_def snapshot_new_def)
  have run: "bk_restore_bound (resolved table_host) demo_link (to_resolved_snapshot link_2 after_2)
     (to_resolved_snapshot link_2 before_2) (0, [2 \<mapsto> after_2]) = (Ok (Performed None), (0, [2 \<mapsto> before_2]))"
    by (simp add: run_bound)
  from resolved_restore_accounted[OF table.resolved_service_axioms TrueI demo_ids(3) t run] run show ?thesis
    by simp
qed

section \<open>The engine over systemd-resolved\<close>

text \<open>
  C33. The backend of systemd-resolved keeps the contract of the engine: over any service that keeps its
  promises, with a clock and a source of identifiers that leave it alone, it is a \<open>managed_backend\<close> whose
  resources are the links. So what the engine guarantees (crash safety of apply, update, restore and
  recovery, and that nothing foreign is overwritten) it guarantees on systemd-resolved.
\<close>

theorem resolved_keeps_contract:
  assumes "resolved_service H same calm links object" and "e_backend E = resolved H"
    and "\<forall>s. wp (e_now E) (\<lambda>res t. no_err res \<and> same (snd s) (snd t)) s"
    and "\<forall>s. wp (e_new_v4 E) (\<lambda>res t. no_err res \<and> same (snd s) (snd t)) s"
  shows "managed_backend E (link_calm calm) (link_view links) to_resolved_snapshot"
  by (intro resolved_service.managed[OF assms(1,2)])
     (simp_all only: quiet_system.beside_def[OF resolved_service.axioms(1)[OF assms(1)]] assms(3,4))

definition table_env :: "(conn \<times> link_table, mem_dir) env" where
  "table_env = \<lparr> e_owner = ''io.example.agent'', e_policy = Cooperative, e_backend = resolved table_host,
     e_pfs = mem_pfs, e_libs = demo_libs, e_now = return_tx 0, e_new_v4 = return_tx 1 \<rparr>"

theorem resolved_keeps_contract_witness:
  "managed_backend table_env (link_calm (\<lambda>_. True)) (link_view (\<lambda>w. w)) to_resolved_snapshot"
  by (rule resolved_keeps_contract[OF table.resolved_service_axioms]) (simp_all add: table_env_def)

end
