(* ===== verification/Network_Manager_Guarantees.thy ===== *)
theory Network_Manager_Guarantees
  imports Network_Manager_Contract Resolved_Guarantees
begin

text \<open>
  What the backend of NetworkManager guarantees, and a service with one device on which the
  assumptions about the service hold.
\<close>

section \<open>A service with one device\<close>

text \<open>The state is the applied connection of the device and its version; others raise the version.\<close>

type_synonym one_device = "nm_settings \<times> u64"

definition device_path :: string where
  "device_path = ''/org/freedesktop/NetworkManager/Devices/1''"

definition active_path :: string where
  "active_path = ''/org/freedesktop/NetworkManager/ActiveConnection/3''"

definition one_later :: "one_device \<Rightarrow> one_device \<Rightarrow> bool" where
  "one_later w w' \<longleftrightarrow> w' = w \<or> snd w < snd w'"

definition one_applied :: "one_device \<Rightarrow> connections" where
  "one_applied w owner path = (if owner = '':1.5'' \<and> path = device_path then Some w else None)"

definition one_service :: "one_device nm_service" where
  "one_service = \<lparr>
     ns_manager = (\<lambda>c w. (Inr (), w)), ns_device_by_iface = (\<lambda>c n w. (Inr device_path, w)),
     ns_dns_manager = (\<lambda>c w. (Inr (), w)), ns_mode = (\<lambda>c w. (Inr ''default'', w)),
     ns_rc_manager = (\<lambda>c w. (Inr ''symlink'', w)), ns_device = (\<lambda>d w. (Inr (), w)),
     ns_applied = (\<lambda>(c, owner, path) w. if owner \<in> {None, Some '':1.5''} \<and> path = device_path then (Inr w, w)
                     else (Inl (MethodError ''org.freedesktop.DBus.Error.UnknownObject''), w)),
     ns_reapply = (\<lambda>(c, owner, path) s v w.
        if owner \<in> {None, Some '':1.5''} \<and> path = device_path \<and> (v = 0 \<or> v = snd w) then (Inr True, (s, snd w + 1))
        else (Inl (MethodError ''org.freedesktop.NetworkManager.Device.VersionIdMismatch''), w)),
     ns_interface = (\<lambda>d w. (Inr ''eth0'', w)), ns_managed = (\<lambda>d w. (Inr True, w)),
     ns_active = (\<lambda>d w. (Inr active_path, w)) \<rparr>"

definition one_host :: "one_device nm_host" where
  "one_host = \<lparr> nh_fs = table_fs, nh_bus = table_bus, nh_service = one_service, nh_threads = table_threads,
     nh_parse_uuid = (\<lambda>s. Some 9), nh_unique_name = (\<lambda>s. True), nh_object_path = (\<lambda>s. True),
     nh_array = VArray, nh_idna = Some \<rparr>"

lemma one_host_sel [simp]: "nh_fs one_host = table_fs" "nh_bus one_host = table_bus" "nh_service one_host = one_service"
  "nh_array one_host = VArray" "nh_object_path one_host s" "nh_unique_name one_host s" "nh_parse_uuid one_host s = Some 9"
  by (simp_all add: one_host_def)

lemma one_reapplied:
  "reapplied one_later one_applied '':1.5'' device_path (fst w) (snd w) s w (s, snd w + 1)"
  unfolding reapplied_def
  by (intro exI[of _ w] exI[of _ "(s, snd w + 1)"] exI[of _ "snd w + 1"])
     (auto simp: one_later_def one_applied_def replaced_def fun_eq_iff)

interpretation one: versioned_service one_host one_later one_applied
proof -
  have quiet: "quiet_system table_fs table_bus one_later"
    by unfold_locales (auto simp: table_fs_def table_bus_def one_later_def)
  show "versioned_service one_host one_later one_applied"
    unfolding versioned_service_def versioned_service_axioms_def one_host_sel
  proof (intro conjI quiet allI impI, goal_cases)
    case (8 version c owner path s w res w')
    then show ?case using one_reapplied[of w s] by (auto simp: one_service_def split: if_splits)
  next
    case (9 version c owner path s w res w')
    then show ?case by (auto simp: one_service_def one_later_def split: if_splits)
  qed (auto simp: one_service_def one_later_def one_applied_def split: if_splits prod.splits)
qed

section \<open>Compare and swap\<close>

text \<open>A value of a connection, and the six the backend writes.\<close>

definition setting_at :: "nm_settings \<Rightarrow> string \<Rightarrow> string \<Rightarrow> nm_value option" where
  "setting_at settings name key = Option.bind (settings name) (\<lambda>entries. entries key)"

definition dns_setting :: "string \<Rightarrow> string \<Rightarrow> bool" where
  "dns_setting name key \<longleftrightarrow> name \<in> {''ipv4'', ''ipv6''} \<and> key \<in> {''dns'', ''dns-search'', ''ignore-auto-dns''}"

lemma other_settings_kept:
  "\<not> dns_setting name key \<Longrightarrow> setting_at (with_dns_fields array settings fds) name key = setting_at settings name key"
  by (auto simp: setting_at_def with_dns_fields_def dns_setting_def section_of_def Let_def split: option.splits)

text \<open>
  C34. Applying to a device of NetworkManager is a compare-and-swap, no matter what other clients do to
  its connection meanwhile. \<open>Performed\<close>: there was a moment at which the connection had exactly the
  fields and the version the caller had verified, and at that moment it was replaced by itself with the
  DNS fields of the plan; so no change by anyone else is lost. \<open>Rejected\<close>: nothing was written.
  \<open>Indeterminate\<close>: one of the two. Every other setting of the connection is kept.
\<close>

theorem nm_compare_and_swap:
  assumes "versioned_service H later applied" and "id_data i = IdNetworkManager d"
    and "bk_apply_bound (nm_backend H caps) i expected plan (c, w) = (res, (c', w'))"
  shows "\<exists>a. res = Ok a \<and>
     (let fds = nm_fields_from_plan plan (split_dns caps);
          swapped = (\<exists>old. fields_from_snapshot expected = Inr (parse_nm_dns_fields (convert_settings old)) \<and>
            reapplied later applied (nmi_service_owner d) (nmi_device_path d) old (version_from_snapshot expected)
              (with_dns_fields (nh_array H) old fds) w w' \<and>
            (\<forall>name key. dns_setting name key \<or>
               setting_at (with_dns_fields (nh_array H) old fds) name key = setting_at old name key))
      in case a of Performed p \<Rightarrow> swapped | Rejected e \<Rightarrow> later w w' | Indeterminate e p \<Rightarrow> later w w' \<or> swapped)"
proof -
  have side: "quiet_system.beside later w (c, w)"
    using quiet_system.same_refl[OF versioned_service.axioms(1)[OF assms(1)]]
    by (simp add: quiet_system.beside_def[OF versioned_service.axioms(1)[OF assms(1)]])
  have run: "nm_mutate_bound H i expected (nm_fields_from_plan plan (split_dns caps)) (c, w) = (res, (c', w'))"
    using assms(3) by (simp add: nm_backend_def with_default_bounds_def nm_apply_bound_def)
  from wp_run[OF versioned_service.mutate_spec[OF assms(1) side assms(2)] run]
  show ?thesis
    unfolding versioned_service.compare_swap_def[OF assms(1)] versioned_service.swapped_def[OF assms(1)] Let_def snd_conv
    using other_settings_kept by (fastforce split: mutation_attempt.splits)
qed

text \<open>A connection with a foreign setting, under version 7, and its identity.\<close>

definition demo_settings :: nm_settings where
  "demo_settings = [''connection'' \<mapsto> [''uuid'' \<mapsto> VStr ''u''], ''ipv4'' \<mapsto> [''dns-priority'' \<mapsto> VI32 50]]"

definition demo_device :: resource_id where
  "demo_device = ResourceId ''linux:network-manager:ifname:eth0''"

definition demo_activation :: nm_identity where
  "demo_activation = \<lparr> nmi_ifname = ''eth0'', nmi_device_path = device_path, nmi_active_path = active_path,
     nmi_connection_uuid = 9, nmi_service_owner = '':1.5'' \<rparr>"

definition demo_device_identity :: resource_identity where
  "demo_device_identity = identity_new NetworkManager demo_device (IdNetworkManager demo_activation)"

lemma demo_device_decode: "nm_identity_decode one_host demo_device_identity = Inr demo_activation"
  by (simp add: nm_identity_decode_def demo_device_identity_def identity_new_def ifname_of_def demo_device_def nm_prefix_def
      demo_activation_def native_object_path_def device_path_def active_path_def is_digit_def)

lemma demo_uuid: "extract_uuid (with_dns_fields array demo_settings fds) = Some ''u''" "extract_uuid demo_settings = Some ''u''"
  by (simp_all add: extract_uuid_def with_dns_fields_def demo_settings_def setting_string_def Let_def)

lemmas run_nm = one_service_def table_bus_def bus_get_def nm_call_def dbus_call_def sys_call_def io_call_def
  demo_activation_def to_owned_static_def

lemma demo_nm_status: "nm_status one_host demo_device_identity (0, (demo_settings, v)) = (Ok Same, (0, (demo_settings, v)))"
proof -
  have owner: "service_owner one_host (0, w) = (Ok '':1.5'', (0, w))" for w
    by (simp add: service_owner_def run_tx run_nm)
  have dev: "nm_device one_host device_path (0, w) = (Ok (0, None, device_path), (0, w))" for w
    by (simp add: nm_device_def run_tx run_nm)
  show ?thesis
    by (simp add: nm_status_def nm_lifetime_def demo_device_decode owner dev run_tx run_nm demo_uuid classify_lifetime_result_def
        classify_nm_activation_def)
qed

lemma demo_namespace: "verify_namespace table_fs table_bus service kind (0, w) = (Ok (), (0, w))"
  by (simp add: verify_namespace_def run_tx table_fs_def table_bus_def bus_get_def dbus_call_def sys_call_def io_call_def)

lemma demo_calls:
  "bus_get table_bus conv (0, w) = (Ok 0, (0, w))"
  "nm_call nm_error (ns_device one_service d) (0, w) = (Ok (), (0, w))"
  "nm_call nm_error (ns_reapply one_service (0, Some '':1.5'', device_path) s 7) (0, (old, 7)) = (Ok True, (0, (s, 8)))"
  by (simp_all add: run_tx run_nm)

definition demo_expected :: platform_snapshot where
  "demo_expected = to_nm_snapshot demo_device nm_fields_default 7"

lemma demo_fields: "parse_nm_dns_fields (convert_settings demo_settings) = nm_fields_default"
  by (simp add: parse_nm_dns_fields_def convert_settings_def demo_settings_def Let_def nm_fields_default_def string_keys_def
      string_list_def bool_value_def map_filter_simps)

theorem nm_compare_and_swap_witness:
  "let fds = nm_fields_from_plan demo_config False;
       new = with_dns_fields VArray demo_settings fds
   in bk_apply_bound (nm_backend one_host (nm_capabilities ''default'')) demo_device_identity demo_expected demo_config
        (0, (demo_settings, 7)) = (Ok (Performed None), (0, (new, 8))) \<and>
      (\<exists>old. reapplied one_later one_applied '':1.5'' device_path old 7 (with_dns_fields VArray old fds) (demo_settings, 7) (new, 8)) \<and>
      setting_at new ''ipv4'' ''dns-priority'' = Some (VI32 50)"
proof -
  let ?fds = "nm_fields_from_plan demo_config False"
  have caps: "split_dns (nm_capabilities ''default'') = False"
    by (simp add: nm_capabilities_def capabilities_new_def with_read_def with_global_dns_def with_per_interface_dns_def
      with_search_domains_def with_split_dns_def with_default_route_def with_watch_def with_cache_flush_def
      with_resource_binding_def with_mutation_guard_def with_ownership_identity_def)
  have expected: "fields_from_snapshot demo_expected = Inr nm_fields_default" "version_from_snapshot demo_expected = 7"
    by (simp_all add: demo_expected_def to_nm_snapshot_def fields_from_snapshot_def version_from_snapshot_def
        nm_snapshot_data_def snapshot_new_def)
  have baseline: "guarded_baseline_device one_host r (0, Some '':1.5'', device_path) demo_expected (0, (demo_settings, 7)) =
      (Ok (demo_settings, 7), (0, (demo_settings, 7)))" for r
    by (simp add: guarded_baseline_device_def expected demo_fields nm_applied_def run_tx run_nm)
  have run: "bk_apply_bound (nm_backend one_host (nm_capabilities ''default'')) demo_device_identity demo_expected demo_config
      (0, (demo_settings, 7)) = (Ok (Performed None), (0, (with_dns_fields VArray demo_settings ?fds, 8)))"
    by (simp add: nm_backend_def nm_apply_bound_def caps nm_mutate_bound_def demo_namespace demo_nm_status demo_device_decode
        baseline demo_calls reapply_versioned_def run_tx to_owned_static_def demo_activation_def)
  have data: "id_data demo_device_identity = IdNetworkManager demo_activation"
    by (simp add: demo_device_identity_def identity_new_def)
  have kept: "setting_at (with_dns_fields VArray demo_settings ?fds) ''ipv4'' ''dns-priority'' = Some (VI32 50)"
    by (subst other_settings_kept) (simp_all add: dns_setting_def setting_at_def demo_settings_def)
  from nm_compare_and_swap[OF one.versioned_service_axioms data run]
  have "\<exists>old. reapplied one_later one_applied '':1.5'' device_path old 7 (with_dns_fields VArray old ?fds)
      (demo_settings, 7) (with_dns_fields VArray demo_settings ?fds, 8)"
    by (auto simp: caps expected demo_activation_def Let_def)
  with run kept show ?thesis by (simp add: Let_def)
qed

section \<open>What is written reads back\<close>

text \<open>
  C35. What a plan writes to a device of NetworkManager reads back as the plan, up to what the fields
  cannot express: the nameservers come back with those of IPv4 first, in order within each family; the
  search domains without the root; the routing domains that are not search domains too, or none where
  the service does not route. The default route is not said. And the state matches the plan.
\<close>

theorem nm_reads_back:
  assumes "list_all wf_ip (nc_nameservers plan)"
    and "distinct (nc_search plan)" "list_all (reparses (nh_idna H)) (nc_search plan)"
    and "list_all (\<lambda>d. hd (suffix_str d) \<noteq> CHR ''~'') (nc_search plan)"
    and "distinct (nc_routing plan)" "list_all (reparses (nh_idna H)) (nc_routing plan)"
  shows "let s = to_nm_snapshot r (nm_fields_from_plan plan (split_dns caps)) v;
       search = filter (\<lambda>d. \<not> is_root d) (nc_search plan)
     in nm_matches_desired caps s plan \<and>
        nm_public_state H s scope = Inr (from_parts scope
          (filter is_ipv4 (nc_nameservers plan) @ filter (\<lambda>a. \<not> is_ipv4 a) (nc_nameservers plan)) search
          (if split_dns caps then filter (\<lambda>d. d \<notin> set search) (nc_routing plan) else []) None)"
proof -
  let ?fds = "nm_fields_from_plan plan (split_dns caps)"
  have snap: "fields_from_snapshot (to_nm_snapshot r ?fds v) = Inr ?fds"
    by (simp add: to_nm_snapshot_def fields_from_snapshot_def nm_snapshot_data_def snapshot_new_def)
  have v4: "map (\<lambda>raw. case to_be_bytes raw of [a, b, c, d] \<Rightarrow> V4 a b c d)
      (List.map_filter (\<lambda>ip. case ip of V4 a b c d \<Rightarrow> Some (from_be_bytes a b c d) | _ \<Rightarrow> None) nss) = filter is_ipv4 nss" for nss
    by (induction nss) (auto simp: map_filter_simps to_from_be_bytes is_ipv4_def split: ip_addr.splits)
  have v6: "list_all wf_ip nss \<Longrightarrow> List.map_filter (\<lambda>bs. if length bs = 16 then Some (V6 bs) else None)
      (List.map_filter (\<lambda>ip. case ip of V6 bs \<Rightarrow> Some bs | _ \<Rightarrow> None) nss) = filter (\<lambda>a. \<not> is_ipv4 a) nss" for nss
    by (induction nss) (auto simp: map_filter_simps wf_ip_def is_ipv4_def split: ip_addr.splits)
  have "nm_nameservers ?fds = filter is_ipv4 (nc_nameservers plan) @ filter (\<lambda>a. \<not> is_ipv4 a) (nc_nameservers plan)"
    by (simp add: nm_nameservers_def nm_fields_from_plan_def Let_def nm_addresses nm_fields_default_def v4 v6[OF assms(1)])
  then show ?thesis
    using nm_entries_read_back[OF assms(2-6), of "split_dns caps"]
    by (simp add: Let_def snap nm_matches_desired_def nm_public_state_def)
qed

theorem nm_reads_back_witness:
  "let plan = \<lparr> nc_nameservers = [V4 9 9 9 9], nc_search = [DnsSuffix ''a.example''],
                nc_routing = [DnsSuffix []], nc_default_route = None \<rparr>;
       s = to_nm_snapshot demo_device (nm_fields_from_plan plan True) 7;
       caps = (nm_capabilities ''default'')\<lparr>split_dns := True\<rparr>
   in nm_matches_desired caps s plan \<and>
      nm_public_state one_host s Global = Inr (from_parts Global [V4 9 9 9 9] [DnsSuffix ''a.example''] [DnsSuffix []] None)"
  using nm_reads_back[of "\<lparr> nc_nameservers = [V4 9 9 9 9], nc_search = [DnsSuffix ''a.example''],
      nc_routing = [DnsSuffix []], nc_default_route = None \<rparr>" one_host demo_device "(nm_capabilities ''default'')\<lparr>split_dns := True\<rparr>" 7 Global]
  by (simp add: wf_ip_def Let_def one_host_def demo_reparses root_reparses is_ipv4_def is_root_def)

end
