(* ===== verification/Unix_Files.thy ===== *)
theory Unix_Files
  imports Linux_System
begin

text \<open>
  The file system as the Unix backends use it, and \<open>platform/unix/detect.rs\<close>, which tells who writes
  the resolver file. The operations of the standard library, of \<open>rustix\<close> and of the package
  \<open>atomic_write_file\<close> are the parameter \<open>file_host\<close>, over the state \<open>'w\<close> of the system; any of them
  may fail. Descriptors are numbers; one that goes out of scope leaves no trace. Text is searched for
  ASCII patterns only, so a lossy decoding of bytes may keep the bytes as they are.
\<close>

section \<open>The file system\<close>

record file_stat =
  st_is_file :: bool
  st_len :: nat
  st_modified :: "io_error + int"
  st_ctime :: "i64 \<times> i64"
  st_mode :: u32
  st_uid :: u32
  st_gid :: u32
  st_nlink :: u64

datatype xattr_names = XattrLength nat | XattrNotSupported | XattrFailed io_error

text \<open>
  \<open>fh_symlink_metadata\<close> tells whether the entry itself is a symbolic link, \<open>fh_metadata\<close> whether what
  it leads to is a regular file. \<open>fh_open\<close> has the flag \<open>NOFOLLOW\<close> as its first argument. \<open>fh_read n f\<close>
  reads the next bytes of \<open>f\<close> to the end, at most \<open>n\<close>. \<open>fh_create\<close> starts an atomic replacement of a
  file, which preserves the owner; \<open>fh_commit\<close> publishes what has been written to it.
\<close>

record 'w file_host =
  fh_linux :: "'w linux_fs"
  fh_threads :: "'w watch_host"
  fh_symlink_metadata :: "path \<Rightarrow> 'w \<Rightarrow> (io_error + bool) \<times> 'w"
  fh_read_link :: "path \<Rightarrow> 'w \<Rightarrow> (io_error + string) \<times> 'w"
  fh_metadata :: "path \<Rightarrow> 'w \<Rightarrow> (io_error + bool) \<times> 'w"
  fh_open :: "bool \<Rightarrow> path \<Rightarrow> 'w \<Rightarrow> (io_error + nat) \<times> 'w"
  fh_stat :: "nat \<Rightarrow> 'w \<Rightarrow> (io_error + file_stat) \<times> 'w"
  fh_read :: "nat \<Rightarrow> nat \<Rightarrow> 'w \<Rightarrow> (io_error + bytes) \<times> 'w"
  fh_list_xattr :: "nat \<Rightarrow> 'w \<Rightarrow> xattr_names \<times> 'w"
  fh_create :: "path \<Rightarrow> 'w \<Rightarrow> (io_error + nat) \<times> 'w"
  fh_write_all :: "nat \<Rightarrow> bytes \<Rightarrow> 'w \<Rightarrow> (io_error + unit) \<times> 'w"
  fh_set_permissions :: "nat \<Rightarrow> u32 \<Rightarrow> 'w \<Rightarrow> (io_error + unit) \<times> 'w"
  fh_sync_all :: "nat \<Rightarrow> 'w \<Rightarrow> (io_error + unit) \<times> 'w"
  fh_commit :: "nat \<Rightarrow> 'w \<Rightarrow> (io_error + unit) \<times> 'w"
  fh_remove_file :: "path \<Rightarrow> 'w \<Rightarrow> (io_error + unit) \<times> 'w"

text \<open>\<open>fsync_dir\<close> of \<open>fsutil.rs\<close>.\<close>

definition fsync_dir :: "'w file_host \<Rightarrow> path \<Rightarrow> ('w, unit) tx" where
  "fsync_dir F p = bind_tx (io_call (fh_open F False p)) (\<lambda>f. io_call (fh_sync_all F f))"

definition storage_budget :: nat where
  "storage_budget = 16 * 1024 * 1024"

definition is_not_found :: "error \<Rightarrow> bool" where
  "is_not_found e = (case e of Io k _ \<Rightarrow> k = NotFound | _ \<Rightarrow> False)"

section \<open>Who writes the resolver file\<close>

definition RESOLV_CONF_PATH :: path where
  "RESOLV_CONF_PATH = Path True [''etc'', ''resolv.conf'']"

definition OPENRESOLV_SIGNATURE :: string where
  "OPENRESOLV_SIGNATURE = ''# Generated by resolvconf''"

datatype resolv_conf_state = Missing | Unmanaged | OpenResolv | Foreign

definition read_config :: "'w file_host \<Rightarrow> path \<Rightarrow> ('w, bytes) tx" where
  "read_config F p =
     bind_tx (io_call (fh_open F False p)) (\<lambda>f.
     bind_tx (io_call (fh_stat F f)) (\<lambda>st.
       if \<not> st_is_file st then throw (Io OtherKind ''configuration is not a regular file'')
       else bind_tx (io_call (fh_read F (storage_budget + 1) f)) (\<lambda>content.
         if length content > storage_budget then throw (Io OtherKind ''configuration exceeds the storage budget'')
         else return_tx content)))"

definition has_openresolv_signature :: "bytes \<Rightarrow> bool" where
  "has_openresolv_signature content \<longleftrightarrow> hd (split_on 10 content) = into_bytes OPENRESOLV_SIGNATURE"

text \<open>\<open>str::lines\<close>, \<open>str::contains\<close> and \<open>to_ascii_lowercase\<close>.\<close>

definition text_of :: "bytes \<Rightarrow> string" where
  "text_of = map (\<lambda>b. char_of (unat b))"

definition lines_of :: "string \<Rightarrow> string list" where
  "lines_of s =
     (let ls = split_on (char_of (10::nat)) s;
          ls = (if last ls = [] then butlast ls else ls)
      in map (\<lambda>l. case strip_suffix [char_of (13::nat)] l of Some t \<Rightarrow> t | None \<Rightarrow> l) ls)"

fun contains :: "string \<Rightarrow> string \<Rightarrow> bool" where
  "contains pat [] = (pat = [])"
| "contains pat (c # cs) = (strip_prefix pat (c # cs) \<noteq> None \<or> contains pat cs)"

definition ascii_lowercase :: "string \<Rightarrow> string" where
  "ascii_lowercase = map (\<lambda>c. if is_upper c then char_of (of_char c + (32::nat)) else c)"

definition foreign_markers :: "string list" where
  "foreign_markers = [''generated by'', ''created by'', ''managed by'', ''dhclient'', ''dhcpcd'']"

definition has_foreign_manager_marker :: "bytes \<Rightarrow> bool" where
  "has_foreign_manager_marker content \<longleftrightarrow>
     list_ex (\<lambda>line. list_ex (\<lambda>m. contains m (ascii_lowercase line)) foreign_markers)
       (take 5 (lines_of (text_of content)))"

definition classify_parts :: "string option \<Rightarrow> bytes option \<Rightarrow> resolv_conf_state" where
  "classify_parts link content =
     (if link \<noteq> None
      then (if (case content of Some c \<Rightarrow> has_openresolv_signature c | None \<Rightarrow> False) then OpenResolv else Foreign)
      else case content of
        None \<Rightarrow> Missing
      | Some c \<Rightarrow>
          if has_openresolv_signature c then OpenResolv
          else if has_foreign_manager_marker c then Foreign
          else Unmanaged)"

definition classify_content :: "'w file_host \<Rightarrow> path \<Rightarrow> string option \<Rightarrow> ('w, resolv_conf_state) tx" where
  "classify_content F p link =
     match_tx (io_call (fh_metadata F p))
       (\<lambda>target_is_file. if \<not> target_is_file then return_tx Foreign
          else match_tx (read_config F p)
            (\<lambda>content. return_tx (classify_parts link (Some content)))
            (\<lambda>e. return_tx (if is_not_found e then classify_parts link None else Foreign)))
       (\<lambda>e. return_tx Foreign)"

definition classify :: "'w file_host \<Rightarrow> path \<Rightarrow> ('w, resolv_conf_state) tx" where
  "classify F p =
     match_tx (io_call (fh_symlink_metadata F p))
       (\<lambda>is_symlink. bind_tx (if is_symlink then ok_tx (io_call (fh_read_link F p)) else return_tx None)
          (classify_content F p))
       (\<lambda>e. return_tx (if is_not_found e then Missing else Foreign))"

end
