(* ===== verification/Unix_Direct.thy ===== *)
theory Unix_Direct
  imports Unix_Files Journal Backend
begin

text \<open>
  The backend of a resolver file that nobody else manages: \<open>platform/unix/direct.rs\<close> and the policy
  of Linux, \<open>platform/linux/direct.rs\<close>. The trait \<open>DirectPolicy\<close> is the record \<open>direct_policy\<close>; the
  closure by which \<open>write\<close> verifies the current state before it publishes is a computation it runs.
\<close>

section \<open>Policies\<close>

text \<open>The last argument but one of \<open>dp_watch\<close> is the mapper from paths to resources.\<close>

record 'w direct_policy =
  dp_check_usable :: "path \<Rightarrow> ('w, unit) tx"
  dp_metadata :: "nat \<Rightarrow> ('w, file_metadata) tx"
  dp_write :: "path \<Rightarrow> bytes \<Rightarrow> file_metadata option \<Rightarrow> bool \<Rightarrow> ('w, unit) tx \<Rightarrow> ('w, unit) tx"
  dp_metadata_equivalent :: "file_metadata option \<Rightarrow> file_metadata option \<Rightarrow> bool"
  dp_mutation_metadata_preserved :: "file_metadata option \<Rightarrow> file_metadata option \<Rightarrow> bool"
  dp_list_interfaces :: "('w, interface_info list) tx"
  dp_watch_directory :: "backend_kind \<Rightarrow> path list \<Rightarrow> resource_id list \<Rightarrow> (path \<Rightarrow> resource_id option) \<Rightarrow>
    ('w, watch_id) tx"
  dp_validate_plan :: "normalized_config \<Rightarrow> unit result"
  dp_resource :: resource_id

record 'w direct_resolv_conf =
  dr_path :: path
  dr_resource :: resource_id
  dr_caps :: capabilities
  dr_policy :: "'w direct_policy"

definition direct_capabilities :: capabilities where
  "direct_capabilities =
     with_resource_binding PreflightOnly (with_cache_flush False (with_watch True (with_split_dns False
     (with_search_domains True (with_per_interface_dns False (with_global_dns True (with_read True
     (capabilities_new ResolvConfFile))))))))"

definition direct_new :: "path \<Rightarrow> 'w direct_policy \<Rightarrow> 'w direct_resolv_conf" where
  "direct_new p P = \<lparr> dr_path = p, dr_resource = dp_resource P, dr_caps = direct_capabilities, dr_policy = P \<rparr>"

section \<open>Reading\<close>

text \<open>\<open>before.modified()? != after.modified()?\<close> fails if either time cannot be read.\<close>

definition same_modified :: "file_stat \<Rightarrow> file_stat \<Rightarrow> bool result" where
  "same_modified a b = (case (st_modified a, st_modified b) of
       (Inl (k, e), _) \<Rightarrow> Inl (Io k e)
     | (_, Inl (k, e)) \<Rightarrow> Inl (Io k e)
     | (Inr s, Inr t) \<Rightarrow> Inr (s = t))"

text \<open>Whether the file changed while it was read; \<open>||\<close> evaluates its operands in turn.\<close>

definition changed_during_capture ::
  "'w direct_policy \<Rightarrow> nat \<Rightarrow> file_metadata \<Rightarrow> file_stat \<Rightarrow> file_stat \<Rightarrow> ('w, bool) tx" where
  "changed_during_capture P f metadata a b =
     (if st_len a \<noteq> st_len b then return_tx True
      else bind_tx (lift_result (same_modified a b)) (\<lambda>same.
        if \<not> same then return_tx True
        else if st_ctime a \<noteq> st_ctime b then return_tx True
        else bind_tx (dp_metadata P f) (\<lambda>now. return_tx (metadata \<noteq> now))))"

definition read_open_file :: "'w file_host \<Rightarrow> 'w direct_resolv_conf \<Rightarrow> nat \<Rightarrow> ('w, direct_snapshot) tx" where
  "read_open_file F B f =
     bind_tx (io_call (fh_stat F f)) (\<lambda>before.
     if \<not> st_is_file before
     then throw (UnsafeFilesystem ''resolver configuration is not a regular file'')
     else
       bind_tx (dp_metadata (dr_policy B) f) (\<lambda>metadata.
       bind_tx (io_call (fh_read F (storage_budget + 1) f)) (\<lambda>content.
       if length content > storage_budget
       then throw (Unsupported ResolvConfFile ''resolver configuration exceeds the storage budget'')
       else
         bind_tx (io_call (fh_stat F f)) (\<lambda>after.
         bind_tx (changed_during_capture (dr_policy B) f metadata before after) (\<lambda>changed.
         if changed
         then throw (ResourcePlatform ResolvConfFile (dr_resource B) ''resolver configuration changed during capture'')
         else return_tx \<lparr> ds_content = Some content, ds_metadata = Some metadata \<rparr>)))))"

definition read_current :: "'w file_host \<Rightarrow> 'w direct_resolv_conf \<Rightarrow> ('w, direct_snapshot) tx" where
  "read_current F B =
     seq_tx (dp_check_usable (dr_policy B) (dr_path B)) (
     match_tx (io_call (fh_open F True (dr_path B))) (read_open_file F B)
       (\<lambda>e. if is_not_found e then return_tx \<lparr> ds_content = None, ds_metadata = None \<rparr> else throw e))"

section \<open>Writing\<close>

definition verify_expected :: "'w file_host \<Rightarrow> 'w direct_resolv_conf \<Rightarrow> direct_snapshot \<Rightarrow> ('w, unit) tx" where
  "verify_expected F B expected =
     bind_tx (read_current F B) (\<lambda>current.
     if current \<noteq> expected
     then throw (ExternalModification (dr_resource B) ''resolv.conf changed before publication'')
     else return_tx ())"

definition write_content ::
  "'w file_host \<Rightarrow> 'w direct_resolv_conf \<Rightarrow> bytes \<Rightarrow> direct_snapshot \<Rightarrow> bool \<Rightarrow> direct_snapshot \<Rightarrow> ('w, unit) tx" where
  "write_content F B content snapshot restore_modified_time expected =
     seq_tx (dp_check_usable (dr_policy B) (dr_path B)) (
     dp_write (dr_policy B) (dr_path B) content (ds_metadata snapshot) restore_modified_time (verify_expected F B expected))"

definition direct_apply_snapshot ::
  "'w file_host \<Rightarrow> 'w direct_resolv_conf \<Rightarrow> direct_snapshot \<Rightarrow> normalized_config \<Rightarrow> ('w, unit) tx" where
  "direct_apply_snapshot F B current plan =
     (let desired = build_resolv_conf_content plan in
      seq_tx (write_content F B desired current False current) (
      bind_tx (read_current F B) (\<lambda>observed.
      if ds_content observed = Some desired \<and>
         dp_mutation_metadata_preserved (dr_policy B) (ds_metadata current) (ds_metadata observed)
      then return_tx ()
      else throw (ResourcePlatform ResolvConfFile (dr_resource B)
        (if ds_content observed = Some desired
         then ''resolv.conf metadata changed before write verification completed''
         else ''resolv.conf changed before write verification completed'')))))"

definition remove_current :: "'w file_host \<Rightarrow> 'w direct_resolv_conf \<Rightarrow> ('w, unit) tx" where
  "remove_current F B =
     seq_tx (dp_check_usable (dr_policy B) (dr_path B)) (
     match_tx (io_call (fh_remove_file F (dr_path B)))
       (\<lambda>_. case path_parent (dr_path B) of None \<Rightarrow> return_tx () | Some parent \<Rightarrow> fsync_dir F parent)
       (\<lambda>e. if is_not_found e then return_tx () else throw e))"

definition to_direct_snapshot :: "resource_id \<Rightarrow> direct_snapshot \<Rightarrow> platform_snapshot" where
  "to_direct_snapshot r d = snapshot_new ResolvConfFile r (SnapResolvConfFile d)"

definition from_direct_snapshot :: "platform_snapshot \<Rightarrow> direct_snapshot result" where
  "from_direct_snapshot s = (case ps_data s of
       SnapResolvConfFile d \<Rightarrow> bind_r (direct_validate d) (\<lambda>_. Inr d)
     | _ \<Rightarrow> Inl (JournalCorrupt ''resolv.conf snapshot has the wrong backend data''))"

section \<open>The backend\<close>

definition direct_resolve :: "'w direct_resolv_conf \<Rightarrow> dns_scope \<Rightarrow> normalized_config \<Rightarrow> ('w, resource_id list) tx" where
  "direct_resolve B scope plan = (case scope of
       Global \<Rightarrow> return_tx [dr_resource B]
     | Interface _ \<Rightarrow>
         throw (Unsupported ResolvConfFile ''per-interface DNS is not representable in /etc/resolv.conf''))"

definition direct_status :: "'w direct_resolv_conf \<Rightarrow> resource_identity \<Rightarrow> ('w, resource_status) tx" where
  "direct_status B i =
     (if id_backend i \<noteq> ResolvConfFile \<or> id_resource i \<noteq> dr_resource B \<or> id_data i \<noteq> Untracked
      then throw (JournalCorrupt ''resolver identity does not name this backend's file resource'')
      else return_tx Same)"

definition direct_capture :: "'w file_host \<Rightarrow> 'w direct_resolv_conf \<Rightarrow> resource_id \<Rightarrow> ('w, platform_snapshot) tx" where
  "direct_capture F B r =
     bind_tx (read_current F B) (\<lambda>d. return_tx (to_direct_snapshot (dr_resource B) d))"

definition targets_resource :: "'w direct_resolv_conf \<Rightarrow> platform_snapshot \<Rightarrow> bool" where
  "targets_resource B s \<longleftrightarrow> ps_resource s = dr_resource B \<and> ps_backend s = ResolvConfFile"

text \<open>The closures \<open>preparation\<close> of \<open>apply_bound\<close> and \<open>restore_bound\<close>.\<close>

definition prepare_apply ::
  "'w file_host \<Rightarrow> 'w direct_resolv_conf \<Rightarrow> resource_identity \<Rightarrow> platform_snapshot \<Rightarrow> ('w, direct_snapshot) tx" where
  "prepare_apply F B i expected =
     seq_tx (direct_status B i) (
     if \<not> targets_resource B expected
     then throw (JournalCorrupt ''resolver snapshot targets a different resource'')
     else
       bind_tx (lift_result (from_direct_snapshot expected)) (\<lambda>e.
       seq_tx (verify_expected F B e) (return_tx e)))"

definition prepare_restore ::
  "'w file_host \<Rightarrow> 'w direct_resolv_conf \<Rightarrow> resource_identity \<Rightarrow> platform_snapshot \<Rightarrow> platform_snapshot \<Rightarrow>
   ('w, direct_snapshot \<times> direct_snapshot) tx" where
  "prepare_restore F B i expected target =
     seq_tx (direct_status B i) (
     if \<not> targets_resource B expected \<or> \<not> targets_resource B target
     then throw (JournalCorrupt ''resolver snapshot targets a different resource'')
     else
       bind_tx (lift_result (from_direct_snapshot expected)) (\<lambda>e.
       bind_tx (lift_result (from_direct_snapshot target)) (\<lambda>t.
       seq_tx (verify_expected F B e) (return_tx (e, t)))))"

definition direct_apply_bound ::
  "'w file_host \<Rightarrow> 'w direct_resolv_conf \<Rightarrow> resource_identity \<Rightarrow> platform_snapshot \<Rightarrow> normalized_config \<Rightarrow>
   ('w, mutation_attempt) tx" where
  "direct_apply_bound F B i expected plan =
     match_tx (prepare_apply F B i expected)
       (\<lambda>e. bind_tx (try_tx (direct_apply_snapshot F B e plan)) (\<lambda>r. return_tx (from_apply_result r)))
       (\<lambda>e. return_tx (Rejected e))"

definition restore_content ::
  "'w file_host \<Rightarrow> 'w direct_resolv_conf \<Rightarrow> direct_snapshot \<Rightarrow> direct_snapshot \<Rightarrow> ('w, unit) tx" where
  "restore_content F B expected target = (case ds_content target of
       Some content \<Rightarrow> write_content F B content target True expected
     | None \<Rightarrow> seq_tx (verify_expected F B expected) (remove_current F B))"

definition direct_restore_bound ::
  "'w file_host \<Rightarrow> 'w direct_resolv_conf \<Rightarrow> resource_identity \<Rightarrow> platform_snapshot \<Rightarrow> platform_snapshot \<Rightarrow>
   ('w, mutation_attempt) tx" where
  "direct_restore_bound F B i expected target =
     match_tx (prepare_restore F B i expected target)
       (\<lambda>(e, t). match_tx (restore_content F B e t)
          (\<lambda>_. return_tx (Performed None))
          (\<lambda>e. return_tx (Indeterminate e None)))
       (\<lambda>e. return_tx (Rejected e))"

definition direct_equivalent :: "'w direct_resolv_conf \<Rightarrow> platform_snapshot \<Rightarrow> platform_snapshot \<Rightarrow> bool" where
  "direct_equivalent B a b = (case (from_direct_snapshot a, from_direct_snapshot b) of
       (Inr x, Inr y) \<Rightarrow> ds_content x = ds_content y \<and>
         dp_metadata_equivalent (dr_policy B) (ds_metadata x) (ds_metadata y)
     | _ \<Rightarrow> False)"

definition direct_matches_desired :: "platform_snapshot \<Rightarrow> normalized_config \<Rightarrow> bool" where
  "direct_matches_desired s plan = (case from_direct_snapshot s of
       Inl _ \<Rightarrow> False
     | Inr current \<Rightarrow> ds_content current = Some (build_resolv_conf_content plan))"

definition direct_public_state ::
  "conf_parser \<Rightarrow> idna \<Rightarrow> platform_snapshot \<Rightarrow> dns_scope \<Rightarrow> dns_config result" where
  "direct_public_state parse_conf to_ascii s scope =
     bind_r (from_direct_snapshot s) (\<lambda>d. case ds_content d of
         None \<Rightarrow> Inr (from_parts scope [] [] [] None)
       | Some content \<Rightarrow>
           bind_r (parse_resolv_conf_content parse_conf to_ascii content) (\<lambda>(nameservers, search).
             Inr (from_parts scope nameservers search [] None)))"

definition direct_mapper :: "'w direct_resolv_conf \<Rightarrow> path \<Rightarrow> resource_id option" where
  "direct_mapper B p =
     (let file_name = (case path_file_name (dr_path B) of Some n \<Rightarrow> n | None \<Rightarrow> ''resolv.conf'')
      in if path_file_name p = Some file_name then Some (dr_resource B) else None)"

definition direct_start_watch :: "'w direct_resolv_conf \<Rightarrow> ('w, watch_id) tx" where
  "direct_start_watch B =
     (let parent = (case path_parent (dr_path B) of Some p \<Rightarrow> p | None \<Rightarrow> Path True [''etc''])
      in dp_watch_directory (dr_policy B) ResolvConfFile [parent] [dr_resource B] (direct_mapper B))"

definition direct_backend :: "conf_parser \<Rightarrow> idna \<Rightarrow> 'w file_host \<Rightarrow> 'w direct_resolv_conf \<Rightarrow> 'w backend" where
  "direct_backend parse_conf to_ascii F B =
     (let P = \<lparr>
        bk_kind = ResolvConfFile, bk_caps = dr_caps B, bk_resolve = direct_resolve B,
        bk_identify = identify_default ResolvConfFile, bk_status = direct_status B, bk_capture = direct_capture F B,
        bk_readback = direct_capture F B, bk_apply = apply_default ResolvConfFile,
        bk_restore = restore_default ResolvConfFile,
        bk_apply_guarded = (\<lambda>_ _ _. guarded_default ResolvConfFile),
        bk_restore_guarded = (\<lambda>_ _ _. guarded_default ResolvConfFile),
        bk_proves_current = proves_current_default, bk_equivalent = direct_equivalent B,
        bk_matches_desired = direct_matches_desired,
        bk_validate_plan = (\<lambda>_. dp_validate_plan (dr_policy B)),
        bk_public_state = direct_public_state parse_conf to_ascii, bk_interfaces = dp_list_interfaces (dr_policy B),
        bk_start_watch = direct_start_watch B,
        bk_stop_watch = (\<lambda>i. modify_tx (wt_stop (fh_threads F) i)),
        bk_watch_active = wt_active (fh_threads F),
        bk_flush_cache = flush_cache_default ResolvConfFile \<rparr>
      in (with_default_bounds P)\<lparr>bk_apply_bound := direct_apply_bound F B, bk_restore_bound := direct_restore_bound F B\<rparr>)"

section \<open>The policy of Linux\<close>

definition linux_check_usable :: "'w file_host \<Rightarrow> path \<Rightarrow> ('w, unit) tx" where
  "linux_check_usable F p = bind_tx (classify F p) (\<lambda>state. case state of
       Missing \<Rightarrow> return_tx ()
     | Unmanaged \<Rightarrow> return_tx ()
     | OpenResolv \<Rightarrow> throw (Unsupported ResolvConfFile ''/etc/resolv.conf is managed by resolvconf'')
     | Foreign \<Rightarrow>
         throw (Unsupported ResolvConfFile ''/etc/resolv.conf is managed by another DNS configuration system''))"

definition metadata_of :: "file_stat \<Rightarrow> file_metadata" where
  "metadata_of st = \<lparr> fm_mode = st_mode st, fm_owner = Some \<lparr> fo_uid = st_uid st, fo_gid = st_gid st \<rparr>,
     fm_flags = None, fm_links = Some (st_nlink st), fm_modified = None \<rparr>"

definition linux_metadata :: "'w file_host \<Rightarrow> nat \<Rightarrow> ('w, file_metadata) tx" where
  "linux_metadata F f =
     bind_tx (io_call (fh_stat F f)) (\<lambda>st.
     if \<not> st_is_file st \<or> st_nlink st \<noteq> 1
     then throw (UnsafeFilesystem ''resolver configuration must be a single-link regular file'')
     else return_tx (metadata_of st))"

definition reject_extended_attributes :: "'w file_host \<Rightarrow> nat \<Rightarrow> ('w, unit) tx" where
  "reject_extended_attributes F f = bind_tx (sys_call (fh_list_xattr F f)) (\<lambda>r. case r of
       XattrLength n \<Rightarrow> if n = 0 then return_tx ()
         else throw (Unsupported ResolvConfFile
           ''the atomic writer cannot preserve resolver extended attributes or ACLs'')
     | XattrNotSupported \<Rightarrow> return_tx ()
     | XattrFailed (k, e) \<Rightarrow> throw (Io k e))"

definition linux_write ::
  "'w file_host \<Rightarrow> path \<Rightarrow> bytes \<Rightarrow> file_metadata option \<Rightarrow> bool \<Rightarrow> ('w, unit) tx \<Rightarrow> ('w, unit) tx" where
  "linux_write F p content metadata restore_modified_time verify =
     seq_tx (match_tx (io_call (fh_open F True p)) (reject_extended_attributes F)
       (\<lambda>e. if is_not_found e then return_tx () else throw e)) (
     bind_tx (io_call (fh_create F p)) (\<lambda>f.
     seq_tx (reject_extended_attributes F f) (
     seq_tx (io_call (fh_write_all F f content)) (
     seq_tx (case metadata of Some m \<Rightarrow> io_call (fh_set_permissions F f (fm_mode m)) | None \<Rightarrow> return_tx ()) (
     seq_tx (io_call (fh_sync_all F f)) (
     seq_tx verify (
     io_call (fh_commit F f))))))))"

definition linux_metadata_preserved :: "file_metadata option \<Rightarrow> file_metadata option \<Rightarrow> bool" where
  "linux_metadata_preserved a b = (case a of None \<Rightarrow> True | Some m \<Rightarrow> (case b of None \<Rightarrow> False | Some n \<Rightarrow> m = n))"

end
