(* ===== verification/Linux_Watch.thy ===== *)
theory Linux_Watch
  imports Unix_Direct
begin

text \<open>
  \<open>platform/linux/watch.rs\<close>: watching directories through inotify (packages \<open>inotify\<close> and \<open>rustix\<close>,
  the parameter \<open>inotify_host\<close>), and the policy of Linux for a resolver file, which uses it. The
  thread is a function from what \<open>poll\<close> and \<open>read_events\<close> yield to what it does next. A \<open>HashSet\<close> is a
  list without duplicates, in the order in which it is iterated; a descriptor of a watch is a number.
\<close>

section \<open>What inotify reports\<close>

record inotify_event =
  ie_watch :: nat
  ie_ignored :: bool
  ie_delete_self :: bool
  ie_move_self :: bool
  ie_overflow :: bool
  ie_delete :: bool
  ie_moved_from :: bool
  ie_name :: "string option"

text \<open>
  One round of the loop: a failed \<open>poll\<close>, or which of the two descriptors has something to report,
  an error on the first included, and the events that are then read.
\<close>

datatype poll_round =
    PollInterrupted
  | PollFailed
  | PollReady bool bool "inotify_event list option"

record 'w inotify_host =
  in_files :: "'w file_host"
  in_init :: "'w \<Rightarrow> (io_error + nat) \<times> 'w"
  in_add :: "nat \<Rightarrow> path \<Rightarrow> 'w \<Rightarrow> (io_error + nat) \<times> 'w"
  in_pipe :: "'w \<Rightarrow> (io_error + unit) \<times> 'w"
  in_read_dir :: "path \<Rightarrow> 'w \<Rightarrow> (io_error + (io_error + string) list) \<times> 'w"

definition inotify_error :: "backend_kind \<Rightarrow> error" where
  "inotify_error kind = PlatformError kind ''inotify error''"

section \<open>Scanning\<close>

fun scan_entries ::
  "path \<Rightarrow> (path \<Rightarrow> resource_id option) \<Rightarrow> (io_error + string) list \<Rightarrow> resource_id list \<Rightarrow> resource_id list result" where
  "scan_entries dir mapper [] found = Inr found"
| "scan_entries dir mapper (Inl (k, e) # es) found = Inl (Io k e)"
| "scan_entries dir mapper (Inr name # es) found =
     scan_entries dir mapper es (case mapper (path_join dir name) of
         Some r \<Rightarrow> push_unique found r | None \<Rightarrow> found)"

fun scan_from ::
  "'w inotify_host \<Rightarrow> (path \<Rightarrow> resource_id option) \<Rightarrow> path list \<Rightarrow> resource_id list \<Rightarrow> ('w, resource_id list) tx" where
  "scan_from N mapper [] found = return_tx found"
| "scan_from N mapper (dir # dirs) found =
     match_tx (io_call (in_read_dir N dir))
       (\<lambda>entries. bind_tx (lift_result (scan_entries dir mapper entries found)) (scan_from N mapper dirs))
       (\<lambda>e. if is_not_found e then scan_from N mapper dirs found else throw e)"

definition scan :: "'w inotify_host \<Rightarrow> path list \<Rightarrow> (path \<Rightarrow> resource_id option) \<Rightarrow> ('w, resource_id list) tx" where
  "scan N dirs mapper = scan_from N mapper dirs []"

text \<open>\<open>HashSet::union\<close>.\<close>

definition union_of :: "'a list \<Rightarrow> 'a list \<Rightarrow> 'a list" where
  "union_of xs ys = xs @ filter (\<lambda>y. y \<notin> set xs) ys"

definition resync_events :: "resource_id list \<Rightarrow> resource_id list \<Rightarrow> dns_event list" where
  "resync_events known current =
     map (\<lambda>r. if r \<in> set current then ResourceChanged r else ResourceRemoved r) (union_of known current)"

section \<open>The watching thread\<close>

record watch_thread =
  wd_dirs :: "path list"
  wd_mapper :: "path \<Rightarrow> resource_id option"
  wd_watched :: "nat \<rightharpoonup> path"
  wd_seeds :: "resource_id list"

text \<open>
  One event: the resources known afterwards and what is reported, or \<open>None\<close> when the thread returns.
\<close>

definition on_inotify_event ::
  "'w inotify_host \<Rightarrow> watch_thread \<Rightarrow> resource_id list \<Rightarrow> inotify_event \<Rightarrow>
   ('w, (resource_id list \<times> dns_event list) option) tx" where
  "on_inotify_event N T known e =
     (if ie_ignored e \<or> ie_delete_self e \<or> ie_move_self e then return_tx None
      else if ie_overflow e then
        match_tx (scan N (wd_dirs T) (wd_mapper T))
          (\<lambda>current. return_tx (Some (union_of (wd_seeds T) current, resync_events known current)))
          (\<lambda>_. return_tx (Some (known, map ResourceChanged known)))
      else (case ie_name e of
          None \<Rightarrow> return_tx (Some (known, []))
        | Some name \<Rightarrow> (case wd_watched T (ie_watch e) of
              None \<Rightarrow> return_tx (Some (known, []))
            | Some dir \<Rightarrow> (case wd_mapper T (path_join dir name) of
                  None \<Rightarrow> return_tx (Some (known, []))
                | Some r \<Rightarrow>
                    if ie_delete e \<or> ie_moved_from e
                    then return_tx (Some (filter (\<lambda>x. x \<noteq> r) known, [ResourceRemoved r]))
                    else return_tx (Some (push_unique known r, [ResourceChanged r]))))))"

fun on_inotify_events ::
  "'w inotify_host \<Rightarrow> watch_thread \<Rightarrow> inotify_event list \<Rightarrow> resource_id list \<times> dns_event list \<Rightarrow>
   ('w, resource_id list option \<times> dns_event list) tx" where
  "on_inotify_events N T [] (known, out) = return_tx (Some known, out)"
| "on_inotify_events N T (e # es) (known, out) =
     bind_tx (on_inotify_event N T known e) (\<lambda>r. case r of
         None \<Rightarrow> return_tx (None, out)
       | Some (known, events) \<Rightarrow> on_inotify_events N T es (known, out @ events))"

text \<open>One round: what is known afterwards, \<open>None\<close> if the thread ends, and the events reported.\<close>

definition watch_round ::
  "'w inotify_host \<Rightarrow> watch_thread \<Rightarrow> bool \<Rightarrow> resource_id list \<Rightarrow> poll_round \<Rightarrow>
   ('w, resource_id list option \<times> dns_event list) tx" where
  "watch_round N T stopped known polled = (case polled of
       PollInterrupted \<Rightarrow> return_tx (Some known, [])
     | PollFailed \<Rightarrow> return_tx (None, [])
     | PollReady cancelled broken events \<Rightarrow>
         if cancelled \<or> stopped then return_tx (None, [])
         else if broken then return_tx (None, [])
         else (case events of
             None \<Rightarrow> return_tx (None, [])
           | Some es \<Rightarrow> on_inotify_events N T es (known, [])))"

section \<open>Starting\<close>

fun add_watches ::
  "'w inotify_host \<Rightarrow> backend_kind \<Rightarrow> nat \<Rightarrow> path list \<Rightarrow> (nat \<rightharpoonup> path) \<Rightarrow> ('w, nat \<rightharpoonup> path) tx" where
  "add_watches N kind inotify [] watched = return_tx watched"
| "add_watches N kind inotify (dir # dirs) watched =
     match_tx (io_call (in_add N inotify dir))
       (\<lambda>wd. add_watches N kind inotify dirs (watched(wd \<mapsto> dir)))
       (\<lambda>_. throw (inotify_error kind))"

text \<open>The thread and the resources it starts with.\<close>

definition prepare_watch ::
  "'w inotify_host \<Rightarrow> backend_kind \<Rightarrow> path list \<Rightarrow> resource_id list \<Rightarrow> (path \<Rightarrow> resource_id option) \<Rightarrow>
   ('w, watch_thread \<times> resource_id list) tx" where
  "prepare_watch N kind dirs initial mapper =
     (if dirs = [] then throw (PlatformError kind ''cannot create a watcher without a directory'')
      else
        bind_tx (match_tx (io_call (in_init N)) return_tx (\<lambda>_. throw (inotify_error kind))) (\<lambda>inotify.
        bind_tx (add_watches N kind inotify dirs Map.empty) (\<lambda>watched.
        seq_tx (io_call (in_pipe N)) (
        bind_tx (scan N dirs mapper) (\<lambda>found.
        let seeds = remdups initial in
        return_tx (\<lparr> wd_dirs = dirs, wd_mapper = mapper, wd_watched = watched, wd_seeds = seeds \<rparr>,
          dedup_push seeds found))))))"

definition watch_directories ::
  "'w inotify_host \<Rightarrow> backend_kind \<Rightarrow> path list \<Rightarrow> resource_id list \<Rightarrow> (path \<Rightarrow> resource_id option) \<Rightarrow>
   ('w, watch_id) tx" where
  "watch_directories N kind dirs initial mapper =
     seq_tx (prepare_watch N kind dirs initial mapper) (
     match_tx (io_call (wt_spawn (fh_threads (in_files N)))) return_tx
       (\<lambda>_. throw (PlatformError kind ''cannot spawn watch thread'')))"

section \<open>The policy of Linux\<close>

definition linux_policy :: "'w inotify_host \<Rightarrow> 'w direct_policy" where
  "linux_policy N = (let F = in_files N in
     \<lparr> dp_check_usable = linux_check_usable F, dp_metadata = linux_metadata F, dp_write = linux_write F,
       dp_metadata_equivalent = (=), dp_mutation_metadata_preserved = linux_metadata_preserved,
       dp_list_interfaces = list_interfaces (fh_linux F), dp_watch_directory = watch_directories N,
       dp_validate_plan = (\<lambda>_. Inr ()), dp_resource = ResourceId ''linux:resolv-conf'' \<rparr>)"

definition linux_direct :: "'w inotify_host \<Rightarrow> 'w direct_resolv_conf" where
  "linux_direct N = direct_new RESOLV_CONF_PATH (linux_policy N)"

end
