(* ===== verification/Unix_Direct_Contract.thy ===== *)
theory Unix_Direct_Contract
  imports Unix_Direct Linux_Contract
begin

text \<open>
  What the direct backend needs of the file system (locale \<open>file_system\<close>) and of its policy (locale
  \<open>resolver_policy\<close>), what its operations do where both keep their promises, and that the policy of
  Linux keeps its own.
\<close>

section \<open>The file system\<close>

text \<open>
  Reading changes nothing of interest, which \<open>same\<close> relates states by.
\<close>

locale reading_files =
  fixes F :: "'w file_host" and same :: "'w \<Rightarrow> 'w \<Rightarrow> bool"
  assumes same_refl: "same w w"
    and same_trans: "same u v \<Longrightarrow> same v w \<Longrightarrow> same u w"
    and reads_same: "same w (snd (fh_symlink_metadata F p w))" "same w (snd (fh_read_link F p w))"
      "same w (snd (fh_metadata F p w))" "same w (snd (fh_open F b p w))" "same w (snd (fh_stat F f w))"
      "same w (snd (fh_read F n f w))" "same w (snd (fh_list_xattr F f w))" "same w (snd (fh_sync_all F f w))"
begin

text \<open>What holds of a state and of every one that is the same.\<close>

definition steady :: "('w \<Rightarrow> bool) \<Rightarrow> bool" where
  "steady I \<longleftrightarrow> (\<forall>v w. I v \<and> same v w \<longrightarrow> I w)"

lemma steady_same: "steady (same w)"
  unfolding steady_def using same_trans by blast

lemma quiet_io: "steady I \<Longrightarrow> (\<And>w. same w (snd (m w))) \<Longrightarrow> quiet I (io_call m)"
proof (unfold quiet_def, intro allI impI)
  fix w assume "steady I" "\<And>w. same w (snd (m w))" "I w"
  then have "I (snd (m w))" unfolding steady_def by blast
  then show "wp (io_call m) (quietly I) w"
    by (auto simp: wp_def io_call_def split: prod.splits sum.splits)
qed

lemma quiet_sys: "steady I \<Longrightarrow> (\<And>w. same w (snd (m w))) \<Longrightarrow> quiet I (sys_call m)"
proof (unfold quiet_def, intro allI impI)
  fix w assume "steady I" "\<And>w. same w (snd (m w))" "I w"
  then have "I (snd (m w))" unfolding steady_def by blast
  then show "wp (sys_call m) (quietly I) w" by (auto simp: wp_def sys_call_def split: prod.splits)
qed

lemmas quiet_reads [quiet_intros] =
  quiet_io[OF _ reads_same(1)] quiet_io[OF _ reads_same(2)] quiet_io[OF _ reads_same(3)] quiet_io[OF _ reads_same(4)]
  quiet_io[OF _ reads_same(5)] quiet_io[OF _ reads_same(6)] quiet_sys[OF _ reads_same(7)] quiet_io[OF _ reads_same(8)]

lemma quiet_read_config [quiet_intros]: "steady I \<Longrightarrow> quiet I (read_config F p)"
  unfolding read_config_def by (intro quiet_intros) simp_all

lemma quiet_classify [quiet_intros]: "steady I \<Longrightarrow> quiet I (classify F p)"
  unfolding classify_def classify_content_def by (intro quiet_intros) simp_all

lemma quiet_fsync_dir [quiet_intros]: "steady I \<Longrightarrow> quiet I (fsync_dir F p)"
  unfolding fsync_dir_def by (intro quiet_intros) simp_all

lemma quiet_reject [quiet_intros]: "steady I \<Longrightarrow> quiet I (reject_extended_attributes F f)"
  unfolding reject_extended_attributes_def
  by (rule quiet_bind, intro quiet_intros, simp) (auto split: xattr_names.splits intro!: quiet_intros)

end

text \<open>
  \<open>file_at w p\<close> is the regular file at \<open>p\<close>, if there is one; \<open>opened w f\<close> what the descriptor \<open>f\<close> reads
  from; \<open>pending w f\<close> the path and the bytes of the replacement that is being written through \<open>f\<close>.
  Between two states that are the same, nothing of this has changed. A commit publishes all of the
  replacement or nothing of it, even if it fails.
\<close>

locale file_system = reading_files F same for F :: "'w file_host" and same +
  fixes file_at :: "'w \<Rightarrow> path \<Rightarrow> (bytes \<times> file_stat) option"
    and opened :: "'w \<Rightarrow> nat \<Rightarrow> (bytes \<times> file_stat) option option"
    and pending :: "'w \<Rightarrow> nat \<Rightarrow> (path \<times> bytes) option"
  assumes same_file: "same v w \<Longrightarrow> file_at w = file_at v"
    and same_opened: "same v w \<Longrightarrow> opened v f = Some x \<Longrightarrow> opened w f = Some x"
    and same_pending: "same v w \<Longrightarrow> pending w = pending v"
    and open_file: "fh_open F True p w = (Inr f, w') \<Longrightarrow> opened w' f = Some (file_at w p)"
    and open_absent: "fh_open F True p w = (Inl (NotFound, e), w') \<Longrightarrow> file_at w p = None"
    and stat_file: "fh_stat F f w = (Inr st, w') \<Longrightarrow> st_is_file st \<Longrightarrow> opened w f = Some x \<Longrightarrow> \<exists>c. x = Some (c, st)"
    and read_file: "fh_read F n f w = (Inr bs, w') \<Longrightarrow> opened w f = Some (Some (c, st)) \<Longrightarrow> bs = take n c"
    and create_file: "fh_create F p w = (fd, w') \<Longrightarrow>
      file_at w' = file_at w \<and> (\<forall>f. fd = Inr f \<longrightarrow> pending w' f = Some (p, []))"
    and write_file: "fh_write_all F f bs w = (r, w') \<Longrightarrow> pending w f = Some (p, c) \<Longrightarrow>
      file_at w' = file_at w \<and> (r = Inr () \<longrightarrow> pending w' f = Some (p, c @ bs))"
    and chmod_file: "pending w f \<noteq> None \<Longrightarrow> same w (snd (fh_set_permissions F f mode w))"
    and commit_file: "fh_commit F f w = (r, w') \<Longrightarrow> pending w f = Some (p, c) \<Longrightarrow>
      (\<exists>st. file_at w' = (file_at w)(p \<mapsto> (c, st))) \<or> (\<exists>e. r = Inl e) \<and> file_at w' = file_at w"
    and remove_file: "fh_remove_file F p w = (r, w') \<Longrightarrow>
      file_at w' = (file_at w)(p := None) \<or> (\<exists>e. r = Inl e) \<and> file_at w' = file_at w"
    and remove_absent: "fh_remove_file F p w = (Inl (NotFound, e), w') \<Longrightarrow> file_at w' p = None"
begin

lemma steady_file: "steady I \<Longrightarrow> steady (\<lambda>w. I w \<and> file_at w = fl)"
  unfolding steady_def by (metis same_file)

lemma steady_opened: "steady I \<Longrightarrow> steady (\<lambda>w. I w \<and> opened w f = Some x)"
  unfolding steady_def using same_opened by blast

lemma yields_stat:
  assumes "steady I" "\<And>w. I w \<Longrightarrow> opened w f = Some x"
  shows "yields I (io_call (fh_stat F f)) (\<lambda>st. st_is_file st \<longrightarrow> (\<exists>c. x = Some (c, st)))"
  unfolding yields_def
proof (intro allI impI)
  fix w assume w: "I w"
  with assms(1) reads_same(5) have "I (snd (fh_stat F f w))" unfolding steady_def by blast
  with stat_file[OF _ _ assms(2)[OF w]]
  show "wp (io_call (fh_stat F f)) (\<lambda>res t. quietly I res t \<and> when_ok res (\<lambda>st. st_is_file st \<longrightarrow> (\<exists>c. x = Some (c, st)))) w"
    by (auto simp: wp_def io_call_def split: prod.splits sum.splits)
qed

lemma yields_read:
  assumes "steady I" "\<And>w. I w \<Longrightarrow> opened w f = Some x"
  shows "yields I (io_call (fh_read F n f)) (\<lambda>bs. \<forall>c st. x = Some (c, st) \<longrightarrow> bs = take n c)"
  unfolding yields_def
proof (intro allI impI)
  fix w assume w: "I w"
  with assms(1) reads_same(6) have "I (snd (fh_read F n f w))" unfolding steady_def by blast
  with read_file[OF _ assms(2)[OF w, THEN trans]]
  show "wp (io_call (fh_read F n f)) (\<lambda>res t. quietly I res t \<and> when_ok res (\<lambda>bs. \<forall>c st. x = Some (c, st) \<longrightarrow> bs = take n c)) w"
    by (auto simp: wp_def io_call_def split: prod.splits sum.splits)
qed

lemma wp_open:
  assumes "steady I" "I s"
  shows "wp (io_call (fh_open F True p)) (\<lambda>res t. I t \<and> res \<noteq> Crash \<and>
    (\<forall>f. res = Ok f \<longrightarrow> opened t f = Some (file_at s p)) \<and>
    (\<forall>e. res = Err e \<longrightarrow> \<not> is_external_modification e \<and> (is_not_found e \<longrightarrow> file_at s p = None))) s"
proof -
  have "I (snd (fh_open F True p s))" using assms reads_same(4) unfolding steady_def by blast
  then show ?thesis
    by (cases "fh_open F True p s")
       (auto simp: wp_def io_call_def is_not_found_def split: sum.splits dest: open_file open_absent)
qed

end

section \<open>The policy\<close>

text \<open>
  A write verifies first and then publishes: if it returns, what \<open>verify\<close> establishes held of the
  files just before, and the new content is in place; if it fails, either nothing has changed, or it
  is the publication that failed, which is not reported as an external modification.
\<close>

definition replaced_by :: "(path \<Rightarrow> (bytes \<times> file_stat) option) \<Rightarrow> path \<Rightarrow> bytes \<Rightarrow> (path \<Rightarrow> (bytes \<times> file_stat) option) \<Rightarrow> bool" where
  "replaced_by fs p content fs' \<longleftrightarrow> (\<exists>st. fs' = fs(p \<mapsto> (content, st)))"

definition write_done ::
  "(path \<Rightarrow> (bytes \<times> file_stat) option) \<Rightarrow> path \<Rightarrow> bytes \<Rightarrow> bool \<Rightarrow> unit outcome \<Rightarrow> (path \<Rightarrow> (bytes \<times> file_stat) option) \<Rightarrow> bool" where
  "write_done fs p content verified res fs' \<longleftrightarrow> (case res of
       Ok _ \<Rightarrow> verified \<and> replaced_by fs p content fs'
     | Err e \<Rightarrow> fs' = fs \<or> verified \<and> \<not> is_external_modification e \<and> replaced_by fs p content fs'
     | Crash \<Rightarrow> False)"

text \<open>A file as the backend captures it.\<close>

definition captured_file :: "(file_stat \<Rightarrow> file_metadata) \<Rightarrow> (bytes \<times> file_stat) option \<Rightarrow> direct_snapshot" where
  "captured_file metadata x = (case x of None \<Rightarrow> \<lparr> ds_content = None, ds_metadata = None \<rparr>
     | Some (c, st) \<Rightarrow> \<lparr> ds_content = Some c, ds_metadata = Some (metadata st) \<rparr>)"

locale resolver_policy = file_system F same file_at opened pending
  for F :: "'w file_host" and same file_at opened pending +
  fixes P :: "'w direct_policy" and metadata :: "file_stat \<Rightarrow> file_metadata"
  assumes usable: "steady I \<Longrightarrow> quiet I (dp_check_usable P p)"
    and metadata_read: "steady I \<Longrightarrow> (\<And>w. I w \<Longrightarrow> opened w f = Some x) \<Longrightarrow>
      yields I (dp_metadata P f) (\<lambda>m. \<exists>c st. x = Some (c, st) \<and> m = metadata st)"
    and metadata_valid: "fm_modified (metadata st) = Some t \<Longrightarrow> unat (ft_nanoseconds t) < 1000000000"
    and write_publishes: "(\<And>v. file_at v = file_at w \<Longrightarrow>
        wp verify (\<lambda>res u. same v u \<and> res \<noteq> Crash \<and> when_ok res (\<lambda>_. verified)) v) \<Longrightarrow>
      wp (dp_write P p content m mtime verify) (\<lambda>res w'. write_done (file_at w) p content verified res (file_at w')) w"
    and equivalent_itself: "dp_metadata_equivalent P m m"
begin

abbreviation conf_of where "conf_of \<equiv> captured_file metadata"

lemma yields_weaken: "yields I m R \<Longrightarrow> (\<And>x. R x \<Longrightarrow> S x) \<Longrightarrow> yields I m S"
  unfolding yields_def by (intro allI impI, elim allE impE, assumption, erule wp_mono) (auto simp: when_ok_def split: outcome.splits)

lemma yields_throw: "\<not> is_external_modification e \<Longrightarrow> yields I (throw e) R"
  by (simp add: yields_def)

lemma yields_open_file:
  assumes s: "steady I" and o: "\<And>w. I w \<Longrightarrow> opened w f = Some x" and B: "dr_policy B = P"
  shows "yields I (read_open_file F B f) (\<lambda>d. x \<noteq> None \<and> d = conf_of x)"
  unfolding read_open_file_def
proof (rule yields_bind[OF yields_stat[OF s o]], goal_cases)
  case (2 a)
  show ?case
  proof (cases "st_is_file a")
    case True
    have "yields I (if length content > storage_budget
       then throw (Unsupported ResolvConfFile ''resolver configuration exceeds the storage budget'')
       else
         bind_tx (io_call (fh_stat F f)) (\<lambda>after.
         bind_tx (changed_during_capture (dr_policy B) f m a after) (\<lambda>changed.
         if changed
         then throw (ResourcePlatform ResolvConfFile (dr_resource B) ''resolver configuration changed during capture'')
         else return_tx \<lparr> ds_content = Some content, ds_metadata = Some m \<rparr>))) (\<lambda>d. x \<noteq> None \<and> d = conf_of x)"
      if m: "\<exists>c st. x = Some (c, st) \<and> m = metadata st"
        and c: "\<forall>c st. x = Some (c, st) \<longrightarrow> content = take (storage_budget + 1) c" for m content
    proof (cases "length content > storage_budget")
      case False
      with m c have x: "x \<noteq> None \<and> \<lparr> ds_content = Some content, ds_metadata = Some m \<rparr> = conf_of x"
        by (auto simp: captured_file_def)
      have "quiet I (dp_metadata P f)" by (rule quiet_yields[OF metadata_read[OF s o]])
      then have "quiet I (changed_during_capture (dr_policy B) f m a b)" for b
        unfolding changed_during_capture_def B same_modified_def
        by (intro quiet_intros) (auto split: sum.splits)
      then show ?thesis
        unfolding if_not_P[OF False]
        by (intro yields_bind[OF yields_quiet]) (use x s in \<open>auto intro!: quiet_intros yields_throw yields_return\<close>)
    qed (simp add: yields_throw)
    with True show ?thesis
      unfolding B by (auto intro!: yields_bind[OF metadata_read[OF s o]] yields_bind[OF yields_read[OF s o]])
  qed (simp add: yields_throw)
qed


lemma yields_current:
  assumes s: "steady I" and f: "\<And>w. I w \<Longrightarrow> file_at w (dr_path B) = x" and B: "dr_policy B = P"
  shows "yields I (read_current F B) (\<lambda>d. d = conf_of x)"
  unfolding read_current_def B
proof (rule yields_seq[OF yields_quiet[OF usable[OF s]]], unfold yields_def, intro allI impI)
  fix w assume w: "I w"
  show "wp (match_tx (io_call (fh_open F True (dr_path B))) (read_open_file F B)
      (\<lambda>e. if is_not_found e then return_tx \<lparr>ds_content = None, ds_metadata = None\<rparr> else throw e))
    (\<lambda>res t. quietly I res t \<and> when_ok res (\<lambda>d. d = conf_of x)) w"
  proof (rule wp_matchI[OF wp_open[OF s w]], goal_cases)
    case (1 fd t)
    then have o: "opened t fd = Some x" using f[OF w] by simp
    show ?case
      by (rule wp_mono[OF yieldsD[OF yields_open_file[OF steady_opened[OF s] _ B, of fd x]]])
         (use 1 o in \<open>auto simp: quietly_def when_ok_def split: outcome.splits\<close>)
  qed (use f[OF w] in \<open>auto simp: captured_file_def\<close>)
qed

lemma verify_spec:
  assumes "dr_policy B = P" "file_at v (dr_path B) = x"
  shows "wp (verify_expected F B expected) (\<lambda>res u. same v u \<and> res \<noteq> Crash \<and> when_ok res (\<lambda>_. expected = conf_of x)) v"
  unfolding verify_expected_def
  by (rule wp_bindI[OF yieldsD[OF yields_current[OF steady_same _ assms(1)] same_refl]])
     (use assms(2) in \<open>auto simp: quietly_def dest: same_file\<close>)

lemma write_content_spec:
  assumes "dr_policy B = P"
  shows "wp (write_content F B content snapshot mtime expected) (\<lambda>res w'.
     write_done (file_at w) (dr_path B) content (expected = conf_of (file_at w (dr_path B))) res (file_at w')) w"
  unfolding write_content_def assms
proof (rule wp_seqI[OF quietlyD[OF usable[OF steady_same] same_refl]], goal_cases)
  case (1 x t)
  then have t: "file_at t = file_at w" using same_file by simp
  show ?case
    unfolding t[symmetric] by (rule write_publishes[OF verify_spec[OF assms]]) simp
qed (auto simp: write_done_def quietly_def dest: same_file)

text \<open>The state of the resolver file, as the backend captures it.\<close>

definition resolver :: "'w direct_resolv_conf \<Rightarrow> 'w \<Rightarrow> direct_snapshot" where
  "resolver B w = conf_of (file_at w (dr_path B))"

lemma resolver_same: "file_at v = file_at w \<Longrightarrow> resolver B v = resolver B w"
  by (simp add: resolver_def)

lemma resolver_replaced:
  "replaced_by (file_at w) (dr_path B) content (file_at w') \<Longrightarrow> ds_content (resolver B w') = Some content"
  by (auto simp: replaced_by_def resolver_def captured_file_def)

lemma resolver_valid: "direct_validate (resolver B w) = Inr ()"
  by (auto simp: metadata_valid resolver_def captured_file_def direct_validate_def split: option.splits)

text \<open>What applying to the expected state may have come to.\<close>

definition applied_to :: "'w direct_resolv_conf \<Rightarrow> 'w \<Rightarrow> direct_snapshot \<Rightarrow> normalized_config \<Rightarrow> unit outcome \<Rightarrow> 'w \<Rightarrow> bool" where
  "applied_to B w expected plan res w' \<longleftrightarrow> (case res of
       Ok _ \<Rightarrow> expected = resolver B w \<and> replaced_by (file_at w) (dr_path B) (build_resolv_conf_content plan) (file_at w') \<and>
         dp_mutation_metadata_preserved P (ds_metadata expected) (ds_metadata (resolver B w'))
     | Err e \<Rightarrow> file_at w' = file_at w \<or> \<not> is_external_modification e \<and> expected = resolver B w \<and>
         replaced_by (file_at w) (dr_path B) (build_resolv_conf_content plan) (file_at w')
     | Crash \<Rightarrow> False)"

lemma apply_snapshot_spec:
  assumes B: "dr_policy B = P"
  shows "wp (direct_apply_snapshot F B expected plan) (applied_to B w expected plan) w"
  unfolding direct_apply_snapshot_def Let_def B
proof (rule wp_seqI[OF write_content_spec[OF B]], goal_cases)
  case (1 x t)
  then have e: "expected = resolver B w" and r: "replaced_by (file_at w) (dr_path B) (build_resolv_conf_content plan) (file_at t)"
    by (simp_all add: write_done_def resolver_def)
  have cur: "yields (same t) (read_current F B) (\<lambda>d. d = resolver B t)"
    unfolding resolver_def by (rule yields_current[OF steady_same _ B]) (simp add: same_file)
  show ?case
  proof (rule wp_bindI[OF yieldsD[OF cur same_refl]], goal_cases)
    case (1 d u)
    then have "file_at u = file_at t" "d = resolver B t" using same_file by auto
    then show ?case using e r resolver_same[of u t B] by (auto simp: applied_to_def)
  next
    case (2 ex u)
    then have "file_at u = file_at t" using same_file by simp
    then show ?case using 2 e r by (simp add: applied_to_def)
  qed simp
qed (auto simp: applied_to_def write_done_def resolver_def)

lemma remove_step:
  "wp (io_call (fh_remove_file F p)) (\<lambda>res v. res \<noteq> Crash \<and> (file_at v = (file_at u)(p := None) \<or>
     file_at v = file_at u \<and> (\<exists>e. res = Err e \<and> \<not> is_not_found e))) u"
proof -
  obtain r v where run: "fh_remove_file F p u = (r, v)" by fastforce
  have "file_at v = (file_at u)(p := None)" if "file_at v = file_at u" "file_at v p = None"
    using that by (metis fun_upd_idem)
  with remove_file[OF run] remove_absent[of p u _ v] show ?thesis
    by (auto simp: wp_def io_call_def run is_not_found_def split: sum.splits)
qed

lemma remove_current_spec:
  assumes B: "dr_policy B = P"
  shows "wp (remove_current F B) (\<lambda>res v. res \<noteq> Crash \<and>
     (file_at v = (file_at w)(dr_path B := None) \<or> file_at v = file_at w \<and> \<not> succeeded res)) w"
  unfolding remove_current_def B
proof (rule wp_seqI[OF quietlyD[OF usable[OF steady_same] same_refl]], goal_cases)
  case (1 x u)
  then have u: "file_at u = file_at w" using same_file by simp
  have sync: "wp (fsync_dir F parent) (\<lambda>res t. res \<noteq> Crash \<and> file_at t = file_at v) v" for parent v
    by (rule wp_mono[OF quietlyD[OF quiet_fsync_dir[OF steady_same] same_refl]]) (auto simp: quietly_def dest: same_file)
  show ?case
  proof (rule wp_matchI[OF remove_step], goal_cases)
    case (1 y v)
    then show ?case using u by (auto intro: wp_mono[OF sync] split: option.splits)
  qed (auto simp: u)
qed (auto simp: quietly_def dest: same_file)

lemma restore_content_spec:
  assumes B: "dr_policy B = P"
  shows "wp (restore_content F B expected target) (\<lambda>res w'. res \<noteq> Crash \<and>
     (file_at w' = file_at w \<and> \<not> succeeded res \<or> expected = resolver B w \<and> ds_content (resolver B w') = ds_content target \<and>
       (\<forall>p. p \<noteq> dr_path B \<longrightarrow> file_at w' p = file_at w p))) w"
proof (cases "ds_content target")
  case None
  show ?thesis
    unfolding restore_content_def None option.case
  proof (rule wp_seqI[OF verify_spec[OF B refl, where v = w and expected = expected]], goal_cases)
    case (1 x t)
    then have t: "file_at t = file_at w" and e: "expected = resolver B w" using same_file by (auto simp: resolver_def)
    show ?case
      by (rule wp_mono[OF remove_current_spec[OF B]]) (auto simp: t e None resolver_def captured_file_def)
  qed (use same_file in auto)
next
  case (Some content)
  show ?thesis
    unfolding restore_content_def Some option.case
  proof (rule wp_mono[OF write_content_spec[OF B]], goal_cases)
    case (1 res w')
    then show ?case using resolver_replaced[of w B content w']
      by (auto simp: write_done_def resolver_def[of B w] replaced_by_def split: outcome.splits)
  qed
qed


text \<open>The bound operations.\<close>

lemma verified_then:
  assumes B: "dr_policy B = P"
  shows "wp (seq_tx (verify_expected F B e) (return_tx x)) (\<lambda>res t. file_at t = file_at w \<and> res \<noteq> Crash \<and>
     when_ok res (\<lambda>y. y = x \<and> e = resolver B w)) w"
  by (rule wp_seqI[OF verify_spec[OF B refl]]) (auto simp: resolver_def dest: same_file)

lemma prepare_apply_spec:
  assumes B: "dr_policy B = P"
  shows "wp (prepare_apply F B i expected) (\<lambda>res t. file_at t = file_at w \<and> res \<noteq> Crash \<and>
     when_ok res (\<lambda>e. from_direct_snapshot expected = Inr e \<and> e = resolver B w)) w"
proof (cases "from_direct_snapshot expected")
  case (Inr e)
  have "wp (seq_tx (verify_expected F B e) (return_tx e)) (\<lambda>res t. file_at t = file_at w \<and> res \<noteq> Crash \<and>
     when_ok res (\<lambda>e. from_direct_snapshot expected = Inr e \<and> e = resolver B w)) w"
    by (rule wp_mono[OF verified_then[OF B]]) (auto simp: Inr when_ok_def split: outcome.splits)
  with Inr show ?thesis by (simp add: prepare_apply_def direct_status_def)
qed (simp add: prepare_apply_def direct_status_def)

lemma prepare_restore_spec:
  assumes B: "dr_policy B = P"
  shows "wp (prepare_restore F B i expected target) (\<lambda>res t. file_at t = file_at w \<and> res \<noteq> Crash \<and>
     when_ok res (\<lambda>(e, d). from_direct_snapshot expected = Inr e \<and> from_direct_snapshot target = Inr d \<and> e = resolver B w)) w"
proof (cases "from_direct_snapshot expected"; cases "from_direct_snapshot target")
  fix e d assume ok: "from_direct_snapshot expected = Inr e" "from_direct_snapshot target = Inr d"
  have "wp (seq_tx (verify_expected F B e) (return_tx (e, d))) (\<lambda>res t. file_at t = file_at w \<and> res \<noteq> Crash \<and>
     when_ok res (\<lambda>(e, d). from_direct_snapshot expected = Inr e \<and> from_direct_snapshot target = Inr d \<and> e = resolver B w)) w"
    by (rule wp_mono[OF verified_then[OF B]]) (auto simp: ok when_ok_def split: outcome.splits)
  with ok show ?thesis by (simp add: prepare_restore_def direct_status_def)
qed (simp_all add: prepare_restore_def direct_status_def)

definition apply_accounted ::
  "'w direct_resolv_conf \<Rightarrow> 'w \<Rightarrow> platform_snapshot \<Rightarrow> normalized_config \<Rightarrow> mutation_attempt outcome \<Rightarrow> 'w \<Rightarrow> bool" where
  "apply_accounted B w expected plan res w' \<longleftrightarrow>
     (let put = replaced_by (file_at w) (dr_path B) (build_resolv_conf_content plan) (file_at w') in
      \<exists>a. res = Ok a \<and> (case a of
        Performed p \<Rightarrow> from_direct_snapshot expected = Inr (resolver B w) \<and> put \<and>
          dp_mutation_metadata_preserved P (ds_metadata (resolver B w)) (ds_metadata (resolver B w'))
      | Rejected e \<Rightarrow> file_at w' = file_at w
      | Indeterminate e p \<Rightarrow> file_at w' = file_at w \<or> put))"

lemma apply_bound_spec:
  assumes B: "dr_policy B = P"
  shows "wp (direct_apply_bound F B i expected plan) (apply_accounted B w expected plan) w"
  unfolding direct_apply_bound_def
proof (rule wp_matchI[OF prepare_apply_spec[OF B]], goal_cases)
  case (1 e t)
  then have t: "file_at t = file_at w" and e: "from_direct_snapshot expected = Inr e" "e = resolver B w" by simp_all
  have r: "resolver B t = resolver B w" using resolver_same[OF t] .
  show ?case
    unfolding wp_bind wp_try
    by (rule wp_mono[OF apply_snapshot_spec[OF B]])
       (auto simp: applied_to_def apply_accounted_def Let_def on_both_def from_apply_result_def t e r split: outcome.splits)
qed (auto simp: apply_accounted_def)

definition restore_accounted ::
  "'w direct_resolv_conf \<Rightarrow> 'w \<Rightarrow> platform_snapshot \<Rightarrow> platform_snapshot \<Rightarrow> mutation_attempt outcome \<Rightarrow> 'w \<Rightarrow> bool" where
  "restore_accounted B w expected target res w' \<longleftrightarrow>
     (let put = (\<exists>d. from_direct_snapshot target = Inr d \<and> ds_content (resolver B w') = ds_content d \<and>
            from_direct_snapshot expected = Inr (resolver B w) \<and> (\<forall>p. p \<noteq> dr_path B \<longrightarrow> file_at w' p = file_at w p)) in
      \<exists>a. res = Ok a \<and> (case a of
        Performed p \<Rightarrow> put
      | Rejected e \<Rightarrow> file_at w' = file_at w
      | Indeterminate e p \<Rightarrow> file_at w' = file_at w \<or> put))"

lemma restore_bound_spec:
  assumes B: "dr_policy B = P"
  shows "wp (direct_restore_bound F B i expected target) (restore_accounted B w expected target) w"
  unfolding direct_restore_bound_def
proof (rule wp_matchI[OF prepare_restore_spec[OF B]], goal_cases)
  case (1 x t)
  then obtain e d where x: "x = (e, d)" and t: "file_at t = file_at w"
    and e: "from_direct_snapshot expected = Inr e" "from_direct_snapshot target = Inr d" "e = resolver B w"
    by auto
  have spec: "wp (restore_content F B e d) (\<lambda>res w'. res \<noteq> Crash \<and>
     (file_at w' = file_at w \<and> \<not> succeeded res \<or> ds_content (resolver B w') = ds_content d \<and>
       (\<forall>p. p \<noteq> dr_path B \<longrightarrow> file_at w' p = file_at w p))) t"
    by (rule wp_mono[OF restore_content_spec[OF B]]) (unfold t, blast)
  show ?case
    unfolding x prod.case
  proof (rule wp_matchI[OF spec], goal_cases)
    case (1 y u)
    then show ?case by (simp add: restore_accounted_def e)
  next
    case (2 ex u)
    then show ?case by (simp add: restore_accounted_def e)
  qed simp
qed (auto simp: restore_accounted_def)

end

end
