(* ===== verification/Linux_Direct_Contract.thy ===== *)
theory Linux_Direct_Contract
  imports Linux_Watch Unix_Direct_Contract
begin

text \<open>
  The policy of Linux for a resolver file keeps the promises of a policy, over any file system that
  keeps its own; and the backend made of it keeps the contract of the engine.
\<close>

locale linux_files = file_system "in_files N" same file_at opened pending
  for N :: "'w inotify_host" and same file_at opened pending
begin

lemma steady_pending: "steady (\<lambda>w. file_at w = fs \<and> pending w f = Some x)"
  unfolding steady_def using same_file same_pending by metis

lemma create_step:
  "wp (io_call (fh_create (in_files N) p)) (\<lambda>res t. file_at t = file_at w \<and> res \<noteq> Crash \<and>
     (\<forall>f. res = Ok f \<longrightarrow> pending t f = Some (p, []))) w"
  by (cases "fh_create (in_files N) p w")
     (auto simp: wp_def io_call_def split: sum.splits dest: create_file)

lemma write_step:
  assumes "file_at w = fs" "pending w f = Some (p, [])"
  shows "wp (io_call (fh_write_all (in_files N) f content)) (\<lambda>res t. file_at t = fs \<and> res \<noteq> Crash \<and>
     (succeeded res \<longrightarrow> pending t f = Some (p, content))) w"
  using assms write_file[OF _ assms(2)]
  by (cases "fh_write_all (in_files N) f content w")
     (fastforce simp: wp_def io_call_def split: sum.splits)

lemma mode_step:
  assumes "pending w f = Some x"
  shows "wp (case m of Some md \<Rightarrow> io_call (fh_set_permissions (in_files N) f (fm_mode md)) | None \<Rightarrow> return_tx ())
     (\<lambda>res t. same w t \<and> res \<noteq> Crash) w"
proof (cases m)
  case (Some md)
  with chmod_file[of w f "fm_mode md"] assms show ?thesis
    by (auto simp: wp_def io_call_def split: prod.splits sum.splits)
qed (simp add: same_refl)

lemma commit_step:
  assumes "pending w f = Some (p, content)"
  shows "wp (io_call (fh_commit (in_files N) f)) (\<lambda>res t. res \<noteq> Crash \<and>
     (replaced_by (file_at w) p content (file_at t) \<or> \<not> succeeded res \<and> file_at t = file_at w) \<and>
     (\<forall>e. res = Err e \<longrightarrow> \<not> is_external_modification e)) w"
  using commit_file[OF _ assms]
  by (cases "fh_commit (in_files N) f w")
     (fastforce simp: wp_def io_call_def replaced_by_def split: sum.splits)

text \<open>Once the replacement is complete: the permissions, the check and the publication.\<close>

lemma publish_spec:
  assumes w: "file_at w = fs" "pending w f = Some (p, content)"
    and verify: "\<And>v. file_at v = fs \<Longrightarrow> wp verify (\<lambda>res u. same v u \<and> res \<noteq> Crash \<and> when_ok res (\<lambda>_. verified)) v"
  shows "wp (seq_tx (case m of Some md \<Rightarrow> io_call (fh_set_permissions (in_files N) f (fm_mode md)) | None \<Rightarrow> return_tx ()) (
     seq_tx (io_call (fh_sync_all (in_files N) f)) (seq_tx verify (io_call (fh_commit (in_files N) f)))))
     (\<lambda>res w'. write_done fs p content verified res (file_at w')) w"
proof (rule wp_seqI[OF mode_step[OF w(2)]], goal_cases)
  case (1 x t)
  then have t: "file_at t = fs" "pending t f = Some (p, content)" using w same_file same_pending by auto
  show ?case
  proof (rule wp_seqI[OF quietlyD[OF quiet_reads(8)[OF steady_same] same_refl]], goal_cases)
    case (1 y u)
    then have u: "file_at u = fs" "pending u f = Some (p, content)" using t same_file same_pending by auto
    show ?case
    proof (rule wp_seqI[OF verify[OF u(1)]], goal_cases)
      case (1 z v)
      then have v: "file_at v = fs" "pending v f = Some (p, content)" verified using u same_file same_pending by auto
      show ?case
        by (rule wp_mono[OF commit_step[OF v(2)]]) (auto simp: write_done_def v split: outcome.splits)
    qed (use u(1) same_file in \<open>auto simp: write_done_def\<close>)
  qed (use t(1) same_file in \<open>auto simp: write_done_def quietly_def\<close>)
qed (use w(1) same_file in \<open>auto simp: write_done_def\<close>)

lemma write_spec:
  assumes verify: "\<And>v. file_at v = file_at w \<Longrightarrow>
    wp verify (\<lambda>res u. same v u \<and> res \<noteq> Crash \<and> when_ok res (\<lambda>_. verified)) v"
  shows "wp (linux_write (in_files N) p content m mtime verify)
    (\<lambda>res w'. write_done (file_at w) p content verified res (file_at w')) w"
  unfolding linux_write_def
proof (rule wp_seqI[where P = "\<lambda>res t. same w t \<and> res \<noteq> Crash"], goal_cases)
  case 1
  show ?case
  proof (rule wp_matchI[OF wp_open[OF steady_same same_refl]], goal_cases)
    case (1 f t)
    then show ?case
      by (intro wp_mono[OF quietlyD[OF quiet_reject[OF steady_same, of w f]]]) (auto simp: quietly_def)
  qed auto
next
  case (2 x t)
  then have t: "file_at t = file_at w" using same_file by simp
  show ?case
  proof (rule wp_bindI[OF create_step], goal_cases)
    case (1 f u)
    then have u: "file_at u = file_at w" "pending u f = Some (p, [])" using t by auto
    show ?case
    proof (rule wp_seqI[OF quietlyD[OF quiet_reject[OF steady_same] same_refl]], goal_cases)
      case (1 y v)
      then have v: "file_at v = file_at w" "pending v f = Some (p, [])" using u same_file same_pending by auto
      show ?case
      proof (rule wp_seqI[OF write_step[OF v]], goal_cases)
        case (1 z s)
        then show ?case by (intro publish_spec) (simp_all add: verify)
      qed (simp_all add: write_done_def)
    qed (use u(1) same_file in \<open>auto simp: write_done_def quietly_def\<close>)
  qed (auto simp: write_done_def t)
qed (use same_file in \<open>auto simp: write_done_def\<close>)

end

sublocale linux_files \<subseteq> policy: resolver_policy "in_files N" same file_at opened pending "linux_policy N" metadata_of
proof
  fix I p assume "steady I"
  then show "quiet I (dp_check_usable (linux_policy N) p)"
    unfolding linux_policy_def Let_def direct_policy.select_convs linux_check_usable_def
    by (intro quiet_bind quiet_classify) (auto intro!: quiet_intros split: resolv_conf_state.splits)
next
  fix I f x assume s: "steady I" and o: "\<And>w. I w \<Longrightarrow> opened w f = Some x"
  show "yields I (dp_metadata (linux_policy N) f) (\<lambda>m. \<exists>c st. x = Some (c, st) \<and> m = metadata_of st)"
    unfolding linux_policy_def linux_metadata_def Let_def direct_policy.select_convs
    by (rule yields_bind[OF yields_stat[OF s o]]) (auto simp: yields_def)
next
  fix w p content m mtime verified and verify :: "('w, unit) tx"
  assume "\<And>v. file_at v = file_at w \<Longrightarrow>
    wp verify (\<lambda>res u. same v u \<and> res \<noteq> Crash \<and> when_ok res (\<lambda>_. verified)) v"
  then show "wp (dp_write (linux_policy N) p content m mtime verify)
      (\<lambda>res w'. write_done (file_at w) p content verified res (file_at w')) w"
    by (simp add: linux_policy_def Let_def write_spec)
qed (simp_all add: linux_policy_def Let_def metadata_of_def)

context linux_files begin

lemma policy_keeps: "resolver_policy (in_files N) same file_at opened pending (linux_policy N) metadata_of"
  by unfold_locales

end

section \<open>The contract of the engine\<close>

definition file_view :: "'w direct_resolv_conf \<Rightarrow> ('w \<Rightarrow> direct_snapshot) \<Rightarrow> 'w \<Rightarrow> resource_id \<Rightarrow> direct_snapshot option" where
  "file_view B conf w r = (if r = dr_resource B then Some (conf w) else None)"

context resolver_policy begin

lemma accounted_rejects:
  "apply_accounted B w expected plan res t \<Longrightarrow> no_err res \<and> when_ok res (\<lambda>a. is_rejected a \<longrightarrow> file_at t = file_at w)"
  "restore_accounted B w expected target res t \<Longrightarrow> no_err res \<and> when_ok res (\<lambda>a. is_rejected a \<longrightarrow> file_at t = file_at w)"
  unfolding apply_accounted_def restore_accounted_def Let_def
  by (elim exE, rename_tac a, case_tac a; simp add: is_rejected_def)+

lemma managed:
  assumes B: "dr_policy B = P" and E: "e_backend E = direct_backend parse_conf to_ascii F B"
    and clock: "\<And>w. wp (e_now E) (\<lambda>res t. no_err res \<and> same w t) w"
    and uuid: "\<And>w. wp (e_new_v4 E) (\<lambda>res t. no_err res \<and> same w t) w"
  shows "managed_backend E (\<lambda>_. True) (file_view B (resolver B)) to_direct_snapshot"
proof -
  have sel: "bk_status (e_backend E) = direct_status B" "bk_readback (e_backend E) = direct_capture F B"
    "bk_capture (e_backend E) = direct_capture F B" "bk_equivalent (e_backend E) = direct_equivalent B"
    "bk_apply_bound (e_backend E) = direct_apply_bound F B" "bk_restore_bound (e_backend E) = direct_restore_bound F B"
    by (simp_all add: E direct_backend_def Let_def)
  have view: "file_view B (resolver B) t = file_view B (resolver B) w" if "file_at t = file_at w" for t w
    using resolver_same[OF that] by (simp add: file_view_def fun_eq_iff)
  have other: "file_view B (resolver B) t r = None" if "r \<noteq> dr_resource B" for t r
    using that by (simp add: file_view_def)
  have cur: "yields (same w) (read_current F B) (\<lambda>d. d = resolver B w)" for w
    unfolding resolver_def by (rule yields_current[OF steady_same _ B]) (simp add: same_file)
  have read: "wp (direct_capture F B r) (\<lambda>res t. True \<and> file_view B (resolver B) t = file_view B (resolver B) w \<and>
      when_ok res (\<lambda>c. manages (\<lambda>_. True) (file_view B (resolver B)) r \<longrightarrow>
        (\<exists>n. file_view B (resolver B) w r = Some n \<and> c = to_direct_snapshot r n))) w" for w r
    unfolding direct_capture_def
    by (rule wp_bindI[OF yieldsD[OF cur same_refl]])
       (auto simp: quietly_def manages_def file_view_def resolver_same[OF same_file] split: if_splits)
  show ?thesis
  proof (unfold_locales, goal_cases)
    case (1 w i)
    show ?case by (simp add: sel direct_status_def)
  next
    case (2 w r)
    show ?case unfolding sel by (rule read)
  next
    case (3 w r)
    show ?case unfolding sel by (rule read)
  next
    case (4 w i expected plan)
    then have i: "id_resource i = dr_resource B" by (auto simp: manages_def file_view_def split: if_splits)
    have "wp (direct_apply_bound F B i expected plan)
        (\<lambda>res t. no_err res \<and> when_ok res (\<lambda>a. is_rejected a \<longrightarrow> file_at t = file_at w)) w"
      by (rule wp_mono[OF apply_bound_spec[OF B]]) (rule accounted_rejects)
    then show ?case
      unfolding sel i
    proof (rule wp_mono, goal_cases)
      case (1 res t)
      then show ?case using view[of t w] by (cases res) (simp_all add: other)
    qed
  next
    case (5 w i expected target)
    then have i: "id_resource i = dr_resource B" by (auto simp: manages_def file_view_def split: if_splits)
    have "wp (direct_restore_bound F B i expected target)
        (\<lambda>res t. no_err res \<and> when_ok res (\<lambda>a. is_rejected a \<longrightarrow> file_at t = file_at w)) w"
      by (rule wp_mono[OF restore_bound_spec[OF B]]) (rule accounted_rejects)
    then show ?case
      unfolding sel i
    proof (rule wp_mono, goal_cases)
      case (1 res t)
      then show ?case using view[of t w] by (cases res) (simp_all add: other)
    qed
  next
    case (6 w)
    show ?case by (rule wp_mono[OF clock]) (auto intro: view same_file)
  next
    case (7 w)
    show ?case by (rule wp_mono[OF uuid]) (auto intro: view same_file)
  next
    case (8 w r n)
    then show ?case
      using resolver_valid[of B w] equivalent_itself
      by (auto simp: sel B direct_equivalent_def from_direct_snapshot_def to_direct_snapshot_def snapshot_new_def file_view_def
        split: if_splits)
  qed
qed

end

end
