(* ===== verification/Direct_Guarantees.thy ===== *)
theory Direct_Guarantees
  imports Linux_Direct_Contract Resolved_Guarantees
begin

text \<open>
  What the backend of the resolver file guarantees, and what its watcher reports; with a file system in
  memory on which the assumptions about the file system hold.
\<close>

section \<open>A file system in memory\<close>

text \<open>Regular files only; a descriptor is the number of the last one plus one.\<close>

record mem_files =
  mf_files :: "path \<Rightarrow> (bytes \<times> file_stat) option"
  mf_open :: "nat \<Rightarrow> (bytes \<times> file_stat) option"
  mf_next :: nat
  mf_temp :: "nat \<Rightarrow> (path \<times> bytes \<times> file_stat) option"

definition no_file :: "io_error" where
  "no_file = (NotFound, ''no such file'')"

definition bad_descriptor :: "io_error" where
  "bad_descriptor = (OtherKind, ''bad descriptor'')"

definition fresh_stat :: file_stat where
  "fresh_stat = \<lparr> st_is_file = True, st_len = 0, st_modified = Inr 0, st_ctime = (0, 0), st_mode = 33188,
     st_uid = 0, st_gid = 0, st_nlink = 1 \<rparr>"

definition with_open :: "mem_files \<Rightarrow> (bytes \<times> file_stat) \<Rightarrow> mem_files" where
  "with_open w x = w\<lparr>mf_open := (mf_open w)(mf_next w \<mapsto> x), mf_next := Suc (mf_next w)\<rparr>"

definition on_open :: "nat \<Rightarrow> (bytes \<times> file_stat \<Rightarrow> 'a) \<Rightarrow> mem_files \<Rightarrow> (io_error + 'a) \<times> mem_files" where
  "on_open f g w = (case mf_open w f of Some x \<Rightarrow> (Inr (g x), w) | None \<Rightarrow> (Inl bad_descriptor, w))"

definition on_temp ::
  "nat \<Rightarrow> (path \<times> bytes \<times> file_stat \<Rightarrow> path \<times> bytes \<times> file_stat) \<Rightarrow> mem_files \<Rightarrow> (io_error + unit) \<times> mem_files" where
  "on_temp f g w = (case mf_temp w f of
       Some x \<Rightarrow> (Inr (), w\<lparr>mf_temp := (mf_temp w)(f \<mapsto> g x)\<rparr>)
     | None \<Rightarrow> (Inl bad_descriptor, w))"

definition memory_host :: "mem_files file_host" where
  "memory_host = \<lparr>
     fh_linux = table_fs, fh_threads = table_threads,
     fh_symlink_metadata = (\<lambda>p w. (if mf_files w p = None then Inl no_file else Inr False, w)),
     fh_read_link = (\<lambda>p w. (Inl no_file, w)),
     fh_metadata = (\<lambda>p w. (if mf_files w p = None then Inl no_file else Inr True, w)),
     fh_open = (\<lambda>b p w. case mf_files w p of
         None \<Rightarrow> (Inl no_file, w) | Some x \<Rightarrow> (Inr (mf_next w), with_open w x)),
     fh_stat = (\<lambda>f. on_open f snd),
     fh_read = (\<lambda>n f. on_open f (take n \<circ> fst)),
     fh_list_xattr = (\<lambda>f w. (XattrLength 0, w)),
     fh_create = (\<lambda>p w. (Inr (mf_next w), w\<lparr>mf_next := Suc (mf_next w),
        mf_temp := (mf_temp w)(mf_next w \<mapsto> (p, [], (case mf_files w p of Some (c, st) \<Rightarrow> st | None \<Rightarrow> fresh_stat)))\<rparr>)),
     fh_write_all = (\<lambda>f bs. on_temp f (\<lambda>(p, c, st). (p, c @ bs, st\<lparr>st_len := length (c @ bs)\<rparr>))),
     fh_set_permissions = (\<lambda>f mode. on_temp f (\<lambda>(p, c, st). (p, c, st\<lparr>st_mode := mode\<rparr>))),
     fh_sync_all = (\<lambda>f w. (Inr (), w)),
     fh_commit = (\<lambda>f w. case mf_temp w f of
         Some (p, x) \<Rightarrow> (Inr (), w\<lparr>mf_files := (mf_files w)(p \<mapsto> x)\<rparr>) | None \<Rightarrow> (Inl bad_descriptor, w)),
     fh_remove_file = (\<lambda>p w. if mf_files w p = None then (Inl no_file, w)
        else (Inr (), w\<lparr>mf_files := (mf_files w)(p := None)\<rparr>)) \<rparr>"

definition memory_inotify :: "mem_files inotify_host" where
  "memory_inotify = \<lparr> in_files = memory_host, in_init = (\<lambda>w. (Inr 3, w)), in_add = (\<lambda>i p w. (Inr 1, w)),
     in_pipe = (\<lambda>w. (Inr (), w)), in_read_dir = (\<lambda>p w. (Inr [Inr ''hosts'', Inr ''resolv.conf''], w)) \<rparr>"

definition memory_opened :: "mem_files \<Rightarrow> nat \<Rightarrow> (bytes \<times> file_stat) option option" where
  "memory_opened w f = (if f < mf_next w \<and> mf_open w f \<noteq> None then Some (mf_open w f) else None)"

definition memory_pending :: "mem_files \<Rightarrow> nat \<Rightarrow> (path \<times> bytes) option" where
  "memory_pending w f = map_option (\<lambda>(p, c, st). (p, c)) (mf_temp w f)"

definition memory_same :: "mem_files \<Rightarrow> mem_files \<Rightarrow> bool" where
  "memory_same v w \<longleftrightarrow> mf_files w = mf_files v \<and> memory_pending w = memory_pending v \<and> mf_next v \<le> mf_next w \<and>
     (\<forall>f<mf_next v. mf_open w f = mf_open v f)"

interpretation memory: linux_files memory_inotify memory_same mf_files memory_opened memory_pending
proof -
  have host: "in_files memory_inotify = memory_host" by (simp add: memory_inotify_def)
  show "linux_files memory_inotify memory_same mf_files memory_opened memory_pending"
    unfolding linux_files_def file_system_def file_system_axioms_def reading_files_def host
    by (auto simp: memory_host_def memory_same_def memory_opened_def memory_pending_def on_open_def on_temp_def with_open_def
        fun_eq_iff no_file_def split: option.splits if_splits)
qed

section \<open>Replacing the resolver file\<close>

abbreviation "as_captured \<equiv> captured_file metadata_of"

lemma linux_direct_sel [simp]:
  "dr_policy (linux_direct N) = linux_policy N" "dr_path (linux_direct N) = RESOLV_CONF_PATH"
  "dr_resource (linux_direct N) = ResourceId ''linux:resolv-conf''"
  by (simp_all add: linux_direct_def direct_new_def linux_policy_def Let_def)

lemma metadata_kept:
  "linux_metadata_preserved (ds_metadata (as_captured (Some (c0, st0)))) (ds_metadata (as_captured (Some (c, st)))) \<Longrightarrow>
   metadata_of st = metadata_of st0"
  by (simp add: linux_metadata_preserved_def captured_file_def)

lemma linux_preserved: "dp_mutation_metadata_preserved (linux_policy N) = linux_metadata_preserved"
  by (simp add: linux_policy_def Let_def)

text \<open>
  C36. Applying a plan to the resolver file. Whatever fails on the way, the attempt reports what it has
  done, and no other file changes. \<open>Performed\<close>: the file was exactly in the expected state, or absent as
  expected; now it holds the text of the plan, with the mode, owner and link count it had before.
  \<open>Rejected\<close>: no file has changed. \<open>Indeterminate\<close>: the file is as it was, or holds the text of the plan
  in full; it is never left half written.
\<close>

theorem direct_apply_accounted:
  assumes "linux_files N same file_at opened pending"
    and "bk_apply_bound (direct_backend parse_conf to_ascii (in_files N) (linux_direct N)) i expected plan w = (res, w')"
  shows "\<exists>a. res = Ok a \<and>
     (let old = file_at w RESOLV_CONF_PATH;
          new = (\<lambda>st. file_at w' = (file_at w)(RESOLV_CONF_PATH \<mapsto> (build_resolv_conf_content plan, st)))
      in case a of
        Performed p \<Rightarrow> from_direct_snapshot expected = Inr (as_captured old) \<and>
          (\<exists>st. new st \<and> (\<forall>c0 st0. old = Some (c0, st0) \<longrightarrow> metadata_of st = metadata_of st0))
      | Rejected e \<Rightarrow> file_at w' = file_at w
      | Indeterminate e p \<Rightarrow> file_at w' = file_at w \<or> (\<exists>st. new st))"
proof -
  note policy = linux_files.policy_keeps[OF assms(1)]
  have run: "direct_apply_bound (in_files N) (linux_direct N) i expected plan w = (res, w')"
    using assms(2) by (simp add: direct_backend_def Let_def)
  note post = wp_run[OF resolver_policy.apply_bound_spec[OF policy linux_direct_sel(1)] run,
      unfolded resolver_policy.apply_accounted_def[OF policy] resolver_policy.resolver_def[OF policy] linux_preserved
        linux_direct_sel Let_def]
  then obtain a where a: "res = Ok a" by blast
  from post show ?thesis
    by (cases a) (auto simp: a replaced_by_def dest!: metadata_kept)
qed

text \<open>The operations on a file in memory that is the administrator's own.\<close>

definition plain_file :: "bytes \<times> file_stat \<Rightarrow> bool" where
  "plain_file x \<longleftrightarrow> classify_parts None (Some (fst x)) = Unmanaged \<and> length (fst x) \<le> storage_budget \<and>
     st_is_file (snd x) \<and> st_nlink (snd x) = 1 \<and> st_modified (snd x) = Inr 0"

lemma memory_host_sel:
  "in_files memory_inotify = memory_host"
  "fh_symlink_metadata memory_host p w = (if mf_files w p = None then Inl no_file else Inr False, w)"
  "fh_metadata memory_host p w = (if mf_files w p = None then Inl no_file else Inr True, w)"
  "fh_open memory_host b p w = (case mf_files w p of
     None \<Rightarrow> (Inl no_file, w) | Some x \<Rightarrow> (Inr (mf_next w), with_open w x))"
  "fh_stat memory_host f = on_open f snd"
  "fh_read memory_host n f = on_open f (take n \<circ> fst)"
  "fh_list_xattr memory_host f w = (XattrLength 0, w)"
  "fh_create memory_host p w = (Inr (mf_next w), w\<lparr>mf_next := Suc (mf_next w),
     mf_temp := (mf_temp w)(mf_next w \<mapsto> (p, [], (case mf_files w p of Some (c, st) \<Rightarrow> st | None \<Rightarrow> fresh_stat)))\<rparr>)"
  "fh_write_all memory_host f bs = on_temp f (\<lambda>(p, c, st). (p, c @ bs, st\<lparr>st_len := length (c @ bs)\<rparr>))"
  "fh_set_permissions memory_host f mode = on_temp f (\<lambda>(p, c, st). (p, c, st\<lparr>st_mode := mode\<rparr>))"
  "fh_sync_all memory_host f w = (Inr (), w)"
  "fh_commit memory_host f w = (case mf_temp w f of
     Some (p, x) \<Rightarrow> (Inr (), w\<lparr>mf_files := (mf_files w)(p \<mapsto> x)\<rparr>) | None \<Rightarrow> (Inl bad_descriptor, w))"
  by (simp_all add: memory_inotify_def memory_host_def)

lemmas run_memory = memory_host_sel run_tx io_call_def on_open_def on_temp_def

lemma with_open_sel [simp]:
  "mf_files (with_open w x) = mf_files w" "mf_temp (with_open w x) = mf_temp w"
  "mf_open (with_open w x) = (mf_open w)(mf_next w \<mapsto> x)" "mf_next (with_open w x) = Suc (mf_next w)"
  by (simp_all add: with_open_def)

lemma usable_run:
  "mf_files w p = Some x \<Longrightarrow> plain_file x \<Longrightarrow> linux_check_usable memory_host p w = (Ok (), with_open w x)"
  by (cases x)
     (simp add: linux_check_usable_def classify_def classify_content_def read_config_def plain_file_def run_memory
       split: prod.splits)

lemma policy_run:
  "dp_check_usable (linux_policy N) = linux_check_usable (in_files N)"
  "dp_metadata (linux_policy N) = linux_metadata (in_files N)"
  "dp_write (linux_policy N) = linux_write (in_files N)"
  by (simp_all add: linux_policy_def Let_def)

lemma open_run:
  "mf_open w f = Some x \<Longrightarrow> plain_file x \<Longrightarrow>
   read_open_file memory_host (linux_direct memory_inotify) f w = (Ok (as_captured (Some x)), w)"
  by (cases x)
     (simp add: read_open_file_def changed_during_capture_def same_modified_def policy_run linux_metadata_def plain_file_def
       run_memory captured_file_def)

lemma current_run:
  assumes "mf_files w RESOLV_CONF_PATH = Some x" "plain_file x"
  shows "read_current memory_host (linux_direct memory_inotify) w = (Ok (as_captured (Some x)), with_open (with_open w x) x)"
  by (simp add: read_current_def policy_run run_memory usable_run[OF assms] open_run[OF _ assms(2)] assms(1))

lemma verify_run:
  assumes "mf_files w RESOLV_CONF_PATH = Some x" "plain_file x"
  shows "verify_expected memory_host (linux_direct memory_inotify) (as_captured (Some x)) w =
     (Ok (), with_open (with_open w x) x)"
  by (simp add: verify_expected_def current_run[OF assms] run_tx)

text \<open>The administrator's file and the plan that replaces it.\<close>

definition own_file :: "bytes \<times> file_stat" where
  "own_file = (into_bytes (''nameserver 9.9.9.9'' @ newline), fresh_stat\<lparr>st_len := 19\<rparr>)"

definition planned_file :: "bytes \<times> file_stat" where
  "planned_file = (build_resolv_conf_content demo_config, fresh_stat\<lparr>st_len := 21\<rparr>)"

lemma planned_text: "build_resolv_conf_content demo_config = into_bytes (''nameserver 127.0.0.1'' @ newline)"
  by (simp add: build_resolv_conf_content_def build_resolv_conf_text_def demo_config_def display_ip_def display_v4_def
      decimal.simps into_bytes_def)

lemma captured_sel: "ds_metadata (as_captured (Some x)) = Some (metadata_of (snd x))" "ds_content (as_captured (Some x)) = Some (fst x)"
  by (simp_all add: captured_file_def split: prod.splits)

lemma both_unmanaged: "classify_parts None (Some (fst own_file)) = Unmanaged" "classify_parts None (Some (fst planned_file)) = Unmanaged"
  unfolding own_file_def planned_file_def planned_text fst_conv by (code_simp, code_simp)

lemma both_plain: "plain_file own_file" "plain_file planned_file"
  unfolding plain_file_def
  by (simp_all add: both_unmanaged) (simp_all add: own_file_def planned_file_def planned_text fresh_stat_def storage_budget_def
    into_bytes_def newline_def)

lemma planned_stat: "(case own_file of (c, st) \<Rightarrow> st)\<lparr>st_len := length (fst planned_file), st_mode := fm_mode (metadata_of (snd own_file))\<rparr> =
    snd planned_file"
  by (simp add: own_file_def planned_file_def planned_text into_bytes_def newline_def fresh_stat_def metadata_of_def)

lemma write_run:
  assumes "mf_files w RESOLV_CONF_PATH = Some own_file"
  shows "\<exists>v. write_content memory_host (linux_direct memory_inotify) (fst planned_file) (as_captured (Some own_file)) False
     (as_captured (Some own_file)) w = (Ok (), v) \<and> mf_files v = (mf_files w)(RESOLV_CONF_PATH \<mapsto> planned_file)"
  by (simp add: write_content_def policy_run memory_host_sel(1) usable_run[OF assms both_plain(1)] linux_write_def
      reject_extended_attributes_def sys_call_def run_memory assms captured_sel verify_run[OF _ both_plain(1)] planned_stat)

definition own_resolver :: mem_files where
  "own_resolver = \<lparr> mf_files = [RESOLV_CONF_PATH \<mapsto> own_file], mf_open = Map.empty, mf_next = 3, mf_temp = Map.empty \<rparr>"

definition own_identity :: resource_identity where
  "own_identity = identity_new ResolvConfFile (ResourceId ''linux:resolv-conf'') Untracked"

definition own_snapshot :: platform_snapshot where
  "own_snapshot = to_direct_snapshot (ResourceId ''linux:resolv-conf'') (as_captured (Some own_file))"

lemma captured_reads: "from_direct_snapshot (to_direct_snapshot r (as_captured x)) = Inr (as_captured x)"
  by (cases x) (auto simp: from_direct_snapshot_def to_direct_snapshot_def snapshot_new_def direct_validate_def
      captured_file_def metadata_of_def)

lemma prepare_run:
  assumes "mf_files w RESOLV_CONF_PATH = Some own_file"
  shows "prepare_apply memory_host (linux_direct memory_inotify) own_identity own_snapshot w =
     (Ok (as_captured (Some own_file)), with_open (with_open w own_file) own_file)"
  by (simp add: prepare_apply_def own_snapshot_def captured_reads, simp add: direct_status_def own_identity_def identity_new_def
      to_direct_snapshot_def snapshot_new_def targets_resource_def run_tx verify_run[OF assms both_plain(1)])

lemma direct_run:
  "\<exists>v. bk_apply_bound (direct_backend parse_conf to_ascii memory_host (linux_direct memory_inotify)) own_identity
       own_snapshot demo_config own_resolver = (Ok (Performed None), v) \<and>
     mf_files v = [RESOLV_CONF_PATH \<mapsto> planned_file]"
proof -
  let ?w = "with_open (with_open own_resolver own_file) own_file"
  have w: "mf_files own_resolver RESOLV_CONF_PATH = Some own_file" "mf_files ?w RESOLV_CONF_PATH = Some own_file"
    by (simp_all add: own_resolver_def)
  from write_run[OF w(2)] obtain v where v: "write_content memory_host (linux_direct memory_inotify) (fst planned_file)
      (as_captured (Some own_file)) False (as_captured (Some own_file)) ?w = (Ok (), v)"
    "mf_files v = (mf_files ?w)(RESOLV_CONF_PATH \<mapsto> planned_file)" by blast
  have files: "mf_files v = [RESOLV_CONF_PATH \<mapsto> planned_file]" "mf_files v RESOLV_CONF_PATH = Some planned_file"
    by (simp_all add: v(2) own_resolver_def)
  have desired: "build_resolv_conf_content demo_config = fst planned_file" by (simp add: planned_file_def)
  have kept: "metadata_of (snd own_file) = metadata_of (snd planned_file)"
    by (simp add: own_file_def planned_file_def metadata_of_def)
  have "direct_apply_snapshot memory_host (linux_direct memory_inotify) (as_captured (Some own_file)) demo_config ?w =
      (Ok (), with_open (with_open v planned_file) planned_file)"
    by (simp add: direct_apply_snapshot_def desired run_tx v(1) current_run[OF files(2) both_plain(2)] captured_sel linux_preserved
        linux_metadata_preserved_def kept)
  then show ?thesis
    by (simp add: direct_backend_def direct_apply_bound_def run_tx prepare_run[OF w(1)] from_apply_result_def files(1))
qed

theorem direct_apply_accounted_witness:
  "\<exists>st v. bk_apply_bound (direct_backend (\<lambda>_. None) Some memory_host (linux_direct memory_inotify)) own_identity
       own_snapshot demo_config own_resolver = (Ok (Performed None), v) \<and>
     mf_files v = [RESOLV_CONF_PATH \<mapsto> (into_bytes (''nameserver 127.0.0.1'' @ newline), st)] \<and>
     metadata_of st = metadata_of (snd own_file)"
proof -
  from direct_run obtain v where v: "bk_apply_bound (direct_backend (\<lambda>_. None) Some memory_host (linux_direct memory_inotify))
      own_identity own_snapshot demo_config own_resolver = (Ok (Performed None), v)" by blast
  from direct_apply_accounted[OF memory.linux_files_axioms v[folded memory_host_sel(1)]] v planned_text show ?thesis
    by (auto simp: Let_def own_resolver_def own_file_def)
qed

text \<open>
  C37. The backend of the resolver file keeps the contract of the engine: over any file system that keeps
  its promises it is a \<open>managed_backend\<close> with the file as its one resource. So what the engine guarantees
  it guarantees on a host whose resolver file nobody else manages.
\<close>

theorem direct_keeps_contract:
  assumes "linux_files N same file_at opened pending"
    and "e_backend E = direct_backend parse_conf to_ascii (in_files N) (linux_direct N)"
    and "\<forall>w. wp (e_now E) (\<lambda>res t. no_err res \<and> same w t) w"
    and "\<forall>w. wp (e_new_v4 E) (\<lambda>res t. no_err res \<and> same w t) w"
  shows "managed_backend E (\<lambda>_. True)
     (file_view (linux_direct N) (\<lambda>w. as_captured (file_at w RESOLV_CONF_PATH))) to_direct_snapshot"
proof -
  note policy = linux_files.policy_keeps[OF assms(1)]
  have "resolver_policy.resolver file_at metadata_of (linux_direct N) = (\<lambda>w. as_captured (file_at w RESOLV_CONF_PATH))"
    by (simp add: fun_eq_iff resolver_policy.resolver_def[OF policy])
  with resolver_policy.managed[OF policy linux_direct_sel(1) assms(2)] assms(3,4) show ?thesis by simp
qed

definition memory_env :: "(mem_files, mem_dir) env" where
  "memory_env = \<lparr> e_owner = ''io.example.agent'', e_policy = Cooperative,
     e_backend = direct_backend (\<lambda>_. None) Some (in_files memory_inotify) (linux_direct memory_inotify),
     e_pfs = mem_pfs, e_libs = demo_libs, e_now = return_tx 0, e_new_v4 = return_tx 1 \<rparr>"

theorem direct_keeps_contract_witness:
  "managed_backend memory_env (\<lambda>_. True)
     (file_view (linux_direct memory_inotify) (\<lambda>w. as_captured (mf_files w RESOLV_CONF_PATH))) to_direct_snapshot"
  by (rule direct_keeps_contract[OF memory.linux_files_axioms]) (simp_all add: memory_env_def memory.same_refl)

end
