(* ===== verification/Watch_Guarantees.thy ===== *)
theory Watch_Guarantees
  imports Direct_Guarantees
begin

text \<open>What a subscriber of the directory watcher of Linux may conclude from the events it is sent.\<close>

text \<open>The resources a subscriber takes to exist: those reported as changed and not removed since.\<close>

fun heard :: "resource_id set \<Rightarrow> dns_event list \<Rightarrow> resource_id set" where
  "heard S [] = S"
| "heard S (ResourceChanged r # es) = heard (insert r S) es"
| "heard S (ResourceRemoved r # es) = heard (S - {r}) es"

lemma heard_append: "heard S (xs @ ys) = heard (heard S xs) ys"
  by (induction S xs rule: heard.induct) simp_all

lemma heard_resync:
  "heard S (map (\<lambda>r. if r \<in> C then ResourceChanged r else ResourceRemoved r) rs) = S - set rs \<union> set rs \<inter> C"
  by (induction rs arbitrary: S) auto

lemma heard_changed: "heard S (map ResourceChanged rs) = S \<union> set rs"
  by (induction rs arbitrary: S) auto

lemma set_union_of [simp]: "set (union_of xs ys) = set xs \<union> set ys"
  by (auto simp: union_of_def)

text \<open>What the subscriber knows and what the thread knows differ by the resources it started with only.\<close>

definition followed :: "watch_thread \<Rightarrow> resource_id list \<Rightarrow> resource_id set \<Rightarrow> bool" where
  "followed T known S \<longleftrightarrow> S \<subseteq> set known \<and> set known \<subseteq> S \<union> set (wd_seeds T)"

lemma event_followed:
  assumes "followed T known S"
  shows "wp (on_inotify_event N T known e)
     (\<lambda>res w. when_ok res (\<lambda>r. \<forall>known' out. r = Some (known', out) \<longrightarrow> followed T known' (heard S out))) s"
proof -
  have resync: "heard S (resync_events known current) = set current" for current
    using assms by (auto simp: resync_events_def heard_resync followed_def)
  have scanned: "wp (match_tx (scan N (wd_dirs T) (wd_mapper T))
      (\<lambda>current. return_tx (Some (union_of (wd_seeds T) current, resync_events known current)))
      (\<lambda>_. return_tx (Some (known, map ResourceChanged known))))
     (\<lambda>res w. when_ok res (\<lambda>r. \<forall>known' out. r = Some (known', out) \<longrightarrow> followed T known' (heard S out))) s"
    using assms by (intro wp_matchI[where P = "\<lambda>_ _. True"]) (auto simp: wpI followed_def resync heard_changed)
  show ?thesis
    unfolding on_inotify_event_def using scanned assms
    by (auto simp: followed_def split: option.splits)
qed

lemma events_followed:
  "on_inotify_events N T es (known, out) w = (Ok (Some known', out'), w') \<Longrightarrow>
   followed T known (heard S out) \<Longrightarrow> followed T known' (heard S out')"
proof (induction es arbitrary: known out w)
  case (Cons e es)
  from Cons.prems(1) obtain known1 out1 w1 where
    step: "on_inotify_event N T known e w = (Ok (Some (known1, out1)), w1)" and
    rest: "on_inotify_events N T es (known1, out @ out1) w1 = (Ok (Some known', out'), w')"
    by (auto simp: bind_tx_def return_tx_def split: prod.splits outcome.splits option.splits)
  have "followed T known1 (heard S (out @ out1))"
    using wp_run[OF event_followed[OF Cons.prems(2)] step] by (simp add: heard_append)
  then show ?case by (rule Cons.IH[OF rest])
qed (simp add: return_tx_def)


text \<open>The resolver file is removed, then events are lost while it comes back.\<close>

definition demo_thread :: watch_thread where
  "demo_thread = \<lparr> wd_dirs = [Path True [''etc'']], wd_mapper = direct_mapper (linux_direct memory_inotify),
     wd_watched = [1 \<mapsto> Path True [''etc'']], wd_seeds = [ResourceId ''linux:resolv-conf''] \<rparr>"

definition removal :: inotify_event where
  "removal = \<lparr> ie_watch = 1, ie_ignored = False, ie_delete_self = False, ie_move_self = False, ie_overflow = False,
     ie_delete = True, ie_moved_from = False, ie_name = Some ''resolv.conf'' \<rparr>"

definition overflow :: inotify_event where
  "overflow = removal\<lparr>ie_overflow := True, ie_delete := False, ie_name := None\<rparr>"

lemma demo_mapper:
  "direct_mapper (linux_direct memory_inotify) (path_join (Path True [''etc'']) ''resolv.conf'') = Some (ResourceId ''linux:resolv-conf'')"
  "direct_mapper (linux_direct memory_inotify) (path_join (Path True [''etc'']) ''hosts'') = None"
  by (simp_all add: direct_mapper_def RESOLV_CONF_PATH_def path_join_def path_file_name_def)


end
