(* ===== verification/Openresolv_Config.thy ===== *)
theory Openresolv_Config
  imports Unix_Files
begin

text \<open>
  The text \<open>platform/unix/openresolv.rs\<close> reads: the version openresolv prints, its configuration file,
  its list of keys, the names of its metric files, and the tag of an owner. The configuration file is a
  shell script; the parser accepts the part of the language whose meaning is plain. Text is the bytes of
  its UTF-8 encoding; a character is white space as \<open>char::is_whitespace\<close> has it.
\<close>

section \<open>Strings of the standard library\<close>

definition continuation :: "u8 \<Rightarrow> bool" where
  "continuation b \<longleftrightarrow> 0x80 \<le> b \<and> b \<le> 0xBF"

text \<open>\<open>str::from_utf8\<close>.\<close>

fun valid_utf8 :: "bytes \<Rightarrow> bool" where
  "valid_utf8 [] = True"
| "valid_utf8 (a # bs) =
     (if a < 0x80 then valid_utf8 bs
      else if 0xC2 \<le> a \<and> a \<le> 0xDF then (case bs of b # cs \<Rightarrow> continuation b \<and> valid_utf8 cs | _ \<Rightarrow> False)
      else if 0xE0 \<le> a \<and> a \<le> 0xEF then (case bs of
          b # c # cs \<Rightarrow> continuation b \<and> (a = 0xE0 \<longrightarrow> 0xA0 \<le> b) \<and> (a = 0xED \<longrightarrow> b \<le> 0x9F) \<and> continuation c \<and> valid_utf8 cs
        | _ \<Rightarrow> False)
      else if 0xF0 \<le> a \<and> a \<le> 0xF4 then (case bs of
          b # c # d # cs \<Rightarrow> continuation b \<and> (a = 0xF0 \<longrightarrow> 0x90 \<le> b) \<and> (a = 0xF4 \<longrightarrow> b \<le> 0x8F) \<and>
            continuation c \<and> continuation d \<and> valid_utf8 cs
        | _ \<Rightarrow> False)
      else False)"

definition from_utf8 :: "bytes \<Rightarrow> string option" where
  "from_utf8 bs = (if valid_utf8 bs then Some (text_of bs) else None)"

definition split_once :: "char \<Rightarrow> string \<Rightarrow> (string \<times> string) option" where
  "split_once c s = (case split_on c s of p # q # ps \<Rightarrow> Some (p, join_with [c] (q # ps)) | _ \<Rightarrow> None)"

definition rsplit_once :: "char \<Rightarrow> string \<Rightarrow> (string \<times> string) option" where
  "rsplit_once c s = (let ps = split_on c s in
     if length ps < 2 then None else Some (join_with [c] (butlast ps), last ps))"

fun split_where :: "('a \<Rightarrow> bool) \<Rightarrow> 'a list \<Rightarrow> 'a list list" where
  "split_where p [] = [[]]"
| "split_where p (x # xs) =
     (if p x then [] # split_where p xs
      else (case split_where p xs of y # ys \<Rightarrow> (x # y) # ys | [] \<Rightarrow> [[x]]))"

text \<open>\<open>split_whitespace\<close>; the first argument is the piece read so far.\<close>

function split_space :: "string \<Rightarrow> string \<Rightarrow> string list" where
  "split_space piece [] = (if piece = [] then [] else [piece])"
| "split_space piece (c # cs) = (case strip_any white_space (c # cs) of
       Some rest \<Rightarrow> (if piece = [] then [] else [piece]) @ split_space [] rest
     | None \<Rightarrow> split_space (piece @ [c]) cs)"
  by pat_completeness auto
termination
  by (relation "measure (length \<circ> snd)")
     (use white_space_heads in \<open>auto dest!: strip_any_shorter\<close>)

definition split_whitespace :: "string \<Rightarrow> string list" where
  "split_whitespace s = split_space [] s"

text \<open>\<open>str::parse::<i64>\<close> and its inverse.\<close>

definition parse_i64 :: "string \<Rightarrow> int option" where
  "parse_i64 s =
     (let (neg, ds) = (case s of c # cs \<Rightarrow> if c = CHR ''-'' then (True, cs) else if c = CHR ''+'' then (False, cs) else (False, s)
            | [] \<Rightarrow> (False, []));
          v = (if neg then - int (digits_value ds) else int (digits_value ds))
      in if ds \<noteq> [] \<and> list_all is_digit ds \<and> - (2 ^ 63) \<le> v \<and> v < 2 ^ 63 then Some v else None)"

definition display_int :: "int \<Rightarrow> string" where
  "display_int i = (if i < 0 then ''-'' @ decimal (nat (- i)) else decimal (nat i))"

section \<open>The version\<close>

definition MIN_OPENRESOLV_VERSION :: "nat \<times> nat \<times> nat" where
  "MIN_OPENRESOLV_VERSION = (3, 12, 0)"

definition parse_version_component :: "string \<Rightarrow> nat option" where
  "parse_version_component c =
     (if c = [] \<or> \<not> list_all is_digit c then None
      else if digits_value c \<le> u64_max then Some (digits_value c) else None)"

definition parse_openresolv_version :: "string \<Rightarrow> (nat \<times> nat \<times> nat) option" where
  "parse_openresolv_version version = (case split_on (CHR ''.'') version of
       [a, b, c] \<Rightarrow> Option.bind (parse_version_component a) (\<lambda>major.
         Option.bind (parse_version_component b) (\<lambda>minor.
         Option.bind (parse_version_component c) (\<lambda>patch. Some (major, minor, patch))))
     | _ \<Rightarrow> None)"

text \<open>The order of the triples is lexicographic.\<close>

definition version_at_least :: "nat \<times> nat \<times> nat \<Rightarrow> nat \<times> nat \<times> nat \<Rightarrow> bool" where
  "version_at_least least v = (case (least, v) of ((a, b, c), (x, y, z)) \<Rightarrow>
     a < x \<or> a = x \<and> (b < y \<or> b = y \<and> c \<le> z))"

definition openresolv_version_is_supported :: "bytes \<Rightarrow> bool" where
  "openresolv_version_is_supported out = (case from_utf8 (hd (split_on 10 out)) of
       None \<Rightarrow> False
     | Some line \<Rightarrow> (case strip_prefix ''openresolv '' line of
           None \<Rightarrow> False
         | Some version \<Rightarrow> (case parse_openresolv_version version of
               None \<Rightarrow> False
             | Some v \<Rightarrow> version_at_least MIN_OPENRESOLV_VERSION v)))"

section \<open>The configuration file\<close>

definition forbidden_quoted :: string where
  "forbidden_quoted = ''$`'' @ [char_of (92::nat), char_of (39::nat), char_of (34::nat)] @ '';|&()<>''"

definition forbidden_unquoted :: string where
  "forbidden_unquoted = ''#*?[]{}!~''"

definition safe_literal_value :: "string \<Rightarrow> bool \<Rightarrow> string option" where
  "safe_literal_value v quoted =
     (if (\<not> quoted \<and> list_ex (\<lambda>w. contains w v) white_space)
         \<or> list_ex (\<lambda>c. c \<in> set forbidden_quoted) v
         \<or> (\<not> quoted \<and> list_ex (\<lambda>c. c \<in> set forbidden_unquoted) v)
      then None else Some v)"

definition unquote :: "char \<Rightarrow> string \<Rightarrow> string option" where
  "unquote q v = Option.bind (strip_prefix [q] v) (strip_suffix [q])"

definition parse_literal_value :: "string \<Rightarrow> string option" where
  "parse_literal_value v =
     (if trim v \<noteq> v then None
      else case unquote (char_of (39::nat)) v of
        Some inner \<Rightarrow> safe_literal_value inner True
      | None \<Rightarrow> (case unquote (char_of (34::nat)) v of
          Some inner \<Rightarrow> safe_literal_value inner True
        | None \<Rightarrow> safe_literal_value v False))"

definition name_char :: "char \<Rightarrow> bool" where
  "name_char c \<longleftrightarrow> is_lower c \<or> is_upper c \<or> is_digit c \<or> c = CHR ''_''"

definition parse_literal_assignment :: "string \<Rightarrow> (string \<times> string) option" where
  "parse_literal_assignment line = (case split_once (CHR ''='') line of
       None \<Rightarrow> None
     | Some (key, v) \<Rightarrow>
         if key = [] \<or> trim key \<noteq> key \<or> trim v \<noteq> v \<or> \<not> list_all name_char key then None
         else map_option (Pair key) (parse_literal_value v))"

definition absolute_path :: "string \<Rightarrow> path option" where
  "absolute_path v = (case v of
       c # cs \<Rightarrow> if c = CHR ''/'' then Some (Path True (filter (\<lambda>p. p \<noteq> [] \<and> p \<noteq> ''.'') (split_on (CHR ''/'') cs))) else None
     | [] \<Rightarrow> None)"

definition contains_setting_token :: "string \<Rightarrow> string \<Rightarrow> bool" where
  "contains_setting_token line setting \<longleftrightarrow> setting \<in> set (split_where (\<lambda>c. \<not> name_char c) line)"

definition STANDARD_STATE_DIRS :: "path list" where
  "STANDARD_STATE_DIRS = [Path True [''run'', ''resolvconf''], Path True [''var'', ''run'', ''resolvconf'']]"

text \<open>One line; the state is the path configured so far and whether the state directory has been.\<close>

definition config_line :: "path option \<times> bool \<Rightarrow> string \<Rightarrow> (path option \<times> bool) option" where
  "config_line acc raw = (case acc of (configured, state_dir) \<Rightarrow>
     (let line = trim raw in
      if line = [] \<or> hd line = CHR ''#'' then Some acc
      else case parse_literal_assignment line of
        None \<Rightarrow> None
      | Some (key, v) \<Rightarrow>
          if contains_setting_token line ''resolv_conf'' \<and> key \<noteq> ''resolv_conf'' then None
          else if contains_setting_token line ''state_dir'' \<and> key \<noteq> ''state_dir'' then None
          else if key = ''resolv_conf'' then
            (if configured \<noteq> None then None
             else map_option (\<lambda>p. (Some p, state_dir)) (absolute_path v))
          else if key = ''state_dir'' then
            (if state_dir then None
             else case absolute_path v of
               None \<Rightarrow> None
             | Some p \<Rightarrow> if p \<in> set STANDARD_STATE_DIRS then Some (configured, True) else None)
          else if (key = ''resolvconf'' \<or> key = ''libc'') \<and> v \<noteq> ''YES'' then None
          else if key = ''resolv_conf_passthrough'' \<and> v \<noteq> ''NO'' then None
          else Some acc))"

fun config_lines :: "string list \<Rightarrow> path option \<times> bool \<Rightarrow> (path option \<times> bool) option" where
  "config_lines [] acc = Some acc"
| "config_lines (l # ls) acc = Option.bind (config_line acc l) (config_lines ls)"

definition parse_resolvconf_config :: "string \<Rightarrow> path option" where
  "parse_resolvconf_config config = (case config_lines (lines_of config) (None, False) of
       None \<Rightarrow> None
     | Some (configured, _) \<Rightarrow> Some (case configured of Some p \<Rightarrow> p | None \<Rightarrow> RESOLV_CONF_PATH))"

definition read_resolvconf_config :: "'w file_host \<Rightarrow> ('w, string) tx" where
  "read_resolvconf_config F =
     bind_tx (read_config F (Path True [''etc'', ''resolvconf.conf''])) (\<lambda>bs. case from_utf8 bs of
         Some s \<Rightarrow> return_tx s
       | None \<Rightarrow> throw (Io OtherKind ''invalid utf-8''))"

definition configured_resolv_conf_matches :: "'w file_host \<Rightarrow> path \<Rightarrow> ('w, bool) tx" where
  "configured_resolv_conf_matches F p =
     match_tx (read_resolvconf_config F)
       (\<lambda>config. return_tx (parse_resolvconf_config config = Some p))
       (\<lambda>e. return_tx (is_not_found e \<and> p = RESOLV_CONF_PATH))"

definition config_blocks_direct :: "path \<Rightarrow> string \<Rightarrow> bool" where
  "config_blocks_direct p config = (case parse_resolvconf_config config of
       Some configured \<Rightarrow> configured = p | None \<Rightarrow> True)"

definition configuration_blocks_direct :: "'w file_host \<Rightarrow> path \<Rightarrow> ('w, bool) tx" where
  "configuration_blocks_direct F p =
     match_tx (read_resolvconf_config F)
       (\<lambda>config. return_tx (config_blocks_direct p config))
       (\<lambda>e. return_tx (\<not> is_not_found e))"

section \<open>Keys and tags\<close>

definition parse_keys :: "bytes \<Rightarrow> string list result" where
  "parse_keys out = (case from_utf8 out of
       None \<Rightarrow> Inl (PlatformError Resolvconf ''resolvconf returned a non-UTF-8 key list'')
     | Some s \<Rightarrow> Inr (remdups (split_whitespace s)))"

fun ordered_subsequence :: "'a list \<Rightarrow> 'a list \<Rightarrow> bool" where
  "ordered_subsequence [] available = True"
| "ordered_subsequence (w # ws) available = (case dropWhile (\<lambda>a. a \<noteq> w) available of
       [] \<Rightarrow> False | a # rest \<Rightarrow> ordered_subsequence ws rest)"

text \<open>
  The tag of an owner. \<open>uuid\<close> is the textual form of the version 5 identifier of the owner in a fixed
  name space, which the package \<open>uuid\<close> computes. Owners are ASCII.
\<close>

definition tag_char :: "char \<Rightarrow> char" where
  "tag_char c = (if is_lower c \<or> is_upper c \<or> is_digit c \<or> c = CHR ''-'' \<or> c = CHR ''.''
     then hd (ascii_lowercase [c]) else CHR ''-'')"

definition owner_tag :: "(string \<Rightarrow> string) \<Rightarrow> string \<Rightarrow> string" where
  "owner_tag uuid owner =
     (let readable = take 24 (map tag_char owner);
          readable = (if readable = [] then ''owner'' else readable);
          readable = (if is_lower (hd readable) \<or> is_digit (hd readable) then readable else CHR ''x'' # readable)
      in readable @ ''-'' @ ascii_lowercase (uuid owner) @ ''.osdns'')"

end
