(* ===== verification/Openresolv.thy ===== *)
theory Openresolv
  imports Openresolv_Config Unix_Direct
begin

text \<open>
  The backend of openresolv: \<open>platform/unix/openresolv.rs\<close>. Its record of a key is a file of openresolv's
  and a few markers beside it; it is written by running the program \<open>resolvconf\<close>. Processes, temporary
  files and directories are the parameter \<open>resolvconf_host\<close>, over the state \<open>'w\<close> of the system.
\<close>

section \<open>Running resolvconf\<close>

datatype entry_kind = EntryFile | EntrySymlink | EntryOther

text \<open>
  \<open>oh_try_wait\<close> tells whether the child has ended and, if so, with success. The two kinds of \<open>kill\<close> and
  the final \<open>wait\<close> of \<open>terminate_child\<close> are \<open>oh_terminate\<close>; their results are not used. \<open>oh_executable\<close>
  tells whether a path is a regular file with an execute permission.
\<close>

record 'w resolvconf_host =
  oh_files :: "'w file_host"
  oh_tempfile :: "'w \<Rightarrow> (io_error + nat) \<times> 'w"
  oh_clone :: "nat \<Rightarrow> 'w \<Rightarrow> (io_error + nat) \<times> 'w"
  oh_write_all :: "nat \<Rightarrow> bytes \<Rightarrow> 'w \<Rightarrow> (io_error + unit) \<times> 'w"
  oh_rewind :: "nat \<Rightarrow> 'w \<Rightarrow> (io_error + unit) \<times> 'w"
  oh_length :: "nat \<Rightarrow> 'w \<Rightarrow> (io_error + nat) \<times> 'w"
  oh_read :: "nat \<Rightarrow> nat \<Rightarrow> 'w \<Rightarrow> (io_error + bytes) \<times> 'w"
  oh_spawn :: "path \<Rightarrow> string list \<Rightarrow> nat option \<Rightarrow> nat \<Rightarrow> nat \<Rightarrow> 'w \<Rightarrow> (io_error + nat) \<times> 'w"
  oh_try_wait :: "nat \<Rightarrow> 'w \<Rightarrow> (io_error + bool option) \<times> 'w"
  oh_terminate :: "nat \<Rightarrow> 'w \<Rightarrow> 'w"
  oh_now :: "'w \<Rightarrow> instant \<times> 'w"
  oh_sleep :: "duration \<Rightarrow> 'w \<Rightarrow> 'w"
  oh_symlink_metadata :: "path \<Rightarrow> 'w \<Rightarrow> (io_error + entry_kind) \<times> 'w"
  oh_executable :: "path \<Rightarrow> 'w \<Rightarrow> (io_error + bool) \<times> 'w"
  oh_is_dir :: "path \<Rightarrow> 'w \<Rightarrow> bool \<times> 'w"
  oh_canonicalize :: "path \<Rightarrow> 'w \<Rightarrow> (io_error + path) \<times> 'w"
  oh_read_dir :: "path \<Rightarrow> 'w \<Rightarrow> (io_error + (io_error + bytes) list) \<times> 'w"

definition RUN_TIMEOUT :: duration where
  "RUN_TIMEOUT = secs 30"

definition RUN_LIMIT :: nat where
  "RUN_LIMIT = 16 * 1024 * 1024"

definition RUN_POLL :: duration where
  "RUN_POLL = millis 10"

definition indeterminate_run :: "string \<Rightarrow> error" where
  "indeterminate_run m = IndeterminateMutation Resolvconf m"

text \<open>
  The loop of \<open>run_bounded\<close>: the exit status, or the error after the child has been killed. \<open>n\<close> bounds
  how often it may sleep; the clock advances by what it sleeps, so the deadline is reached first.
\<close>

definition overflowed :: "'w resolvconf_host \<Rightarrow> nat \<Rightarrow> nat \<Rightarrow> nat \<Rightarrow> ('w, bool) tx" where
  "overflowed H out err limit =
     bind_tx (try_tx (io_call (oh_length H out))) (\<lambda>a.
     bind_tx (try_tx (io_call (oh_length H err))) (\<lambda>b. case (a, b) of
         (Inr x, Inr y) \<Rightarrow> return_tx (x > limit \<or> y > limit)
       | _ \<Rightarrow> return_tx True))"

fun await_child ::
  "'w resolvconf_host \<Rightarrow> nat \<Rightarrow> nat \<Rightarrow> nat \<Rightarrow> nat \<Rightarrow> instant \<Rightarrow> nat \<Rightarrow> ('w, bool) tx" where
  "await_child H child out err limit deadline n =
     bind_tx (overflowed H out err limit) (\<lambda>overflow.
     bind_tx (if overflow then return_tx True else bind_tx (sys_call (oh_now H)) (\<lambda>now. return_tx (now \<ge> deadline))) (\<lambda>stop.
     if stop then
       seq_tx (modify_tx (oh_terminate H child)) (throw (indeterminate_run
         (if overflow then ''resolvconf exceeded its output budget'' else ''resolvconf exceeded its execution deadline'')))
     else
       match_tx (io_call (oh_try_wait H child))
         (\<lambda>status. case status of
             Some success \<Rightarrow> return_tx success
           | None \<Rightarrow> seq_tx (modify_tx (oh_sleep H RUN_POLL))
               (case n of 0 \<Rightarrow> crash | Suc k \<Rightarrow> await_child H child out err limit deadline k))
         (\<lambda>_. seq_tx (modify_tx (oh_terminate H child)) (throw (indeterminate_run ''cannot reap resolvconf'')))))"

declare await_child.simps [simp del]

definition finish_run :: "bool \<Rightarrow> bytes \<Rightarrow> bytes result" where
  "finish_run success out = (if success then Inr out
     else Inl (PlatformError Resolvconf ''resolvconf exited with a failure''))"

definition run_bounded ::
  "'w resolvconf_host \<Rightarrow> path \<Rightarrow> string list \<Rightarrow> bytes option \<Rightarrow> duration \<Rightarrow> nat \<Rightarrow> ('w, bytes) tx" where
  "run_bounded H binary args stdin timeout limit =
     bind_tx (io_call (oh_tempfile H)) (\<lambda>out.
     bind_tx (io_call (oh_tempfile H)) (\<lambda>err.
     bind_tx (io_call (oh_clone H out)) (\<lambda>child_out.
     bind_tx (io_call (oh_clone H err)) (\<lambda>child_err.
     bind_tx (case stdin of
         None \<Rightarrow> return_tx None
       | Some bs \<Rightarrow>
           bind_tx (io_call (oh_tempfile H)) (\<lambda>f.
           seq_tx (io_call (oh_write_all H f bs)) (
           seq_tx (io_call (oh_rewind H f)) (return_tx (Some f))))) (\<lambda>input.
     bind_tx (match_tx (io_call (oh_spawn H binary args input child_out child_err)) return_tx
       (\<lambda>_. throw (PlatformError Resolvconf ''cannot spawn resolvconf''))) (\<lambda>child.
     bind_tx (sys_call (oh_now H)) (\<lambda>now.
     bind_tx (await_child H child out err limit (now + timeout) (timeout div RUN_POLL + 1)) (\<lambda>success.
     seq_tx (io_call (oh_rewind H out)) (
     seq_tx (io_call (oh_rewind H err)) (
     bind_tx (io_call (oh_read H (limit + 1) out)) (\<lambda>stdout.
     bind_tx (io_call (oh_read H (limit + 1) err)) (\<lambda>stderr.
     if length stdout > limit \<or> length stderr > limit
     then throw (indeterminate_run ''resolvconf exceeded its output budget'')
     else lift_result (finish_run success stdout)))))))))))))"

definition run :: "'w resolvconf_host \<Rightarrow> path \<Rightarrow> string list \<Rightarrow> bytes option \<Rightarrow> ('w, bytes) tx" where
  "run H binary args stdin = run_bounded H binary args stdin RUN_TIMEOUT RUN_LIMIT"

section \<open>Finding openresolv\<close>

record probe =
  pb_binary :: path
  pb_key_dir :: path
  pb_resolv_conf :: path

definition SEARCH_PATH :: "path list" where
  "SEARCH_PATH = [Path True [''sbin''], Path True [''usr'', ''sbin''], Path True [''usr'', ''local'', ''sbin''],
     Path True [''bin''], Path True [''usr'', ''bin'']]"

definition STATE_DIR_CANDIDATES :: "path list" where
  "STATE_DIR_CANDIDATES = [Path True [''run'', ''resolvconf'', ''keys''], Path True [''run'', ''resolvconf'', ''interfaces''],
     Path True [''var'', ''run'', ''resolvconf'', ''keys''], Path True [''var'', ''run'', ''resolvconf'', ''interfaces'']]"

definition is_openresolv :: "'w resolvconf_host \<Rightarrow> path \<Rightarrow> ('w, bool) tx" where
  "is_openresolv H binary = match_tx (run H binary [''--version''] None)
     (\<lambda>out. return_tx (openresolv_version_is_supported out)) (\<lambda>_. return_tx False)"

fun find_binary :: "'w resolvconf_host \<Rightarrow> path list \<Rightarrow> ('w, path option) tx" where
  "find_binary H [] = return_tx None"
| "find_binary H (dir # dirs) =
     (let p = path_join dir ''resolvconf'' in
      bind_tx (ok_tx (io_call (oh_executable H p))) (\<lambda>executable.
      bind_tx (if executable = Some True then is_openresolv H p else return_tx False) (\<lambda>found.
      if found then return_tx (Some p) else find_binary H dirs)))"

text \<open>The names in a directory of keys; \<open>flatten\<close> skips entries that cannot be read.\<close>

fun key_entries :: "'w resolvconf_host \<Rightarrow> path \<Rightarrow> (io_error + bytes) list \<Rightarrow> string list \<Rightarrow> ('w, string list option) tx" where
  "key_entries H dir [] found = return_tx (Some found)"
| "key_entries H dir (Inl _ # es) found = key_entries H dir es found"
| "key_entries H dir (Inr name # es) found =
     bind_tx (ok_tx (io_call (oh_symlink_metadata H (path_join dir (text_of name))))) (\<lambda>kind.
     if kind \<noteq> Some EntryFile then return_tx None
     else case from_utf8 name of
       None \<Rightarrow> return_tx None
     | Some n \<Rightarrow> key_entries H dir es (push_unique found n))"

definition key_dir_contents :: "'w resolvconf_host \<Rightarrow> path \<Rightarrow> ('w, string list option) tx" where
  "key_dir_contents H dir = bind_tx (ok_tx (io_call (oh_read_dir H dir))) (\<lambda>entries. case entries of
       None \<Rightarrow> return_tx None
     | Some es \<Rightarrow> key_entries H dir es [])"

fun matching_dirs :: "'w resolvconf_host \<Rightarrow> string list \<Rightarrow> path list \<Rightarrow> path list \<Rightarrow> path list \<Rightarrow> ('w, path list) tx" where
  "matching_dirs H keys seen matches [] = return_tx matches"
| "matching_dirs H keys seen matches (c # cs) =
     bind_tx (ok_tx (io_call (oh_canonicalize H c))) (\<lambda>canonical. case canonical of
         None \<Rightarrow> matching_dirs H keys seen matches cs
       | Some p \<Rightarrow>
           if p \<in> set seen then matching_dirs H keys seen matches cs
           else bind_tx (key_dir_contents H p) (\<lambda>files.
             if (case files of Some fs \<Rightarrow> set fs = set keys | None \<Rightarrow> False)
             then matching_dirs H keys (p # seen) (matches @ [p]) cs
             else matching_dirs H keys (p # seen) matches cs))"

definition locate_key_dir :: "'w resolvconf_host \<Rightarrow> path \<Rightarrow> ('w, path option) tx" where
  "locate_key_dir H binary =
     bind_tx (ok_tx (run H binary [''-i''] None)) (\<lambda>out. case Option.bind out (\<lambda>bs. case parse_keys bs of Inr ks \<Rightarrow> Some ks | Inl _ \<Rightarrow> None) of
         None \<Rightarrow> return_tx None
       | Some keys \<Rightarrow>
           if keys = [] then return_tx None
           else bind_tx (matching_dirs H keys [] [] STATE_DIR_CANDIDATES) (\<lambda>matches.
             return_tx (case matches of [p] \<Rightarrow> Some p | _ \<Rightarrow> None)))"

definition probe_for_resolv_conf :: "'w resolvconf_host \<Rightarrow> path \<Rightarrow> ('w, probe option) tx" where
  "probe_for_resolv_conf H resolv_conf =
     bind_tx (configured_resolv_conf_matches (oh_files H) resolv_conf) (\<lambda>ok.
     if \<not> ok then return_tx None
     else bind_tx (find_binary H SEARCH_PATH) (\<lambda>binary. case binary of
         None \<Rightarrow> return_tx None
       | Some b \<Rightarrow> bind_tx (locate_key_dir H b) (\<lambda>dir. return_tx (map_option
           (\<lambda>d. \<lparr> pb_binary = b, pb_key_dir = d, pb_resolv_conf = resolv_conf \<rparr>) dir))))"

section \<open>Reading a record\<close>

record 'w resolvconf =
  rv_binary :: path
  rv_key_dir :: path
  rv_resolv_conf :: path
  rv_caps :: capabilities
  rv_resource_prefix :: string
  rv_tag_prefix :: string
  rv_list_interfaces :: "('w, interface_info list) tx"
  rv_watch_directory :: "backend_kind \<Rightarrow> path list \<Rightarrow> resource_id list \<Rightarrow> (path \<Rightarrow> resource_id option) \<Rightarrow>
    ('w, watch_id) tx"
  rv_validate_plan :: "normalized_config \<Rightarrow> unit result"

record resolvconf_record =
  rr_content :: "bytes option"
  rr_attributes :: resolvconf_attributes

definition resolvconf_capabilities :: capabilities where
  "resolvconf_capabilities =
     with_resource_binding PreflightOnly (with_cache_flush False (with_watch True (with_split_dns False
     (with_search_domains True (with_per_interface_dns False (with_global_dns True (with_read True
     (capabilities_new Resolvconf))))))))"

definition tag_root :: "'w resolvconf \<Rightarrow> string" where
  "tag_root B = rv_resource_prefix B @ '':resolvconf:tag:''"

definition tag_of :: "'w resolvconf \<Rightarrow> resource_id \<Rightarrow> string result" where
  "tag_of B r = (case strip_prefix (tag_root B) (rid_str r) of
       Some tag \<Rightarrow> Inr tag | None \<Rightarrow> Inl (InvalidConfig ''resource is not a resolvconf record''))"

definition resource_of_tag :: "'w resolvconf \<Rightarrow> string \<Rightarrow> resource_id result" where
  "resource_of_tag B tag = resource_id_new (tag_root B @ tag)"

definition state_dir :: "'w resolvconf \<Rightarrow> path" where
  "state_dir B = (case path_parent (rv_key_dir B) of Some p \<Rightarrow> p | None \<Rightarrow> rv_key_dir B)"

definition METRIC_SUBDIRS :: "string list" where
  "METRIC_SUBDIRS = [''metrics'', ''private'', ''nosearch'', ''exclusive'', ''deprecated'']"

text \<open>
  A look at one entry: what it is, \<open>None\<close> if it is absent. Symbolic links and other things are refused.
\<close>

definition regular_entry :: "'w resolvconf_host \<Rightarrow> path \<Rightarrow> error \<Rightarrow> error \<Rightarrow> ('w, bool) tx" where
  "regular_entry H p on_symlink on_other =
     match_tx (io_call (oh_symlink_metadata H p))
       (\<lambda>kind. case kind of
           EntrySymlink \<Rightarrow> throw on_symlink
         | EntryOther \<Rightarrow> throw on_other
         | EntryFile \<Rightarrow> return_tx True)
       (\<lambda>e. if is_not_found e then return_tx False else throw e)"

definition read_record_content :: "'w resolvconf_host \<Rightarrow> 'w resolvconf \<Rightarrow> string \<Rightarrow> ('w, bytes option) tx" where
  "read_record_content H B tag =
     (let p = path_join (rv_key_dir B) tag in
      bind_tx (regular_entry H p (Unsupported Resolvconf ''refusing openresolv key symlink'')
        (PlatformError Resolvconf ''openresolv key is not a regular file'')) (\<lambda>exists.
      if exists then bind_tx (read_config (oh_files H) p) (\<lambda>c. return_tx (Some c)) else return_tx None))"

definition marker_exists :: "'w resolvconf_host \<Rightarrow> 'w resolvconf \<Rightarrow> string \<Rightarrow> string \<Rightarrow> ('w, bool) tx" where
  "marker_exists H B dir tag =
     regular_entry H (path_join (path_join (state_dir B) dir) tag)
       (Unsupported Resolvconf ''refusing openresolv marker symlink'')
       (PlatformError Resolvconf ''openresolv marker is not a regular file'')"

definition metric_name :: "string \<Rightarrow> string \<Rightarrow> string option \<Rightarrow> string option result" where
  "metric_name tag name found = (case rsplit_once (CHR '' '') name of
       None \<Rightarrow> Inr found
     | Some (metric, key) \<Rightarrow>
         if key \<noteq> tag then Inr found
         else if found \<noteq> None then Inl (PlatformError Resolvconf ''multiple openresolv metrics exist'')
         else (case parse_i64 metric of
             None \<Rightarrow> Inl (PlatformError Resolvconf ''invalid openresolv metric'')
           | Some i \<Rightarrow> Inr (Some (display_int i))))"

fun scan_metrics ::
  "'w resolvconf_host \<Rightarrow> path \<Rightarrow> string \<Rightarrow> (io_error + bytes) list \<Rightarrow> string option \<Rightarrow> ('w, string option) tx" where
  "scan_metrics H dir tag [] found = return_tx found"
| "scan_metrics H dir tag (Inl (k, e) # es) found = throw (Io k e)"
| "scan_metrics H dir tag (Inr name # es) found =
     bind_tx (io_call (oh_symlink_metadata H (path_join dir (text_of name)))) (\<lambda>kind. case kind of
         EntrySymlink \<Rightarrow> throw (Unsupported Resolvconf ''refusing openresolv metric directory symlinks'')
       | EntryOther \<Rightarrow> scan_metrics H dir tag es found
       | EntryFile \<Rightarrow> (case from_utf8 name of
             None \<Rightarrow> throw (PlatformError Resolvconf ''openresolv metric filename is not UTF-8'')
           | Some n \<Rightarrow> bind_tx (lift_result (metric_name tag n found)) (scan_metrics H dir tag es)))"

definition metric_of :: "'w resolvconf_host \<Rightarrow> 'w resolvconf \<Rightarrow> string \<Rightarrow> ('w, string option) tx" where
  "metric_of H B tag =
     (let dir = path_join (state_dir B) ''metrics'' in
      match_tx (io_call (oh_read_dir H dir))
        (\<lambda>entries. scan_metrics H dir tag entries None)
        (\<lambda>e. if is_not_found e then return_tx None else throw e))"

fun scan_exclusive :: "'w resolvconf_host \<Rightarrow> path \<Rightarrow> string \<Rightarrow> (io_error + bytes) list \<Rightarrow> ('w, bool) tx" where
  "scan_exclusive H dir tag [] = return_tx False"
| "scan_exclusive H dir tag (Inl (k, e) # es) = throw (Io k e)"
| "scan_exclusive H dir tag (Inr name # es) =
     bind_tx (io_call (oh_symlink_metadata H (path_join dir (text_of name)))) (\<lambda>kind.
     if kind = EntrySymlink then throw (Unsupported Resolvconf ''refusing openresolv exclusive marker symlinks'')
     else case from_utf8 name of
       None \<Rightarrow> throw (PlatformError Resolvconf ''openresolv exclusive filename is not UTF-8'')
     | Some n \<Rightarrow>
         if map_option snd (rsplit_once (CHR '' '') n) = Some tag then return_tx True
         else scan_exclusive H dir tag es)"

definition exclusive_exists :: "'w resolvconf_host \<Rightarrow> 'w resolvconf \<Rightarrow> string \<Rightarrow> ('w, bool) tx" where
  "exclusive_exists H B tag =
     (let dir = path_join (state_dir B) ''exclusive'' in
      match_tx (io_call (oh_read_dir H dir)) (scan_exclusive H dir tag)
        (\<lambda>e. if is_not_found e then return_tx False else throw e))"

definition read_attributes :: "'w resolvconf_host \<Rightarrow> 'w resolvconf \<Rightarrow> string \<Rightarrow> ('w, resolvconf_attributes) tx" where
  "read_attributes H B tag =
     bind_tx (exclusive_exists H B tag) (\<lambda>exclusive.
     if exclusive then throw (Unsupported Resolvconf ''cannot safely restore exclusive openresolv key'')
     else
       bind_tx (metric_of H B tag) (\<lambda>metric.
       bind_tx (marker_exists H B ''private'' tag) (\<lambda>private.
       bind_tx (marker_exists H B ''nosearch'' tag) (\<lambda>nosearch.
       bind_tx (marker_exists H B ''deprecated'' tag) (\<lambda>deprecated.
       return_tx \<lparr> rc_metric = metric, rc_private = private, rc_nosearch = nosearch, rc_deprecated = deprecated \<rparr>)))))"

definition read_record_state :: "'w resolvconf_host \<Rightarrow> 'w resolvconf \<Rightarrow> string \<Rightarrow> ('w, resolvconf_record) tx" where
  "read_record_state H B tag =
     bind_tx (read_record_content H B tag) (\<lambda>content.
     bind_tx (read_attributes H B tag) (\<lambda>attributes.
     return_tx \<lparr> rr_content = content, rr_attributes = attributes \<rparr>))"

definition read_live :: "'w resolvconf_host \<Rightarrow> 'w resolvconf \<Rightarrow> resource_id \<Rightarrow> ('w, bytes) tx" where
  "read_live H B r =
     bind_tx (classify (oh_files H) (rv_resolv_conf B)) (\<lambda>state.
     if state \<noteq> OpenResolv
     then throw (ExternalModification r ''the resolver file is no longer owned by openresolv'')
     else read_config (oh_files H) (rv_resolv_conf B))"

section \<open>Writing a record\<close>

definition add_args :: "string \<Rightarrow> resolvconf_attributes \<Rightarrow> string list" where
  "add_args tag attributes =
     [''-a'', tag] @ (case rc_metric attributes of Some m \<Rightarrow> [''-m'', m] | None \<Rightarrow> []) @
     (if rc_nosearch attributes then [''-p'', ''-p''] else if rc_private attributes then [''-p''] else [])"

definition add_record :: "'w resolvconf_host \<Rightarrow> 'w resolvconf \<Rightarrow> string \<Rightarrow> bytes \<Rightarrow> resolvconf_attributes \<Rightarrow> ('w, unit) tx" where
  "add_record H B tag content attributes =
     seq_tx (run H (rv_binary B) (add_args tag attributes) (Some content)) (return_tx ())"

definition delete_record :: "'w resolvconf_host \<Rightarrow> 'w resolvconf \<Rightarrow> string \<Rightarrow> ('w, unit) tx" where
  "delete_record H B tag = seq_tx (run H (rv_binary B) [''-d'', tag, ''-f''] None) (return_tx ())"

definition restore_record :: "'w resolvconf_host \<Rightarrow> 'w resolvconf \<Rightarrow> string \<Rightarrow> resolvconf_record \<Rightarrow> ('w, unit) tx" where
  "restore_record H B tag rec = (case rr_content rec of
       None \<Rightarrow> delete_record H B tag
     | Some content \<Rightarrow>
         seq_tx (add_record H B tag content (rr_attributes rec)) (
         if rc_deprecated (rr_attributes rec)
         then seq_tx (run H (rv_binary B) [''-C'', tag] None) (return_tx ()) else return_tx ()))"

definition attributes_default :: resolvconf_attributes where
  "attributes_default = \<lparr> rc_metric = None, rc_private = False, rc_nosearch = False, rc_deprecated = False \<rparr>"

definition attributes_applied :: resolvconf_attributes where
  "attributes_applied = attributes_default\<lparr>rc_metric := Some ''0''\<rparr>"

definition applied_record :: "normalized_config \<Rightarrow> resolvconf_record" where
  "applied_record plan = \<lparr> rr_content = Some (build_resolv_conf_content plan), rr_attributes = attributes_applied \<rparr>"

section \<open>Snapshots\<close>

definition to_resolvconf_snapshot :: "resource_id \<Rightarrow> resolvconf_record \<Rightarrow> bytes option \<Rightarrow> platform_snapshot" where
  "to_resolvconf_snapshot r rec live = snapshot_new Resolvconf r (SnapResolvconf
     \<lparr> rc_content = rr_content rec, rc_attributes = rr_attributes rec, rc_live = live \<rparr>)"

definition record_from_snapshot :: "platform_snapshot \<Rightarrow> resolvconf_record result" where
  "record_from_snapshot s = (case ps_data s of
       SnapResolvconf d \<Rightarrow> Inr \<lparr> rr_content = rc_content d, rr_attributes = rc_attributes d \<rparr>
     | _ \<Rightarrow> Inl (JournalCorrupt ''resolvconf snapshot has the wrong backend data''))"

definition live_from_snapshot :: "platform_snapshot \<Rightarrow> bytes option" where
  "live_from_snapshot s = (case ps_data s of SnapResolvconf d \<Rightarrow> rc_live d | _ \<Rightarrow> None)"

definition records_equivalent :: "platform_snapshot \<Rightarrow> platform_snapshot \<Rightarrow> bool" where
  "records_equivalent a b = (case (record_from_snapshot a, record_from_snapshot b) of
       (Inr x, Inr y) \<Rightarrow> x = y \<and> live_from_snapshot a = live_from_snapshot b
     | _ \<Rightarrow> False)"

definition live_matches :: "conf_parser \<Rightarrow> idna \<Rightarrow> bytes \<Rightarrow> normalized_config \<Rightarrow> bool" where
  "live_matches parse_conf to_ascii live plan = (case parse_resolv_conf_content parse_conf to_ascii live of
       Inl _ \<Rightarrow> False
     | Inr (nss, search) \<Rightarrow>
         ordered_subsequence (nc_nameservers plan) nss \<and>
         ordered_subsequence (filter (\<lambda>d. \<not> is_root d) (nc_search plan)) search)"

definition resolvconf_verification_error :: error where
  "resolvconf_verification_error =
     PlatformError Resolvconf ''resolvconf key was stored but its values are not active in /etc/resolv.conf''"

definition check_live_snapshot :: "'w resolvconf_host \<Rightarrow> 'w resolvconf \<Rightarrow> resource_id \<Rightarrow> platform_snapshot \<Rightarrow> ('w, unit) tx" where
  "check_live_snapshot H B r expected = (case live_from_snapshot expected of
       None \<Rightarrow> return_tx ()
     | Some l \<Rightarrow> bind_tx (read_live H B r) (\<lambda>live.
         if live \<noteq> l
         then throw (ExternalModification r ''the effective resolver file changed since it was captured'')
         else return_tx ()))"

section \<open>The backend\<close>

definition resolvconf_new :: "(string \<Rightarrow> string) \<Rightarrow> probe \<Rightarrow> string \<Rightarrow> string \<Rightarrow> ('w, interface_info list) tx \<Rightarrow>
  (backend_kind \<Rightarrow> path list \<Rightarrow> resource_id list \<Rightarrow> (path \<Rightarrow> resource_id option) \<Rightarrow> ('w, watch_id) tx) \<Rightarrow>
  (normalized_config \<Rightarrow> unit result) \<Rightarrow> 'w resolvconf" where
  "resolvconf_new uuid pb owner prefix interfaces watch validate =
     \<lparr> rv_binary = pb_binary pb, rv_key_dir = pb_key_dir pb, rv_resolv_conf = pb_resolv_conf pb,
       rv_caps = resolvconf_capabilities, rv_resource_prefix = prefix, rv_tag_prefix = owner_tag uuid owner,
       rv_list_interfaces = interfaces, rv_watch_directory = watch, rv_validate_plan = validate \<rparr>"

definition global_tag :: "'w resolvconf \<Rightarrow> string" where
  "global_tag B = rv_tag_prefix B @ ''.global''"

definition resolvconf_resolve :: "'w resolvconf \<Rightarrow> dns_scope \<Rightarrow> normalized_config \<Rightarrow> ('w, resource_id list) tx" where
  "resolvconf_resolve B scope plan = (case scope of
       Global \<Rightarrow> bind_tx (lift_result (resource_of_tag B (global_tag B))) (\<lambda>r. return_tx [r])
     | Interface _ \<Rightarrow>
         throw (Unsupported Resolvconf ''openresolv input records do not provide per-interface DNS routing''))"

definition resolvconf_capture :: "'w resolvconf_host \<Rightarrow> 'w resolvconf \<Rightarrow> resource_id \<Rightarrow> ('w, platform_snapshot) tx" where
  "resolvconf_capture H B r =
     bind_tx (lift_result (tag_of B r)) (\<lambda>tag.
     bind_tx (read_record_state H B tag) (\<lambda>rec.
     bind_tx (read_live H B r) (\<lambda>live. return_tx (to_resolvconf_snapshot r rec (Some live)))))"

text \<open>
  The checks before a mutation: they read only, and every failure is a rejection. The result is the tag.
  \<open>expected\<close> is taken apart after the live file has been compared.
\<close>

definition resolvconf_status :: "resource_identity \<Rightarrow> ('w, resource_status) tx" where
  "resolvconf_status i = status_default Resolvconf i"

definition still_same :: "resource_identity \<Rightarrow> string \<Rightarrow> ('w, unit) tx" where
  "still_same i m = bind_tx (resolvconf_status i) (\<lambda>status.
     if status = Same then return_tx () else throw (ResourceIdentity Resolvconf (id_resource i) m))"

definition before_mutation ::
  "'w resolvconf_host \<Rightarrow> 'w resolvconf \<Rightarrow> resource_identity \<Rightarrow> platform_snapshot \<Rightarrow> platform_snapshot option \<Rightarrow>
   ('w, string \<times> resolvconf_record option) tx" where
  "before_mutation H B i expected target =
     seq_tx (still_same i (if target = None then ''refusing mutation'' else ''refusing restore'')) (
     bind_tx (lift_result (tag_of B (id_resource i))) (\<lambda>tag.
     bind_tx (read_record_state H B tag) (\<lambda>current.
     seq_tx (check_live_snapshot H B (id_resource i) expected) (
     bind_tx (lift_result (record_from_snapshot expected)) (\<lambda>e.
     bind_tx (lift_result (case target of None \<Rightarrow> Inr None | Some t \<Rightarrow> map_sum id Some (record_from_snapshot t))) (\<lambda>t.
     if current \<noteq> e
     then throw (ExternalModification (id_resource i) (if target = None then ''the openresolv record changed since it was captured''
         else ''the openresolv record changed since ownership was verified''))
     else
       match_tx (resolvconf_status i) (\<lambda>_. return_tx (tag, t))
         (\<lambda>_. throw (ResourceIdentity Resolvconf (id_resource i) (if target = None
            then ''resource incarnation changed before mutation'' else ''resource incarnation changed before restore'')))))))))"

text \<open>What is read back after a mutation, and what the attempt reports of it.\<close>

definition report_apply ::
  "conf_parser \<Rightarrow> idna \<Rightarrow> resource_id \<Rightarrow> normalized_config \<Rightarrow> unit result \<Rightarrow> resolvconf_record \<Rightarrow> bytes option \<Rightarrow> mutation_attempt" where
  "report_apply parse_conf to_ascii r plan mutation observed live =
     (let snapshot = to_resolvconf_snapshot r observed live;
          verified = (observed = applied_record plan \<and>
            (case live of Some l \<Rightarrow> live_matches parse_conf to_ascii l plan | None \<Rightarrow> False));
          evidence = (if observed = applied_record plan then Some snapshot else None)
      in case mutation of
        Inr _ \<Rightarrow> if verified then Performed (Some snapshot) else Indeterminate resolvconf_verification_error evidence
      | Inl e \<Rightarrow> Indeterminate e evidence)"

definition resolvconf_apply_bound ::
  "conf_parser \<Rightarrow> idna \<Rightarrow> 'w resolvconf_host \<Rightarrow> 'w resolvconf \<Rightarrow> resource_identity \<Rightarrow> platform_snapshot \<Rightarrow> normalized_config \<Rightarrow>
   ('w, mutation_attempt) tx" where
  "resolvconf_apply_bound parse_conf to_ascii H B i expected plan =
     match_tx (before_mutation H B i expected None)
       (\<lambda>(tag, _).
          bind_tx (try_tx (seq_tx (add_record H B tag (build_resolv_conf_content plan) attributes_applied)
            (seq_tx (run H (rv_binary B) [''-c'', tag] None) (return_tx ())))) (\<lambda>mutation.
          match_tx (read_record_state H B tag)
            (\<lambda>observed. bind_tx (ok_tx (read_live H B (id_resource i))) (\<lambda>live.
               return_tx (report_apply parse_conf to_ascii (id_resource i) plan mutation observed live)))
            (\<lambda>e. return_tx (Indeterminate e None))))
       (\<lambda>e. return_tx (Rejected e))"

definition report_restore ::
  "resource_id \<Rightarrow> resolvconf_record \<Rightarrow> unit result \<Rightarrow> resolvconf_record \<Rightarrow> bytes option \<Rightarrow> mutation_attempt" where
  "report_restore r target mutation observed live =
     (let snapshot = to_resolvconf_snapshot r observed live in
      if observed = target
      then (case mutation of Inr _ \<Rightarrow> Performed (Some snapshot) | Inl e \<Rightarrow> Indeterminate e (Some snapshot))
      else Indeterminate (case mutation of Inl e \<Rightarrow> e
        | Inr _ \<Rightarrow> PlatformError Resolvconf ''openresolv restore read-back did not match the captured record'') None)"

definition resolvconf_restore_bound ::
  "'w resolvconf_host \<Rightarrow> 'w resolvconf \<Rightarrow> resource_identity \<Rightarrow> platform_snapshot \<Rightarrow> platform_snapshot \<Rightarrow>
   ('w, mutation_attempt) tx" where
  "resolvconf_restore_bound H B i expected target =
     match_tx (before_mutation H B i expected (Some target))
       (\<lambda>(tag, t). case t of
          None \<Rightarrow> crash
        | Some rec \<Rightarrow>
          bind_tx (try_tx (restore_record H B tag rec)) (\<lambda>mutation.
          match_tx (read_record_state H B tag)
            (\<lambda>observed. bind_tx (ok_tx (read_live H B (id_resource i))) (\<lambda>live.
               return_tx (report_restore (id_resource i) rec mutation observed live)))
            (\<lambda>e. return_tx (Indeterminate e None))))
       (\<lambda>e. return_tx (Rejected e))"

definition resolvconf_apply :: "'w resolvconf_host \<Rightarrow> 'w resolvconf \<Rightarrow> resource_id \<Rightarrow> normalized_config \<Rightarrow> ('w, unit) tx" where
  "resolvconf_apply H B r plan =
     bind_tx (lift_result (tag_of B r)) (\<lambda>tag.
     add_record H B tag (build_resolv_conf_content plan) attributes_applied)"

definition resolvconf_restore :: "'w resolvconf_host \<Rightarrow> 'w resolvconf \<Rightarrow> resource_id \<Rightarrow> platform_snapshot \<Rightarrow> ('w, unit) tx" where
  "resolvconf_restore H B r s =
     bind_tx (lift_result (tag_of B r)) (\<lambda>tag.
     bind_tx (lift_result (record_from_snapshot s)) (restore_record H B tag))"

definition resolvconf_matches_desired :: "conf_parser \<Rightarrow> idna \<Rightarrow> platform_snapshot \<Rightarrow> normalized_config \<Rightarrow> bool" where
  "resolvconf_matches_desired parse_conf to_ascii s plan = (case record_from_snapshot s of
       Inl _ \<Rightarrow> False
     | Inr rec \<Rightarrow> rec = applied_record plan \<and>
         (case live_from_snapshot s of Some l \<Rightarrow> live_matches parse_conf to_ascii l plan | None \<Rightarrow> False))"

definition resolvconf_public_state :: "conf_parser \<Rightarrow> idna \<Rightarrow> platform_snapshot \<Rightarrow> dns_scope \<Rightarrow> dns_config result" where
  "resolvconf_public_state parse_conf to_ascii s scope = (case ps_data s of
       SnapResolvconf d \<Rightarrow> (case rc_live d of
           None \<Rightarrow> Inl (JournalCorrupt ''openresolv public snapshot lacks effective resolver content'')
         | Some live \<Rightarrow> bind_r (parse_resolv_conf_content parse_conf to_ascii live) (\<lambda>(nss, search).
             Inr (from_parts scope nss search [] None)))
     | _ \<Rightarrow> Inl (JournalCorrupt ''resolvconf snapshot has the wrong backend data''))"

section \<open>Watching\<close>

fun existing_dirs :: "'w resolvconf_host \<Rightarrow> path list \<Rightarrow> ('w, path list) tx" where
  "existing_dirs H [] = return_tx []"
| "existing_dirs H (p # ps) =
     bind_tx (sys_call (oh_is_dir H p)) (\<lambda>is_dir.
     bind_tx (existing_dirs H ps) (\<lambda>rest. return_tx (if is_dir then p # rest else rest)))"

text \<open>The order of the directories is of no consequence; duplicates are removed.\<close>

definition watch_dirs :: "'w resolvconf_host \<Rightarrow> 'w resolvconf \<Rightarrow> ('w, path list) tx" where
  "watch_dirs H B =
     bind_tx (existing_dirs H (map (path_join (state_dir B)) METRIC_SUBDIRS)) (\<lambda>subdirs.
     return_tx (remdups ([state_dir B, rv_key_dir B] @ subdirs @
       (case path_parent (rv_resolv_conf B) of Some p \<Rightarrow> [p] | None \<Rightarrow> []))))"

definition WATCHED_PARENTS :: "string list" where
  "WATCHED_PARENTS = [''keys'', ''interfaces'', ''metrics'', ''private'', ''nosearch'', ''exclusive'', ''deprecated'']"

definition resolvconf_mapper :: "'w resolvconf \<Rightarrow> resource_id \<Rightarrow> path \<Rightarrow> resource_id option" where
  "resolvconf_mapper B owned p =
     (if p = rv_resolv_conf B then Some owned
      else case Option.bind (path_parent p) path_file_name of
        None \<Rightarrow> None
      | Some parent \<Rightarrow>
          if parent \<notin> set WATCHED_PARENTS then None
          else case path_file_name p of
            None \<Rightarrow> None
          | Some name \<Rightarrow>
              if (parent = ''metrics'' \<or> parent = ''exclusive'') \<and> rsplit_once (CHR '' '') name = None then None
              else Some owned)"

definition resolvconf_start_watch :: "'w resolvconf_host \<Rightarrow> 'w resolvconf \<Rightarrow> ('w, watch_id) tx" where
  "resolvconf_start_watch H B =
     bind_tx (lift_result (resource_of_tag B (global_tag B))) (\<lambda>owned.
     bind_tx (watch_dirs H B) (\<lambda>dirs.
     rv_watch_directory B Resolvconf dirs [] (resolvconf_mapper B owned)))"

definition resolvconf_backend :: "conf_parser \<Rightarrow> idna \<Rightarrow> 'w resolvconf_host \<Rightarrow> 'w resolvconf \<Rightarrow> 'w backend" where
  "resolvconf_backend parse_conf to_ascii H B =
     (let P = \<lparr>
        bk_kind = Resolvconf, bk_caps = rv_caps B, bk_resolve = resolvconf_resolve B,
        bk_identify = identify_default Resolvconf, bk_status = resolvconf_status, bk_capture = resolvconf_capture H B,
        bk_readback = resolvconf_capture H B, bk_apply = resolvconf_apply H B, bk_restore = resolvconf_restore H B,
        bk_apply_guarded = (\<lambda>_ _ _. guarded_default Resolvconf),
        bk_restore_guarded = (\<lambda>_ _ _. guarded_default Resolvconf),
        bk_proves_current = proves_current_default, bk_equivalent = records_equivalent,
        bk_matches_desired = resolvconf_matches_desired parse_conf to_ascii,
        bk_validate_plan = (\<lambda>_. rv_validate_plan B),
        bk_public_state = resolvconf_public_state parse_conf to_ascii, bk_interfaces = rv_list_interfaces B,
        bk_start_watch = resolvconf_start_watch H B,
        bk_stop_watch = (\<lambda>i. modify_tx (wt_stop (fh_threads (oh_files H)) i)),
        bk_watch_active = wt_active (fh_threads (oh_files H)),
        bk_flush_cache = flush_cache_default Resolvconf \<rparr>
      in (with_default_bounds P)\<lparr>bk_apply_bound := resolvconf_apply_bound parse_conf to_ascii H B,
           bk_restore_bound := resolvconf_restore_bound H B\<rparr>)"

end
