(* ===== verification/Linux_Detect.thy ===== *)
theory Linux_Detect
  imports Openresolv Linux_Watch Resolved Network_Manager
begin

text \<open>
  \<open>platform/linux/detect.rs\<close>, \<open>platform/linux/resolvconf.rs\<close> and the Linux arms of \<open>construct_backend\<close>:
  which backend serves the system, by who owns the resolver file.
\<close>

record 'w linux_host =
  lh_inotify :: "'w inotify_host"
  lh_openresolv :: "'w resolvconf_host"
  lh_resolved :: "'w resolved_host"
  lh_nm :: "'w nm_host"
  lh_uuid :: "string \<Rightarrow> string"

text \<open>A backend: its service's connection with what was read on connecting, or its configuration.\<close>

datatype 'w selected =
    UseResolved conn "string option"
  | UseNetworkManager conn network_manager
  | UseResolvconf "'w resolvconf"
  | UseFile "'w direct_resolv_conf"

definition linux_resolvconf :: "'w linux_host \<Rightarrow> probe \<Rightarrow> string \<Rightarrow> 'w resolvconf" where
  "linux_resolvconf L pb owner = resolvconf_new (lh_uuid L) pb owner ''linux''
     (list_interfaces (fh_linux (in_files (lh_inotify L)))) (watch_directories (lh_inotify L)) (\<lambda>_. Inr ())"

section \<open>The owner of the resolver file\<close>

datatype resolv_owner =
  OwnerResolved | OwnerNetworkManager | OwnerResolvconf | OwnerForeign | OwnerUnmanaged | OwnerMissing

definition owner_by_link :: "string \<Rightarrow> resolv_owner option" where
  "owner_by_link target = (let t = ascii_lowercase target in
     if contains ''systemd/resolve'' t then Some OwnerResolved
     else if contains ''networkmanager'' t then Some OwnerNetworkManager
     else None)"

fun owner_by_lines :: "string list \<Rightarrow> resolv_owner option" where
  "owner_by_lines [] = None"
| "owner_by_lines (line # lines) = (let l = ascii_lowercase line in
     if contains ''generated by networkmanager'' l then Some OwnerNetworkManager
     else if contains ''generated by'' l \<and> contains ''resolved'' l then Some OwnerResolved
     else owner_by_lines lines)"

definition owner_by_content :: "bytes \<Rightarrow> resolv_owner option" where
  "owner_by_content content =
     (if has_openresolv_signature content then Some OwnerResolvconf
      else owner_by_lines (take 5 (lines_of (text_of content))))"

definition owner_by_state :: "resolv_conf_state \<Rightarrow> resolv_owner" where
  "owner_by_state s = (case s of
     OpenResolv \<Rightarrow> OwnerResolvconf | Foreign \<Rightarrow> OwnerForeign | Unmanaged \<Rightarrow> OwnerUnmanaged | Missing \<Rightarrow> OwnerMissing)"

definition resolv_conf_owner :: "'w file_host \<Rightarrow> ('w, resolv_owner) tx" where
  "resolv_conf_owner F =
     bind_tx (ok_tx (io_call (fh_read_link F RESOLV_CONF_PATH))) (\<lambda>target.
     case Option.bind target owner_by_link of
       Some w \<Rightarrow> return_tx w
     | None \<Rightarrow>
         bind_tx (ok_tx (read_config F RESOLV_CONF_PATH)) (\<lambda>content.
         case Option.bind content owner_by_content of
           Some w \<Rightarrow> return_tx w
         | None \<Rightarrow> bind_tx (classify F RESOLV_CONF_PATH) (\<lambda>s. return_tx (owner_by_state s))))"

section \<open>The choice\<close>

definition detect_unavailable :: "string \<Rightarrow> error" where
  "detect_unavailable component = BackendUnavailable (''/etc/resolv.conf is owned by '' @ component @
     '', but that component is unavailable'')"

definition resolved_owns :: "resolv_owner \<Rightarrow> (conn \<times> string option) option \<Rightarrow> bool" where
  "resolved_owns file_owner r \<longleftrightarrow> (case r of None \<Rightarrow> False
     | Some (c, mode) \<Rightarrow> mode = Some ''stub'' \<or> file_owner = OwnerResolved)"

text \<open>\<open>dns_configuration\<close> of the connected NetworkManager, or two empty texts.\<close>

definition dns_configuration :: "(conn \<times> network_manager) option \<Rightarrow> string \<times> string" where
  "dns_configuration n = (case n of None \<Rightarrow> ([], []) | Some (c, m) \<Rightarrow> (nm_dns_mode m, nm_rc_manager m))"

definition nm_owns_directly :: "resolv_owner \<Rightarrow> (conn \<times> network_manager) option \<Rightarrow> bool" where
  "nm_owns_directly file_owner n \<longleftrightarrow> n \<noteq> None \<and>
     (file_owner = OwnerNetworkManager \<or> fst (dns_configuration n) = ''dnsmasq'' \<or>
      snd (dns_configuration n) \<in> {''file'', ''symlink'', ''managed''})"

definition use_resolvconf :: "'w linux_host \<Rightarrow> string \<Rightarrow> string \<Rightarrow> ('w, 'w selected) tx" where
  "use_resolvconf L owner missing =
     bind_tx (probe_for_resolv_conf (lh_openresolv L) RESOLV_CONF_PATH) (\<lambda>pb. case pb of
         None \<Rightarrow> throw (BackendUnavailable missing)
       | Some p \<Rightarrow> return_tx (UseResolvconf (linux_resolvconf L p owner)))"

definition select_by_file :: "'w linux_host \<Rightarrow> string \<Rightarrow> resolv_owner \<Rightarrow> ('w, 'w selected) tx" where
  "select_by_file L owner file_owner = (case file_owner of
       OwnerResolvconf \<Rightarrow> use_resolvconf L owner
         ''openresolv owns /etc/resolv.conf, but a verified openresolv backend was not found''
     | OwnerResolved \<Rightarrow> throw (detect_unavailable ''systemd-resolved'')
     | OwnerNetworkManager \<Rightarrow> throw (detect_unavailable ''NetworkManager'')
     | OwnerForeign \<Rightarrow> throw (BackendUnavailable ''/etc/resolv.conf has an unknown or foreign DNS manager signature'')
     | _ \<Rightarrow>
         bind_tx (configuration_blocks_direct (in_files (lh_inotify L)) RESOLV_CONF_PATH) (\<lambda>blocks.
         if blocks
         then throw (BackendUnavailable ''an Openresolv configuration is present but cannot be verified; refusing direct resolv.conf mutation'')
         else return_tx (UseFile (linux_direct (lh_inotify L)))))"

definition select :: "'w linux_host \<Rightarrow> string \<Rightarrow> ('w, 'w selected) tx" where
  "select L owner =
     bind_tx (resolv_conf_owner (in_files (lh_inotify L))) (\<lambda>file_owner.
     bind_tx (ok_tx (resolved_connect (lh_resolved L))) (\<lambda>r.
     case (if resolved_owns file_owner r then r else None) of
       Some (c, mode) \<Rightarrow> return_tx (UseResolved c mode)
     | None \<Rightarrow>
         bind_tx (ok_tx (nm_connect (lh_nm L))) (\<lambda>n.
         case (if fst (dns_configuration n) = ''systemd-resolved'' then r else None) of
           Some (c, mode) \<Rightarrow> return_tx (UseResolved c mode)
         | None \<Rightarrow>
             if snd (dns_configuration n) = ''resolvconf'' then use_resolvconf L owner
               ''NetworkManager delegates DNS to resolvconf, but a verified openresolv backend was not found''
             else (case (if nm_owns_directly file_owner n then n else None) of
                 Some (c, m) \<Rightarrow> return_tx (UseNetworkManager c m)
               | None \<Rightarrow> select_by_file L owner file_owner))))"

text \<open>\<open>construct_backend\<close> as it is compiled for Linux without \<open>test-util\<close>.\<close>

definition construct_backend :: "'w linux_host \<Rightarrow> backend_kind \<Rightarrow> string \<Rightarrow> ('w, 'w selected) tx" where
  "construct_backend L kind owner = (case kind of
       SystemdResolved \<Rightarrow> bind_tx (resolved_connect (lh_resolved L)) (\<lambda>(c, mode). return_tx (UseResolved c mode))
     | NetworkManager \<Rightarrow> bind_tx (nm_connect (lh_nm L)) (\<lambda>(c, m). return_tx (UseNetworkManager c m))
     | Resolvconf \<Rightarrow> use_resolvconf L owner ''a verified openresolv backend is not available''
     | ResolvConfFile \<Rightarrow> return_tx (UseFile (linux_direct (lh_inotify L)))
     | _ \<Rightarrow> throw (BackendUnavailable ''not available on this platform''))"

end
