(* ===== verification/Openresolv_Contract.thy ===== *)
theory Openresolv_Contract
  imports Openresolv Unix_Direct_Contract
begin

text \<open>
  What the backend of openresolv needs of the system (locale \<open>resolvconf_system\<close>): reading changes
  nothing, and the clock goes forward by what is slept. Of the program \<open>resolvconf\<close> nothing is assumed;
  what an attempt reports rests on what is read back.
\<close>

section \<open>Computations that may do anything but panic\<close>

abbreviation anything :: "'w \<Rightarrow> bool" where
  "anything \<equiv> \<lambda>_. True"

lemma quiet_any_io: "quiet anything (io_call m)"
  by (auto simp: quiet_def wp_def io_call_def split: prod.splits sum.splits)

lemma quiet_any_sys: "quiet anything (sys_call m)"
  by (auto simp: quiet_def wp_def sys_call_def split: prod.splits)

lemma quiet_any_modify: "quiet anything (modify_tx f)"
  by (simp add: quiet_def)

text \<open>What a reading returns was there in the state that has not changed since.\<close>

definition was_read :: "('w \<Rightarrow> 'w \<Rightarrow> bool) \<Rightarrow> ('w, 'a) tx \<Rightarrow> 'a \<Rightarrow> 'w \<Rightarrow> bool" where
  "was_read same m x w \<longleftrightarrow> (\<exists>u v. same w u \<and> m u = (Ok x, v))"

text \<open>The record, and the live file if it was captured, were found in the expected state.\<close>

definition as_expected ::
  "('w \<Rightarrow> 'w \<Rightarrow> bool) \<Rightarrow> 'w resolvconf_host \<Rightarrow> 'w resolvconf \<Rightarrow> resource_id \<Rightarrow> string \<Rightarrow> platform_snapshot \<Rightarrow> 'w \<Rightarrow> bool" where
  "as_expected same H B r tag expected w \<longleftrightarrow>
     (\<exists>e. record_from_snapshot expected = Inr e \<and> was_read same (read_record_state H B tag) e w) \<and>
     (\<forall>l. live_from_snapshot expected = Some l \<longrightarrow> was_read same (read_live H B r) l w)"

section \<open>The system\<close>

locale resolvconf_system = reading_files "oh_files H" same
  for H :: "'w resolvconf_host" and same +
  fixes clock :: "'w \<Rightarrow> instant"
  assumes entries_same: "same w (snd (oh_symlink_metadata H p w))" "same w (snd (oh_read_dir H p w))"
    and now_forward: "oh_now H w = (t, w') \<Longrightarrow> clock w \<le> t \<and> t \<le> clock w'"
    and sleep_forward: "clock w + d \<le> clock (oh_sleep H d w)"
    and other_forward: "clock w \<le> clock (snd (oh_length H f w))" "clock w \<le> clock (snd (oh_try_wait H c w))"
begin

lemmas quiet_entries [quiet_intros] = quiet_io[OF _ entries_same(1)] quiet_io[OF _ entries_same(2)]

subsection \<open>Running a program returns\<close>

lemma length_forward:
  "wp (overflowed H out err limit) (\<lambda>res t. (\<exists>b. res = Ok b) \<and> clock w \<le> clock t) w"
proof -
  have step: "wp (try_tx (io_call (oh_length H f))) (\<lambda>res t. (\<exists>r. res = Ok r) \<and> clock v \<le> clock t) v" for f v
    unfolding wp_try using other_forward(1)[of v f]
    by (auto simp: wp_def io_call_def split: prod.splits sum.splits)
  show ?thesis
    unfolding overflowed_def
  proof (rule wp_bindI[OF step], goal_cases)
    case (1 a t)
    show ?case
      by (rule wp_bindI[OF step[of _ t]]) (use 1 in \<open>auto split: sum.splits\<close>)
  qed auto
qed

lemma now_reached:
  "wp (if b then return_tx True else bind_tx (sys_call (oh_now H)) (\<lambda>now. return_tx (now \<ge> deadline)))
     (\<lambda>res t. \<exists>stop. res = Ok stop \<and> (stop \<or> clock w \<le> clock t \<and> clock w < deadline)) w"
  using now_forward[of w]
  by (cases "oh_now H w") (auto simp: wp_bind, auto simp: wp_def sys_call_def on_ok_def return_tx_def)

definition returns :: "'a outcome \<Rightarrow> 'w \<Rightarrow> bool" where
  "returns res t \<longleftrightarrow> quietly anything res t"

lemma returns_simps [simp]:
  "returns (Ok x) t" "returns (Err e) t \<longleftrightarrow> \<not> is_external_modification e" "\<not> returns Crash t"
  by (simp_all add: returns_def)

lemma await_step:
  assumes "\<And>t. clock w + RUN_POLL \<le> clock t \<Longrightarrow> clock w < deadline \<Longrightarrow> wp k returns t"
    and later: "clock w \<le> clock v" "clock w < deadline"
  shows "wp (match_tx (io_call (oh_try_wait H child))
         (\<lambda>status. case status of
             Some success \<Rightarrow> return_tx success
           | None \<Rightarrow> seq_tx (modify_tx (oh_sleep H RUN_POLL)) k)
         (\<lambda>_. seq_tx (modify_tx (oh_terminate H child)) (throw (indeterminate_run ''cannot reap resolvconf'')))) returns v"
proof -
  have wait: "wp (io_call (oh_try_wait H child)) (\<lambda>res t. res \<noteq> Crash \<and> clock w \<le> clock t) v"
    using other_forward(2)[of v child] later(1) by (auto simp: wp_def io_call_def split: prod.splits sum.splits)
  have slept: "wp k returns (oh_sleep H RUN_POLL t)" if "clock w \<le> clock t" for t
    using sleep_forward[of t RUN_POLL] that assms(1) later(2) by simp
  show ?thesis
    by (rule wp_matchI[OF wait])
       (auto simp: wp_seq indeterminate_run_def slept split: option.splits)
qed

lemma await_returns:
  "deadline \<le> clock w + n * RUN_POLL \<Longrightarrow> wp (await_child H child out err limit deadline n) returns w"
proof (induction n arbitrary: w)
  case (0 w)
  show ?case
  proof (subst await_child.simps, rule wp_bindI[OF length_forward], goal_cases)
    case (1 b t)
    show ?case
      by (rule wp_bindI[OF now_reached]) (use 0 1 in \<open>auto simp: wp_seq indeterminate_run_def\<close>)
  qed auto
next
  case (Suc k w)
  show ?case
  proof (subst await_child.simps, rule wp_bindI[OF length_forward], goal_cases)
    case (1 b t)
    show ?case
    proof (rule wp_bindI[OF now_reached], goal_cases)
      case (1 stop u)
      have "wp (await_child H child out err limit deadline k) returns v" if "clock t + RUN_POLL \<le> clock v" for v
        by (rule Suc.IH) (use Suc.prems \<open>(\<exists>b. _) \<and> clock w \<le> clock t\<close> that in simp)
      then show ?case
        using 1 await_step[of t deadline "await_child H child out err limit deadline k" u]
        by (auto simp: wp_seq indeterminate_run_def)
    qed auto
  qed auto
qed

lemma quiet_awaited:
  assumes "\<And>s. quiet anything (k s)"
  shows "quiet anything (bind_tx (sys_call (oh_now H)) (\<lambda>now.
     bind_tx (await_child H child out err limit (now + timeout) (timeout div RUN_POLL + 1)) k))"
  unfolding quiet_def
proof (intro allI impI)
  fix w
  obtain t w' where now: "oh_now H w = (t, w')" by fastforce
  have "timeout \<le> (timeout div RUN_POLL + 1) * RUN_POLL"
    using div_mult_mod_eq[of timeout RUN_POLL] mod_less_divisor[of RUN_POLL timeout]
    by (simp add: RUN_POLL_def millis_def)
  with now_forward[OF now] have "t + timeout \<le> clock w' + (timeout div RUN_POLL + 1) * RUN_POLL" by linarith
  from await_returns[OF this, of child out err limit]
  have "wp (bind_tx (await_child H child out err limit (t + timeout) (timeout div RUN_POLL + 1)) k) (quietly anything) w'"
    by (rule wp_bindI) (use assms in \<open>auto simp: quiet_def\<close>)
  then show "wp (bind_tx (sys_call (oh_now H)) (\<lambda>now.
     bind_tx (await_child H child out err limit (now + timeout) (timeout div RUN_POLL + 1)) k)) (quietly anything) w"
    unfolding wp_bind[of "sys_call _"] by (simp add: wp_def[of "sys_call _"] sys_call_def now)
qed

lemma quiet_run: "quiet anything (run H binary args stdin)"
  unfolding run_def run_bounded_def finish_run_def
  by (intro quiet_intros quiet_any_io quiet_awaited)
     (auto simp: indeterminate_run_def intro!: quiet_intros quiet_any_io split: option.splits if_splits)

subsection \<open>Reading a record\<close>

lemma quiet_kind [quiet_intros]:
  "quiet I f \<Longrightarrow> quiet I g \<Longrightarrow> quiet I h \<Longrightarrow>
   quiet I (case k of EntryFile \<Rightarrow> f | EntrySymlink \<Rightarrow> g | EntryOther \<Rightarrow> h)"
  by (cases k) auto

lemma quiet_io_match:
  assumes "quiet I (io_call m)" "\<And>x. quiet I (f x)" "\<And>k e. quiet I (g (Io k e))"
  shows "quiet I (match_tx (io_call m) f g)"
  unfolding quiet_def
proof (intro allI impI)
  fix w assume "I w"
  with assms(1) have "wp (io_call m) (quietly I) w" by (simp add: quiet_def)
  then have "wp (io_call m) (\<lambda>res t. quietly I res t \<and> (\<forall>e. res = Err e \<longrightarrow> (\<exists>k x. e = Io k x))) w"
    by (auto simp: wp_def io_call_def split: prod.splits sum.splits)
  then show "wp (match_tx (io_call m) f g) (quietly I) w"
    by (rule wp_matchI) (use assms(2,3) in \<open>auto simp: quiet_def\<close>)
qed

lemma quiet_regular [quiet_intros]:
  "steady I \<Longrightarrow> \<not> is_external_modification a \<Longrightarrow> \<not> is_external_modification b \<Longrightarrow> quiet I (regular_entry H p a b)"
  unfolding regular_entry_def by (rule quiet_io_match) (auto intro!: quiet_intros)

lemma quiet_content [quiet_intros]: "steady I \<Longrightarrow> quiet I (read_record_content H B tag)"
  unfolding read_record_content_def by (intro quiet_intros) simp_all

lemma quiet_marker [quiet_intros]: "steady I \<Longrightarrow> quiet I (marker_exists H B dir tag)"
  unfolding marker_exists_def by (intro quiet_intros) simp_all

lemma quiet_scan_metrics [quiet_intros]: "steady I \<Longrightarrow> quiet I (scan_metrics H dir tag entries found)"
proof (induction entries arbitrary: found)
  case (Cons entry es)
  then show ?case
    by (cases entry)
       (auto simp: metric_name_def split: option.splits prod.splits if_splits intro!: quiet_intros)
qed (auto intro!: quiet_intros)

lemma quiet_scan_exclusive [quiet_intros]: "steady I \<Longrightarrow> quiet I (scan_exclusive H dir tag entries)"
proof (induction entries)
  case (Cons entry es)
  then show ?case
    by (cases entry) (auto split: option.splits prod.splits if_splits intro!: quiet_intros)
qed (auto intro!: quiet_intros)

lemma quiet_attributes [quiet_intros]: "steady I \<Longrightarrow> quiet I (read_attributes H B tag)"
  unfolding read_attributes_def exclusive_exists_def metric_of_def Let_def
  by (intro quiet_intros quiet_io_match) simp_all

lemma quiet_record_state [quiet_intros]: "steady I \<Longrightarrow> quiet I (read_record_state H B tag)"
  unfolding read_record_state_def by (intro quiet_intros) simp_all

definition looked :: "('w, 'a) tx \<Rightarrow> 'w \<Rightarrow> 'a outcome \<Rightarrow> 'w \<Rightarrow> bool" where
  "looked m w res t \<longleftrightarrow> same w t \<and> res \<noteq> Crash \<and> (\<forall>x. res = Ok x \<longrightarrow> was_read same m x w)"

lemma looked_simps [simp]:
  "looked m w (Err e) t \<longleftrightarrow> same w t" "looked m w (Ok x) t \<longleftrightarrow> same w t \<and> was_read same m x w" "\<not> looked m w Crash t"
  by (auto simp: looked_def)

lemma looks_at:
  assumes "wp m (\<lambda>res t. same w t \<and> res \<noteq> Crash) u" "same w u"
  shows "wp m (looked m w) u"
  using assms unfolding wp_def looked_def was_read_def by (auto split: prod.splits)

lemma quiet_looks: "quiet I m \<Longrightarrow> I s \<Longrightarrow> wp m (\<lambda>res t. I t \<and> res \<noteq> Crash) s"
  unfolding quiet_def by (elim allE impE, assumption, erule wp_mono) (simp add: quietly_def)

lemma looks_at_record: "same w u \<Longrightarrow> wp (read_record_state H B tag) (looked (read_record_state H B tag) w) u"
proof (rule looks_at)
  show "same w u \<Longrightarrow> wp (read_record_state H B tag) (\<lambda>res t. same w t \<and> res \<noteq> Crash) u"
    by (rule quiet_looks[OF quiet_record_state[OF steady_same]])
qed

lemma looks_at_live: "same w u \<Longrightarrow> wp (read_live H B r) (looked (read_live H B r) w) u"
proof (rule looks_at)
  assume u: "same w u"
  have content: "wp (read_config (oh_files H) p) (\<lambda>res t. same w t \<and> res \<noteq> Crash) t" if "same w t" for p t
    using that by (rule quiet_looks[OF quiet_read_config[OF steady_same]])
  show "wp (read_live H B r) (\<lambda>res t. same w t \<and> res \<noteq> Crash) u"
    unfolding read_live_def
    by (rule wp_bindI[OF quietlyD[OF quiet_classify[OF steady_same] u]])
       (auto simp: content)
qed

subsection \<open>The checks before a mutation\<close>

definition cleared ::
  "'w resolvconf \<Rightarrow> resource_id \<Rightarrow> platform_snapshot \<Rightarrow> platform_snapshot option \<Rightarrow> 'w \<Rightarrow>
   (string \<times> resolvconf_record option) outcome \<Rightarrow> 'w \<Rightarrow> bool" where
  "cleared B r expected target w res t \<longleftrightarrow> same w t \<and> res \<noteq> Crash \<and> (\<forall>tag x. res = Ok (tag, x) \<longrightarrow>
     tag_of B r = Inr tag \<and> as_expected same H B r tag expected w \<and>
     (case target of None \<Rightarrow> x = None | Some s \<Rightarrow> \<exists>rec. x = Some rec \<and> record_from_snapshot s = Inr rec))"

lemma cleared_err [simp]: "cleared B r expected target w (Err e) t \<longleftrightarrow> same w t"
  by (auto simp: cleared_def)

lemma status_looks: "same w u \<Longrightarrow> wp (resolvconf_status i) (\<lambda>res t. same w t \<and> res \<noteq> Crash) u"
  by (simp add: resolvconf_status_def status_default_def)

lemma check_live_looks:
  "same w u \<Longrightarrow> wp (check_live_snapshot H B r expected)
     (\<lambda>res t. same w t \<and> res \<noteq> Crash \<and>
        (succeeded res \<longrightarrow> (\<forall>l. live_from_snapshot expected = Some l \<longrightarrow> was_read same (read_live H B r) l w))) u"
  unfolding check_live_snapshot_def
  by (cases "live_from_snapshot expected") (auto intro: wp_bindI[OF looks_at_live])

lemma wp_bind_lift:
  "wp (bind_tx (lift_result r) f) Q s = (case r of Inl e \<Rightarrow> Q (Err e) s | Inr x \<Rightarrow> wp (f x) Q s)"
  by (simp add: wp_bind wp_lift_result split: sum.splits)

lemma before_clears: "wp (before_mutation H B i expected target) (cleared B (id_resource i) expected target w) w"
proof -
  let ?Q = "cleared B (id_resource i) expected target w"
  have same: "wp (still_same i m) (\<lambda>res t. same w t \<and> res \<noteq> Crash) w" for m
    unfolding still_same_def by (rule wp_bindI[OF status_looks[OF same_refl]]) auto
  show ?thesis
    unfolding before_mutation_def
  proof (rule wp_seqI[OF same], goal_cases)
    case (1 x t)
    then have t: "same w t" by simp
    show ?case
      unfolding wp_bind_lift
    proof (split sum.split, intro conjI allI impI)
      fix tag assume tag: "tag_of B (id_resource i) = Inr tag"
      show "wp (bind_tx (read_record_state H B tag) (\<lambda>current.
          seq_tx (check_live_snapshot H B (id_resource i) expected) (
          bind_tx (lift_result (record_from_snapshot expected)) (\<lambda>e.
          bind_tx (lift_result (case target of None \<Rightarrow> Inr None | Some t \<Rightarrow> map_sum id Some (record_from_snapshot t))) (\<lambda>t.
          if current \<noteq> e
          then throw (ExternalModification (id_resource i) (if target = None then ''the openresolv record changed since it was captured''
              else ''the openresolv record changed since ownership was verified''))
          else
            match_tx (resolvconf_status i) (\<lambda>_. return_tx (tag, t))
              (\<lambda>_. throw (ResourceIdentity Resolvconf (id_resource i) (if target = None
                 then ''resource incarnation changed before mutation'' else ''resource incarnation changed before restore''))))))))
          ?Q t"
      proof (rule wp_bindI[OF looks_at_record[OF t]], goal_cases)
        case (1 current u)
        then have u: "same w u" and read: "was_read same (read_record_state H B tag) current w" by simp_all
        show ?case
        proof (rule wp_seqI[OF check_live_looks[OF u]], goal_cases)
          case (1 y v)
          then have v: "same w v" by simp
          with 1 read tag show ?case
            by (auto simp: wp_bind_lift cleared_def as_expected_def map_sum_def split: sum.splits option.splits
                intro!: wp_matchI[OF status_looks[OF v]])
        qed auto
      qed auto
    qed (use t in auto)
  qed auto
qed

subsection \<open>Applying and restoring\<close>

lemma quiet_add: "quiet anything (add_record H B tag content attributes)"
  unfolding add_record_def by (intro quiet_intros quiet_run)

lemma quiet_delete: "quiet anything (delete_record H B tag)"
  unfolding delete_record_def by (intro quiet_intros quiet_run)

lemma quiet_restore: "quiet anything (restore_record H B tag rec)"
  unfolding restore_record_def by (intro quiet_intros quiet_run quiet_add quiet_delete)

text \<open>A mutation is tried, and then everything is read back.\<close>

lemma mutate_and_look:
  assumes m: "quiet anything m"
    and report: "\<And>mutation observed live v t. same v t \<Longrightarrow> was_read same (read_record_state H B tag) observed v \<Longrightarrow>
      (\<forall>l. live = Some l \<longrightarrow> was_read same (read_live H B r) l v) \<Longrightarrow> Q (Ok (report mutation observed live)) t"
    and lost: "\<And>e t. Q (Ok (Indeterminate e None)) t"
  shows "wp (bind_tx (try_tx m) (\<lambda>mutation. match_tx (read_record_state H B tag)
      (\<lambda>observed. bind_tx (ok_tx (read_live H B r)) (\<lambda>live. return_tx (report mutation observed live)))
      (\<lambda>e. return_tx (Indeterminate e None)))) Q u"
proof (rule wp_bindI[where P = "\<lambda>res _. \<exists>x. res = Ok x"], goal_cases)
  case 1
  show ?case
    unfolding wp_try by (rule wp_mono[OF quietlyD[OF m]]) (auto simp: quietly_def on_both_def split: outcome.splits)
next
  case (2 mutation v)
  show ?case
  proof (rule wp_matchI[OF looks_at_record[OF same_refl]], goal_cases)
    case (1 observed t)
    have "wp (ok_tx (read_live H B r)) (\<lambda>res s. same v s \<and> (\<exists>live. res = Ok live \<and>
        (\<forall>l. live = Some l \<longrightarrow> was_read same (read_live H B r) l v))) t"
      unfolding ok_tx_def by (rule wp_matchI[OF looks_at_live]) (use 1 in auto)
    then show ?case
      by (rule wp_bindI) (use 1 report in auto)
  qed (auto simp: lost)
qed auto

definition apply_reported ::
  "conf_parser \<Rightarrow> idna \<Rightarrow> 'w resolvconf \<Rightarrow> resource_id \<Rightarrow> platform_snapshot \<Rightarrow> normalized_config \<Rightarrow> 'w \<Rightarrow>
   mutation_attempt outcome \<Rightarrow> 'w \<Rightarrow> bool" where
  "apply_reported parse_conf to_ascii B r expected plan w res w' \<longleftrightarrow> (\<exists>a. res = Ok a \<and> (case a of
       Rejected e \<Rightarrow> same w w'
     | Performed p \<Rightarrow> \<exists>tag live v. tag_of B r = Inr tag \<and> as_expected same H B r tag expected w \<and> same v w' \<and>
         was_read same (read_record_state H B tag) (applied_record plan) v \<and> was_read same (read_live H B r) live v \<and>
         live_matches parse_conf to_ascii live plan \<and>
         p = Some (to_resolvconf_snapshot r (applied_record plan) (Some live))
     | Indeterminate e p \<Rightarrow> \<exists>tag. tag_of B r = Inr tag \<and> as_expected same H B r tag expected w \<and>
         (\<forall>s. p = Some s \<longrightarrow> (\<exists>live v. same v w' \<and> was_read same (read_record_state H B tag) (applied_record plan) v \<and>
            s = to_resolvconf_snapshot r (applied_record plan) live))))"

lemma apply_reports:
  "wp (resolvconf_apply_bound parse_conf to_ascii H B i expected plan)
     (apply_reported parse_conf to_ascii B (id_resource i) expected plan w) w"
  unfolding resolvconf_apply_bound_def
proof (rule wp_matchI[OF before_clears], goal_cases)
  case (1 x t)
  then obtain tag y where x: "x = (tag, y)" and tag: "tag_of B (id_resource i) = Inr tag"
    and e: "as_expected same H B (id_resource i) tag expected w"
    by (cases x) (auto simp: cleared_def)
  show ?case
    unfolding x prod.case
    by (rule mutate_and_look) (use tag e in \<open>auto simp: apply_reported_def report_apply_def Let_def
      intro!: quiet_intros quiet_run quiet_add split: sum.splits option.splits\<close>)
qed (auto simp: apply_reported_def cleared_def)

definition restore_reported ::
  "'w resolvconf \<Rightarrow> resource_id \<Rightarrow> platform_snapshot \<Rightarrow> platform_snapshot \<Rightarrow> 'w \<Rightarrow>
   mutation_attempt outcome \<Rightarrow> 'w \<Rightarrow> bool" where
  "restore_reported B r expected target w res w' \<longleftrightarrow> (\<exists>a. res = Ok a \<and> (case a of
       Rejected e \<Rightarrow> same w w'
     | Performed p \<Rightarrow> \<exists>tag rec v live. tag_of B r = Inr tag \<and> as_expected same H B r tag expected w \<and>
         record_from_snapshot target = Inr rec \<and> same v w' \<and> was_read same (read_record_state H B tag) rec v \<and>
         p = Some (to_resolvconf_snapshot r rec live)
     | Indeterminate e p \<Rightarrow> \<exists>tag. tag_of B r = Inr tag \<and> as_expected same H B r tag expected w))"

lemma restore_reports:
  "wp (resolvconf_restore_bound H B i expected target) (restore_reported B (id_resource i) expected target w) w"
  unfolding resolvconf_restore_bound_def
proof (rule wp_matchI[OF before_clears], goal_cases)
  case (1 x t)
  then obtain tag rec where x: "x = (tag, Some rec)" and tag: "tag_of B (id_resource i) = Inr tag"
    and e: "as_expected same H B (id_resource i) tag expected w" and target: "record_from_snapshot target = Inr rec"
    by (cases x) (auto simp: cleared_def)
  show ?case
    unfolding x prod.case option.case
    by (rule mutate_and_look[OF quiet_restore]) (use tag e target in \<open>auto simp: restore_reported_def report_restore_def Let_def
      split: sum.splits option.splits\<close>)
qed (auto simp: restore_reported_def cleared_def)

end

end
