(* ===== verification/Openresolv_Guarantees.thy ===== *)
theory Openresolv_Guarantees
  imports Openresolv_Contract Resolved_Guarantees "HOL-Library.Sublist"
begin

text \<open>
  What the backend of openresolv reports of its attempts, and which live files count as having a plan in
  effect; with a small openresolv on which the assumptions about the system hold.
\<close>

section \<open>A small openresolv\<close>

text \<open>
  The files of one owner's key. Running \<open>resolvconf -a\<close> stores what it is given, with a metric, and
  publishes it in the resolver file; \<open>-d\<close> withdraws it.
\<close>

record conf_world =
  cw_files :: "path \<Rightarrow> bytes option"
  cw_input :: bytes
  cw_clock :: nat

definition conf_state_dir :: path where
  "conf_state_dir = Path True [''run'', ''resolvconf'']"

definition conf_live :: path where
  "conf_live = Path True [''etc'', ''resolv.conf'']"

definition conf_key :: path where
  "conf_key = Path True [''run'', ''resolvconf'', ''keys'', ''own.global'']"

definition conf_metric :: path where
  "conf_metric = Path True [''run'', ''resolvconf'', ''metrics'', ''0 own.global'']"

definition conf_header :: bytes where
  "conf_header = into_bytes (OPENRESOLV_SIGNATURE @ newline)"

definition conf_ran :: "string list \<Rightarrow> conf_world \<Rightarrow> conf_world" where
  "conf_ran args w = (
     if take 1 args = [''-a''] then
       w\<lparr>cw_files := (cw_files w)(conf_key \<mapsto> cw_input w, conf_metric \<mapsto> [], conf_live \<mapsto> conf_header @ cw_input w)\<rparr>
     else if take 1 args = [''-d''] then
       w\<lparr>cw_files := (cw_files w)(conf_key := None, conf_metric := None, conf_live \<mapsto> conf_header)\<rparr>
     else w)"

definition conf_at :: "path \<Rightarrow> 'a \<Rightarrow> conf_world \<Rightarrow> (io_error + 'a) \<times> conf_world" where
  "conf_at p x w = (if cw_files w p = None then Inl (NotFound, ''no such file'') else Inr x, w)"

definition conf_opened :: "nat \<Rightarrow> path" where
  "conf_opened f = (if f = 1 then conf_live else conf_key)"

definition conf_content :: "nat \<Rightarrow> conf_world \<Rightarrow> bytes" where
  "conf_content f w = (case cw_files w (conf_opened f) of Some c \<Rightarrow> c | None \<Rightarrow> [])"

definition conf_stat :: file_stat where
  "conf_stat = \<lparr> st_is_file = True, st_len = 0, st_modified = Inr 0, st_ctime = (0, 0), st_mode = 33188,
     st_uid = 0, st_gid = 0, st_nlink = 1 \<rparr>"

definition conf_files :: "conf_world file_host" where
  "conf_files = \<lparr>
     fh_linux = table_fs, fh_threads = table_threads,
     fh_symlink_metadata = (\<lambda>p. conf_at p False),
     fh_read_link = (\<lambda>p w. (Inl (NotFound, ''no link''), w)),
     fh_metadata = (\<lambda>p. conf_at p True),
     fh_open = (\<lambda>b p. conf_at p (if p = conf_live then 1 else 2)),
     fh_stat = (\<lambda>f w. (Inr conf_stat, w)),
     fh_read = (\<lambda>n f w. (Inr (take n (conf_content f w)), w)),
     fh_list_xattr = (\<lambda>f w. (XattrLength 0, w)),
     fh_create = (\<lambda>p w. (Inl (OtherKind, ''read-only''), w)),
     fh_write_all = (\<lambda>f bs w. (Inl (OtherKind, ''read-only''), w)),
     fh_set_permissions = (\<lambda>f mode w. (Inl (OtherKind, ''read-only''), w)),
     fh_sync_all = (\<lambda>f w. (Inr (), w)),
     fh_commit = (\<lambda>f w. (Inl (OtherKind, ''read-only''), w)),
     fh_remove_file = (\<lambda>p w. (Inl (OtherKind, ''read-only''), w)) \<rparr>"

definition conf_host :: "conf_world resolvconf_host" where
  "conf_host = \<lparr>
     oh_files = conf_files,
     oh_tempfile = (\<lambda>w. (Inr 5, w)), oh_clone = (\<lambda>f w. (Inr f, w)),
     oh_write_all = (\<lambda>f bs w. (Inr (), w\<lparr>cw_input := bs\<rparr>)), oh_rewind = (\<lambda>f w. (Inr (), w)),
     oh_length = (\<lambda>f w. (Inr 0, w)), oh_read = (\<lambda>n f w. (Inr [], w)),
     oh_spawn = (\<lambda>p args input out err w. (Inr 9, conf_ran args w)),
     oh_try_wait = (\<lambda>c w. (Inr (Some True), w)), oh_terminate = (\<lambda>c w. w),
     oh_now = (\<lambda>w. (cw_clock w, w)), oh_sleep = (\<lambda>d w. w\<lparr>cw_clock := cw_clock w + d\<rparr>),
     oh_symlink_metadata = (\<lambda>p. conf_at p EntryFile), oh_executable = (\<lambda>p w. (Inr True, w)),
     oh_is_dir = (\<lambda>p w. (True, w)), oh_canonicalize = (\<lambda>p w. (Inr p, w)),
     oh_read_dir = (\<lambda>p. if p = path_join conf_state_dir ''metrics''
        then conf_at conf_metric [Inr (into_bytes ''0 own.global'')]
        else (\<lambda>w. (Inl (NotFound, ''no such directory''), w))) \<rparr>"

interpretation conf: resolvconf_system conf_host "(=)" cw_clock
  by unfold_locales
     (auto simp: conf_host_def conf_files_def conf_at_def)

section \<open>Attempts are accounted for\<close>

text \<open>
  C39. Applying a plan through openresolv. The call always ends, within the time and output allowed to the
  program, and reports what it has seen. \<open>Rejected\<close>: nothing has been run or written. Otherwise the
  record, and the live file if it was captured, had just been found exactly as expected. \<open>Performed\<close>:
  afterwards the record was read back and is the plan's, the resolver file was read back and has the
  plan in effect, and the snapshot returned holds just that. \<open>Indeterminate\<close>: if there is a snapshot, its
  record was read back and is the plan's.
\<close>

theorem resolvconf_apply_accounted:
  assumes "resolvconf_system H same clock"
    and "bk_apply_bound (resolvconf_backend parse_conf to_ascii H B) i expected plan w = (res, w')"
  shows "\<exists>a. res = Ok a \<and>
     (let r = id_resource i;
          ready = (\<lambda>tag. tag_of B r = Inr tag \<and> as_expected same H B r tag expected w);
          stored = (\<lambda>tag v. same v w' \<and> was_read same (read_record_state H B tag) (applied_record plan) v)
      in case a of
        Performed p \<Rightarrow> \<exists>tag live v. ready tag \<and> stored tag v \<and> was_read same (read_live H B r) live v \<and>
          live_matches parse_conf to_ascii live plan \<and>
          p = Some (to_resolvconf_snapshot r (applied_record plan) (Some live))
      | Rejected e \<Rightarrow> same w w'
      | Indeterminate e p \<Rightarrow> \<exists>tag. ready tag \<and> (\<forall>s. p = Some s \<longrightarrow>
          (\<exists>live v. stored tag v \<and> s = to_resolvconf_snapshot r (applied_record plan) live)))"
proof -
  have "resolvconf_apply_bound parse_conf to_ascii H B i expected plan w = (res, w')"
    using assms(2) by (simp add: resolvconf_backend_def Let_def)
  note post = wp_run[OF resolvconf_system.apply_reports[OF assms(1)] this,
      unfolded resolvconf_system.apply_reported_def[OF assms(1)]]
  then obtain a where a: "res = Ok a" by blast
  from post show ?thesis
    by (cases a) (auto simp: a Let_def)
qed

text \<open>A run on the small openresolv, with no record of the owner's before it.\<close>

definition conf_backend :: "conf_world resolvconf" where
  "conf_backend = \<lparr> rv_binary = Path True [''sbin'', ''resolvconf''], rv_key_dir = path_join conf_state_dir ''keys'',
     rv_resolv_conf = conf_live, rv_caps = resolvconf_capabilities, rv_resource_prefix = ''linux'', rv_tag_prefix = ''own'',
     rv_list_interfaces = return_tx [], rv_watch_directory = (\<lambda>_ _ _ _. return_tx 0), rv_validate_plan = (\<lambda>_. Inr ()) \<rparr>"

definition conf_fresh :: conf_world where
  "conf_fresh = \<lparr> cw_files = [conf_live \<mapsto> conf_header], cw_input = [], cw_clock = 0 \<rparr>"

definition conf_resource :: resource_id where
  "conf_resource = ResourceId ''linux:resolvconf:tag:own.global''"

definition conf_expected :: platform_snapshot where
  "conf_expected = to_resolvconf_snapshot conf_resource \<lparr> rr_content = None, rr_attributes = attributes_default \<rparr> (Some conf_header)"

lemma conf_host_sel:
  "oh_files conf_host = conf_files" "oh_tempfile conf_host w = (Inr 5, w)" "oh_clone conf_host f w = (Inr f, w)"
  "oh_write_all conf_host f bs w = (Inr (), w\<lparr>cw_input := bs\<rparr>)" "oh_rewind conf_host f w = (Inr (), w)"
  "oh_length conf_host f w = (Inr 0, w)" "oh_read conf_host n f w = (Inr [], w)"
  "oh_spawn conf_host p args input out err w = (Inr 9, conf_ran args w)"
  "oh_try_wait conf_host c w = (Inr (Some True), w)" "oh_now conf_host w = (cw_clock w, w)"
  "oh_symlink_metadata conf_host p = conf_at p EntryFile"
  "oh_read_dir conf_host p = (if p = path_join conf_state_dir ''metrics''
      then conf_at conf_metric [Inr (into_bytes ''0 own.global'')]
      else (\<lambda>w. (Inl (NotFound, ''no such directory''), w)))"
  "fh_symlink_metadata conf_files p = conf_at p False" "fh_metadata conf_files p = conf_at p True"
  "fh_open conf_files b p = conf_at p (if p = conf_live then 1 else 2)"
  "fh_read conf_files n f w = (Inr (take n (conf_content f w)), w)"
  "fh_stat conf_files f w = (Inr conf_stat, w)"
  by (simp_all add: conf_host_def conf_files_def)

lemma run_done: "run conf_host p args input w = (Ok [], conf_ran args (case input of None \<Rightarrow> w | Some bs \<Rightarrow> w\<lparr>cw_input := bs\<rparr>))"
  unfolding run_def run_bounded_def
  by (simp add: run_tx io_call_def sys_call_def conf_host_sel await_child.simps overflowed_def RUN_TIMEOUT_def RUN_POLL_def
      secs_def millis_def RUN_LIMIT_def finish_run_def split: option.splits)

lemma entry_run: "regular_entry conf_host p a b w = (Ok (cw_files w p \<noteq> None), w)"
  by (simp add: regular_entry_def run_tx io_call_def conf_host_sel conf_at_def is_not_found_def)

lemma config_run:
  "cw_files w p = Some c \<Longrightarrow> p = conf_live \<or> p = conf_key \<Longrightarrow> length c \<le> storage_budget \<Longrightarrow>
   read_config conf_files p w = (Ok c, w)"
  by (auto simp: read_config_def run_tx io_call_def conf_host_sel conf_at_def conf_stat_def conf_content_def conf_opened_def
      conf_live_def conf_key_def)

lemma live_run:
  "cw_files w conf_live = Some c \<Longrightarrow> has_openresolv_signature c \<Longrightarrow> length c \<le> storage_budget \<Longrightarrow>
   read_live conf_host conf_backend r w = (Ok c, w)"
  by (simp add: read_live_def classify_def classify_content_def classify_parts_def run_tx io_call_def conf_host_sel conf_at_def
      config_run conf_backend_def)

lemma conf_paths:
  "state_dir conf_backend = conf_state_dir" "path_join (rv_key_dir conf_backend) ''own.global'' = conf_key"
  "path_join (path_join conf_state_dir ''metrics'') ''0 own.global'' = conf_metric"
  by (simp_all add: state_dir_def conf_backend_def conf_state_dir_def path_join_def path_parent_def conf_key_def conf_metric_def)

lemma metric_run:
  "metric_of conf_host conf_backend ''own.global'' w =
     (Ok (if cw_files w conf_metric = None then None else Some ''0''), w)"
proof -
  have name: "text_of (into_bytes ''0 own.global'') = ''0 own.global''" "from_utf8 (into_bytes ''0 own.global'') = Some ''0 own.global''"
    by (code_simp, code_simp)
  have metric: "metric_name ''own.global'' ''0 own.global'' None = Inr (Some ''0'')" by code_simp
  show ?thesis
    by (simp add: metric_of_def conf_paths name metric run_tx io_call_def conf_host_sel conf_at_def is_not_found_def)
qed

lemma record_run:
  assumes "cw_files w conf_key = k" "\<forall>c. k = Some c \<longrightarrow> length c \<le> storage_budget"
    "\<forall>p. cw_files w p \<noteq> None \<longrightarrow> p \<in> {conf_key, conf_metric, conf_live}"
  shows "read_record_state conf_host conf_backend ''own.global'' w = (Ok \<lparr> rr_content = k,
     rr_attributes = attributes_default\<lparr>rc_metric := if cw_files w conf_metric = None then None else Some ''0''\<rparr> \<rparr>, w)"
proof -
  have marker: "marker_exists conf_host conf_backend dir ''own.global'' w = (Ok False, w)"
    if "path_join (path_join conf_state_dir dir) ''own.global'' \<notin> {conf_key, conf_metric, conf_live}" for dir
    using assms(3) that by (auto simp: marker_exists_def entry_run conf_paths)
  have exclusive: "exclusive_exists conf_host conf_backend ''own.global'' w = (Ok False, w)"
    by (simp add: exclusive_exists_def run_tx io_call_def conf_host_sel conf_paths is_not_found_def path_join_def conf_state_dir_def)
  have others: "path_join (path_join conf_state_dir dir) ''own.global'' \<notin> {conf_key, conf_metric, conf_live}"
    if "dir \<in> {''private'', ''nosearch'', ''deprecated''}" for dir
    using that by (auto simp: path_join_def conf_state_dir_def conf_key_def conf_metric_def conf_live_def)
  have attributes: "read_attributes conf_host conf_backend ''own.global'' w =
     (Ok (attributes_default\<lparr>rc_metric := if cw_files w conf_metric = None then None else Some ''0''\<rparr>), w)"
    by (simp add: read_attributes_def exclusive metric_run marker[OF others] run_tx attributes_default_def)
  have content: "read_record_content conf_host conf_backend ''own.global'' w = (Ok k, w)"
    using assms(1,2) config_run[of w conf_key]
    by (cases k) (auto simp: read_record_content_def entry_run conf_paths conf_host_sel run_tx)
  show ?thesis
    by (simp add: read_record_state_def content attributes run_tx)
qed

definition conf_text :: bytes where
  "conf_text = build_resolv_conf_content demo_config"

definition conf_done :: conf_world where
  "conf_done = \<lparr> cw_files = [conf_live \<mapsto> conf_header @ conf_text, conf_key \<mapsto> conf_text, conf_metric \<mapsto> []],
     cw_input = conf_text, cw_clock = 0 \<rparr>"

lemma conf_distinct [simp]:
  "conf_key \<noteq> conf_live" "conf_metric \<noteq> conf_live" "conf_key \<noteq> conf_metric"
  "conf_live \<noteq> conf_key" "conf_live \<noteq> conf_metric" "conf_metric \<noteq> conf_key"
  by (simp_all add: conf_key_def conf_live_def conf_metric_def)

lemma conf_planned: "conf_text = into_bytes (''nameserver 127.0.0.1'' @ newline)"
  by (simp add: conf_text_def build_resolv_conf_content_def build_resolv_conf_text_def demo_config_def display_ip_def
      display_v4_def decimal.simps into_bytes_def)

lemma conf_contents:
  "has_openresolv_signature conf_header" "has_openresolv_signature (conf_header @ conf_text)"
  "length conf_text \<le> storage_budget" "length (conf_header @ conf_text) \<le> storage_budget" "length conf_header \<le> storage_budget"
proof -
  show "has_openresolv_signature conf_header" by code_simp
  show "has_openresolv_signature (conf_header @ conf_text)" unfolding conf_planned by code_simp
  show "length conf_text \<le> storage_budget" "length (conf_header @ conf_text) \<le> storage_budget" "length conf_header \<le> storage_budget"
    by (simp_all add: conf_planned conf_header_def into_bytes_def newline_def storage_budget_def OPENRESOLV_SIGNATURE_def)
qed

definition conf_identity :: resource_identity where
  "conf_identity = identity_new Resolvconf conf_resource Untracked"

definition conf_parse :: conf_parser where
  "conf_parse bs = (if bs = conf_header @ conf_text then Some ([V4 127 0 0 1], []) else None)"

lemma conf_identity_resource: "id_resource conf_identity = conf_resource"
  by (simp add: conf_identity_def identity_new_def)

lemma conf_tag: "tag_of conf_backend conf_resource = Inr ''own.global''"
  by code_simp

lemma conf_before:
  "before_mutation conf_host conf_backend conf_identity conf_expected None conf_fresh =
     (Ok (''own.global'', None), conf_fresh)"
proof -
  have sel: "record_from_snapshot conf_expected =
      Inr \<lparr> rr_content = None, rr_attributes = attributes_default \<rparr>" "live_from_snapshot conf_expected = Some conf_header"
    by (simp_all add: conf_expected_def to_resolvconf_snapshot_def snapshot_new_def
        record_from_snapshot_def live_from_snapshot_def)
  have status: "resolvconf_status conf_identity w = (Ok Same, w)" for w :: conf_world
    by (simp add: resolvconf_status_def status_default_def conf_identity_def identity_new_def conf_resource_def run_tx)
  have live: "read_live conf_host conf_backend conf_resource conf_fresh = (Ok conf_header, conf_fresh)"
    by (rule live_run) (simp_all add: conf_contents conf_fresh_def)
  have rec: "read_record_state conf_host conf_backend ''own.global'' conf_fresh =
      (Ok \<lparr> rr_content = None, rr_attributes = attributes_default \<rparr>, conf_fresh)"
    by (subst record_run) (auto simp: conf_fresh_def attributes_default_def)
  show ?thesis
    by (simp add: before_mutation_def still_same_def check_live_snapshot_def sel conf_identity_resource conf_tag status live rec run_tx)
qed

lemma conf_after:
  "read_record_state conf_host conf_backend ''own.global'' conf_done = (Ok (applied_record demo_config), conf_done)"
  "read_live conf_host conf_backend r conf_done = (Ok (conf_header @ conf_text), conf_done)"
proof -
  show "read_record_state conf_host conf_backend ''own.global'' conf_done = (Ok (applied_record demo_config), conf_done)"
    by (subst record_run) (auto simp: conf_done_def applied_record_def attributes_applied_def conf_contents conf_text_def[symmetric])
  show "read_live conf_host conf_backend r conf_done = (Ok (conf_header @ conf_text), conf_done)"
    by (rule live_run[OF _ conf_contents(2,4)]) (simp add: conf_done_def)
qed

lemma conf_mutated:
  "add_record conf_host conf_backend ''own.global'' conf_text attributes_applied conf_fresh = (Ok (), conf_done)"
  "run conf_host p [''-c'', ''own.global''] None conf_done = (Ok [], conf_done)"
  by (simp_all add: add_record_def add_args_def run_done run_tx attributes_applied_def attributes_default_def conf_ran_def
      conf_done_def conf_fresh_def fun_eq_iff)

lemma conf_run:
  "bk_apply_bound (resolvconf_backend conf_parse Some conf_host conf_backend) conf_identity conf_expected demo_config conf_fresh =
     (Ok (Performed (Some (to_resolvconf_snapshot conf_resource (applied_record demo_config) (Some (conf_header @ conf_text))))),
      conf_done)"
proof -
  have "live_matches conf_parse Some (conf_header @ conf_text) demo_config"
    by (simp add: live_matches_def parse_resolv_conf_content_def conf_parse_def demo_config_def)
  then show ?thesis
    by (simp add: resolvconf_backend_def resolvconf_apply_bound_def run_tx conf_before conf_after conf_text_def[symmetric]
        conf_mutated report_apply_def ok_tx_def conf_identity_resource)
qed

theorem resolvconf_apply_accounted_witness:
  "\<exists>v. snd (bk_apply_bound (resolvconf_backend conf_parse Some conf_host conf_backend) conf_identity conf_expected demo_config
       conf_fresh) = v \<and>
     as_expected (=) conf_host conf_backend conf_resource ''own.global'' conf_expected conf_fresh \<and>
     was_read (=) (read_record_state conf_host conf_backend ''own.global'') (applied_record demo_config) v"
proof -
  from resolvconf_apply_accounted[OF conf.resolvconf_system_axioms conf_run] conf_run show ?thesis
    by (auto simp: Let_def conf_tag conf_identity_resource)
qed

section \<open>The plan in the live file\<close>

lemma ordered_subsequence_subseq: "ordered_subsequence ws xs \<longleftrightarrow> subseq ws xs"
proof (induction ws arbitrary: xs)
  case (Cons w ws)
  show ?case
  proof (induction xs)
    case (Cons x xs)
    then show ?case using \<open>\<And>xs. ordered_subsequence ws xs = subseq ws xs\<close> by auto
  qed simp
qed simp

text \<open>
  C40. When a snapshot has a plan in effect: exactly if the record is the text of the plan with the
  attributes openresolv is given for it, and the name servers and the search domains of the plan are
  subsequences of those of the resolver file. Others may stand among them; the order of the plan is kept.
  So the scan of the code, which advances through the file once, agrees with the relation \<open>subseq\<close>.
\<close>

theorem matches_desired_subseq:
  "bk_matches_desired (resolvconf_backend parse_conf to_ascii H B) s plan \<longleftrightarrow>
     (\<exists>live nss search.
        ps_data s = SnapResolvconf \<lparr> rc_content = Some (build_resolv_conf_content plan),
          rc_attributes = \<lparr> rc_metric = Some ''0'', rc_private = False, rc_nosearch = False, rc_deprecated = False \<rparr>,
          rc_live = Some live \<rparr> \<and>
        parse_resolv_conf_content parse_conf to_ascii live = Inr (nss, search) \<and>
        subseq (nc_nameservers plan) nss \<and>
        subseq (filter (\<lambda>d. \<not> is_root d) (nc_search plan)) search)"
proof (cases "ps_data s")
  case (SnapResolvconf d)
  show ?thesis
    by (cases d)
       (auto simp: resolvconf_backend_def Let_def resolvconf_matches_desired_def record_from_snapshot_def live_from_snapshot_def
         live_matches_def ordered_subsequence_subseq applied_record_def attributes_applied_def attributes_default_def
         SnapResolvconf split: option.splits sum.splits)
qed (simp_all add: resolvconf_backend_def Let_def resolvconf_matches_desired_def record_from_snapshot_def)

end
