(* ===== verification/Detect_Guarantees.thy ===== *)
theory Detect_Guarantees
  imports Linux_Detect Openresolv_Guarantees
begin

text \<open>
  That the choice of a backend respects the owner of the resolver file.
\<close>

section \<open>Looking at the system answers\<close>

text \<open>No assumption about files or the bus is needed for this.\<close>

lemma any_files: "reading_files F (\<lambda>_ _. True)"
  by unfold_locales simp_all

lemma quiet_any_dbus: "(\<And>e. \<not> is_external_modification (conv e)) \<Longrightarrow> quiet anything (dbus_call conv m)"
  by (auto simp: quiet_def wp_dbus_call split: prod.splits sum.splits)

lemma any_steady: "reading_files.steady (\<lambda>_ _. True) anything"
  by (simp add: reading_files.steady_def[OF any_files])

lemmas quiet_any_file = reading_files.quiet_read_config[OF any_files any_steady] reading_files.quiet_classify[OF any_files any_steady]

lemma quiet_connects: "quiet anything (resolved_connect R)" "quiet anything (nm_connect N)"
  unfolding resolved_connect_def nm_connect_def
  by (intro quiet_intros quiet_any_dbus; simp add: resolved_error_def nm_error_def)+

text \<open>A computation that always returns a value.\<close>

definition answers :: "('s, 'a) tx \<Rightarrow> bool" where
  "answers m \<longleftrightarrow> (\<forall>s. wp m (\<lambda>res _. \<exists>x. res = Ok x) s)"

lemma answers_return: "answers (return_tx x)"
  by (simp add: answers_def)

lemma answers_bind: "answers m \<Longrightarrow> (\<And>x. answers (f x)) \<Longrightarrow> answers (bind_tx m f)"
  unfolding answers_def by (intro allI, rule wp_bindI[where P = "\<lambda>res _. \<exists>x. res = Ok x"]) auto

lemma answers_match: "quiet anything m \<Longrightarrow> (\<And>x. answers (f x)) \<Longrightarrow> (\<And>e. answers (g e)) \<Longrightarrow> answers (match_tx m f g)"
  unfolding answers_def by (intro allI, rule wp_matchI[OF quietlyD]) auto

lemma answers_ok: "quiet anything m \<Longrightarrow> answers (ok_tx m)"
  unfolding ok_tx_def by (intro answers_match answers_return)

lemma answers_run: "answers m \<Longrightarrow> \<exists>x w'. m w = (Ok x, w')"
  unfolding answers_def wp_def by (cases "m w") (auto dest!: spec[of _ w] split: prod.splits)

lemma answers_classify: "answers (classify F p)"
  unfolding classify_def classify_content_def
  by (intro answers_match answers_bind answers_return quiet_any_io quiet_any_file)
     (auto intro!: answers_match answers_return answers_ok quiet_any_io quiet_any_file split: if_splits)

lemma answers_owner: "answers (resolv_conf_owner F)"
  unfolding resolv_conf_owner_def
  by (auto intro!: answers_bind answers_ok answers_return answers_classify quiet_any_io quiet_any_file split: option.splits)

lemma answers_blocks: "answers (configuration_blocks_direct F p)"
  unfolding configuration_blocks_direct_def read_resolvconf_config_def
  by (intro answers_match answers_return quiet_intros quiet_any_file) simp_all

context resolvconf_system begin

lemma answers_find_binary: "answers (find_binary H dirs)"
  by (induction dirs)
     (auto simp: Let_def is_openresolv_def
       intro!: answers_bind answers_ok answers_return answers_match quiet_any_io quiet_run)

lemma answers_key_dir: "answers (key_dir_contents H dir)"
proof -
  have entries: "answers (key_entries H dir es found)" for es found
  proof (induction es arbitrary: found)
    case (Cons a es)
    then show ?case
      by (cases a) (auto intro!: answers_bind answers_ok answers_return quiet_any_io split: option.splits)
  qed (auto intro: answers_return)
  show ?thesis
    unfolding key_dir_contents_def
    by (auto intro!: answers_bind answers_ok answers_return quiet_any_io entries split: option.splits)
qed

lemma answers_matching_dirs: "answers (matching_dirs H keys seen matches cs)"
  by (induction cs arbitrary: seen matches)
     (auto intro!: answers_bind answers_ok answers_return quiet_any_io answers_key_dir split: option.splits)

lemma answers_probe: "answers (probe_for_resolv_conf H p)"
proof -
  have config: "answers (configured_resolv_conf_matches F p)" for F :: "'w file_host"
    unfolding configured_resolv_conf_matches_def read_resolvconf_config_def
    by (intro answers_match answers_return quiet_intros quiet_any_file) simp_all
  have dir: "answers (locate_key_dir H b)" for b
    unfolding locate_key_dir_def
    by (auto intro!: answers_bind answers_ok answers_return quiet_run answers_matching_dirs split: option.splits)
  show ?thesis
    unfolding probe_for_resolv_conf_def
    by (auto intro!: answers_bind answers_return config dir answers_find_binary split: option.splits)
qed

end

lemma use_resolvconf_outcome:
  assumes "resolvconf_system (lh_openresolv L) same clock" "use_resolvconf L owner m w = (res, w')"
  shows "(\<exists>m. res = Err (BackendUnavailable m)) \<or>
     (\<exists>p. probe_for_resolv_conf (lh_openresolv L) RESOLV_CONF_PATH w = (Ok (Some p), w') \<and>
        res = Ok (UseResolvconf (linux_resolvconf L p owner)))"
  using answers_run[OF resolvconf_system.answers_probe[OF assms(1)], of RESOLV_CONF_PATH w] assms(2)
  by (auto simp: use_resolvconf_def bind_tx_def return_tx_def throw_def split: option.splits)

lemma select_by_file_outcome:
  assumes "resolvconf_system (lh_openresolv L) same clock" "select_by_file L owner f w = (res, w')"
  shows "(\<exists>m. res = Err (BackendUnavailable m)) \<or>
     f = OwnerResolvconf \<and> (\<exists>p. probe_for_resolv_conf (lh_openresolv L) RESOLV_CONF_PATH w = (Ok (Some p), w') \<and>
        res = Ok (UseResolvconf (linux_resolvconf L p owner))) \<or>
     f \<in> {OwnerUnmanaged, OwnerMissing} \<and> res = Ok (UseFile (linux_direct (lh_inotify L))) \<and>
        configuration_blocks_direct (in_files (lh_inotify L)) RESOLV_CONF_PATH w = (Ok False, w')"
proof (cases "f = OwnerResolvconf")
  case True
  with assms(2) use_resolvconf_outcome[OF assms(1)] show ?thesis by (simp add: select_by_file_def)
next
  case False
  obtain b v where "configuration_blocks_direct (in_files (lh_inotify L)) RESOLV_CONF_PATH w = (Ok b, v)"
    using answers_run[OF answers_blocks, of "in_files (lh_inotify L)" RESOLV_CONF_PATH w] by blast
  with False assms(2) show ?thesis
    by (auto split: resolv_owner.splits simp: select_by_file_def detect_unavailable_def bind_tx_def return_tx_def throw_def split: if_splits)
qed

section \<open>The owner of the resolver file is respected\<close>

lemma owner_by_link_named: "owner_by_link t = Some f \<Longrightarrow> f \<in> {OwnerResolved, OwnerNetworkManager}"
  by (auto simp: owner_by_link_def Let_def split: if_splits)

lemma owner_by_lines_named: "owner_by_lines ls = Some f \<Longrightarrow> f \<in> {OwnerResolved, OwnerNetworkManager}"
  by (induction ls) (auto simp: Let_def split: if_splits)

lemma owner_unmanaged:
  assumes "resolv_conf_owner F w = (Ok f, w')" "f = OwnerUnmanaged \<or> f = OwnerMissing"
  shows "\<exists>u. classify F RESOLV_CONF_PATH u \<in> {(Ok Unmanaged, w'), (Ok Missing, w')}"
proof -
  obtain target u where t: "ok_tx (io_call (fh_read_link F RESOLV_CONF_PATH)) w = (Ok target, u)"
    using answers_run[OF answers_ok[OF quiet_any_io], of "fh_read_link F RESOLV_CONF_PATH" w] by blast
  obtain content v where c: "ok_tx (read_config F RESOLV_CONF_PATH) u = (Ok content, v)"
    using answers_run[OF answers_ok[OF quiet_any_file(1)], of F RESOLV_CONF_PATH u] by blast
  obtain s v' where s: "classify F RESOLV_CONF_PATH v = (Ok s, v')"
    using answers_run[OF answers_classify, of F RESOLV_CONF_PATH v] by blast
  have "v' = w' \<and> owner_by_state s = f"
    using assms
    by (auto simp: resolv_conf_owner_def bind_tx_def t c s return_tx_def owner_by_content_def Option.bind_eq_Some_conv
        split: option.splits if_splits dest!: owner_by_link_named owner_by_lines_named)
  with assms(2) s show ?thesis
    by (auto simp: owner_by_state_def split: resolv_conf_state.splits intro!: exI[of _ v])
qed

text \<open>
  What entitles a backend to serve. \<open>f\<close> is the owner of the file, \<open>r\<close> and \<open>n\<close> are what systemd-resolved and
  NetworkManager answer if they are asked; the file is looked at before \<open>w1\<close>, openresolv from \<open>w3\<close> on.
\<close>

definition entitled ::
  "'w linux_host \<Rightarrow> string \<Rightarrow> resolv_owner \<Rightarrow> (conn \<times> string option) option \<Rightarrow> (conn \<times> network_manager) option \<Rightarrow>
   'w \<Rightarrow> 'w \<Rightarrow> 'w selected \<Rightarrow> 'w \<Rightarrow> bool" where
  "entitled L owner f r n w1 w3 s w' \<longleftrightarrow>
     (let mode = fst (dns_configuration n); rc = snd (dns_configuration n) in
      case s of
        UseResolved c m \<Rightarrow> r = Some (c, m) \<and> (m = Some ''stub'' \<or> f = OwnerResolved \<or> mode = ''systemd-resolved'')
      | UseNetworkManager c m \<Rightarrow> n = Some (c, m) \<and> rc \<noteq> ''resolvconf'' \<and>
          (f = OwnerNetworkManager \<or> mode = ''dnsmasq'' \<or> rc \<in> {''file'', ''symlink'', ''managed''})
      | UseResolvconf B \<Rightarrow> (f = OwnerResolvconf \<or> rc = ''resolvconf'') \<and>
          (\<exists>p. probe_for_resolv_conf (lh_openresolv L) RESOLV_CONF_PATH w3 = (Ok (Some p), w') \<and>
             B = linux_resolvconf L p owner)
      | UseFile d \<Rightarrow> d = linux_direct (lh_inotify L) \<and>
          (\<exists>u. classify (in_files (lh_inotify L)) RESOLV_CONF_PATH u \<in> {(Ok Unmanaged, w1), (Ok Missing, w1)}) \<and>
          (\<forall>c. r \<noteq> Some (c, Some ''stub'')) \<and> (r = None \<or> mode \<noteq> ''systemd-resolved'') \<and>
          mode \<noteq> ''dnsmasq'' \<and> rc \<notin> {''resolvconf'', ''file'', ''symlink'', ''managed''} \<and>
          configuration_blocks_direct (in_files (lh_inotify L)) RESOLV_CONF_PATH w3 = (Ok False, w'))"

text \<open>
  C18. The choice of a backend respects the owner of the resolver file: it returns a backend or
  \<open>BackendUnavailable\<close>, and takes nothing that another component may write. With \<open>f\<close> the owner of the
  file, \<open>r\<close> and \<open>n\<close> what systemd-resolved and NetworkManager answer if they are asked: systemd-resolved
  serves only if it owns the file, runs in stub mode or NetworkManager leaves DNS to it; NetworkManager
  only if it writes the file itself; openresolv only if it owns the file or NetworkManager leaves it to
  it, and has been verified. The file itself is written only if it is the administrator's or absent, no
  running component claims it, and no configuration of openresolv names it.
\<close>

theorem select_respects_owner:
  assumes "resolvconf_system (lh_openresolv L) same clock"
    and "select L owner w = (res, w')"
  shows "\<exists>f w1 r w2 n w3.
     resolv_conf_owner (in_files (lh_inotify L)) w = (Ok f, w1) \<and>
     ok_tx (resolved_connect (lh_resolved L)) w1 = (Ok r, w2) \<and>
     ok_tx (nm_connect (lh_nm L)) w2 = (Ok n, w3) \<and>
     (case res of Crash \<Rightarrow> False | Err e \<Rightarrow> \<exists>m. e = BackendUnavailable m | Ok s \<Rightarrow> entitled L owner f r n w1 w3 s w')"
proof -
  let ?F = "in_files (lh_inotify L)"
  obtain f w1 where f: "resolv_conf_owner ?F w = (Ok f, w1)"
    using answers_run[OF answers_owner, of ?F w] by blast
  obtain r w2 where r: "ok_tx (resolved_connect (lh_resolved L)) w1 = (Ok r, w2)"
    using answers_run[OF answers_ok[OF quiet_connects(1)], of "lh_resolved L" w1] by blast
  obtain n w3 where n: "ok_tx (nm_connect (lh_nm L)) w2 = (Ok n, w3)"
    using answers_run[OF answers_ok[OF quiet_connects(2)], of "lh_nm L" w2] by blast
  let ?rc = "snd (dns_configuration n)"
  have run: "(case (if resolved_owns f r then r else None) of
       Some (c, mode) \<Rightarrow> (Ok (UseResolved c mode), w2)
     | None \<Rightarrow> (case (if fst (dns_configuration n) = ''systemd-resolved'' then r else None) of
         Some (c, mode) \<Rightarrow> (Ok (UseResolved c mode), w3)
       | None \<Rightarrow>
           if ?rc = ''resolvconf'' then use_resolvconf L owner
             ''NetworkManager delegates DNS to resolvconf, but a verified openresolv backend was not found'' w3
           else (case (if nm_owns_directly f n then n else None) of
               Some (c, m) \<Rightarrow> (Ok (UseNetworkManager c m), w3)
             | None \<Rightarrow> select_by_file L owner f w3))) = (res, w')"
    using assms(2) by (auto simp: select_def bind_tx_def f r n return_tx_def split: option.splits prod.splits if_splits)
  have unmanaged: "\<exists>u. classify ?F RESOLV_CONF_PATH u \<in> {(Ok Unmanaged, w1), (Ok Missing, w1)}"
    if "f \<in> {OwnerUnmanaged, OwnerMissing}"
    using owner_unmanaged[OF f] that by blast
  let ?Q = "case res of Crash \<Rightarrow> False | Err e \<Rightarrow> \<exists>m. e = BackendUnavailable m | Ok s \<Rightarrow> entitled L owner f r n w1 w3 s w'"
  show ?thesis
  proof (intro exI conjI, rule f, rule r, rule n, cases "resolved_owns f r")
    case True
    then obtain c m where "r = Some (c, m)" "res = Ok (UseResolved c m)" "m = Some ''stub'' \<or> f = OwnerResolved"
      using run by (auto simp: resolved_owns_def split: option.splits)
    then show ?Q by (auto simp: entitled_def)
  next
    case resolved: False
    show ?Q
    proof (cases "fst (dns_configuration n) = ''systemd-resolved'' \<and> r \<noteq> None")
      case True
      then obtain c m where "r = Some (c, m)" "res = Ok (UseResolved c m)"
        using run resolved by auto
      with True show ?Q by (simp add: entitled_def)
    next
      case delegated: False
      have others: "\<forall>c. r \<noteq> Some (c, Some ''stub'')" "r = None \<or> fst (dns_configuration n) \<noteq> ''systemd-resolved''"
        using resolved delegated by (auto simp: resolved_owns_def)
      have none: "(if fst (dns_configuration n) = ''systemd-resolved'' then r else None) = None"
        using delegated by (cases r) auto
      have rest: "(if ?rc = ''resolvconf'' then use_resolvconf L owner
             ''NetworkManager delegates DNS to resolvconf, but a verified openresolv backend was not found'' w3
           else (case (if nm_owns_directly f n then n else None) of
               Some (c, m) \<Rightarrow> (Ok (UseNetworkManager c m), w3)
             | None \<Rightarrow> select_by_file L owner f w3)) = (res, w')"
        using run resolved unfolding none by simp
      consider "?rc = ''resolvconf''" "\<exists>m. use_resolvconf L owner m w3 = (res, w')"
        | c m where "?rc \<noteq> ''resolvconf''" "nm_owns_directly f n" "n = Some (c, m)" "res = Ok (UseNetworkManager c m)"
        | "?rc \<noteq> ''resolvconf''" "\<not> nm_owns_directly f n" "select_by_file L owner f w3 = (res, w')"
        using rest by (auto simp: nm_owns_directly_def split: if_splits)
      then show ?Q
      proof cases
        case 1
        then show ?thesis using use_resolvconf_outcome[OF assms(1)] by (fastforce simp: entitled_def)
      next
        case 2
        then show ?thesis by (auto simp: nm_owns_directly_def entitled_def Let_def)
      next
        case 3
        from select_by_file_outcome[OF assms(1) 3(3)] show ?thesis
        proof (elim disjE conjE exE)
          assume "f \<in> {OwnerUnmanaged, OwnerMissing}" "res = Ok (UseFile (linux_direct (lh_inotify L)))"
            "configuration_blocks_direct ?F RESOLV_CONF_PATH w3 = (Ok False, w')"
          with unmanaged others 3(1,2) show ?thesis
            by (cases n) (auto simp: nm_owns_directly_def dns_configuration_def entitled_def)
        qed (use 3 in \<open>auto simp: entitled_def\<close>)
      qed
    qed
  qed
qed

text \<open>A host on which neither service runs and the administrator writes the resolver file.\<close>

definition no_service :: "('w, 'a) dbus_op" where
  "no_service = (\<lambda>w. (Inl (MethodError ''org.freedesktop.DBus.Error.ServiceUnknown''), w))"

definition no_bus :: "'w dbus" where
  "no_bus = \<lparr> db_system = no_service, db_is_closed = (\<lambda>c w. (True, w)), db_daemon = (\<lambda>c. no_service),
     db_name_owner = (\<lambda>c s. no_service), db_unix_process_id = (\<lambda>c s. no_service), db_add_match = (\<lambda>c m. no_service) \<rparr>"

definition no_resolved :: "'w resolved_host" where
  "no_resolved = \<lparr> rh_fs = table_fs, rh_bus = no_bus, rh_service = \<lparr>
       r1_manager = (\<lambda>c. no_service), r1_mode = (\<lambda>c. no_service), r1_get_link = (\<lambda>c i. no_service),
       r1_link = (\<lambda>c p. no_service), r1_dns = (\<lambda>c p. no_service), r1_domains = (\<lambda>c p. no_service),
       r1_default_route = (\<lambda>c p. no_service), r1_set_dns = (\<lambda>c i d. no_service), r1_set_domains = (\<lambda>c i d. no_service),
       r1_set_default_route = (\<lambda>c i b. no_service), r1_flush_caches = (\<lambda>c. no_service) \<rparr>,
     rh_threads = table_threads, rh_parse_uuid = (\<lambda>s. None), rh_idna = Some \<rparr>"

definition no_nm :: "'w nm_host" where
  "no_nm = \<lparr> nh_fs = table_fs, nh_bus = no_bus, nh_service = \<lparr>
       ns_manager = (\<lambda>c. no_service), ns_device_by_iface = (\<lambda>c n. no_service), ns_dns_manager = (\<lambda>c. no_service),
       ns_mode = (\<lambda>c. no_service), ns_rc_manager = (\<lambda>c. no_service), ns_device = (\<lambda>d. no_service),
       ns_applied = (\<lambda>d. no_service), ns_reapply = (\<lambda>d s v. no_service), ns_interface = (\<lambda>d. no_service),
       ns_managed = (\<lambda>d. no_service), ns_active = (\<lambda>d. no_service) \<rparr>,
     nh_threads = table_threads, nh_parse_uuid = (\<lambda>s. None), nh_unique_name = (\<lambda>s. True), nh_object_path = (\<lambda>s. True),
     nh_array = VArray, nh_idna = Some \<rparr>"

definition plain_linux :: "conf_world linux_host" where
  "plain_linux = \<lparr> lh_inotify = \<lparr> in_files = conf_files, in_init = (\<lambda>w. (Inr 3, w)), in_add = (\<lambda>i p w. (Inr 1, w)),
       in_pipe = (\<lambda>w. (Inr (), w)), in_read_dir = (\<lambda>p w. (Inr [], w)) \<rparr>,
     lh_openresolv = conf_host, lh_resolved = no_resolved, lh_nm = no_nm, lh_uuid = id \<rparr>"

definition plain_text :: bytes where
  "plain_text = into_bytes (''nameserver 9.9.9.9'' @ newline)"

definition plain_world :: conf_world where
  "plain_world = \<lparr> cw_files = [conf_live \<mapsto> plain_text], cw_input = [], cw_clock = 0 \<rparr>"

lemma plain_read: "read_config conf_files RESOLV_CONF_PATH plain_world = (Ok plain_text, plain_world)"
  by (rule config_run) (simp_all add: plain_world_def conf_live_def RESOLV_CONF_PATH_def plain_text_def into_bytes_def
      newline_def storage_budget_def)

lemma plain_content: "owner_by_content plain_text = None" "classify_parts None (Some plain_text) = Unmanaged"
  by (code_simp, code_simp)

lemma plain_owner: "resolv_conf_owner conf_files plain_world = (Ok OwnerUnmanaged, plain_world)"
proof -
  have at: "conf_at RESOLV_CONF_PATH x plain_world = (Inr x, plain_world)" for x :: bool
    by (simp add: conf_at_def plain_world_def conf_live_def RESOLV_CONF_PATH_def)
  have link: "fh_read_link conf_files p w = (Inl (NotFound, ''no link''), w)" for p w by (simp add: conf_files_def)
  show ?thesis
    by (simp add: resolv_conf_owner_def ok_tx_def run_tx io_call_def link plain_read plain_content classify_def classify_content_def
        conf_host_sel at owner_by_state_def)
qed

lemma plain_selects:
  "select plain_linux owner plain_world = (Ok (UseFile (linux_direct (lh_inotify plain_linux))), plain_world)"
proof -
  have sel: "in_files (lh_inotify plain_linux) = conf_files" "lh_resolved plain_linux = no_resolved" "lh_nm plain_linux = no_nm"
    by (simp_all add: plain_linux_def)
  have none: "ok_tx (resolved_connect no_resolved) w = (Ok None, w)" "ok_tx (nm_connect no_nm) w = (Ok None, w)" for w :: conf_world
    by (simp_all add: ok_tx_def run_tx resolved_connect_def nm_connect_def no_resolved_def no_nm_def no_bus_def no_service_def
        dbus_call_def)
  have blocks: "configuration_blocks_direct conf_files RESOLV_CONF_PATH plain_world = (Ok False, plain_world)"
    by (simp add: configuration_blocks_direct_def read_resolvconf_config_def read_config_def run_tx io_call_def conf_host_sel
        conf_at_def plain_world_def conf_live_def is_not_found_def)
  show ?thesis
    by (simp add: select_def sel run_tx plain_owner none resolved_owns_def dns_configuration_def nm_owns_directly_def
        select_by_file_def blocks)
qed

theorem select_respects_owner_witness:
  "\<exists>f w1 r w2 n w3. resolv_conf_owner conf_files plain_world = (Ok f, w1) \<and>
     ok_tx (resolved_connect no_resolved) w1 = (Ok r, w2) \<and> ok_tx (nm_connect no_nm) w2 = (Ok n, w3) \<and>
     entitled plain_linux ''io.example.agent'' f r n w1 w3 (UseFile (linux_direct (lh_inotify plain_linux))) plain_world"
proof -
  have sys: "resolvconf_system (lh_openresolv plain_linux) (=) cw_clock"
    using conf.resolvconf_system_axioms by (simp add: plain_linux_def)
  have "in_files (lh_inotify plain_linux) = conf_files" "lh_resolved plain_linux = no_resolved" "lh_nm plain_linux = no_nm"
    by (simp_all add: plain_linux_def)
  with select_respects_owner[OF sys plain_selects[of "''io.example.agent''"]] show ?thesis by simp
qed

end
