(* ===== verification/Coalescer.thy ===== *)
theory Coalescer
  imports Watch "HOL-Library.AList" "HOL-Library.Multiset"
begin

text \<open>
  The coalescer of \<open>watch.rs\<close>: threads that call the wrapped callback record the latest event of each
  resource and wake a worker through a channel of capacity one; the worker gathers events for a window
  and then calls the subscriber. One step of a thread is one access to what the threads share: the
  lock, the channel, the flag, the clock or the subscriber. A \<open>HashMap\<close> is an association list; it is
  drained in any order. Two logs, of the events recorded and of the calls made, are kept beside it.
\<close>

section \<open>The threads\<close>

text \<open>Where a call of the wrapped callback stands: before it, past the flag, or past the insertion.\<close>

datatype co_sender = SenderIdle | SenderAdmitted dns_event | SenderRecorded

text \<open>
  Where the worker stands. \<open>WorkerWaiting\<close>: in \<open>recv\<close>; \<open>WorkerWoken\<close>: past it; \<open>WorkerGathering\<close>: before the
  clock is read, with the deadline; \<open>WorkerReceiving\<close>: in \<open>recv_timeout\<close>; \<open>WorkerRechecking\<close>: past it;
  \<open>WorkerFlushing\<close> to \<open>WorkerCalling\<close>: in \<open>flush\<close>, with whether the thread returns after it.
\<close>

datatype co_worker =
    WorkerWaiting
  | WorkerWoken
  | WorkerGathering instant
  | WorkerReceiving instant
  | WorkerRechecking instant
  | WorkerFlushing bool
  | WorkerDraining bool "dns_event list"
  | WorkerCalling bool dns_event "dns_event list"
  | WorkerEnded

text \<open>\<open>deactivate\<close> stores the flag, signals, and joins the worker; then its end of the channel is dropped.\<close>

datatype co_stopper = NotStopped | FlagStored | Signalled

record coalescer =
  co_pending :: "(resource_id \<times> dns_event) list"
  co_wake :: bool
  co_connected :: bool
  co_flag :: bool
  co_stopper :: co_stopper
  co_now :: instant
  co_worker :: co_worker
  co_senders :: "co_sender list"
  co_accepted :: "dns_event list"
  co_delivered :: "dns_event list"

definition co_start :: "nat \<Rightarrow> instant \<Rightarrow> coalescer" where
  "co_start n now = \<lparr> co_pending = [], co_wake = False, co_connected = True, co_flag = False, co_stopper = NotStopped,
     co_now = now, co_worker = WorkerWaiting, co_senders = replicate n SenderIdle, co_accepted = [], co_delivered = [] \<rparr>"

section \<open>The steps\<close>

datatype co_work =
    Recv | CheckWoken | Gather | RecvTimeout | TimeOut | Recheck | Take "dns_event list" | Drain | Call

text \<open>The worker's end, by which its guard sets the flag.\<close>

definition co_end :: "coalescer \<Rightarrow> coalescer" where
  "co_end s = s\<lparr>co_worker := WorkerEnded, co_flag := True\<rparr>"

definition co_flushed :: "bool \<Rightarrow> coalescer \<Rightarrow> coalescer" where
  "co_flushed final s = (if final then co_end s else s\<lparr>co_worker := WorkerWaiting\<rparr>)"

fun work_step :: "duration \<Rightarrow> co_work \<Rightarrow> coalescer \<Rightarrow> coalescer option" where
  "work_step window Recv s = (if co_worker s \<noteq> WorkerWaiting then None
     else if co_wake s then Some (s\<lparr>co_wake := False, co_worker := WorkerWoken\<rparr>)
     else if \<not> co_connected s then Some (co_end s) else None)"
| "work_step window CheckWoken s = (if co_worker s \<noteq> WorkerWoken then None
     else if co_flag s then Some (co_end s) else Some (s\<lparr>co_worker := WorkerGathering (co_now s + window)\<rparr>))"
| "work_step window Gather s = (case co_worker s of
       WorkerGathering d \<Rightarrow> Some (s\<lparr>co_worker := if d - co_now s = 0 then WorkerFlushing False else WorkerReceiving d\<rparr>)
     | _ \<Rightarrow> None)"
| "work_step window RecvTimeout s = (case co_worker s of
       WorkerReceiving d \<Rightarrow>
         if co_wake s then Some (s\<lparr>co_wake := False, co_worker := WorkerRechecking d\<rparr>)
         else if \<not> co_connected s then Some (s\<lparr>co_worker := WorkerFlushing True\<rparr>) else None
     | _ \<Rightarrow> None)"
| "work_step window TimeOut s = (case co_worker s of
       WorkerReceiving d \<Rightarrow> if d \<le> co_now s then Some (s\<lparr>co_worker := WorkerFlushing False\<rparr>) else None
     | _ \<Rightarrow> None)"
| "work_step window Recheck s = (case co_worker s of
       WorkerRechecking d \<Rightarrow> Some (if co_flag s then co_end s else s\<lparr>co_worker := WorkerGathering d\<rparr>)
     | _ \<Rightarrow> None)"
| "work_step window (Take es) s = (case co_worker s of
       WorkerFlushing final \<Rightarrow>
         if mset es = mset (map snd (co_pending s))
         then Some (s\<lparr>co_pending := [], co_worker := WorkerDraining final es\<rparr>) else None
     | _ \<Rightarrow> None)"
| "work_step window Drain s = (case co_worker s of
       WorkerDraining final [] \<Rightarrow> Some (co_flushed final s)
     | WorkerDraining final (e # es) \<Rightarrow>
         Some (if co_flag s then co_flushed final s else s\<lparr>co_worker := WorkerCalling final e es\<rparr>)
     | _ \<Rightarrow> None)"
| "work_step window Call s = (case co_worker s of
       WorkerCalling final e es \<Rightarrow> Some (s\<lparr>co_delivered := co_delivered s @ [e], co_worker := WorkerDraining final es\<rparr>)
     | _ \<Rightarrow> None)"

datatype co_move =
    Tick duration
  | SenderEnter nat dns_event
  | SenderInsert nat
  | SenderWake nat
  | StopFlag
  | StopSignal
  | Disconnect
  | Work co_work

definition sender_at :: "coalescer \<Rightarrow> nat \<Rightarrow> co_sender option" where
  "sender_at s i = (if i < length (co_senders s) \<and> co_connected s then Some (co_senders s ! i) else None)"

definition set_sender :: "nat \<Rightarrow> co_sender \<Rightarrow> coalescer \<Rightarrow> coalescer" where
  "set_sender i p s = s\<lparr>co_senders := (co_senders s)[i := p]\<rparr>"

fun co_step :: "duration \<Rightarrow> co_move \<Rightarrow> coalescer \<Rightarrow> coalescer option" where
  "co_step window (Tick d) s = Some (s\<lparr>co_now := co_now s + d\<rparr>)"
| "co_step window (SenderEnter i e) s = (case sender_at s i of
       Some SenderIdle \<Rightarrow> Some (if co_flag s then s else set_sender i (SenderAdmitted e) s)
     | _ \<Rightarrow> None)"
| "co_step window (SenderInsert i) s = (case sender_at s i of
       Some (SenderAdmitted e) \<Rightarrow> Some (set_sender i SenderRecorded
         (s\<lparr>co_pending := AList.update (event_resource e) e (co_pending s), co_accepted := co_accepted s @ [e]\<rparr>))
     | _ \<Rightarrow> None)"
| "co_step window (SenderWake i) s = (case sender_at s i of
       Some SenderRecorded \<Rightarrow> Some (set_sender i SenderIdle (s\<lparr>co_wake := True\<rparr>))
     | _ \<Rightarrow> None)"
| "co_step window StopFlag s = (if co_stopper s = NotStopped then Some (s\<lparr>co_flag := True, co_stopper := FlagStored\<rparr>) else None)"
| "co_step window StopSignal s = (if co_stopper s = FlagStored then Some (s\<lparr>co_wake := True, co_stopper := Signalled\<rparr>) else None)"
| "co_step window Disconnect s =
     (if co_stopper s = Signalled \<and> list_all (\<lambda>p. p = SenderIdle) (co_senders s) then Some (s\<lparr>co_connected := False\<rparr>) else None)"
| "co_step window (Work a) s = work_step window a s"

inductive co_reachable :: "duration \<Rightarrow> coalescer \<Rightarrow> bool" for window where
  started: "co_reachable window (co_start n now)"
| moved: "co_reachable window s \<Longrightarrow> co_step window m s = Some t \<Longrightarrow> co_reachable window t"

end
