(* ===== verification/Coalescer_Guarantees.thy ===== *)
theory Coalescer_Guarantees
  imports Coalescer
begin

text \<open>
  What the coalescer guarantees, over every interleaving of its threads: the invariant of its state,
  that no wake-up is lost, and how many steps the worker can take on its own.
\<close>

section \<open>The last event of a resource\<close>

fun last_for :: "resource_id \<Rightarrow> dns_event list \<Rightarrow> dns_event option" where
  "last_for r [] = None"
| "last_for r (e # es) = (case last_for r es of
       Some x \<Rightarrow> Some x | None \<Rightarrow> if event_resource e = r then Some e else None)"

lemma last_for_append: "last_for r (xs @ ys) = (case last_for r ys of None \<Rightarrow> last_for r xs | Some e \<Rightarrow> Some e)"
  by (induction xs) (auto split: option.splits)

lemma last_for_distinct:
  "distinct (map event_resource es) \<Longrightarrow> last_for r es = Some e \<longleftrightarrow> e \<in> set es \<and> event_resource e = r"
proof (induction es arbitrary: e)
  case (Cons x es)
  then have ih: "last_for r es = Some y \<longleftrightarrow> y \<in> set es \<and> event_resource y = r" for y by simp
  show ?case
  proof (cases "last_for r es")
    case (Some a)
    with ih[of a] Cons.prems have "event_resource x \<noteq> r" by (auto simp: image_iff)
    with Some ih[of e] show ?thesis by auto
  qed (use ih in auto)
qed simp

text \<open>A map of events by their resource.\<close>

definition well_keyed :: "(resource_id \<times> dns_event) list \<Rightarrow> bool" where
  "well_keyed ps \<longleftrightarrow> distinct (map fst ps) \<and> (\<forall>(r, e) \<in> set ps. event_resource e = r)"

lemma well_keyed_nil [simp]: "well_keyed []"
  by (simp add: well_keyed_def)

lemma well_keyed_update:
  assumes "well_keyed ps"
  shows "well_keyed (AList.update (event_resource e) e ps)"
proof -
  have d: "distinct (map fst (AList.update (event_resource e) e ps))"
    using assms AList.distinct_update by (auto simp: well_keyed_def)
  have "event_resource x = r" if "(r, x) \<in> set (AList.update (event_resource e) e ps)" for r x
  proof -
    have "((map_of ps)(event_resource e \<mapsto> e)) r = Some x"
      using map_of_is_SomeI[OF d that] by (simp add: AList.update_conv')
    then show ?thesis using assms by (auto simp: well_keyed_def split: if_splits dest: map_of_SomeD)
  qed
  with d show ?thesis by (auto simp: well_keyed_def)
qed

lemma last_for_drained:
  assumes "well_keyed ps" "mset es = mset (map snd ps)"
  shows "last_for r es = map_of ps r"
proof -
  have "map event_resource (map snd ps) = map fst ps"
    using assms(1) by (auto simp: well_keyed_def)
  with assms have d: "distinct (map event_resource es)"
    by (metis mset_eq_imp_distinct_iff mset_map well_keyed_def)
  have "set es = snd ` set ps"
    using assms(2) by (metis mset_eq_setD set_map)
  with assms(1) have "last_for r es = Some e \<longleftrightarrow> map_of ps r = Some e" for e
    by (force simp: last_for_distinct[OF d] well_keyed_def dest: map_of_SomeD)
  then show ?thesis by (metis option.exhaust)
qed

section \<open>The invariant\<close>

text \<open>The events the worker has taken and not yet passed on.\<close>

fun in_flight :: "co_worker \<Rightarrow> dns_event list" where
  "in_flight (WorkerDraining final es) = es"
| "in_flight (WorkerCalling final e es) = e # es"
| "in_flight w = []"

text \<open>The worker will look at the map again, or at the flag, without being woken.\<close>

fun heeding :: "co_worker \<Rightarrow> bool" where
  "heeding (WorkerDraining final es) = False"
| "heeding (WorkerCalling final e es) = False"
| "heeding w = (w \<noteq> WorkerWaiting \<and> w \<noteq> WorkerEnded)"

fun attentive :: "co_worker \<Rightarrow> bool" where
  "attentive WorkerWoken = True"
| "attentive (WorkerRechecking d) = True"
| "attentive w = (w = WorkerEnded)"

text \<open>Of each resource, the last event accepted is pending, or the last of those taken.\<close>

definition tracks :: "dns_event list \<Rightarrow> (resource_id \<times> dns_event) list \<Rightarrow> dns_event list \<Rightarrow> bool" where
  "tracks accepted ps out \<longleftrightarrow> (\<forall>r. last_for r accepted = (case map_of ps r of
     Some e \<Rightarrow> Some e | None \<Rightarrow> last_for r out))"

lemma tracks_insert: "tracks accepted ps out \<Longrightarrow> tracks (accepted @ [e]) (AList.update (event_resource e) e ps) out"
  by (simp add: tracks_def AList.update_conv' last_for_append)

lemma tracks_take:
  "tracks accepted ps out \<Longrightarrow> well_keyed ps \<Longrightarrow> mset es = mset (map snd ps) \<Longrightarrow> tracks accepted [] (out @ es)"
  by (auto simp: tracks_def last_for_append last_for_drained split: option.splits)

text \<open>The worker has found the channel without senders: this flush is its last.\<close>

fun last_round :: "co_worker \<Rightarrow> bool" where
  "last_round (WorkerFlushing final) = final"
| "last_round (WorkerDraining final es) = final"
| "last_round (WorkerCalling final e es) = final"
| "last_round w = False"

definition co_inv :: "coalescer \<Rightarrow> bool" where
  "co_inv s \<longleftrightarrow> well_keyed (co_pending s) \<and>
     (\<not> co_flag s \<longrightarrow>
        tracks (co_accepted s) (co_pending s) (co_delivered s @ in_flight (co_worker s)) \<and>
        (co_pending s = [] \<or> co_wake s \<or> SenderRecorded \<in> set (co_senders s) \<or> heeding (co_worker s))) \<and>
     (co_stopper s = Signalled \<longrightarrow> co_wake s \<or> \<not> co_connected s \<or> attentive (co_worker s)) \<and>
     (co_stopper s \<noteq> NotStopped \<longrightarrow> co_flag s) \<and>
     (\<not> co_connected s \<longrightarrow> co_stopper s = Signalled) \<and>
     (last_round (co_worker s) \<longrightarrow> \<not> co_connected s) \<and>
     (co_worker s = WorkerEnded \<longrightarrow> co_flag s)"

lemma co_inv_start: "co_inv (co_start n now)"
  by (simp add: co_inv_def co_start_def tracks_def)

lemma co_inv_work:
  assumes "co_inv s" "work_step window a s = Some t"
  shows "co_inv t"
proof (cases a)
  case (Take es)
  with assms obtain final where w: "co_worker s = WorkerFlushing final" "mset es = mset (map snd (co_pending s))"
    and t: "t = s\<lparr>co_pending := [], co_worker := WorkerDraining final es\<rparr>"
    by (auto split: co_worker.splits if_splits)
  with assms(1) tracks_take[OF _ _ w(2), of "co_accepted s" "co_delivered s"] show ?thesis
    by (auto simp: co_inv_def)
next
  case Recv
  with assms show ?thesis by (auto simp: co_inv_def co_end_def split: if_splits)
next
  case CheckWoken
  with assms show ?thesis by (auto simp: co_inv_def co_end_def split: if_splits)
next
  case Gather
  with assms(2) obtain d w where "co_worker s = WorkerGathering d" "t = s\<lparr>co_worker := w\<rparr>" "in_flight w = []" "heeding w"
    "\<not> attentive w" "\<not> last_round w" "w \<noteq> WorkerEnded"
    by (auto split: co_worker.splits)
  with assms(1) show ?thesis by (simp add: co_inv_def)
next
  case RecvTimeout
  with assms(2) obtain d where "co_worker s = WorkerReceiving d"
    "t = s\<lparr>co_wake := False, co_worker := WorkerRechecking d\<rparr> \<or> t = s\<lparr>co_worker := WorkerFlushing True\<rparr> \<and> \<not> co_connected s"
    by (auto split: co_worker.splits if_splits)
  with assms(1) show ?thesis by (elim disjE) (simp_all add: co_inv_def)
next
  case TimeOut
  with assms(2) obtain d where "co_worker s = WorkerReceiving d" "t = s\<lparr>co_worker := WorkerFlushing False\<rparr>"
    by (auto split: co_worker.splits if_splits)
  with assms(1) show ?thesis by (simp add: co_inv_def)
next
  case Recheck
  with assms(2) obtain d where "co_worker s = WorkerRechecking d"
    "t = (if co_flag s then co_end s else s\<lparr>co_worker := WorkerGathering d\<rparr>)"
    by (auto split: co_worker.splits)
  with assms(1) show ?thesis by (auto simp: co_inv_def co_end_def)
next
  case Drain
  with assms(2) obtain final es where w: "co_worker s = WorkerDraining final es"
    and t: "t = co_flushed final s \<and> (es = [] \<or> co_flag s) \<or> (\<exists>e fs. es = e # fs \<and> t = s\<lparr>co_worker := WorkerCalling final e fs\<rparr>)"
    by (auto split: co_worker.splits list.splits if_splits)
  from t show ?thesis
  proof
    assume t: "t = co_flushed final s \<and> (es = [] \<or> co_flag s)"
    with assms(1) w show ?thesis
      by (cases final; cases "co_flag s") (simp_all add: co_inv_def co_flushed_def co_end_def)
  next
    assume "\<exists>e fs. es = e # fs \<and> t = s\<lparr>co_worker := WorkerCalling final e fs\<rparr>"
    with assms(1) w show ?thesis by (elim exE conjE) (simp add: co_inv_def)
  qed
next
  case Call
  with assms(2) obtain final e es where "co_worker s = WorkerCalling final e es"
    "t = s\<lparr>co_delivered := co_delivered s @ [e], co_worker := WorkerDraining final es\<rparr>"
    by (auto split: co_worker.splits)
  with assms(1) show ?thesis by (simp add: co_inv_def)
qed

lemma co_inv_insert:
  assumes "co_inv s" "sender_at s i = Some (SenderAdmitted e)"
  shows "co_inv (set_sender i SenderRecorded
     (s\<lparr>co_pending := AList.update (event_resource e) e (co_pending s), co_accepted := co_accepted s @ [e]\<rparr>))"
proof -
  have "SenderRecorded \<in> set ((co_senders s)[i := SenderRecorded])"
    using assms(2) by (auto simp: sender_at_def set_update_memI split: if_splits)
  with assms show ?thesis
    by (simp add: co_inv_def set_sender_def well_keyed_update tracks_insert)
qed

text \<open>A sender that leaves another place than \<open>SenderRecorded\<close> does not concern the invariant.\<close>

lemma recorded_stays:
  assumes "SenderRecorded \<in> set ps" "ps ! i \<noteq> SenderRecorded"
  shows "SenderRecorded \<in> set (ps[i := p])"
proof -
  obtain j where "j < length ps" "ps ! j = SenderRecorded" using assms(1) by (auto simp: in_set_conv_nth)
  with assms(2) have "(ps[i := p]) ! j = SenderRecorded" by (metis nth_list_update_neq)
  with \<open>j < length ps\<close> show ?thesis by (metis length_list_update nth_mem)
qed

lemma co_inv_step:
  assumes "co_inv s" "co_step window m s = Some t"
  shows "co_inv t"
proof (cases m)
  case (SenderEnter i e)
  with assms(2) have idle: "co_senders s ! i = SenderIdle" and t: "t = s \<or> t = set_sender i (SenderAdmitted e) s"
    by (auto simp: sender_at_def split: option.splits co_sender.splits if_splits)
  from idle have "SenderRecorded \<in> set (co_senders s) \<Longrightarrow> SenderRecorded \<in> set ((co_senders s)[i := SenderAdmitted e])"
    by (simp add: recorded_stays)
  with assms(1) t show ?thesis
    by (elim disjE) (simp_all add: co_inv_def set_sender_def, blast)
next
  case (SenderInsert i)
  with assms show ?thesis by (auto split: option.splits co_sender.splits intro: co_inv_insert)
next
  case (Work a)
  with assms co_inv_work show ?thesis by auto
next
  case (Tick d)
  with assms(2) have "t = s\<lparr>co_now := co_now s + d\<rparr>" by simp
  with assms(1) show ?thesis by (simp add: co_inv_def)
next
  case (SenderWake i)
  with assms(2) have "t = set_sender i SenderIdle (s\<lparr>co_wake := True\<rparr>)"
    by (simp split: option.splits co_sender.splits)
  with assms(1) show ?thesis by (simp add: co_inv_def set_sender_def)
next
  case StopFlag
  with assms(2) have "t = s\<lparr>co_flag := True, co_stopper := FlagStored\<rparr>" "co_connected s"
    using assms(1) by (auto simp: co_inv_def split: if_splits)
  with assms(1) show ?thesis by (simp add: co_inv_def)
next
  case StopSignal
  with assms(2) have "t = s\<lparr>co_wake := True, co_stopper := Signalled\<rparr>" "co_flag s"
    using assms(1) by (auto simp: co_inv_def split: if_splits)
  with assms(1) show ?thesis by (simp add: co_inv_def)
next
  case Disconnect
  with assms(2) have "t = s\<lparr>co_connected := False\<rparr>" "co_stopper s = Signalled"
    by (auto split: if_splits)
  with assms(1) show ?thesis by (simp add: co_inv_def)
qed

lemma reachable_inv: "co_reachable window s \<Longrightarrow> co_inv s"
  by (induction rule: co_reachable.induct) (auto intro: co_inv_start co_inv_step)

section \<open>What the worker does on its own\<close>

text \<open>The worker takes a step; before it, time may pass.\<close>

fun run_worker :: "duration \<Rightarrow> (duration \<times> co_work) list \<Rightarrow> coalescer \<Rightarrow> coalescer option" where
  "run_worker window [] s = Some s"
| "run_worker window ((k, a) # as) s =
     Option.bind (work_step window a (s\<lparr>co_now := co_now s + k\<rparr>)) (run_worker window as)"

definition worker_blocked :: "duration \<Rightarrow> coalescer \<Rightarrow> bool" where
  "worker_blocked window s \<longleftrightarrow> (\<forall>k a. work_step window a (s\<lparr>co_now := co_now s + k\<rparr>) = None)"

lemma blocked_waits:
  assumes "worker_blocked window s"
  shows "co_worker s = WorkerEnded \<or> co_worker s = WorkerWaiting \<and> \<not> co_wake s \<and> co_connected s"
proof -
  have no: "work_step window a (s\<lparr>co_now := co_now s + k\<rparr>) = None" for k a
    using assms by (simp add: worker_blocked_def)
  show ?thesis
  proof (cases "co_worker s")
    case WorkerWaiting
    with no[of Recv 0] show ?thesis by (auto split: if_splits)
  next
    case (WorkerReceiving d)
    with no[of TimeOut d] show ?thesis by simp
  next
    case (WorkerFlushing final)
    with no[of "Take (map snd (co_pending s))" 0] show ?thesis by simp
  next
    case (WorkerDraining final es)
    with no[of Drain 0] show ?thesis by (cases es) auto
  qed (use no[of CheckWoken 0] no[of Gather 0] no[of Recheck 0] no[of Call 0] in \<open>auto split: if_splits\<close>)
qed

text \<open>How many steps the worker can take while nobody else moves.\<close>

definition work_left :: "coalescer \<Rightarrow> nat" where
  "work_left s =
     (let p = length (co_pending s) in
      (if co_wake s then 6 + 2 * p else 0) +
      (case co_worker s of
         WorkerEnded \<Rightarrow> 0
       | WorkerWaiting \<Rightarrow> 1
       | WorkerDraining final es \<Rightarrow> 2 + 2 * length es
       | WorkerCalling final e es \<Rightarrow> 3 + 2 * length es
       | WorkerFlushing final \<Rightarrow> 3 + 2 * p
       | WorkerReceiving d \<Rightarrow> 4 + 2 * p
       | WorkerGathering d \<Rightarrow> 5 + 2 * p
       | WorkerRechecking d \<Rightarrow> 6 + 2 * p
       | WorkerWoken \<Rightarrow> 6 + 2 * p))"

lemma work_left_later: "work_left (s\<lparr>co_now := n\<rparr>) = work_left s"
  by (simp add: work_left_def)

lemma work_left_step:
  assumes "work_step window a s = Some t"
  shows "work_left t < work_left s"
proof (cases a)
  case (Take es)
  with assms obtain final where "co_worker s = WorkerFlushing final" "mset es = mset (map snd (co_pending s))"
    "t = s\<lparr>co_pending := [], co_worker := WorkerDraining final es\<rparr>"
    by (auto split: co_worker.splits if_splits)
  moreover from this have "length es = length (co_pending s)" using mset_eq_length by fastforce
  ultimately show ?thesis by (simp add: work_left_def)
qed (use assms in \<open>auto simp: work_left_def Let_def co_end_def co_flushed_def split: co_worker.splits list.splits if_splits\<close>)

lemma work_left_run: "run_worker window as s = Some t \<Longrightarrow> length as + work_left t \<le> work_left s"
proof (induction as arbitrary: s)
  case (Cons x as)
  obtain k a where x: "x = (k, a)" by fastforce
  from Cons.prems x obtain u where u: "work_step window a (s\<lparr>co_now := co_now s + k\<rparr>) = Some u" "run_worker window as u = Some t"
    by (auto simp: bind_eq_Some_conv)
  from Cons.IH[OF u(2)] work_left_step[OF u(1)] show ?case by (simp add: work_left_later)
qed simp

lemma work_keeps:
  assumes "work_step window a s = Some t"
  shows "co_senders t = co_senders s" "co_accepted t = co_accepted s" "co_stopper t = co_stopper s"
  by (cases a; use assms in \<open>auto simp: co_end_def co_flushed_def split: co_worker.splits list.splits if_splits\<close>)+

lemma work_keeps_flag:
  assumes "co_inv s" "work_step window a s = Some t"
  shows "co_flag t = co_flag s"
proof (cases a)
  case Drain
  with assms(2) obtain final es where "co_worker s = WorkerDraining final es"
    "t = co_flushed final s \<or> (\<exists>w. t = s\<lparr>co_worker := w\<rparr>)"
    by (auto split: co_worker.splits list.splits if_splits)
  with assms(1) show ?thesis by (auto simp: co_inv_def co_flushed_def co_end_def)
next
  case Recv
  with assms(2) have "co_worker s = WorkerWaiting" "t = s\<lparr>co_wake := False, co_worker := WorkerWoken\<rparr> \<or> t = co_end s \<and> \<not> co_connected s"
    by (auto split: if_splits)
  with assms(1) show ?thesis by (auto simp: co_inv_def co_end_def)
qed (use assms(2) in \<open>auto simp: co_end_def split: co_worker.splits if_splits\<close>)

lemma run_worker_keeps:
  "co_reachable window s \<Longrightarrow> run_worker window as s = Some t \<Longrightarrow>
   co_reachable window t \<and> co_senders t = co_senders s \<and> co_accepted t = co_accepted s \<and> co_stopper t = co_stopper s \<and>
   co_flag t = co_flag s"
proof (induction as arbitrary: s)
  case (Cons x as)
  obtain k a where x: "x = (k, a)" by fastforce
  let ?s = "s\<lparr>co_now := co_now s + k\<rparr>"
  from Cons.prems x obtain u where u: "work_step window a ?s = Some u" "run_worker window as u = Some t"
    by (auto simp: bind_eq_Some_conv)
  have later: "co_reachable window ?s" using co_reachable.moved[OF Cons.prems(1), of "Tick k"] by simp
  then have "co_reachable window u" using co_reachable.moved[of window ?s "Work a"] u(1) by simp
  from Cons.IH[OF this u(2)] work_keeps[OF u(1)] work_keeps_flag[OF reachable_inv[OF later] u(1)] show ?case by simp
qed simp

text \<open>A burst of two events on one resource, from one thread, and what the worker makes of it.\<close>

fun co_moves :: "duration \<Rightarrow> co_move list \<Rightarrow> coalescer \<Rightarrow> coalescer option" where
  "co_moves window [] s = Some s"
| "co_moves window (m # ms) s = Option.bind (co_step window m s) (co_moves window ms)"

lemma moves_reachable: "co_reachable window s \<Longrightarrow> co_moves window ms s = Some t \<Longrightarrow> co_reachable window t"
  by (induction ms arbitrary: s) (auto simp: bind_eq_Some_conv intro: co_reachable.moved)

definition burst_changed :: dns_event where
  "burst_changed = ResourceChanged (ResourceId ''fake:eth0'')"

definition burst_removed :: dns_event where
  "burst_removed = ResourceRemoved (ResourceId ''fake:eth0'')"

definition burst_moves :: "co_move list" where
  "burst_moves = [SenderEnter 0 burst_changed, SenderInsert 0, SenderWake 0, SenderEnter 0 burst_removed, SenderInsert 0, SenderWake 0]"

definition burst :: coalescer where
  "burst = \<lparr> co_pending = [(ResourceId ''fake:eth0'', burst_removed)], co_wake = True, co_connected = True, co_flag = False,
     co_stopper = NotStopped, co_now = 0, co_worker = WorkerWaiting, co_senders = [SenderIdle],
     co_accepted = [burst_changed, burst_removed], co_delivered = [] \<rparr>"

lemma burst_run: "co_moves 5 burst_moves (co_start 1 0) = Some burst"
  by (simp add: burst_moves_def co_start_def sender_at_def set_sender_def burst_def burst_changed_def burst_removed_def
      event_resource_def)

lemma burst_reachable: "co_reachable 5 burst"
  by (rule moves_reachable[OF co_reachable.started burst_run])

definition burst_work :: "(duration \<times> co_work) list" where
  "burst_work = [(0, Recv), (0, CheckWoken), (0, Gather), (5, TimeOut), (0, Take [burst_removed]), (0, Drain), (0, Call), (0, Drain)]"

definition burst_done :: coalescer where
  "burst_done = burst\<lparr>co_pending := [], co_wake := False, co_now := 5, co_delivered := [burst_removed]\<rparr>"

lemma burst_worked: "run_worker 5 burst_work burst = Some burst_done"
  by (simp add: burst_work_def burst_def burst_done_def co_flushed_def)

lemma burst_blocked: "worker_blocked 5 burst_done"
  unfolding worker_blocked_def
proof (intro allI)
  fix k a show "work_step 5 a (burst_done\<lparr>co_now := co_now burst_done + k\<rparr>) = None"
    by (cases a) (simp_all add: burst_done_def burst_def)
qed

text \<open>
  C24. No event is lost in a burst. Over every interleaving of the threads: while the coalescer is not
  stopped and no call of the wrapped callback is between its insertion and its signal, the worker alone
  takes at most \<open>work_left\<close> steps; and when it can take no more, whatever time passes, nothing is
  pending, and the last event delivered for each resource is the last one that was accepted for it.
\<close>

theorem coalescer_delivers:
  assumes "co_reachable window s" "\<not> co_flag s" "SenderRecorded \<notin> set (co_senders s)"
    and "run_worker window as s = Some t"
  shows "length as \<le> work_left s \<and>
     (worker_blocked window t \<longrightarrow>
        co_pending t = [] \<and> (\<forall>r. last_for r (co_delivered t) = last_for r (co_accepted s)))"
proof (intro conjI impI)
  from work_left_run[OF assms(4)] show "length as \<le> work_left s" by simp
next
  assume blocked: "worker_blocked window t"
  note keeps = run_worker_keeps[OF assms(1,4)]
  with reachable_inv[of window t] have inv: "co_inv t" by blast
  with blocked_waits[OF blocked] keeps assms(2) have "co_worker t = WorkerWaiting" "\<not> co_wake t"
    by (auto simp: co_inv_def)
  with inv keeps assms(2,3) have "co_pending t = []" "tracks (co_accepted s) [] (co_delivered t)"
    by (auto simp: co_inv_def)
  then show "co_pending t = []" "\<forall>r. last_for r (co_delivered t) = last_for r (co_accepted s)"
    by (simp_all add: tracks_def)
qed

theorem coalescer_delivers_witness:
  "length burst_work \<le> work_left burst \<and> co_pending burst_done = [] \<and>
   last_for (ResourceId ''fake:eth0'') (co_delivered burst_done) = Some burst_removed"
proof -
  have "\<not> co_flag burst" "SenderRecorded \<notin> set (co_senders burst)" by (simp_all add: burst_def)
  from coalescer_delivers[OF burst_reachable this burst_worked] burst_blocked show ?thesis
    by (simp add: burst_def burst_removed_def event_resource_def)
qed

lemma flagged_run_quiet:
  "co_flag s \<Longrightarrow> (\<forall>final e es. co_worker s \<noteq> WorkerCalling final e es) \<Longrightarrow> run_worker window as s = Some t \<Longrightarrow>
   co_delivered t = co_delivered s"
proof (induction as arbitrary: s)
  case (Cons x as)
  obtain k a where x: "x = (k, a)" by fastforce
  from Cons.prems x obtain u where u: "work_step window a (s\<lparr>co_now := co_now s + k\<rparr>) = Some u" "run_worker window as u = Some t"
    by (auto simp: bind_eq_Some_conv)
  have "co_flag u \<and> (\<forall>final e es. co_worker u \<noteq> WorkerCalling final e es) \<and> co_delivered u = co_delivered s"
    by (cases a; use Cons.prems(1,2) u(1) in \<open>auto simp: co_end_def co_flushed_def split: co_worker.splits list.splits if_splits\<close>)
  with Cons.IH[OF _ _ u(2)] show ?case by simp
qed simp

text \<open>
  C17. Stopping ends the worker. Once \<open>deactivate\<close> has stored the flag and signalled, the worker takes at
  most \<open>work_left\<close> more steps whatever else was pending, and it is blocked only when it has ended, so
  joining it returns. At most the call of the subscriber that was under way is still made.
\<close>

theorem coalescer_stops:
  assumes "co_reachable window s" "co_stopper s = Signalled" "run_worker window as s = Some t"
  shows "length as \<le> work_left s \<and>
     (worker_blocked window t \<longrightarrow> co_worker t = WorkerEnded) \<and>
     (co_delivered t = co_delivered s \<or>
      (\<exists>final e es. co_worker s = WorkerCalling final e es \<and> co_delivered t = co_delivered s @ [e]))"
proof (intro conjI impI)
  from work_left_run[OF assms(3)] show "length as \<le> work_left s" by simp
next
  assume "worker_blocked window t"
  then show "co_worker t = WorkerEnded"
    using blocked_waits[of window t] run_worker_keeps[OF assms(1,3)] reachable_inv[of window t] assms(2)
    by (auto simp: co_inv_def)
next
  have flag: "co_flag s" using reachable_inv[OF assms(1)] assms(2) by (simp add: co_inv_def)
  show "co_delivered t = co_delivered s \<or>
      (\<exists>final e es. co_worker s = WorkerCalling final e es \<and> co_delivered t = co_delivered s @ [e])"
  proof (cases "\<exists>final e es. co_worker s = WorkerCalling final e es")
    case True
    then obtain final e es where w: "co_worker s = WorkerCalling final e es" by blast
    show ?thesis
    proof (cases as)
      case (Cons x rest)
      obtain k a where x: "x = (k, a)" by fastforce
      from assms(3) Cons x obtain u where u: "work_step window a (s\<lparr>co_now := co_now s + k\<rparr>) = Some u" "run_worker window rest u = Some t"
        by (auto simp: bind_eq_Some_conv)
      from u(1) w have "a = Call" by (cases a) auto
      with u(1) w flag have "co_delivered u = co_delivered s @ [e]" "co_flag u" "co_worker u = WorkerDraining final es" by auto
      with flagged_run_quiet[OF _ _ u(2)] w show ?thesis by simp
    qed (use assms(3) in simp)
  qed (use flagged_run_quiet[OF flag _ assms(3)] in blast)
qed

text \<open>The same burst, stopped before the worker looks at it.\<close>

definition burst_stopped :: coalescer where
  "burst_stopped = burst\<lparr>co_flag := True, co_stopper := Signalled\<rparr>"

lemma burst_stopped_reachable: "co_reachable 5 burst_stopped"
  by (rule moves_reachable[OF burst_reachable, of "[StopFlag, StopSignal]"]) (simp add: burst_def burst_stopped_def)

theorem coalescer_stops_witness:
  "\<exists>t. run_worker 5 [(0, Recv), (0, CheckWoken)] burst_stopped = Some t \<and> 2 \<le> work_left burst_stopped \<and>
     co_worker t = WorkerEnded \<and> co_delivered t = []"
proof -
  let ?t = "burst_stopped\<lparr>co_wake := False, co_worker := WorkerEnded\<rparr>"
  have run: "run_worker 5 [(0, Recv), (0, CheckWoken)] burst_stopped = Some ?t"
    by (simp add: burst_stopped_def burst_def co_end_def)
  have blocked: "worker_blocked 5 ?t"
    unfolding worker_blocked_def
  proof (intro allI)
    fix k a show "work_step 5 a (?t\<lparr>co_now := co_now ?t + k\<rparr>) = None"
      by (cases a) simp_all
  qed
  have "co_stopper burst_stopped = Signalled" by (simp add: burst_stopped_def)
  from coalescer_stops[OF burst_stopped_reachable this run] blocked run show ?thesis
    by (auto simp: burst_stopped_def burst_def)
qed

end
