(* ===== verification/Spec2Isabelle.thy ===== *)
theory Spec2Isabelle
  imports Guarantees Lock_Guarantees Manager_Guarantees Process_Guarantees Network_Manager_Guarantees
    Watch_Guarantees Detect_Guarantees Coalescer_Guarantees
begin

text \<open>
  Transactional control of the DNS configuration of a host: the Rust crate \<open>osdns\<close>
  (\<open>src/src\<close>).

  The program. An application asks a \<open>DnsManager\<close> to put a DNS configuration into effect on a
  scope. The manager resolves the scope to native resources, observes each one, writes a record of
  the observed state into a durable journal, mutates the resources through a platform backend,
  verifies the result by reading it back, and publishes the records as a lease. Restoring the lease
  puts the recorded state back and removes the records; a later process recovers what a dead one
  left behind. Nothing may be overwritten that the manager cannot prove to be its own.

  The theories, in the order of their imports:

  \<^item> \<open>Prelude\<close>, \<open>Effects\<close>: the operations of the Rust standard library the code uses, and the monad
    of computations that return, fail (\<open>Err\<close>) or unwind (\<open>Crash\<close>, the simulated death of the
    process), with weakest preconditions. A state change made before a failure persists.
  \<^item> \<open>Identifiers\<close>, \<open>Capability\<close>, \<open>Errors\<close>: \<open>ownership.rs\<close> (identifiers of resources),
    \<open>capability.rs\<close>, \<open>error.rs\<close>. Error messages keep their fixed text only.
  \<^item> \<open>Normalize\<close>, \<open>Config\<close>: \<open>normalize.rs\<close> and \<open>config.rs\<close>: canonical domain names, the builder
    and the check of a configuration against a backend's capabilities. The \<open>idna\<close> package is a
    parameter.
  \<^item> \<open>Snapshots\<close>, \<open>Backend\<close>: the values and the trait of \<open>platform/mod.rs\<close> with its default
    methods. The trait is the record \<open>backend\<close> of operations on the state of the operating system.
  \<^item> \<open>Journal\<close>: \<open>journal.rs\<close> and \<open>fsutil.rs\<close>: the codec of records, the checks made on decoding,
    and the store over a private directory. \<open>serde_json\<close>, \<open>uuid\<close>, \<open>private_fs\<close> are the parameters
    \<open>libs\<close> and \<open>pfs\<close>; \<open>serde_ok\<close> and \<open>pfs_ok\<close> say what their documentation promises: a write is
    atomic, a failed one leaves the old or the new content.
  \<^item> \<open>Watch\<close>, \<open>Coalescer\<close>, \<open>Coalescer_Guarantees\<close>: \<open>watch.rs\<close>: events, the suppression registry, and
    the coalescer as threads over a map, a channel of capacity one and a flag. Over every interleaving
    no wake-up is lost, and stopping ends the worker.
  \<^item> \<open>Engine\<close>: the transaction engine of \<open>manager.rs\<close>: \<open>mutate_and_verify\<close>, \<open>compensate\<close>,
    \<open>transact_with_locks\<close>, \<open>transact_update\<close>, \<open>restore_live_state\<close>, \<open>recover_record\<close> and what they
    call, with the fault injector of \<open>fault.rs\<close> and \<open>testing.rs\<close> at every checkpoint. A live record
    behind \<open>Arc<Mutex<..>>\<close> is a cell of a heap.
  \<^item> \<open>Contract\<close>: the interface between engine and surroundings as locales: \<open>managed_backend\<close> (what a
    backend promises) and \<open>transaction_env\<close> (that, and a directory that keeps \<open>pfs_ok\<close>); in them, the
    invariant \<open>tx_inv\<close> of a transaction and the specifications of single steps.
  \<^item> \<open>Apply_Safety\<close>, \<open>Restore_Safety\<close>, \<open>Update_Safety\<close>: the specifications of whole operations, by
    induction over the loops of the engine.
  \<^item> \<open>Fake_Backend\<close>, \<open>Fake_Contract\<close>: the in-memory backend of \<open>platform/fake.rs\<close>, with injected
    failures, partial mutations and adversaries, and the proof that it keeps the contract when the
    adversaries are at rest.
  \<^item> \<open>Reference_Env\<close>: the interpretations of the locales on that backend, an in-memory directory and a
    codec over a table of documents.
  \<^item> \<open>Guarantees\<close>: the properties of the engine, each with an instance that is evaluated.
  \<^item> \<open>Scheduler\<close>: the pending set of the reconciler and its circuit breaker (\<open>reconciliation.rs\<close>), as
    functions of the clock, and what spaces and bounds the passes.
  \<^item> \<open>Locks\<close>, \<open>Lock_Guarantees\<close>: the inter-process locks of \<open>ownership.rs\<close>: the registry of the process,
    the advisory locks of the system (parameter \<open>lock_os\<close>), polling with a deadline and the sorted
    acquisition; clients that follow its order as a step relation.
  \<^item> \<open>Manager\<close>: the manager around the engine (\<open>manager.rs\<close>, \<open>lease.rs\<close>): apply, recovery of stale
    journals, update, restore, abandon and drop of a lease, the registry of active resources and the
    reference counted observation of Enforce.
  \<^item> \<open>Reconciliation\<close>: one pass of the reconciler over a live record (both readings, the decision, the
    overlay) and one iteration of the worker.
  \<^item> \<open>Manager_Contract\<close>, \<open>Reconcile_Safety\<close>, \<open>Reference_Manager\<close>, \<open>Manager_Guarantees\<close>: the locales
    \<open>managed_system\<close> and \<open>managed_live\<close> with what the manager asks of its surroundings, the specification
    of a pass, the interpretation on the in-memory system, and the properties of a pass.
  \<^item> \<open>Process\<close>, \<open>Process_Guarantees\<close>: the operations of a process as a step relation, the invariant
    that its books (lock registry, references to the observation) agree with its live leases, and a run
    of two interleaved applications that the code does not keep it for.

  \<^item> \<open>Text_Config\<close>: \<open>platform/text_config.rs\<close>: the text of a resolver file, the lists of systemd-resolved,
    the DNS fields of NetworkManager. The package \<open>resolv_conf\<close> is the parameter \<open>conf_parser\<close>.
  \<^item> \<open>Bound_Contract\<close>, \<open>Linux_Contract\<close>: what the default methods of the trait need of a backend's
    primitives (locale \<open>calm_prims\<close>), and that reading the system changes nothing (\<open>quiet_system\<close>).
  \<^item> \<open>Linux_System\<close>: \<open>linux/mod.rs\<close> and \<open>linux/route.rs\<close>: interfaces, the netlink dump, the choice of the
    default interface, the connection to the bus. Files, sockets and the bus are the parameters
    \<open>linux_fs\<close> and \<open>dbus\<close>.
  \<^item> \<open>Resolved\<close>, \<open>Resolved_Contract\<close>, \<open>Resolved_Guarantees\<close>: the backend of \<open>linux/resolved.rs\<close> over the
    service \<open>resolve1\<close>; with the laws of the locale \<open>resolved_service\<close> it keeps the contract of the engine.
  \<^item> \<open>Network_Manager\<close>, \<open>Network_Manager_Contract\<close>, \<open>Network_Manager_Guarantees\<close>: the backend of
    \<open>linux/network_manager.rs\<close> over \<open>nm_service\<close>; by the versions of the service (\<open>versioned_service\<close>)
    its mutations are compare-and-swap.
  \<^item> \<open>Unix_Files\<close>, \<open>Unix_Direct\<close>, \<open>Unix_Direct_Contract\<close>, \<open>Linux_Direct_Contract\<close>, \<open>Direct_Guarantees\<close>:
    \<open>unix/detect.rs\<close>, \<open>unix/direct.rs\<close>, \<open>linux/direct.rs\<close>: the resolver file itself, its classification,
    reading and atomic replacement over the parameter \<open>file_host\<close>; locales \<open>reading_files\<close>,
    \<open>file_system\<close>, \<open>resolver_policy\<close>, \<open>linux_files\<close>. The backend keeps the contract of the engine.
  \<^item> \<open>Linux_Watch\<close>, \<open>Watch_Guarantees\<close>: \<open>linux/watch.rs\<close>: watching directories through inotify; a round of
    the thread is a function of what \<open>poll\<close> and \<open>read_events\<close> yield.
  \<^item> \<open>Openresolv_Config\<close>, \<open>Openresolv\<close>, \<open>Openresolv_Contract\<close>, \<open>Openresolv_Guarantees\<close>:
    \<open>unix/openresolv.rs\<close>: its configuration file, the search for the program, running it within a time
    and an output budget, its records and the backend. Processes and temporary files are the parameter
    \<open>resolvconf_host\<close>; of the program itself nothing is assumed (locale \<open>resolvconf_system\<close>).
  \<^item> \<open>Linux_Detect\<close>, \<open>Detect_Guarantees\<close>: \<open>linux/detect.rs\<close>, \<open>linux/resolvconf.rs\<close> and \<open>construct_backend\<close> as
    compiled for Linux: which backend serves a host.

  What the properties show. Crash safety: at every outcome of apply, update, restore and recovery,
  with a failure or a crash injected at any checkpoint, any failed write of the journal and any
  failed or partial mutation, each resource is as captured or the journal holds a record of it.
  Ownership: a state that is not proved to be ours is never overwritten. Success: an operation that
  returns has done what it promises. The journal decodes what it encodes, and its scan fails as a
  whole or returns one valid record per file. The backends of Linux report of every attempt what it
  has done; those of systemd-resolved and of the resolver file refine the contract the engine is
  proved under; NetworkManager's never overwrites a version it has not verified; openresolv's
  mutates only what it has just read as expected, and returns. Watchers lose no change, and the
  backend chosen for a host takes no file another component writes.

  Bounds. Loops of the code that follow a list are structural. Two loops wait for others and have
  fuel, which is shown not to run out: \<open>poll_lock\<close>, whose deadline the clock reaches because it moves
  by what is slept, and \<open>await_child\<close>, likewise (\<open>timeout div RUN_POLL + 1\<close> sleeps). The creation of
  missing parent directories descends on the length of the path. Integers of the code that
  count generations, indices and nanoseconds are words of their width. Generations wrap, as release
  builds do. Instants are natural numbers of nanoseconds.

  Not modelled. The backends of Windows, macOS and BSD, which call foreign functions the repository
  does not define (the engine sees them through the trait, which is modelled); logging;
  the threads that run the reconciler and the native watchers (their steps are modelled).
\<close>

end
